(* ===== verification/Prelude.thy ===== *)
theory Prelude
  imports Main
begin

text \<open>
  What every component theory shares: Go error values, gRPC status codes, machine integers
  written as \<open>int\<close> with their wrap-around, iteration over Go maps, and the state-passing
  shape of a call to an external service.

  \<^item> An \<open>error\<close> result is \<open>go_error + 'a\<close>, \<open>Inl\<close> the error. A message built by
    \<open>fmt.Errorf\<close> or \<open>grpcstatus.Errorf\<close> is kept unrendered, as the list of its literal
    pieces and arguments (\<open>frag\<close>); how it prints is not part of any claim.
  \<^item> Go's \<open>int32\<close>, \<open>int64\<close> and \<open>time.Duration\<close> are \<open>int\<close>; every operation that could
    leave the range goes through \<open>wrap32\<close> or \<open>wrap64\<close>.
  \<^item> A call that talks to another process has type \<open>'w \<Rightarrow> (go_error + 'a) \<times> 'w\<close> for a
    state \<open>'w\<close> of the outside world.
\<close>

section \<open>Collections of rewrite rules\<close>

named_theorems go_simps \<open>equations of the small Go helpers\<close>
named_theorems pb_simps \<open>nil-safe getters of the generated protobuf types\<close>
named_theorems mock_simps \<open>equations of the in-memory provider\<close>

section \<open>Go pointers\<close>

text \<open>A \<open>*T\<close> is \<open>'a option\<close>; \<open>nil\<close> is \<open>None\<close>. \<open>util.Ptr\<close> takes the address of a value.\<close>

definition Ptr :: "'a \<Rightarrow> 'a option" where
  "Ptr v = Some v"

lemma Ptr_eq [simp, go_simps]: "Ptr v = Some v"
  by (simp add: Ptr_def)

section \<open>gRPC status codes and Go errors\<close>

text \<open>
  The seventeen canonical codes of \<open>google.golang.org/grpc/codes\<close>. A peer can put any
  number on the wire, so the remaining values are kept as \<open>OtherCode\<close>.
\<close>

datatype Code =
    OK | Canceled | Unknown | InvalidArgument | DeadlineExceeded | NotFound | AlreadyExists
  | PermissionDenied | ResourceExhausted | FailedPrecondition | Aborted | OutOfRange
  | Unimplemented | Internal | Unavailable | DataLoss | Unauthenticated | OtherCode nat

datatype frag = Lit string | Quoted string | Num int

type_synonym msg = "frag list"

text \<open>
  \<open>StatusError\<close> is a gRPC status error with its code, \<open>PlainError\<close> any error that is
  not one, \<open>WrapError\<close> the result of \<open>fmt.Errorf\<close> with \<open>%w\<close>, \<open>JoinError\<close> that of
  \<open>errors.Join\<close>; the last two constructors are the sentinels of package \<open>context\<close>.
\<close>

datatype go_error =
    StatusError Code msg
  | PlainError msg
  | WrapError msg go_error
  | JoinError "go_error list"
  | ContextCanceled
  | ContextDeadlineExceeded

text \<open>
  \<open>grpcstatus.Code\<close>: the code of a status error, found through \<open>%w\<close> wrapping as
  \<open>errors.As\<close> finds it, and \<open>Unknown\<close> for anything that is not a status error.
\<close>

fun grpc_code :: "go_error \<Rightarrow> Code" where
  "grpc_code (StatusError c m) = c"
| "grpc_code (WrapError m e) = grpc_code e"
| "grpc_code (PlainError m) = Unknown"
| "grpc_code (JoinError es) = Unknown"
| "grpc_code ContextCanceled = Unknown"
| "grpc_code ContextDeadlineExceeded = Unknown"

text \<open>\<open>grpcstatus.FromContextError(err).Err()\<close> on the errors a done context reports.\<close>

fun from_context_error :: "go_error \<Rightarrow> go_error" where
  "from_context_error ContextDeadlineExceeded =
     StatusError DeadlineExceeded [Lit ''context deadline exceeded'']"
| "from_context_error ContextCanceled = StatusError Canceled [Lit ''context canceled'']"
| "from_context_error e = StatusError Unknown []"

text \<open>The message of an error formatted with \<open>%v\<close> or \<open>%s\<close>.\<close>

fun error_msg :: "go_error \<Rightarrow> msg" where
  "error_msg (PlainError m) = m"
| "error_msg (StatusError c m) = m"
| "error_msg (WrapError m e) = m @ Lit '': '' # error_msg e"
| "error_msg _ = []"

type_synonym 'a res = "go_error + 'a"

type_synonym ('w, 'a) call = "'w \<Rightarrow> 'a res \<times> 'w"

section \<open>Machine integers\<close>

definition wrap32 :: "int \<Rightarrow> int" where
  "wrap32 x = (x + 2 ^ 31) mod 2 ^ 32 - 2 ^ 31"

definition wrap64 :: "int \<Rightarrow> int" where
  "wrap64 x = (x + 2 ^ 63) mod 2 ^ 64 - 2 ^ 63"

definition MaxInt32 :: int where
  "MaxInt32 = 2147483647"

definition is_int32 :: "int \<Rightarrow> bool" where
  "is_int32 x \<longleftrightarrow> - 2147483648 \<le> x \<and> x \<le> 2147483647"

definition is_int64 :: "int \<Rightarrow> bool" where
  "is_int64 x \<longleftrightarrow> - 9223372036854775808 \<le> x \<and> x \<le> 9223372036854775807"

lemma wrap32_id: "- 2147483648 \<le> x \<Longrightarrow> x \<le> 2147483647 \<Longrightarrow> wrap32 x = x"
  by (simp add: wrap32_def)

lemma wrap32_int32 [simp]: "is_int32 x \<Longrightarrow> wrap32 x = x"
  by (simp add: wrap32_id is_int32_def)

lemma is_int32_wrap32 [simp]: "is_int32 (wrap32 x)"
proof -
  have "0 \<le> (x + 2 ^ 31) mod 2 ^ 32" and "(x + 2 ^ 31) mod 2 ^ 32 < (2 ^ 32 :: int)"
    by simp_all
  then show ?thesis by (simp add: is_int32_def wrap32_def)
qed

lemma wrap64_id: "- 9223372036854775808 \<le> x \<Longrightarrow> x \<le> 9223372036854775807 \<Longrightarrow> wrap64 x = x"
  by (simp add: wrap64_def)

lemma wrap64_int64 [simp]: "is_int64 x \<Longrightarrow> wrap64 x = x"
  by (simp add: wrap64_id is_int64_def)

lemma is_int64_wrap64 [simp]: "is_int64 (wrap64 x)"
proof -
  have "0 \<le> (x + 2 ^ 63) mod 2 ^ 64" and "(x + 2 ^ 63) mod 2 ^ 64 < (2 ^ 64 :: int)"
    by simp_all
  then show ?thesis by (simp add: is_int64_def wrap64_def)
qed

section \<open>Iterating over a Go map\<close>

text \<open>
  \<open>for k := range m\<close> visits every key once, in an order the language leaves open. A
  model of such a loop takes the order as an argument \<open>ks\<close>, and the claims about it hold
  for every \<open>ks\<close> that is an iteration of the map.
\<close>

definition map_iteration :: "('k \<rightharpoonup> 'v) \<Rightarrow> 'k list \<Rightarrow> bool" where
  "map_iteration m ks \<longleftrightarrow> distinct ks \<and> set ks = dom m"

lemma map_iteration_empty [simp]: "map_iteration Map.empty ks \<longleftrightarrow> ks = []"
  by (auto simp: map_iteration_def)

lemma map_iteration_set: "map_iteration m ks \<Longrightarrow> set ks = dom m"
  by (simp add: map_iteration_def)

section \<open>Lists\<close>

lemma take_append_drop_take:
  "take n xs @ take m (drop n xs) = take (n + m) xs"
  by (simp add: take_add)

end
