(* ===== verification/Backoff.thy ===== *)
theory Backoff
  imports Prelude
begin

text \<open>
  Waiting longer after each failure. The token refresh loop (\<open>internal/osac\<close>), the registration
  loops (\<open>internal/registration\<close>) and the status publisher (\<open>internal/statuspublisher\<close>) each
  double a delay up to a cap; \<open>doubling\<close> is what they have in common, and each of their own
  update functions is an interpretation of it. The theory also has the arithmetic of package
  \<open>time\<close> that these loops use: \<open>Time\<close> is nanoseconds since 1970 as an unbounded \<open>int\<close>,
  \<open>Duration\<close> an \<open>int64\<close>.
\<close>

section \<open>Durations\<close>

definition second :: int where "second = 1000000000"
definition millisecond :: int where "millisecond = 1000000"

definition maxDuration :: int where "maxDuration = 9223372036854775807"
definition minDuration :: int where "minDuration = - 9223372036854775808"

text \<open>\<open>t.Sub(u)\<close> saturates.\<close>

definition time_Sub :: "int \<Rightarrow> int \<Rightarrow> int" where
  "time_Sub t u = max minDuration (min maxDuration (t - u))"

text \<open>The zero \<open>time.Time\<close>, the first of January of year 1.\<close>

definition zeroTime :: int where
  "zeroTime = - 62135596800 * second"

lemma second_pos [simp]: "0 < second"
  by (simp add: second_def)

lemma is_int64_time_Sub: "is_int64 (time_Sub t u)"
  by (auto simp: is_int64_def time_Sub_def minDuration_def maxDuration_def)

section \<open>Doubling up to a cap\<close>

locale doubling =
  fixes next_delay :: "int \<Rightarrow> int"
    and cap :: int
  assumes next_delay: "0 < d \<Longrightarrow> d \<le> cap \<Longrightarrow> next_delay d = min (2 * d) cap"
begin

lemma next_bounds: "0 < d \<Longrightarrow> d \<le> cap \<Longrightarrow> 0 < next_delay d \<and> d \<le> next_delay d \<and> next_delay d \<le> cap"
  by (auto simp: next_delay)

lemma iterate:
  assumes "0 < d" and "d \<le> cap"
  shows "(next_delay ^^ n) d = min (2 ^ n * d) cap"
proof (induction n)
  case 0
  then show ?case using assms by simp
next
  case (Suc n)
  have "0 < min (2 ^ n * d) cap" "min (2 ^ n * d) cap \<le> cap" using assms by auto
  then have "next_delay (min (2 ^ n * d) cap) = min (2 * min (2 ^ n * d) cap) cap" by (rule next_delay)
  also have "\<dots> = min (2 ^ Suc n * d) cap" using assms by auto
  finally show ?case using Suc by simp
qed

lemma iterate_bounds: "0 < d \<Longrightarrow> d \<le> cap \<Longrightarrow> d \<le> (next_delay ^^ n) d \<and> (next_delay ^^ n) d \<le> cap"
  by (auto simp: iterate mult_le_cancel_right1)

lemma iterate_cap: "0 < d \<Longrightarrow> d \<le> cap \<Longrightarrow> cap \<le> 2 ^ n * d \<Longrightarrow> (next_delay ^^ n) d = cap"
  by (simp add: iterate)

end

text \<open>
  The update both loops write, \<open>backoff *= 2; if backoff > max \<dots>\<close>, in \<open>int64\<close>: no wrap-around
  while the cap is at most half the range.
\<close>

lemma wrapped_doubling:
  assumes "cap < 2 ^ 62"
  shows "doubling (\<lambda>d. if wrap64 (d * 2) > cap then cap else wrap64 (d * 2)) cap"
proof
  fix d assume d: "0 < d" "d \<le> cap"
  with assms have "is_int64 (d * 2)" by (simp add: is_int64_def)
  then show "(if wrap64 (d * 2) > cap then cap else wrap64 (d * 2)) = min (2 * d) cap" by auto
qed

end
