(* ===== verification/Status_Publisher.thy ===== *)
theory Status_Publisher
  imports Backoff "HOL-Library.Sublist"
begin

text \<open>
  \<open>internal/statuspublisher/publisher.go\<close>: the queue of status updates and its delivery worker.
  The publisher's maps, and one definition per method that runs under its mutex; then the worker
  goroutine as a step relation in which a step is one critical section, one call to JetStream or
  one \<open>select\<close>, so that the callers of \<open>Publish\<close> interleave with it everywhere the code lets them.

  CloudEvents, JSON and JetStream are outside: \<open>setData\<close> encodes a payload, \<open>marshal\<close> an event,
  and whether a message is acknowledged is the environment's choice, an event of the run.
\<close>

section \<open>The publisher\<close>

definition defaultInitialBackoff :: int where "defaultInitialBackoff = 1 * second"
definition defaultMaxBackoff :: int where "defaultMaxBackoff = 60 * second"

record ServiceType =
  st_Subject :: string
  st_Type :: string
  st_Source :: string

record StatusPayload =
  pl_ID :: string
  pl_Status :: string
  pl_Message :: string

record publisherOptions =
  po_initialBackoff :: int
  po_maxBackoff :: int

type_synonym publisherOption = "publisherOptions \<Rightarrow> publisherOptions"

definition pub_WithInitialBackoff :: "int \<Rightarrow> publisherOption" where
  "pub_WithInitialBackoff d opt = opt \<lparr>po_initialBackoff := d\<rparr>"

definition pub_WithMaxBackoff :: "int \<Rightarrow> publisherOption" where
  "pub_WithMaxBackoff d opt = opt \<lparr>po_maxBackoff := d\<rparr>"

record pendingKey =
  pk_subject :: string
  pk_resourceID :: string

record pendingValue =
  pv_serviceType :: ServiceType
  pv_status :: string
  pv_message :: string

record retryState =
  rs_backoff :: int
  rs_nextAttempt :: int

text \<open>\<open>pub_wake\<close>: the channel of capacity one holds a signal.\<close>

record Publisher =
  pub_initialBackoff :: int
  pub_maxBackoff :: int
  pub_pending :: "pendingKey \<rightharpoonup> pendingValue"
  pub_retry :: "pendingKey \<rightharpoonup> retryState"
  pub_wake :: bool

definition newPublisher :: "publisherOption list \<Rightarrow> Publisher" where
  "newPublisher opts =
     (let opt = fold (\<lambda>f x. f x) opts
        \<lparr>po_initialBackoff = defaultInitialBackoff, po_maxBackoff = defaultMaxBackoff\<rparr> in
      \<lparr>pub_initialBackoff = po_initialBackoff opt, pub_maxBackoff = po_maxBackoff opt,
       pub_pending = Map.empty, pub_retry = Map.empty, pub_wake = False\<rparr>)"

text \<open>\<open>connect\<close> is \<open>nats.Connect\<close>, \<open>jetstream\<close> is \<open>jetstream.New\<close> on the connection.\<close>

definition NewPublisher ::
  "(string \<Rightarrow> 'nc res) \<Rightarrow> ('nc \<Rightarrow> 'js res) \<Rightarrow> string \<Rightarrow> publisherOption list \<Rightarrow> ('js \<times> Publisher) res" where
  "NewPublisher connect jetstream natsURL opts =
     (case connect natsURL of
        Inl err \<Rightarrow> Inl (WrapError [Lit ''connecting to NATS''] err)
      | Inr nc \<Rightarrow>
          (case jetstream nc of
             Inl err \<Rightarrow> Inl (WrapError [Lit ''creating JetStream context''] err)
           | Inr js \<Rightarrow> Inr (js, newPublisher opts)))"

definition status_key :: "ServiceType \<Rightarrow> string \<Rightarrow> pendingKey" where
  "status_key st resourceID = \<lparr>pk_subject = st_Subject st, pk_resourceID = resourceID\<rparr>"

definition Publish :: "ServiceType \<Rightarrow> string \<Rightarrow> string \<Rightarrow> string \<Rightarrow> Publisher \<Rightarrow> Publisher" where
  "Publish st resourceID status message p =
     p \<lparr>pub_pending := (pub_pending p)(status_key st resourceID \<mapsto>
          \<lparr>pv_serviceType = st, pv_status = status, pv_message = message\<rparr>),
        pub_wake := True\<rparr>"

definition currentValue :: "pendingKey \<Rightarrow> Publisher \<Rightarrow> pendingValue option" where
  "currentValue key p = pub_pending p key"

definition removeIfUnchanged :: "pendingKey \<Rightarrow> pendingValue \<Rightarrow> Publisher \<Rightarrow> Publisher" where
  "removeIfUnchanged key delivered p =
     (if pub_pending p key = Some delivered then p \<lparr>pub_pending := (pub_pending p)(key := None)\<rparr> else p)"

definition publisher_next_backoff :: "int \<Rightarrow> int \<Rightarrow> int" where
  "publisher_next_backoff maxBackoff backoff =
     (let b = wrap64 (backoff * 2) in if b > maxBackoff then maxBackoff else b)"

definition bumpRetry :: "int \<Rightarrow> pendingKey \<Rightarrow> Publisher \<Rightarrow> Publisher" where
  "bumpRetry now key p =
     (let backoff = (case pub_retry p key of
            None \<Rightarrow> pub_initialBackoff p
          | Some rs \<Rightarrow> publisher_next_backoff (pub_maxBackoff p) (rs_backoff rs)) in
      p \<lparr>pub_retry := (pub_retry p)(key \<mapsto> \<lparr>rs_backoff = backoff, rs_nextAttempt = now + backoff\<rparr>)\<rparr>)"

definition clearRetry :: "pendingKey \<Rightarrow> Publisher \<Rightarrow> Publisher" where
  "clearRetry key p = p \<lparr>pub_retry := (pub_retry p)(key := None)\<rparr>"

text \<open>
  The first half of \<open>attemptRound\<close>, under the mutex: the ready keys and the shortest remaining
  delay of the others, \<open>-1\<close> when there is none.
\<close>

fun scan_keys :: "int \<Rightarrow> (pendingKey \<rightharpoonup> retryState) \<Rightarrow> pendingKey list \<Rightarrow> pendingKey list \<Rightarrow> int \<Rightarrow> pendingKey list \<times> int"
where
  "scan_keys now retry [] ready wait = (ready, wait)"
| "scan_keys now retry (key # keys) ready wait =
     (case retry key of
        Some rs \<Rightarrow>
          (let d = time_Sub (rs_nextAttempt rs) now in
           if d > 0 then scan_keys now retry keys ready (if wait < 0 \<or> d < wait then d else wait)
           else scan_keys now retry keys (ready @ [key]) wait)
      | None \<Rightarrow> scan_keys now retry keys (ready @ [key]) wait)"

definition scanRound :: "int \<Rightarrow> pendingKey list \<Rightarrow> Publisher \<Rightarrow> pendingKey list \<times> int" where
  "scanRound now keys p = scan_keys now (pub_retry p) keys [] (- 1)"

section \<open>The envelope\<close>

record Event =
  ev_ID :: string
  ev_Source :: string
  ev_Type :: string
  ev_Subject :: string
  ev_Time :: int
  ev_Data :: "string \<times> string"

definition ApplicationJSON :: string where
  "ApplicationJSON = ''application/json''"

definition buildEnvelope ::
  "(string \<Rightarrow> StatusPayload \<Rightarrow> string res) \<Rightarrow> (Event \<Rightarrow> string res) \<Rightarrow> string \<Rightarrow> int \<Rightarrow>
   ServiceType \<Rightarrow> string \<Rightarrow> string \<Rightarrow> string \<Rightarrow> string res" where
  "buildEnvelope setData marshal uuid now st resourceID status message =
     (case setData ApplicationJSON \<lparr>pl_ID = resourceID, pl_Status = status, pl_Message = message\<rparr> of
        Inl err \<Rightarrow> Inl (WrapError [Lit ''setting event data''] err)
      | Inr content \<Rightarrow>
          (case marshal \<lparr>ev_ID = uuid, ev_Source = st_Source st, ev_Type = st_Type st,
               ev_Subject = st_Subject st, ev_Time = now, ev_Data = (ApplicationJSON, content)\<rparr> of
             Inl err \<Rightarrow> Inl (WrapError [Lit ''marshaling event''] err)
           | Inr raw \<Rightarrow> Inr raw))"

section \<open>The worker\<close>

text \<open>
  Where the worker is, with the keys of the round still to attempt: at the start of a round,
  before an attempt, before it builds the envelope, in the call to JetStream, before
  \<open>removeIfUnchanged\<close>, \<open>clearRetry\<close> or \<open>bumpRetry\<close>, after the round, in the \<open>select\<close>, or returned.
\<close>

datatype worker_pc =
    Scanning
  | Attempting "pendingKey list"
  | Encoding pendingKey pendingValue "pendingKey list"
  | Sending pendingKey pendingValue string "pendingKey list"
  | Removing pendingKey pendingValue "pendingKey list"
  | Clearing pendingKey "pendingKey list"
  | Bumping pendingKey "pendingKey list"
  | RoundDone
  | Waiting
  | Stopped

record publisher_sys =
  sy_pub :: Publisher
  sy_pc :: worker_pc
  sy_attempted :: bool
  sy_wait :: int
  sy_ctxDone :: bool

datatype publisher_event =
    Published ServiceType string string string
  | ContextEnded
  | Scanned int "pendingKey list"
  | Tau
  | Encoded string int
  | EncodeFailed pendingKey pendingValue
  | Acked pendingKey pendingValue string
  | Refused pendingKey pendingValue go_error
  | Bumped int
  | TimerRang

definition publisher_start :: "Publisher \<Rightarrow> publisher_sys" where
  "publisher_start p =
     \<lparr>sy_pub = p, sy_pc = Scanning, sy_attempted = False, sy_wait = - 1, sy_ctxDone = False\<rparr>"

inductive publisher_step ::
  "(string \<Rightarrow> StatusPayload \<Rightarrow> string res) \<Rightarrow> (Event \<Rightarrow> string res) \<Rightarrow>
   publisher_sys \<Rightarrow> publisher_event \<Rightarrow> publisher_sys \<Rightarrow> bool"
  for setData marshal where
  publish: "publisher_step setData marshal s (Published st resourceID status message)
     (s \<lparr>sy_pub := Publish st resourceID status message (sy_pub s)\<rparr>)"
| cancel: "publisher_step setData marshal s ContextEnded (s \<lparr>sy_ctxDone := True\<rparr>)"
| scan: "sy_pc s = Scanning \<Longrightarrow> map_iteration (pub_pending (sy_pub s)) keys \<Longrightarrow>
     scanRound now keys (sy_pub s) = (ready, wait) \<Longrightarrow>
     publisher_step setData marshal s (Scanned now keys)
       (s \<lparr>sy_pc := Attempting ready, sy_attempted := (ready \<noteq> []), sy_wait := wait\<rparr>)"
| round_over: "sy_pc s = Attempting [] \<Longrightarrow>
     publisher_step setData marshal s Tau (s \<lparr>sy_pc := RoundDone\<rparr>)"
| read_none: "sy_pc s = Attempting (key # keys) \<Longrightarrow> currentValue key (sy_pub s) = None \<Longrightarrow>
     publisher_step setData marshal s Tau (s \<lparr>sy_pc := Clearing key keys\<rparr>)"
| read_some: "sy_pc s = Attempting (key # keys) \<Longrightarrow> currentValue key (sy_pub s) = Some val \<Longrightarrow>
     publisher_step setData marshal s Tau (s \<lparr>sy_pc := Encoding key val keys\<rparr>)"
| encode_ok: "sy_pc s = Encoding key val keys \<Longrightarrow>
     buildEnvelope setData marshal uuid now (pv_serviceType val) (pk_resourceID key) (pv_status val) (pv_message val) = Inr raw \<Longrightarrow>
     publisher_step setData marshal s (Encoded uuid now) (s \<lparr>sy_pc := Sending key val raw keys\<rparr>)"
| encode_fail: "sy_pc s = Encoding key val keys \<Longrightarrow>
     buildEnvelope setData marshal uuid now (pv_serviceType val) (pk_resourceID key) (pv_status val) (pv_message val) = Inl err \<Longrightarrow>
     publisher_step setData marshal s (EncodeFailed key val) (s \<lparr>sy_pc := Removing key val keys\<rparr>)"
| ack: "sy_pc s = Sending key val raw keys \<Longrightarrow>
     publisher_step setData marshal s (Acked key val raw) (s \<lparr>sy_pc := Removing key val keys\<rparr>)"
| refuse: "sy_pc s = Sending key val raw keys \<Longrightarrow>
     publisher_step setData marshal s (Refused key val err) (s \<lparr>sy_pc := Bumping key keys\<rparr>)"
| remove: "sy_pc s = Removing key val keys \<Longrightarrow>
     publisher_step setData marshal s Tau
       (s \<lparr>sy_pub := removeIfUnchanged key val (sy_pub s), sy_pc := Clearing key keys\<rparr>)"
| clear: "sy_pc s = Clearing key keys \<Longrightarrow>
     publisher_step setData marshal s Tau
       (s \<lparr>sy_pub := clearRetry key (sy_pub s), sy_pc := Attempting keys\<rparr>)"
| bump: "sy_pc s = Bumping key keys \<Longrightarrow>
     publisher_step setData marshal s (Bumped now)
       (s \<lparr>sy_pub := bumpRetry now key (sy_pub s), sy_pc := Attempting keys\<rparr>)"
| return_after_round: "sy_pc s = RoundDone \<Longrightarrow> sy_ctxDone s \<Longrightarrow>
     publisher_step setData marshal s Tau (s \<lparr>sy_pc := Stopped\<rparr>)"
| next_round: "sy_pc s = RoundDone \<Longrightarrow> \<not> sy_ctxDone s \<Longrightarrow> sy_attempted s \<Longrightarrow>
     publisher_step setData marshal s Tau (s \<lparr>sy_pc := Scanning\<rparr>)"
| nothing_ready: "sy_pc s = RoundDone \<Longrightarrow> \<not> sy_ctxDone s \<Longrightarrow> \<not> sy_attempted s \<Longrightarrow>
     publisher_step setData marshal s Tau (s \<lparr>sy_pc := Waiting\<rparr>)"
| return_waiting: "sy_pc s = Waiting \<Longrightarrow> sy_ctxDone s \<Longrightarrow>
     publisher_step setData marshal s Tau (s \<lparr>sy_pc := Stopped\<rparr>)"
| woken: "sy_pc s = Waiting \<Longrightarrow> pub_wake (sy_pub s) \<Longrightarrow>
     publisher_step setData marshal s Tau
       (s \<lparr>sy_pub := (sy_pub s) \<lparr>pub_wake := False\<rparr>, sy_pc := Scanning\<rparr>)"
| timer: "sy_pc s = Waiting \<Longrightarrow> 0 < sy_wait s \<Longrightarrow>
     publisher_step setData marshal s TimerRang (s \<lparr>sy_pc := Scanning\<rparr>)"

inductive publisher_run ::
  "(string \<Rightarrow> StatusPayload \<Rightarrow> string res) \<Rightarrow> (Event \<Rightarrow> string res) \<Rightarrow> Publisher \<Rightarrow>
   publisher_event list \<Rightarrow> publisher_sys \<Rightarrow> bool"
  for setData marshal p where
  run_start: "publisher_run setData marshal p [] (publisher_start p)"
| run_step: "publisher_run setData marshal p es s \<Longrightarrow> publisher_step setData marshal s e s' \<Longrightarrow>
     publisher_run setData marshal p (es @ [e]) s'"

inductive_cases publisher_stepE: "publisher_step setData marshal s e s'"

section \<open>What a run did to one resource\<close>

text \<open>The values published for a key, in order, and those JetStream acknowledged.\<close>

fun published_value :: "pendingKey \<Rightarrow> publisher_event \<Rightarrow> pendingValue list" where
  "published_value k (Published st resourceID status message) =
     (if status_key st resourceID = k
      then [\<lparr>pv_serviceType = st, pv_status = status, pv_message = message\<rparr>] else [])"
| "published_value k _ = []"

fun acked_value :: "pendingKey \<Rightarrow> publisher_event \<Rightarrow> pendingValue list" where
  "acked_value k (Acked k' v raw) = (if k' = k then [v] else [])"
| "acked_value k _ = []"

fun encode_failure :: "pendingKey \<Rightarrow> publisher_event \<Rightarrow> bool" where
  "encode_failure k (EncodeFailed k' v) \<longleftrightarrow> k' = k"
| "encode_failure k _ \<longleftrightarrow> False"

definition published_for :: "pendingKey \<Rightarrow> publisher_event list \<Rightarrow> pendingValue list" where
  "published_for k es = concat (map (published_value k) es)"

definition acked_for :: "pendingKey \<Rightarrow> publisher_event list \<Rightarrow> pendingValue list" where
  "acked_for k es = concat (map (acked_value k) es)"

definition encoded_all :: "pendingKey \<Rightarrow> publisher_event list \<Rightarrow> bool" where
  "encoded_all k es \<longleftrightarrow> list_all (\<lambda>e. \<not> encode_failure k e) es"

lemma history_nil [simp]: "published_for k [] = []" "acked_for k [] = []" "encoded_all k []"
  by (simp_all add: published_for_def acked_for_def encoded_all_def)

lemma history_snoc [simp]:
  "published_for k (es @ [e]) = published_for k es @ published_value k e"
  "acked_for k (es @ [e]) = acked_for k es @ acked_value k e"
  "encoded_all k (es @ [e]) \<longleftrightarrow> encoded_all k es \<and> \<not> encode_failure k e"
  by (simp_all add: published_for_def acked_for_def encoded_all_def)

text \<open>The value of a key the worker holds, and whether the attempt to send it is over.\<close>

fun in_hand :: "worker_pc \<Rightarrow> pendingKey \<Rightarrow> (bool \<times> pendingValue) option" where
  "in_hand (Encoding k v keys) k' = (if k = k' then Some (False, v) else None)"
| "in_hand (Sending k v raw keys) k' = (if k = k' then Some (False, v) else None)"
| "in_hand (Removing k v keys) k' = (if k = k' then Some (True, v) else None)"
| "in_hand _ k' = None"

text \<open>
  The invariant, for a key: what is pending is the last value published; what was acknowledged
  are published values, in order, all of them older than what is pending or in hand. The
  arguments are the value in hand, the one pending, the published and the acknowledged ones, and
  whether every envelope could be built.
\<close>

fun ordered :: "(bool \<times> 'v) option \<Rightarrow> 'v option \<Rightarrow> 'v list \<Rightarrow> 'v list \<Rightarrow> bool \<Rightarrow> bool" where
  "ordered None None P A ok \<longleftrightarrow> subseq A P \<and> (ok \<longrightarrow> P = [] \<or> A \<noteq> [] \<and> last A = last P)"
| "ordered None (Some v) P A ok \<longleftrightarrow> P \<noteq> [] \<and> last P = v \<and> subseq A (butlast P)"
| "ordered (Some (False, v)) pending P A ok \<longleftrightarrow>
     pending = Some (last P) \<and> (\<exists>ys zs. P = ys @ v # zs \<and> subseq A ys)"
| "ordered (Some (True, v)) pending P A ok \<longleftrightarrow>
     pending = Some (last P) \<and> (\<exists>ys zs. P = ys @ v # zs \<and> subseq A (ys @ [v])) \<and>
     (ok \<longrightarrow> A \<noteq> [] \<and> last A = v)"

lemma subseq_snocI: "subseq xs ys \<Longrightarrow> subseq xs (ys @ zs)"
  by (metis append_Nil2 list_emb_Nil list_emb_append_mono)

lemma subseq_butlast_later: "subseq xs ys \<Longrightarrow> subseq xs (butlast (ys @ v # zs))"
  by (simp only: butlast_append list.distinct if_False) (rule subseq_snocI)

lemma subseq_butlastD: "subseq xs (butlast ys) \<Longrightarrow> subseq xs ys"
  by (cases ys rule: rev_cases) (auto intro: subseq_snocI)

lemma ordered_publish: "ordered hand pending P A ok \<Longrightarrow> ordered hand (Some v) (P @ [v]) A ok"
proof (induction hand pending P A ok rule: ordered.induct)
  case (2 v' P A ok)
  then show ?case by (auto intro: subseq_butlastD)
next
  case (3 u pending P A ok)
  then obtain ys zs where "P @ [v] = ys @ u # (zs @ [v])" "subseq A ys" by auto
  with 3 show ?case by auto
next
  case (4 u pending P A ok)
  then obtain ys zs where "P @ [v] = ys @ u # (zs @ [v])" "subseq A (ys @ [u])" by auto
  with 4 show ?case by auto
qed simp

lemma ordered_read: "ordered None (Some v) P A ok \<Longrightarrow> ordered (Some (False, v)) (Some v) P A ok"
  by (simp, intro exI [of _ "butlast P"] conjI exI [of _ "[]"]) auto

lemma ordered_ack: "ordered (Some (False, v)) pending P A ok \<Longrightarrow> ordered (Some (True, v)) pending P (A @ [v]) ok"
  by (auto dest: list_emb_append_mono [OF _ subseq_order.order_refl])

lemma ordered_encode_fail: "ordered (Some (False, v)) pending P A ok \<Longrightarrow> ordered (Some (True, v)) pending P A False"
  by (simp, elim conjE exE, intro conjI exI) (auto intro: subseq_snocI)

lemma ordered_refuse: "ordered (Some (False, v)) pending P A ok \<Longrightarrow> ordered None pending P A ok"
  by (auto intro: subseq_butlast_later)

lemma ordered_remove:
  assumes "ordered (Some (True, v)) pending P A ok"
  shows "ordered None (if pending = Some v then None else pending) P A ok"
proof -
  from assms obtain ys zs where P: "P = ys @ v # zs" and A: "subseq A (ys @ [v])" and p: "pending = Some (last P)"
    and l: "ok \<longrightarrow> A \<noteq> [] \<and> last A = v" by auto
  show ?thesis
  proof (cases "last P = v")
    case True
    have "subseq A P" using subseq_snocI [OF A, of zs] by (simp add: P)
    with True l p show ?thesis by auto
  next
    case False
    then have "zs \<noteq> []" by (auto simp: P)
    then have "butlast P = (ys @ [v]) @ butlast zs" by (simp add: P butlast_append)
    with subseq_snocI [OF A] have "subseq A (butlast P)" by metis
    with False p show ?thesis by (auto simp: P)
  qed
qed

definition order_inv :: "pendingKey \<Rightarrow> publisher_event list \<Rightarrow> publisher_sys \<Rightarrow> bool" where
  "order_inv k es s \<longleftrightarrow>
     ordered (in_hand (sy_pc s) k) (pub_pending (sy_pub s) k) (published_for k es) (acked_for k es) (encoded_all k es)"

lemma pending_ops [simp]:
  "pub_pending (Publish st i status message p) =
     (pub_pending p)(status_key st i \<mapsto> \<lparr>pv_serviceType = st, pv_status = status, pv_message = message\<rparr>)"
  "pub_pending (clearRetry k p) = pub_pending p"
  "pub_pending (bumpRetry now k p) = pub_pending p"
  "pub_pending (removeIfUnchanged k v p) =
     (if pub_pending p k = Some v then (pub_pending p)(k := None) else pub_pending p)"
  by (simp_all add: Publish_def clearRetry_def bumpRetry_def removeIfUnchanged_def Let_def)

lemmas ordered_intros = ordered_publish ordered_read ordered_ack ordered_encode_fail ordered_refuse

lemma publisher_step_order:
  assumes "publisher_step setData marshal s e s'" and "order_inv k es s"
  shows "order_inv k (es @ [e]) s'"
  using assms
proof cases
  case (remove key val keys)
  with assms(2) ordered_remove [of val "pub_pending (sy_pub s) k" "published_for k es" "acked_for k es" "encoded_all k es"]
  show ?thesis by (cases "key = k") (simp_all add: order_inv_def split: if_splits)
qed (use assms(2) in \<open>auto simp: order_inv_def currentValue_def simp del: ordered.simps intro: ordered_intros split: if_splits\<close>)

lemma publisher_run_order:
  "publisher_run setData marshal p es s \<Longrightarrow> pub_pending p = Map.empty \<Longrightarrow> order_inv k es s"
proof (induction rule: publisher_run.induct)
  case run_start
  then show ?case by (simp add: order_inv_def publisher_start_def)
next
  case run_step
  then show ?case by (blast intro: publisher_step_order)
qed

text \<open>What is on the wire: the envelope of the value, for some identifier and time.\<close>

definition envelope_of ::
  "(string \<Rightarrow> StatusPayload \<Rightarrow> string res) \<Rightarrow> (Event \<Rightarrow> string res) \<Rightarrow> pendingKey \<Rightarrow> pendingValue \<Rightarrow> string \<Rightarrow> bool" where
  "envelope_of setData marshal key val raw \<longleftrightarrow>
     (\<exists>uuid now. buildEnvelope setData marshal uuid now (pv_serviceType val) (pk_resourceID key)
        (pv_status val) (pv_message val) = Inr raw)"

fun acked_envelope ::
  "(string \<Rightarrow> StatusPayload \<Rightarrow> string res) \<Rightarrow> (Event \<Rightarrow> string res) \<Rightarrow> publisher_event \<Rightarrow> bool" where
  "acked_envelope setData marshal (Acked key val raw) \<longleftrightarrow> envelope_of setData marshal key val raw"
| "acked_envelope setData marshal _ \<longleftrightarrow> True"

fun sending_envelope ::
  "(string \<Rightarrow> StatusPayload \<Rightarrow> string res) \<Rightarrow> (Event \<Rightarrow> string res) \<Rightarrow> worker_pc \<Rightarrow> bool" where
  "sending_envelope setData marshal (Sending key val raw keys) \<longleftrightarrow> envelope_of setData marshal key val raw"
| "sending_envelope setData marshal _ \<longleftrightarrow> True"

lemma publisher_run_envelope:
  "publisher_run setData marshal p es s \<Longrightarrow>
   list_all (acked_envelope setData marshal) es \<and> sending_envelope setData marshal (sy_pc s)"
proof (induction rule: publisher_run.induct)
  case run_start
  then show ?case by (simp add: publisher_start_def)
next
  case (run_step es s e s')
  from run_step.hyps(2) run_step.IH show ?case
    by cases (auto simp: envelope_of_def)
qed

section \<open>What a round attempts\<close>

definition cooling :: "int \<Rightarrow> (pendingKey \<rightharpoonup> retryState) \<Rightarrow> pendingKey \<Rightarrow> int option" where
  "cooling now retry key =
     (case retry key of
        None \<Rightarrow> None
      | Some rs \<Rightarrow> let d = time_Sub (rs_nextAttempt rs) now in if d > 0 then Some d else None)"

lemma scan_keys_Cons:
  "scan_keys now retry (key # keys) ready wait =
     (case cooling now retry key of
        None \<Rightarrow> scan_keys now retry keys (ready @ [key]) wait
      | Some d \<Rightarrow> scan_keys now retry keys ready (if wait < 0 \<or> d < wait then d else wait))"
  by (simp add: cooling_def Let_def split: option.split)

lemma cooling_pos: "cooling now retry key = Some d \<Longrightarrow> 0 < d"
  by (auto simp: cooling_def Let_def split: option.splits if_splits)

lemma scan_keys_ready:
  "fst (scan_keys now retry keys ready wait) = ready @ filter (\<lambda>k. cooling now retry k = None) keys"
  by (induction keys arbitrary: ready wait) (simp_all add: scan_keys_Cons del: scan_keys.simps(2) split: option.split)

lemma scan_keys_wait:
  assumes "wait = - 1 \<or> 0 < wait" and "scan_keys now retry keys ready wait = (r, w)"
  shows "(w = wait \<or> (\<exists>k \<in> set keys. cooling now retry k = Some w)) \<and> (0 < wait \<longrightarrow> 0 < w \<and> w \<le> wait) \<and>
    (\<forall>k \<in> set keys. \<forall>d. cooling now retry k = Some d \<longrightarrow> 0 < w \<and> w \<le> d)"
  using assms
proof (induction keys arbitrary: ready wait)
  case Nil
  then show ?case by simp
next
  case (Cons key keys)
  show ?case
  proof (cases "cooling now retry key")
    case None
    with Cons.prems have "scan_keys now retry keys (ready @ [key]) wait = (r, w)"
      by (simp add: scan_keys_Cons del: scan_keys.simps(2))
    from Cons.IH [OF Cons.prems(1) this] None show ?thesis by auto
  next
    case (Some d)
    define v where "v = (if wait < 0 \<or> d < wait then d else wait)"
    from Some Cons.prems have "scan_keys now retry keys ready v = (r, w)"
      by (simp add: scan_keys_Cons v_def del: scan_keys.simps(2))
    moreover have v: "0 < v" "v \<le> d" "0 < wait \<longrightarrow> v \<le> wait" "v = d \<or> v = wait"
      using cooling_pos [OF Some] Cons.prems(1) by (auto simp: v_def)
    ultimately have ih: "w = v \<or> (\<exists>k \<in> set keys. cooling now retry k = Some w)" "0 < w" "w \<le> v"
      "\<forall>k \<in> set keys. \<forall>d. cooling now retry k = Some d \<longrightarrow> 0 < w \<and> w \<le> d"
      using Cons.IH [of v ready] by auto
    with v Some show ?thesis by auto
  qed
qed

lemma scanRound_ready: "fst (scanRound now keys p) = filter (\<lambda>k. cooling now (pub_retry p) k = None) keys"
  by (simp add: scanRound_def scan_keys_ready)

lemma scanRound_wait:
  assumes "scanRound now keys p = (ready, wait)"
  shows "(wait = - 1 \<or> (\<exists>k \<in> set keys. cooling now (pub_retry p) k = Some wait)) \<and>
    (\<forall>k \<in> set keys. \<forall>d. cooling now (pub_retry p) k = Some d \<longrightarrow> 0 < wait \<and> wait \<le> d)"
  using scan_keys_wait [OF disjI1 [OF refl] assms [unfolded scanRound_def]] by auto

section \<open>When the worker sleeps\<close>

fun scan_time :: "int \<Rightarrow> publisher_event \<Rightarrow> int" where
  "scan_time t (Scanned now keys) = now"
| "scan_time t _ = t"

definition last_scan :: "publisher_event list \<Rightarrow> int" where
  "last_scan es = foldl scan_time 0 es"

lemma last_scan_snoc [simp]: "last_scan (es @ [e]) = scan_time (last_scan es) e"
  by (simp add: last_scan_def)

text \<open>In the middle of an attempt.\<close>

fun attempting :: "worker_pc \<Rightarrow> bool" where
  "attempting Scanning = False"
| "attempting (Attempting keys) = (keys \<noteq> [])"
| "attempting RoundDone = False"
| "attempting Waiting = False"
| "attempting Stopped = False"
| "attempting _ = True"

fun after_scan :: "worker_pc \<Rightarrow> bool" where
  "after_scan (Attempting keys) = (keys = [])"
| "after_scan RoundDone = True"
| "after_scan Waiting = True"
| "after_scan _ = False"

definition asleep_ok :: "publisher_event list \<Rightarrow> publisher_sys \<Rightarrow> bool" where
  "asleep_ok es s \<longleftrightarrow> pub_wake (sy_pub s) \<or>
     (\<forall>k \<in> dom (pub_pending (sy_pub s)). \<exists>d. cooling (last_scan es) (pub_retry (sy_pub s)) k = Some d \<and>
        0 < sy_wait s \<and> sy_wait s \<le> d)"

definition sleep_inv :: "publisher_event list \<Rightarrow> publisher_sys \<Rightarrow> bool" where
  "sleep_inv es s \<longleftrightarrow> (attempting (sy_pc s) \<longrightarrow> sy_attempted s) \<and> (sy_pc s = Waiting \<longrightarrow> \<not> sy_attempted s) \<and>
     (after_scan (sy_pc s) \<longrightarrow> sy_attempted s \<or> asleep_ok es s)"

lemma wake_publish [simp]: "pub_wake (Publish st i status message p)"
  by (simp add: Publish_def)

lemma scan_asleep:
  assumes "map_iteration (pub_pending (sy_pub s)) keys" and "scanRound now keys (sy_pub s) = ([], wait)"
  shows "asleep_ok (es @ [Scanned now keys]) (s \<lparr>sy_pc := pc, sy_attempted := b, sy_wait := wait\<rparr>)"
proof -
  have "filter (\<lambda>k. cooling now (pub_retry (sy_pub s)) k = None) keys = []"
    using scanRound_ready [of now keys "sy_pub s"] assms(2) by simp
  then have "\<exists>d. cooling now (pub_retry (sy_pub s)) k = Some d \<and> 0 < wait \<and> wait \<le> d" if "k \<in> set keys" for k
    using scanRound_wait [OF assms(2)] that by (auto simp: filter_empty_conv)
  with map_iteration_set [OF assms(1)] show ?thesis by (simp add: asleep_ok_def)
qed

lemma publisher_step_sleep:
  assumes "publisher_step setData marshal s e s'" and "sleep_inv es s"
  shows "sleep_inv (es @ [e]) s'"
  using assms
proof cases
  case (scan keys now ready wait)
  with scan_asleep [of s keys now wait] show ?thesis by (cases ready) (simp_all add: sleep_inv_def)
qed (use assms(2) in \<open>auto simp: sleep_inv_def asleep_ok_def\<close>)

lemma publisher_run_sleep: "publisher_run setData marshal p es s \<Longrightarrow> sleep_inv es s"
proof (induction rule: publisher_run.induct)
  case run_start
  then show ?case by (simp add: sleep_inv_def publisher_start_def)
next
  case run_step
  then show ?case by (blast intro: publisher_step_sleep)
qed

section \<open>One worker: a ready key stays pending until it is attempted\<close>

text \<open>The keys the worker still has to attempt, the one in hand first.\<close>

fun todo :: "worker_pc \<Rightarrow> pendingKey list" where
  "todo (Attempting keys) = keys"
| "todo (Encoding k v keys) = k # keys"
| "todo (Sending k v raw keys) = k # keys"
| "todo (Removing k v keys) = k # keys"
| "todo (Clearing k keys) = k # keys"
| "todo (Bumping k keys) = k # keys"
| "todo _ = []"

fun cleared :: "worker_pc \<Rightarrow> pendingKey \<Rightarrow> bool" where
  "cleared (Clearing k keys) k' \<longleftrightarrow> k = k'"
| "cleared _ k' \<longleftrightarrow> False"

definition todo_inv :: "publisher_sys \<Rightarrow> bool" where
  "todo_inv s \<longleftrightarrow> distinct (todo (sy_pc s)) \<and>
     (\<forall>k \<in> set (todo (sy_pc s)). cleared (sy_pc s) k \<or> pub_pending (sy_pub s) k \<noteq> None)"

lemma publisher_step_todo: "publisher_step setData marshal s e s' \<Longrightarrow> todo_inv s \<Longrightarrow> todo_inv s'"
proof (erule publisher_step.cases, goal_cases)
  case (3 s keys now ready wait)
  have "ready = filter (\<lambda>k. cooling now (pub_retry (sy_pub s)) k = None) keys"
    using scanRound_ready [of now keys "sy_pub s"] 3 by simp
  with 3 show ?case by (auto simp: todo_inv_def map_iteration_def)
qed (auto simp: todo_inv_def)

lemma publisher_run_todo: "publisher_run setData marshal p es s \<Longrightarrow> todo_inv s"
proof (induction rule: publisher_run.induct)
  case run_start
  then show ?case by (simp add: todo_inv_def publisher_start_def)
next
  case run_step
  then show ?case by (blast intro: publisher_step_todo)
qed

section \<open>The delay after a failure\<close>

lemma publisher_doubling: "cap < 2 ^ 62 \<Longrightarrow> doubling (publisher_next_backoff cap) cap"
  using wrapped_doubling [of cap] by (simp add: publisher_next_backoff_def [abs_def] Let_def)

interpretation publisher_backoff: doubling "publisher_next_backoff (pub_maxBackoff (newPublisher []))"
  "pub_maxBackoff (newPublisher [])"
  by (rule publisher_doubling) (simp add: newPublisher_def defaultMaxBackoff_def second_def)

text \<open>The failures of a key in a row.\<close>

fun count_failure :: "pendingKey \<Rightarrow> nat \<Rightarrow> publisher_event \<Rightarrow> nat" where
  "count_failure k n (Refused k' v err) = (if k' = k then Suc n else n)"
| "count_failure k n (Acked k' v raw) = (if k' = k then 0 else n)"
| "count_failure k n (EncodeFailed k' v) = (if k' = k then 0 else n)"
| "count_failure k n _ = n"

definition streak :: "pendingKey \<Rightarrow> publisher_event list \<Rightarrow> nat" where
  "streak k es = foldl (count_failure k) 0 es"

lemma streak_snoc [simp]: "streak k (es @ [e]) = count_failure k (streak k es) e" "streak k [] = 0"
  by (simp_all add: streak_def)

fun retry_ok :: "(int \<Rightarrow> int) \<Rightarrow> int \<Rightarrow> nat \<Rightarrow> retryState option \<Rightarrow> bool" where
  "retry_ok next d n None \<longleftrightarrow> n = 0"
| "retry_ok next d n (Some rs) \<longleftrightarrow> 0 < n \<and> rs_backoff rs = (next ^^ (n - 1)) d"

fun retry_pc :: "(int \<Rightarrow> int) \<Rightarrow> int \<Rightarrow> pendingKey \<Rightarrow> nat \<Rightarrow> retryState option \<Rightarrow> worker_pc \<Rightarrow> bool" where
  "retry_pc next d k n r (Bumping k' keys) \<longleftrightarrow> (if k' = k then 0 < n \<and> retry_ok next d (n - 1) r else retry_ok next d n r)"
| "retry_pc next d k n r (Removing k' v keys) \<longleftrightarrow> (if k' = k then n = 0 else retry_ok next d n r)"
| "retry_pc next d k n r (Clearing k' keys) \<longleftrightarrow> (if k' = k then n = 0 else retry_ok next d n r)"
| "retry_pc next d k n r pc \<longleftrightarrow> retry_ok next d n r"

definition retry_inv :: "Publisher \<Rightarrow> pendingKey \<Rightarrow> publisher_event list \<Rightarrow> publisher_sys \<Rightarrow> bool" where
  "retry_inv p k es s \<longleftrightarrow>
     pub_initialBackoff (sy_pub s) = pub_initialBackoff p \<and> pub_maxBackoff (sy_pub s) = pub_maxBackoff p \<and>
     retry_pc (publisher_next_backoff (pub_maxBackoff p)) (pub_initialBackoff p) k (streak k es)
       (pub_retry (sy_pub s) k) (sy_pc s)"

lemma backoff_ops [simp]:
  "pub_initialBackoff (Publish st i status message q) = pub_initialBackoff q"
  "pub_maxBackoff (Publish st i status message q) = pub_maxBackoff q"
  "pub_retry (Publish st i status message q) = pub_retry q"
  "pub_initialBackoff (removeIfUnchanged k v q) = pub_initialBackoff q"
  "pub_maxBackoff (removeIfUnchanged k v q) = pub_maxBackoff q"
  "pub_retry (removeIfUnchanged k v q) = pub_retry q"
  "pub_initialBackoff (clearRetry k q) = pub_initialBackoff q"
  "pub_maxBackoff (clearRetry k q) = pub_maxBackoff q"
  "pub_retry (clearRetry k q) = (pub_retry q)(k := None)"
  "pub_initialBackoff (bumpRetry now k q) = pub_initialBackoff q"
  "pub_maxBackoff (bumpRetry now k q) = pub_maxBackoff q"
  by (simp_all add: Publish_def removeIfUnchanged_def clearRetry_def bumpRetry_def Let_def)

lemma bumpRetry_retry:
  "pub_retry (bumpRetry now k q) k' =
     (if k' = k then
        Some (let b = (case pub_retry q k of None \<Rightarrow> pub_initialBackoff q
                       | Some rs \<Rightarrow> publisher_next_backoff (pub_maxBackoff q) (rs_backoff rs)) in
              \<lparr>rs_backoff = b, rs_nextAttempt = now + b\<rparr>)
      else pub_retry q k')"
  by (simp add: bumpRetry_def Let_def)

lemma retry_ok_bump:
  "retry_ok nxt d (n - 1) r \<Longrightarrow> 0 < n \<Longrightarrow>
   retry_ok nxt d n (Some \<lparr>rs_backoff = (case r of None \<Rightarrow> d | Some rs \<Rightarrow> nxt (rs_backoff rs)), rs_nextAttempt = t\<rparr>)"
  by (cases r; cases n; cases "n - 1") simp_all

lemma publisher_step_retry:
  assumes "publisher_step setData marshal s e s'" and "retry_inv p k es s" and "todo_inv s"
  shows "retry_inv p k (es @ [e]) s'"
  using assms(1)
proof cases
  case (read_none key keys)
  with assms(3) show ?thesis by (simp add: todo_inv_def currentValue_def)
next
  case (bump key keys now)
  with assms(2) retry_ok_bump [of "publisher_next_backoff (pub_maxBackoff p)" "pub_initialBackoff p" "streak k es"
      "pub_retry (sy_pub s) k"]
  show ?thesis by (auto simp: retry_inv_def bumpRetry_retry Let_def cong: option.case_cong)
qed (use assms(2) in \<open>auto simp: retry_inv_def\<close>)

lemma publisher_run_retry:
  assumes "publisher_run setData marshal p es s" and "pub_retry p = Map.empty"
  shows "retry_inv p k es s"
  using assms(1)
proof induction
  case run_start
  with assms(2) show ?case by (simp add: retry_inv_def publisher_start_def)
next
  case run_step
  then show ?case by (blast intro: publisher_step_retry publisher_run_todo)
qed

section \<open>An example\<close>

text \<open>A first update is published and refused, then a second one arrives and is delivered.\<close>

definition demo_type :: ServiceType where
  "demo_type = \<lparr>st_Subject = ''dcm.vm'', st_Type = ''dcm.status.vm'', st_Source = ''dcm/providers/p''\<rparr>"

definition demo_key :: pendingKey where "demo_key = status_key demo_type ''vm-1''"

definition demo_value :: "string \<Rightarrow> pendingValue" where
  "demo_value status = \<lparr>pv_serviceType = demo_type, pv_status = status, pv_message = ''m''\<rparr>"

definition demo_data :: "string \<Rightarrow> StatusPayload \<Rightarrow> string res" where
  "demo_data ct p = Inr (pl_ID p)"

definition demo_marshal :: "Event \<Rightarrow> string res" where
  "demo_marshal e = Inr (snd (ev_Data e))"

definition demo_refused :: "publisher_event list" where
  "demo_refused = [Published demo_type ''vm-1'' ''PROVISIONING'' ''m'', Scanned 0 [demo_key], Tau, Encoded ''u'' 0,
     Refused demo_key (demo_value ''PROVISIONING'') (PlainError []), Published demo_type ''vm-1'' ''RUNNING'' ''m'',
     Bumped 0]"

definition demo_state :: publisher_sys where
  "demo_state =
     \<lparr>sy_pub = bumpRetry 0 demo_key (Publish demo_type ''vm-1'' ''RUNNING'' ''m''
        (Publish demo_type ''vm-1'' ''PROVISIONING'' ''m'' (newPublisher []))),
      sy_pc = Attempting [], sy_attempted = True, sy_wait = - 1, sy_ctxDone = False\<rparr>"

lemma demo_initial [simp]:
  "pub_pending (newPublisher []) = Map.empty" "pub_retry (newPublisher []) = Map.empty"
  "pub_initialBackoff (newPublisher []) = second" "pub_maxBackoff (newPublisher []) = 60 * second"
  by (simp_all add: newPublisher_def defaultInitialBackoff_def defaultMaxBackoff_def)

lemma run_stepI:
  "publisher_run setData marshal p es s \<Longrightarrow> publisher_step setData marshal s e s1 \<Longrightarrow> es @ [e] = es' \<Longrightarrow> s1 = s' \<Longrightarrow>
   publisher_run setData marshal p es' s'"
  by (blast intro: run_step)

lemma demo_run: "publisher_run demo_data demo_marshal (newPublisher []) demo_refused demo_state"
proof -
  let ?R = "publisher_run demo_data demo_marshal (newPublisher [])"
  let ?P = "Publish demo_type ''vm-1'' ''PROVISIONING'' ''m'' (newPublisher [])"
  let ?v = "demo_value ''PROVISIONING''"
  let ?s = "\<lambda>q pc. \<lparr>sy_pub = q, sy_pc = pc, sy_attempted = True, sy_wait = - 1, sy_ctxDone = False\<rparr>"
  let ?es = "[Published demo_type ''vm-1'' ''PROVISIONING'' ''m'', Scanned 0 [demo_key], Tau, Encoded ''u'' 0,
     Refused demo_key ?v (PlainError []), Published demo_type ''vm-1'' ''RUNNING'' ''m'', Bumped 0]"
  note r1 = run_step [OF run_start publish [of _ _ _ demo_type "''vm-1''" "''PROVISIONING''" "''m''"], unfolded append_Nil]
  have r2: "?R (take 2 ?es) (?s ?P (Attempting [demo_key]))"
    by (rule run_stepI [OF r1 scan],
        simp_all add: publisher_start_def map_iteration_def scanRound_def demo_key_def, simp)
  have r3: "?R (take 3 ?es) (?s ?P (Encoding demo_key ?v []))"
    by (rule run_stepI [OF r2 read_some]) (simp_all add: currentValue_def demo_key_def demo_value_def)
  have r4: "?R (take 4 ?es) (?s ?P (Sending demo_key ?v ''vm-1'' []))"
    by (rule run_stepI [OF r3 encode_ok])
      (simp_all add: buildEnvelope_def demo_data_def demo_marshal_def demo_key_def status_key_def)
  have r5: "?R (take 5 ?es) (?s ?P (Bumping demo_key []))"
    by (rule run_stepI [OF r4 refuse]) simp_all
  have r6: "?R (take 6 ?es) (?s (Publish demo_type ''vm-1'' ''RUNNING'' ''m'' ?P) (Bumping demo_key []))"
    by (rule run_stepI [OF r5 publish]) simp_all
  have "?R (take 7 ?es) demo_state"
    by (rule run_stepI [OF r6 bump]) (simp_all add: demo_state_def)
  then show ?thesis by (simp add: demo_refused_def)
qed

text \<open>After that the worker tries another round, is woken by the second update, and sleeps.\<close>

definition demo_slept :: "publisher_event list" where
  "demo_slept = [Tau, Tau, Scanned 0 [demo_key], Tau, Tau, Tau, Scanned 1 [demo_key], Tau, Tau]"

definition demo_asleep :: publisher_sys where
  "demo_asleep =
     \<lparr>sy_pub = (sy_pub demo_state) \<lparr>pub_wake := False\<rparr>, sy_pc = Waiting, sy_attempted = False,
      sy_wait = second - 1, sy_ctxDone = False\<rparr>"

lemma demo_pending:
  "pub_pending (sy_pub demo_state) = [demo_key \<mapsto> demo_value ''RUNNING'']"
  "pub_retry (sy_pub demo_state) = [demo_key \<mapsto> \<lparr>rs_backoff = second, rs_nextAttempt = second\<rparr>]"
  by (simp_all add: demo_state_def bumpRetry_def Let_def Publish_def demo_key_def demo_value_def)

lemma demo_scan:
  assumes "pub_pending q = pub_pending (sy_pub demo_state)" "pub_retry q = pub_retry (sy_pub demo_state)"
    and "0 \<le> now" "now < second"
  shows "map_iteration (pub_pending q) [demo_key] \<and> scanRound now [demo_key] q = ([], second - now)"
proof -
  have "time_Sub second now = second - now"
    using assms(3,4) by (simp add: time_Sub_def minDuration_def maxDuration_def second_def)
  with assms show ?thesis by (simp add: map_iteration_def scanRound_def demo_pending)
qed

lemma demo_asleep_run:
  "publisher_run demo_data demo_marshal (newPublisher []) (demo_refused @ demo_slept) demo_asleep"
proof -
  let ?R = "publisher_run demo_data demo_marshal (newPublisher [])"
  let ?q = "sy_pub demo_state"
  let ?s = "\<lambda>q pc att w. \<lparr>sy_pub = q, sy_pc = pc, sy_attempted = att, sy_wait = w, sy_ctxDone = False\<rparr>"
  let ?es = "\<lambda>n. demo_refused @ take n demo_slept"
  have r1: "?R (?es 1) (?s ?q RoundDone True (- 1))"
    by (rule run_stepI [OF demo_run round_over]) (simp_all add: demo_state_def demo_slept_def)
  have r2: "?R (?es 2) (?s ?q Scanning True (- 1))"
    by (rule run_stepI [OF r1 next_round]) (simp_all add: demo_slept_def)
  have r3: "?R (?es 3) (?s ?q (Attempting []) False second)"
    by (rule run_stepI [OF r2 scan]) (use demo_scan [of ?q 0] in \<open>simp_all add: demo_slept_def second_def\<close>)
  have r4: "?R (?es 4) (?s ?q RoundDone False second)"
    by (rule run_stepI [OF r3 round_over]) (simp_all add: demo_slept_def)
  have r5: "?R (?es 5) (?s ?q Waiting False second)"
    by (rule run_stepI [OF r4 nothing_ready]) (simp_all add: demo_slept_def)
  have r6: "?R (?es 6) (?s (?q \<lparr>pub_wake := False\<rparr>) Scanning False second)"
    by (rule run_stepI [OF r5 woken])
      (simp_all add: demo_slept_def demo_state_def bumpRetry_def Let_def Publish_def)
  have r7: "?R (?es 7) (?s (?q \<lparr>pub_wake := False\<rparr>) (Attempting []) False (second - 1))"
    by (rule run_stepI [OF r6 scan])
      (use demo_scan [of "?q \<lparr>pub_wake := False\<rparr>" 1] in \<open>simp_all add: demo_slept_def second_def\<close>)
  have r8: "?R (?es 8) (?s (?q \<lparr>pub_wake := False\<rparr>) RoundDone False (second - 1))"
    by (rule run_stepI [OF r7 round_over]) (simp_all add: demo_slept_def)
  have "?R (?es 9) demo_asleep"
    by (rule run_stepI [OF r8 nothing_ready]) (simp_all add: demo_slept_def demo_asleep_def)
  then show ?thesis by (simp add: demo_slept_def)
qed

section \<open>Properties\<close>

text \<open>
  C1. No update is lost and none is reordered, whatever the callers, the worker and JetStream
  do: what JetStream has acknowledged for a resource are statuses published for it, in the order
  of publication; what is pending is the last status published; and a resource with nothing
  pending has had its last published status acknowledged (or its envelope could not be built).
  Every message sent is the envelope of the status it stands for.
\<close>

theorem updates_delivered_in_order:
  assumes "publisher_run setData marshal (newPublisher []) es s"
  shows "subseq (acked_for k es) (published_for k es) \<and>
    (case pub_pending (sy_pub s) k of
       Some v \<Rightarrow> published_for k es \<noteq> [] \<and> v = last (published_for k es)
     | None \<Rightarrow> published_for k es = [] \<or> \<not> encoded_all k es \<or>
         acked_for k es \<noteq> [] \<and> last (acked_for k es) = last (published_for k es)) \<and>
    list_all (acked_envelope setData marshal) es"
proof -
  have inv: "order_inv k es s" using publisher_run_order [OF assms] by simp
  have env: "list_all (acked_envelope setData marshal) es" using publisher_run_envelope [OF assms] by simp
  show ?thesis
  proof (cases "in_hand (sy_pc s) k")
    case None
    with inv env show ?thesis
      by (cases "pub_pending (sy_pub s) k") (auto simp: order_inv_def intro: subseq_butlastD)
  next
    case (Some bv)
    obtain b v where "bv = (b, v)" by force
    with Some inv obtain ys zs where hand: "pub_pending (sy_pub s) k = Some (last (published_for k es))"
      "published_for k es = ys @ v # zs" "subseq (acked_for k es) (ys @ [v])"
      by (cases b) (auto simp: order_inv_def intro: subseq_snocI)
    with subseq_snocI [of "acked_for k es" "ys @ [v]" zs] env show ?thesis by simp
  qed
qed

theorem updates_delivered_in_order_witness:
  "subseq (acked_for demo_key demo_refused) (published_for demo_key demo_refused) \<and>
   list_all (acked_envelope demo_data demo_marshal) demo_refused \<and>
   pub_pending (sy_pub demo_state) demo_key = Some (demo_value ''RUNNING'') \<and>
   published_for demo_key demo_refused = [demo_value ''PROVISIONING'', demo_value ''RUNNING'']"
  using updates_delivered_in_order [OF demo_run, of demo_key]
  by (simp add: demo_refused_def demo_state_def demo_key_def demo_value_def published_for_def)





end
