(* ===== verification/Config.thy ===== *)
theory Config
  imports Backoff
begin

text \<open>
  \<open>internal/config\<close>: the settings read from the environment, and what \<open>Load\<close> makes of the
  parse, which is that of the library \<open>caarlos0/env\<close> and therefore the argument \<open>parse\<close>. The
  library fills in a declared default, and fails on an absent or empty field declared
  \<open>notEmpty\<close>; \<open>default_settings\<close> are the declared defaults and \<open>required_present\<close> the
  declared required fields.
\<close>

record ServerConfig =
  srv_Address :: string
  srv_ShutdownTimeout :: int
  srv_RequestTimeout :: int

record OSACConfig =
  oc_FulfillmentAddress :: string
  oc_OIDCIssuerURL :: string
  oc_OIDCClientID :: string
  oc_OIDCClientSecret :: string
  oc_TLSCertFile :: string
  oc_ProbeTimeout :: int

record DCMConfig =
  dcm_RegistrationURL :: string
  dcm_NATSURL :: string

record ProviderConfig =
  prov_Endpoint :: string
  prov_ClusterName :: string
  prov_VMName :: string

record VersionMatrixConfig =
  vmx_Path :: string

record StatusConfig =
  stc_PollInterval :: int
  stc_ResyncEvery :: int
  stc_ListTimeout :: int

record Config =
  cfg_Server :: ServerConfig
  cfg_OSAC :: OSACConfig
  cfg_DCM :: DCMConfig
  cfg_Provider :: ProviderConfig
  cfg_VersionMatrix :: VersionMatrixConfig
  cfg_Status :: StatusConfig

definition default_settings :: Config where
  "default_settings =
     \<lparr>cfg_Server = \<lparr>srv_Address = '':8080'', srv_ShutdownTimeout = 15 * second, srv_RequestTimeout = 30 * second\<rparr>,
      cfg_OSAC = \<lparr>oc_FulfillmentAddress = '''', oc_OIDCIssuerURL = '''', oc_OIDCClientID = '''',
        oc_OIDCClientSecret = '''', oc_TLSCertFile = '''', oc_ProbeTimeout = 5 * second\<rparr>,
      cfg_DCM = \<lparr>dcm_RegistrationURL = '''', dcm_NATSURL = ''''\<rparr>,
      cfg_Provider = \<lparr>prov_Endpoint = '''', prov_ClusterName = ''osac-sp-cluster'', prov_VMName = ''osac-sp-vm''\<rparr>,
      cfg_VersionMatrix = \<lparr>vmx_Path = ''''\<rparr>,
      cfg_Status = \<lparr>stc_PollInterval = 30 * second, stc_ResyncEvery = 10, stc_ListTimeout = 10 * second\<rparr>\<rparr>"

definition required_present :: "Config \<Rightarrow> bool" where
  "required_present cfg \<longleftrightarrow>
     oc_FulfillmentAddress (cfg_OSAC cfg) \<noteq> '''' \<and> oc_OIDCIssuerURL (cfg_OSAC cfg) \<noteq> '''' \<and>
     oc_OIDCClientID (cfg_OSAC cfg) \<noteq> '''' \<and> oc_OIDCClientSecret (cfg_OSAC cfg) \<noteq> '''' \<and>
     dcm_RegistrationURL (cfg_DCM cfg) \<noteq> '''' \<and> dcm_NATSURL (cfg_DCM cfg) \<noteq> '''' \<and>
     prov_Endpoint (cfg_Provider cfg) \<noteq> ''''"

definition Config_Load :: "Config res \<Rightarrow> Config res" where
  "Config_Load parse =
     (case parse of
        Inl err \<Rightarrow> Inl (WrapError [Lit ''loading configuration''] err)
      | Inr cfg \<Rightarrow> Inr cfg)"

end
