(* ===== verification/Osac_Types.thy ===== *)
theory Osac_Types
  imports Prelude
begin

text \<open>
  The OSAC messages of \<open>internal/osacpb/osac/public/v1\<close> and the client interface of the
  services that carry them. A message pointer is an \<open>option\<close>, and the generated getters
  answer the zero value on \<open>nil\<close>, as \<open>Get...\<close> does. Proto3 enumerations are open: the
  wire can carry any \<open>int32\<close>, so they are \<open>int\<close> with the generated constants as names.
  A map field whose entries the code counts or iterates is the list of its entries (the list
  is one iteration order, the keys are distinct); labels and annotations are maps.
  The internal fields of the generated structs (\<open>state\<close>, \<open>unknownFields\<close>,
  \<open>sizeCache\<close>) and the \<open>anypb.Any\<close> template parameters are left out: nothing reads or
  sets them. Time stamps are \<open>int option\<close>.
\<close>

section \<open>Enumerations\<close>

type_synonym ClusterState = int
type_synonym ConditionStatus = int

definition CLUSTER_STATE_UNSPECIFIED :: int where
  [pb_simps]: "CLUSTER_STATE_UNSPECIFIED = 0"

definition CLUSTER_STATE_PROGRESSING :: int where
  [pb_simps]: "CLUSTER_STATE_PROGRESSING = 1"

definition CLUSTER_STATE_READY :: int where
  [pb_simps]: "CLUSTER_STATE_READY = 2"

definition CLUSTER_STATE_FAILED :: int where
  [pb_simps]: "CLUSTER_STATE_FAILED = 3"

definition CLUSTER_STATE_DELETING :: int where
  [pb_simps]: "CLUSTER_STATE_DELETING = 4"

definition CLUSTER_STATE_DELETE_FAILED :: int where
  [pb_simps]: "CLUSTER_STATE_DELETE_FAILED = 5"

definition CLUSTER_CONDITION_TYPE_UNSPECIFIED :: int where
  [pb_simps]: "CLUSTER_CONDITION_TYPE_UNSPECIFIED = 0"

definition CLUSTER_CONDITION_TYPE_PROGRESSING :: int where
  [pb_simps]: "CLUSTER_CONDITION_TYPE_PROGRESSING = 1"

definition CLUSTER_CONDITION_TYPE_READY :: int where
  [pb_simps]: "CLUSTER_CONDITION_TYPE_READY = 2"

definition CLUSTER_CONDITION_TYPE_FAILED :: int where
  [pb_simps]: "CLUSTER_CONDITION_TYPE_FAILED = 3"

definition CLUSTER_CONDITION_TYPE_DEGRADED :: int where
  [pb_simps]: "CLUSTER_CONDITION_TYPE_DEGRADED = 4"

definition CONDITION_STATUS_UNSPECIFIED :: int where
  [pb_simps]: "CONDITION_STATUS_UNSPECIFIED = 0"

definition CONDITION_STATUS_TRUE :: int where
  [pb_simps]: "CONDITION_STATUS_TRUE = 1"

definition CONDITION_STATUS_FALSE :: int where
  [pb_simps]: "CONDITION_STATUS_FALSE = 2"

definition COMPUTE_INSTANCE_STATE_UNSPECIFIED :: int where
  [pb_simps]: "COMPUTE_INSTANCE_STATE_UNSPECIFIED = 0"

definition COMPUTE_INSTANCE_STATE_STARTING :: int where
  [pb_simps]: "COMPUTE_INSTANCE_STATE_STARTING = 1"

definition COMPUTE_INSTANCE_STATE_RUNNING :: int where
  [pb_simps]: "COMPUTE_INSTANCE_STATE_RUNNING = 2"

definition COMPUTE_INSTANCE_STATE_FAILED :: int where
  [pb_simps]: "COMPUTE_INSTANCE_STATE_FAILED = 3"

definition COMPUTE_INSTANCE_STATE_DELETING :: int where
  [pb_simps]: "COMPUTE_INSTANCE_STATE_DELETING = 4"

definition COMPUTE_INSTANCE_STATE_STOPPING :: int where
  [pb_simps]: "COMPUTE_INSTANCE_STATE_STOPPING = 5"

definition COMPUTE_INSTANCE_STATE_STOPPED :: int where
  [pb_simps]: "COMPUTE_INSTANCE_STATE_STOPPED = 6"

definition COMPUTE_INSTANCE_STATE_PAUSED :: int where
  [pb_simps]: "COMPUTE_INSTANCE_STATE_PAUSED = 7"

definition COMPUTE_INSTANCE_CONDITION_TYPE_RESTART_FAILED :: int where
  [pb_simps]: "COMPUTE_INSTANCE_CONDITION_TYPE_RESTART_FAILED = 4"

definition SUBNET_STATE_READY :: int where
  [pb_simps]: "SUBNET_STATE_READY = 2"

definition VIRTUAL_NETWORK_STATE_READY :: int where
  [pb_simps]: "VIRTUAL_NETWORK_STATE_READY = 2"

definition SECRET_TYPE_KUBECONFIG :: int where
  [pb_simps]: "SECRET_TYPE_KUBECONFIG = 2"

section \<open>References and metadata\<close>

text \<open>
  The \<open>...Reference\<close> messages all have the same four fields, the \<open>...LocalReference\<close>
  messages the same two.
\<close>

record Reference =
  rf_Id :: string
  rf_Name :: string
  rf_Project :: string
  rf_Shared :: bool

record LocalReference =
  lrf_Id :: string
  lrf_Name :: string

definition Reference_of_Id :: "string \<Rightarrow> Reference" where
  "Reference_of_Id i = \<lparr>rf_Id = i, rf_Name = '''', rf_Project = '''', rf_Shared = False\<rparr>"

definition LocalReference_of_Id :: "string \<Rightarrow> LocalReference" where
  "LocalReference_of_Id i = \<lparr>lrf_Id = i, lrf_Name = ''''\<rparr>"

record pb_Metadata =
  md_CreationTimestamp :: "int option"
  md_DeletionTimestamp :: "int option"
  md_Creator :: string
  md_Tenant :: string
  md_Name :: string
  md_Labels :: "string \<rightharpoonup> string"
  md_Annotations :: "string \<rightharpoonup> string"
  md_Version :: int
  md_Project :: string
  md_DisplayName :: string
  md_Description :: string

definition Metadata_zero :: pb_Metadata where
  "Metadata_zero = \<lparr>md_CreationTimestamp = None, md_DeletionTimestamp = None, md_Creator = '''',
     md_Tenant = '''', md_Name = '''', md_Labels = Map.empty, md_Annotations = Map.empty,
     md_Version = 0, md_Project = '''', md_DisplayName = '''', md_Description = ''''\<rparr>"

section \<open>Clusters\<close>

record pb_ClusterNodeSet =
  pns_HostType :: "Reference option"
  pns_Size :: int

record pb_ClusterCondition =
  cc_Type :: int
  cc_Status :: ConditionStatus
  cc_LastTransitionTime :: "int option"
  cc_Reason :: "string option"
  cc_Message :: "string option"

record pb_ClusterStatus =
  pst_State :: ClusterState
  pst_Conditions :: "pb_ClusterCondition list"
  pst_ApiUrl :: string
  pst_ConsoleUrl :: string
  pst_NodeSets :: "(string \<times> pb_ClusterNodeSet) list"
  pst_ApiEndpoint :: string
  pst_IngressEndpoint :: string
  pst_StateTransitionTime :: "int option"
  pst_KubeconfigSecret :: "LocalReference option"
  pst_PasswordSecret :: "LocalReference option"

record pb_ClusterSpec =
  psp_Template :: "Reference option"
  psp_NodeSets :: "(string \<times> pb_ClusterNodeSet) list"
  psp_PullSecret :: "string option"
  psp_SshPublicKey :: "string option"
  psp_Version :: "Reference option"

record pb_Cluster =
  pc_Id :: string
  pc_Metadata :: "pb_Metadata option"
  pc_Spec :: "pb_ClusterSpec option"
  pc_Status :: "pb_ClusterStatus option"

record pb_ClusterTemplate =
  ct_Id :: string
  ct_Metadata :: "pb_Metadata option"
  ct_NodeSets :: "(string \<times> pb_ClusterNodeSet) list"

record pb_ClusterVersionSpec =
  cvs_Enabled :: "bool option"
  cvs_IsDefault :: "bool option"
  cvs_State :: int
  cvs_Version :: string

record pb_ClusterVersion =
  cv_Id :: string
  cv_Metadata :: "pb_Metadata option"
  cv_Spec :: "pb_ClusterVersionSpec option"

record pb_Secret =
  sec_Id :: string
  sec_Metadata :: "pb_Metadata option"
  sec_Data :: "string \<rightharpoonup> string"
  sec_Type :: int

section \<open>Compute instances\<close>

record pb_ComputeInstanceImage =
  cii_SourceType :: string
  cii_SourceRef :: string

record pb_ComputeInstanceDisk =
  cid_SizeGib :: int

record pb_NetworkAttachment =
  na_Subnet :: "LocalReference option"
  na_SecurityGroups :: "LocalReference list"

record pb_ComputeInstanceSpec =
  cis_Template :: "Reference option"
  cis_RestartRequestedAt :: "int option"
  cis_Image :: "pb_ComputeInstanceImage option"
  cis_SshPublicKey :: "string option"
  cis_BootDisk :: "pb_ComputeInstanceDisk option"
  cis_AdditionalDisks :: "pb_ComputeInstanceDisk list"
  cis_RunStrategy :: "string option"
  cis_UserData :: "string option"
  cis_NetworkAttachments :: "pb_NetworkAttachment list"
  cis_IsWindows :: "bool option"
  cis_InstanceType :: "Reference option"

record pb_ComputeInstanceCondition =
  cic_Type :: int
  cic_Status :: ConditionStatus
  cic_LastTransitionTime :: "int option"
  cic_Reason :: "string option"
  cic_Message :: "string option"

record pb_ComputeInstanceStatus =
  cist_State :: int
  cist_Conditions :: "pb_ComputeInstanceCondition list"
  cist_InternalIpAddress :: string
  cist_LastRestartedAt :: "int option"
  cist_ExternalIpAddress :: string
  cist_StateTransitionTime :: "int option"

record pb_ComputeInstance =
  ci_Id :: string
  ci_Metadata :: "pb_Metadata option"
  ci_Spec :: "pb_ComputeInstanceSpec option"
  ci_Status :: "pb_ComputeInstanceStatus option"

section \<open>Networks\<close>

record pb_SubnetSpec =
  sns_VirtualNetwork :: "LocalReference option"
  sns_Ipv4Cidr :: "string option"
  sns_Ipv6Cidr :: "string option"

record pb_SubnetStatus =
  snst_State :: int
  snst_Message :: "string option"

record pb_Subnet =
  sn_Id :: string
  sn_Metadata :: "pb_Metadata option"
  sn_Spec :: "pb_SubnetSpec option"
  sn_Status :: "pb_SubnetStatus option"

record pb_VirtualNetworkCapabilities =
  vnc_EnableIpv4 :: bool
  vnc_EnableIpv6 :: bool
  vnc_EnableDualStack :: bool

record pb_VirtualNetworkSpec =
  vns_NetworkClass :: "Reference option"
  vns_Ipv4Cidr :: "string option"
  vns_Ipv6Cidr :: "string option"
  vns_Capabilities :: "pb_VirtualNetworkCapabilities option"

record pb_VirtualNetworkStatus =
  vnst_State :: int
  vnst_Message :: "string option"

record pb_VirtualNetwork =
  vn_Id :: string
  vn_Metadata :: "pb_Metadata option"
  vn_Spec :: "pb_VirtualNetworkSpec option"
  vn_Status :: "pb_VirtualNetworkStatus option"

section \<open>Getters\<close>

text \<open>An optional scalar reads as the zero value when it is unset.\<close>

fun opt_string :: "string option \<Rightarrow> string" where
  "opt_string None = ''''"
| "opt_string (Some s) = s"

fun Reference_GetId :: "Reference option \<Rightarrow> string" where
  "Reference_GetId None = ''''"
| "Reference_GetId (Some x) = rf_Id x"

fun Reference_GetName :: "Reference option \<Rightarrow> string" where
  "Reference_GetName None = ''''"
| "Reference_GetName (Some x) = rf_Name x"

fun LocalReference_GetId :: "LocalReference option \<Rightarrow> string" where
  "LocalReference_GetId None = ''''"
| "LocalReference_GetId (Some x) = lrf_Id x"

fun Metadata_GetName :: "pb_Metadata option \<Rightarrow> string" where
  "Metadata_GetName None = ''''"
| "Metadata_GetName (Some x) = md_Name x"

fun Cluster_GetId :: "pb_Cluster option \<Rightarrow> string" where
  "Cluster_GetId None = ''''"
| "Cluster_GetId (Some x) = pc_Id x"

fun Cluster_GetStatus :: "pb_Cluster option \<Rightarrow> pb_ClusterStatus option" where
  "Cluster_GetStatus None = None"
| "Cluster_GetStatus (Some x) = pc_Status x"

fun ClusterStatus_GetState :: "pb_ClusterStatus option \<Rightarrow> ClusterState" where
  "ClusterStatus_GetState None = CLUSTER_STATE_UNSPECIFIED"
| "ClusterStatus_GetState (Some x) = pst_State x"

fun ClusterStatus_GetConditions :: "pb_ClusterStatus option \<Rightarrow> pb_ClusterCondition list" where
  "ClusterStatus_GetConditions None = []"
| "ClusterStatus_GetConditions (Some x) = pst_Conditions x"

fun ClusterStatus_GetNodeSets :: "pb_ClusterStatus option \<Rightarrow> (string \<times> pb_ClusterNodeSet) list" where
  "ClusterStatus_GetNodeSets None = []"
| "ClusterStatus_GetNodeSets (Some x) = pst_NodeSets x"

fun ClusterStatus_GetKubeconfigSecret :: "pb_ClusterStatus option \<Rightarrow> LocalReference option" where
  "ClusterStatus_GetKubeconfigSecret None = None"
| "ClusterStatus_GetKubeconfigSecret (Some x) = pst_KubeconfigSecret x"

fun ClusterTemplate_GetNodeSets :: "pb_ClusterTemplate option \<Rightarrow> (string \<times> pb_ClusterNodeSet) list" where
  "ClusterTemplate_GetNodeSets None = []"
| "ClusterTemplate_GetNodeSets (Some x) = ct_NodeSets x"

fun ClusterVersion_GetMetadata :: "pb_ClusterVersion option \<Rightarrow> pb_Metadata option" where
  "ClusterVersion_GetMetadata None = None"
| "ClusterVersion_GetMetadata (Some x) = cv_Metadata x"

fun ClusterVersion_GetSpec :: "pb_ClusterVersion option \<Rightarrow> pb_ClusterVersionSpec option" where
  "ClusterVersion_GetSpec None = None"
| "ClusterVersion_GetSpec (Some x) = cv_Spec x"

fun ClusterVersionSpec_GetVersion :: "pb_ClusterVersionSpec option \<Rightarrow> string" where
  "ClusterVersionSpec_GetVersion None = ''''"
| "ClusterVersionSpec_GetVersion (Some x) = cvs_Version x"

fun ComputeInstance_GetId :: "pb_ComputeInstance option \<Rightarrow> string" where
  "ComputeInstance_GetId None = ''''"
| "ComputeInstance_GetId (Some x) = ci_Id x"

fun ComputeInstance_GetStatus :: "pb_ComputeInstance option \<Rightarrow> pb_ComputeInstanceStatus option" where
  "ComputeInstance_GetStatus None = None"
| "ComputeInstance_GetStatus (Some x) = ci_Status x"

fun ComputeInstanceStatus_GetState :: "pb_ComputeInstanceStatus option \<Rightarrow> int" where
  "ComputeInstanceStatus_GetState None = COMPUTE_INSTANCE_STATE_UNSPECIFIED"
| "ComputeInstanceStatus_GetState (Some x) = cist_State x"

fun ComputeInstanceStatus_GetConditions :: "pb_ComputeInstanceStatus option \<Rightarrow> pb_ComputeInstanceCondition list" where
  "ComputeInstanceStatus_GetConditions None = []"
| "ComputeInstanceStatus_GetConditions (Some x) = cist_Conditions x"

fun ComputeInstanceStatus_GetInternalIpAddress :: "pb_ComputeInstanceStatus option \<Rightarrow> string" where
  "ComputeInstanceStatus_GetInternalIpAddress None = ''''"
| "ComputeInstanceStatus_GetInternalIpAddress (Some x) = cist_InternalIpAddress x"

fun ComputeInstanceStatus_GetExternalIpAddress :: "pb_ComputeInstanceStatus option \<Rightarrow> string" where
  "ComputeInstanceStatus_GetExternalIpAddress None = ''''"
| "ComputeInstanceStatus_GetExternalIpAddress (Some x) = cist_ExternalIpAddress x"

fun Subnet_GetId :: "pb_Subnet option \<Rightarrow> string" where
  "Subnet_GetId None = ''''"
| "Subnet_GetId (Some x) = sn_Id x"

fun Subnet_GetStatus :: "pb_Subnet option \<Rightarrow> pb_SubnetStatus option" where
  "Subnet_GetStatus None = None"
| "Subnet_GetStatus (Some x) = sn_Status x"

fun SubnetStatus_GetState :: "pb_SubnetStatus option \<Rightarrow> int" where
  "SubnetStatus_GetState None = 0"
| "SubnetStatus_GetState (Some x) = snst_State x"

fun VirtualNetwork_GetId :: "pb_VirtualNetwork option \<Rightarrow> string" where
  "VirtualNetwork_GetId None = ''''"
| "VirtualNetwork_GetId (Some x) = vn_Id x"

fun VirtualNetwork_GetStatus :: "pb_VirtualNetwork option \<Rightarrow> pb_VirtualNetworkStatus option" where
  "VirtualNetwork_GetStatus None = None"
| "VirtualNetwork_GetStatus (Some x) = vn_Status x"

fun VirtualNetworkStatus_GetState :: "pb_VirtualNetworkStatus option \<Rightarrow> int" where
  "VirtualNetworkStatus_GetState None = 0"
| "VirtualNetworkStatus_GetState (Some x) = vnst_State x"

section \<open>The client interface\<close>

text \<open>
  The request and response messages of the seven services have the same shape, so one
  polymorphic record serves each: a \<open>List\<close> request carries optional offset, limit, filter and
  order, its response a size, a total and the items; \<open>Get\<close> and \<open>Create\<close> answer an
  optional object. \<open>ResourceClient\<close> is the interface the generated \<open>...Client\<close> types give
  their callers, over a state \<open>'w\<close> of the remote side; \<open>Update\<close> is left out because nothing
  calls it, and so is the \<open>ctx\<close> argument: a cancelled or timed-out call is one of the errors a
  call can answer.
\<close>

record ListRequest =
  lq_Offset :: "int option"
  lq_Limit :: "int option"
  lq_Filter :: "string option"
  lq_Order :: "string option"

record 'a ListResponse =
  lr_Size :: int
  lr_Total :: int
  lr_Items :: "'a list"

record 'a ObjectResponse =
  or_Object :: "'a option"

record ('a, 'w) ResourceClient =
  rc_List :: "ListRequest \<Rightarrow> ('w, 'a ListResponse) call"
  rc_Get :: "string \<Rightarrow> ('w, 'a ObjectResponse) call"
  rc_Create :: "'a option \<Rightarrow> ('w, 'a ObjectResponse) call"
  rc_Delete :: "string \<Rightarrow> ('w, unit) call"

end
