(* ===== verification/Osac_Backend.thy ===== *)
theory Osac_Backend
  imports Osac_Types
begin

text \<open>
  The contracts of the OSAC services as the provider relies on them, as locales over a client
  and a state of the remote side. \<open>resource_backend\<close> is create, get and delete by an
  identifier the caller chooses; \<open>page_source\<close> is the list operation on a collection that
  does not change while it is paged through. Both are interpreted on the in-memory provider of
  \<open>test/mockprovider\<close>, in the theory that models it.
\<close>

section \<open>Create, get and delete\<close>

text \<open>
  \<open>lookup w i\<close> is the stored object with identifier \<open>i\<close>. The backend may complete an object
  when it stores it (a status, a reference), so a fresh create answers some object of the same
  identifier, and from then on that object is what is stored. \<open>inv\<close> is the backend's own
  consistency, kept by every operation.
\<close>

locale resource_backend =
  fixes client :: "('a, 'w) ResourceClient"
    and ident :: "'a \<Rightarrow> string"
    and lookup :: "'w \<Rightarrow> string \<Rightarrow> 'a option"
    and inv :: "'w \<Rightarrow> bool"
  assumes get_found: "inv w \<Longrightarrow> lookup w i = Some x \<Longrightarrow>
      rc_Get client i w = (Inr \<lparr>or_Object = Some x\<rparr>, w)"
    and get_absent: "inv w \<Longrightarrow> lookup w i = None \<Longrightarrow>
      \<exists>m. rc_Get client i w = (Inl (StatusError NotFound m), w)"
    and create_taken: "inv w \<Longrightarrow> ident x \<noteq> '''' \<Longrightarrow> lookup w (ident x) \<noteq> None \<Longrightarrow>
      \<exists>m. rc_Create client (Some x) w = (Inl (StatusError AlreadyExists m), w)"
    and create_fresh: "inv w \<Longrightarrow> ident x \<noteq> '''' \<Longrightarrow> lookup w (ident x) = None \<Longrightarrow>
      \<exists>y w'. rc_Create client (Some x) w = (Inr \<lparr>or_Object = Some y\<rparr>, w') \<and>
        ident y = ident x \<and> lookup w' = (lookup w)(ident x \<mapsto> y) \<and> inv w'"
    and delete_absent: "inv w \<Longrightarrow> lookup w i = None \<Longrightarrow>
      \<exists>m. rc_Delete client i w = (Inl (StatusError NotFound m), w)"
    and delete_found: "inv w \<Longrightarrow> lookup w i \<noteq> None \<Longrightarrow>
      \<exists>w'. rc_Delete client i w = (Inr (), w') \<and> lookup w' = (lookup w)(i := None) \<and> inv w'"
begin

lemma get_cases:
  assumes "inv w"
  obtains (found) x where "lookup w i = Some x" "rc_Get client i w = (Inr \<lparr>or_Object = Some x\<rparr>, w)"
  | (absent) m where "lookup w i = None" "rc_Get client i w = (Inl (StatusError NotFound m), w)"
proof (cases "lookup w i")
  case None
  with assms absent show ?thesis using get_absent by blast
next
  case (Some x)
  with assms found show ?thesis using get_found by blast
qed

lemma create_cases:
  assumes "inv w" and "ident x \<noteq> ''''"
  obtains (taken) y m where "lookup w (ident x) = Some y"
      "rc_Create client (Some x) w = (Inl (StatusError AlreadyExists m), w)"
  | (fresh) y w' where "lookup w (ident x) = None"
      "rc_Create client (Some x) w = (Inr \<lparr>or_Object = Some y\<rparr>, w')"
      "ident y = ident x" "lookup w' = (lookup w)(ident x \<mapsto> y)" "inv w'"
proof (cases "lookup w (ident x)")
  case None
  with create_fresh [OF assms None] fresh show ?thesis by blast
next
  case (Some y)
  with create_taken [OF assms] taken show ?thesis by blast
qed

lemma delete_cases:
  assumes "inv w"
  obtains (absent) m where "lookup w i = None" "rc_Delete client i w = (Inl (StatusError NotFound m), w)"
  | (found) w' where "lookup w i \<noteq> None" "rc_Delete client i w = (Inr (), w')"
      "lookup w' = (lookup w)(i := None)" "inv w'"
proof (cases "lookup w i = None")
  case True
  with assms absent show ?thesis using delete_absent by blast
next
  case False
  with assms found show ?thesis using delete_found by blast
qed

end

section \<open>List\<close>

text \<open>
  \<open>items w\<close> is the collection behind a \<open>List\<close> call, in the order the backend lists it: the
  page is what \<open>offset\<close> and \<open>limit\<close> select, \<open>total\<close> is the size of the whole
  collection, and listing changes nothing.
\<close>

locale page_source =
  fixes list_call :: "ListRequest \<Rightarrow> ('w, 'a ListResponse) call"
    and items :: "'w \<Rightarrow> 'a list"
    and inv :: "'w \<Rightarrow> bool"
  assumes list_page: "inv w \<Longrightarrow> 0 \<le> off \<Longrightarrow> off \<le> MaxInt32 \<Longrightarrow> 0 < lim \<Longrightarrow> lim \<le> MaxInt32 \<Longrightarrow>
      int (length (items w)) \<le> MaxInt32 \<Longrightarrow>
      list_call \<lparr>lq_Offset = Some off, lq_Limit = Some lim, lq_Filter = f, lq_Order = ord\<rparr> w =
        (Inr \<lparr>lr_Size = int (length (take (nat lim) (drop (nat off) (items w)))),
              lr_Total = int (length (items w)),
              lr_Items = take (nat lim) (drop (nat off) (items w))\<rparr>, w)"

end
