(* ===== verification/Go_Strings.thy ===== *)
theory Go_Strings
  imports Prelude
begin

text \<open>
  The parts of Go's \<open>strings\<close> and \<open>strconv\<close> packages the program uses. A Go string is a
  sequence of bytes, here a \<open>string\<close> (a list of 8-bit characters).
\<close>

section \<open>Package strings\<close>

definition HasPrefix :: "string \<Rightarrow> string \<Rightarrow> bool" where
  "HasPrefix s p \<longleftrightarrow> take (length p) s = p"

lemma HasPrefix_iff: "HasPrefix s p \<longleftrightarrow> (\<exists>r. s = p @ r)"
  by (metis HasPrefix_def append_eq_conv_conj append_take_drop_id)

lemma HasPrefix_append [simp]: "HasPrefix (p @ r) p"
  by (simp add: HasPrefix_def)

definition TrimSuffix :: "string \<Rightarrow> string \<Rightarrow> string" where
  "TrimSuffix s suf =
     (if drop (length s - length suf) s = suf then take (length s - length suf) s else s)"

lemma TrimSuffix_append [simp]: "TrimSuffix (s @ suf) suf = s"
  by (simp add: TrimSuffix_def)

definition CutPrefix :: "string \<Rightarrow> string \<Rightarrow> string option" where
  "CutPrefix s p = (if HasPrefix s p then Some (drop (length p) s) else None)"

lemma CutPrefix_append [simp]: "CutPrefix (p @ r) p = Some r"
  by (simp add: CutPrefix_def)

text \<open>\<open>strings.Join\<close>.\<close>

fun Join :: "string list \<Rightarrow> string \<Rightarrow> string" where
  "Join [] sep = ''''"
| "Join [x] sep = x"
| "Join (x # xs) sep = x @ sep @ Join xs sep"

text \<open>
  \<open>strings.ToLower\<close> and \<open>strings.ToUpper\<close> on ASCII text, the only text the program
  applies them to (status names and the \<open>[A-Za-z]+\<close> unit of a capacity).
\<close>

definition lower_char :: "char \<Rightarrow> char" where
  "lower_char c = (let n = of_char c :: nat in if 65 \<le> n \<and> n \<le> 90 then char_of (n + 32) else c)"

definition upper_char :: "char \<Rightarrow> char" where
  "upper_char c = (let n = of_char c :: nat in if 97 \<le> n \<and> n \<le> 122 then char_of (n - 32) else c)"

definition ToLower :: "string \<Rightarrow> string" where
  "ToLower s = map lower_char s"

definition ToUpper :: "string \<Rightarrow> string" where
  "ToUpper s = map upper_char s"

section \<open>Decimal digits\<close>

definition is_digit :: "char \<Rightarrow> bool" where
  "is_digit c \<longleftrightarrow> (48::nat) \<le> of_char c \<and> of_char c \<le> (57::nat)"

definition digit_val :: "char \<Rightarrow> nat" where
  "digit_val c = of_char c - 48"

definition digit_char :: "nat \<Rightarrow> char" where
  "digit_char d = char_of (48 + d)"

lemma is_digit_digit_char [simp]: "d < 10 \<Longrightarrow> is_digit (digit_char d)"
  by (simp add: is_digit_def digit_char_def)

lemma digit_val_digit_char [simp]: "d < 10 \<Longrightarrow> digit_val (digit_char d) = d"
  by (simp add: digit_val_def digit_char_def)

lemma digit_val_less: "is_digit c \<Longrightarrow> digit_val c < 10"
  by (auto simp: is_digit_def digit_val_def)

fun nat_digits :: "nat \<Rightarrow> string" where
  "nat_digits n = (if n < 10 then [digit_char n] else nat_digits (n div 10) @ [digit_char (n mod 10)])"

declare nat_digits.simps [simp del]

lemma nat_digits_nonempty [simp]: "nat_digits n \<noteq> []"
  by (subst nat_digits.simps) simp

lemma nat_digits_digits: "\<forall>c \<in> set (nat_digits n). is_digit c"
proof (induction n rule: nat_digits.induct)
  case (1 n)
  then show ?case by (cases "n < 10") (simp_all add: nat_digits.simps [of n])
qed

text \<open>The value of a digit string, most significant digit first.\<close>

definition digits_value :: "string \<Rightarrow> nat" where
  "digits_value s = foldl (\<lambda>acc c. acc * 10 + digit_val c) 0 s"

lemma digits_value_snoc [simp]: "digits_value (s @ [c]) = digits_value s * 10 + digit_val c"
  by (simp add: digits_value_def)

lemma digits_value_Nil [simp]: "digits_value [] = 0"
  by (simp add: digits_value_def)

lemma digits_value_nat_digits [simp]: "digits_value (nat_digits n) = n"
proof (induction n rule: nat_digits.induct)
  case (1 n)
  show ?case
  proof (cases "n < 10")
    case True
    then show ?thesis by (simp add: nat_digits.simps [of n] digits_value_def)
  next
    case False
    with 1 show ?thesis by (simp add: nat_digits.simps [of n] div_mult_mod_eq)
  qed
qed

lemma foldl_digits_mono: "acc \<le> foldl (\<lambda>a c. a * 10 + digit_val c) acc s"
proof (induction s arbitrary: acc)
  case Nil
  show ?case by simp
next
  case (Cons c s)
  have "acc \<le> acc * 10 + digit_val c" by simp
  also have "\<dots> \<le> foldl (\<lambda>a c. a * 10 + digit_val c) (acc * 10 + digit_val c) s" by (rule Cons)
  finally show ?case by simp
qed

section \<open>Package strconv\<close>

text \<open>\<open>strconv.Itoa\<close>.\<close>

definition Itoa :: "int \<Rightarrow> string" where
  "Itoa i = (if i < 0 then CHR ''-'' # nat_digits (nat (- i)) else nat_digits (nat i))"

text \<open>
  \<open>strconv.Atoi\<close> on a 64-bit platform: an optional sign, then at least one decimal digit and
  nothing else, within the range of \<open>int\<close>. The loop is that of \<open>ParseUint\<close>, which reports
  the first offending byte or the first overflow of \<open>uint64\<close>, whichever comes first.
\<close>

datatype num_error = ErrSyntax | ErrRange

fun parse_uint_loop :: "nat \<Rightarrow> string \<Rightarrow> num_error + nat" where
  "parse_uint_loop acc [] = Inr acc"
| "parse_uint_loop acc (c # cs) =
     (if \<not> is_digit c then Inl ErrSyntax
      else if 2 ^ 64 \<le> acc * 10 + digit_val c then Inl ErrRange
      else parse_uint_loop (acc * 10 + digit_val c) cs)"

definition parse_int :: "string \<Rightarrow> num_error + int" where
  "parse_int s =
     (let neg = (case s of c # _ \<Rightarrow> c = CHR ''-'' | [] \<Rightarrow> False);
          digits = (case s of c # cs \<Rightarrow> if c = CHR ''-'' \<or> c = CHR ''+'' then cs else s | [] \<Rightarrow> [])
      in if digits = [] then Inl ErrSyntax
         else case parse_uint_loop 0 digits of
             Inl e \<Rightarrow> Inl e
           | Inr un \<Rightarrow>
               if \<not> neg \<and> 2 ^ 63 \<le> un then Inl ErrRange
               else if neg \<and> 2 ^ 63 < un then Inl ErrRange
               else Inr (if neg then - int un else int un))"

fun num_error_text :: "num_error \<Rightarrow> string" where
  "num_error_text ErrSyntax = '': invalid syntax''"
| "num_error_text ErrRange = '': value out of range''"

definition Atoi :: "string \<Rightarrow> int res" where
  "Atoi s = (case parse_int s of
       Inl e \<Rightarrow> Inl (PlainError [Lit ''strconv.Atoi: parsing '', Quoted s, Lit (num_error_text e)])
     | Inr n \<Rightarrow> Inr n)"

lemma parse_uint_loop_value:
  assumes "\<forall>c \<in> set s. is_digit c"
    and "foldl (\<lambda>a c. a * 10 + digit_val c) acc s < 2 ^ 64"
  shows "parse_uint_loop acc s = Inr (foldl (\<lambda>a c. a * 10 + digit_val c) acc s)"
  using assms
proof (induction s arbitrary: acc)
  case Nil
  then show ?case by simp
next
  case (Cons c s)
  have "acc * 10 + digit_val c \<le> foldl (\<lambda>a c. a * 10 + digit_val c) (acc * 10 + digit_val c) s"
    by (rule foldl_digits_mono)
  with Cons.prems(2) have "acc * 10 + digit_val c < 2 ^ 64" by simp
  with Cons show ?case by simp
qed

lemma parse_uint_nat_digits: "n < 2 ^ 64 \<Longrightarrow> parse_uint_loop 0 (nat_digits n) = Inr n"
  using parse_uint_loop_value [of "nat_digits n" 0] nat_digits_digits [of n]
    digits_value_nat_digits [of n]
  by (simp add: digits_value_def)

lemma digit_not_sign: "is_digit c \<Longrightarrow> c \<noteq> CHR ''-'' \<and> c \<noteq> CHR ''+''"
  by (auto simp: is_digit_def)

lemma nat_digits_Cons: "\<exists>c cs. nat_digits n = c # cs \<and> is_digit c"
  using nat_digits_nonempty [of n] nat_digits_digits [of n] by (cases "nat_digits n") auto

lemma Atoi_Itoa: "is_int64 i \<Longrightarrow> Atoi (Itoa i) = Inr i"
proof -
  assume i: "is_int64 i"
  obtain c cs where c: "nat_digits (nat i) = c # cs" "is_digit c"
    using nat_digits_Cons by blast
  from i have b: "nat i < 2 ^ 64" "nat (- i) < 2 ^ 64" by (auto simp: is_int64_def)
  have p: "parse_uint_loop 0 (nat_digits (nat i)) = Inr (nat i)"
    "parse_uint_loop 0 (nat_digits (nat (- i))) = Inr (nat (- i))"
    using b parse_uint_nat_digits by blast+
  show ?thesis
  proof (cases "i < 0")
    case True
    with i p(2) show ?thesis by (auto simp: Atoi_def Itoa_def parse_int_def is_int64_def)
  next
    case False
    with i p(1) c digit_not_sign [of c] show ?thesis
      by (auto simp: Atoi_def Itoa_def parse_int_def is_int64_def)
  qed
qed

lemma parse_int_int64: "parse_int s = Inr n \<Longrightarrow> is_int64 n"
  by (auto simp: parse_int_def is_int64_def Let_def split: sum.splits if_splits)

lemma Atoi_int64: "Atoi s = Inr n \<Longrightarrow> is_int64 n"
  by (auto simp: Atoi_def dest: parse_int_int64 split: sum.splits)

end
