(* ===== verification/Go_Base64.thy ===== *)
theory Go_Base64
  imports Go_Strings
begin

text \<open>
  Go's \<open>encoding/base64\<close>: \<open>RawURLEncoding\<close>, which wraps the page tokens, and
  \<open>StdEncoding\<close>, which renders a kubeconfig and holds the embedded API document. Decoding follows
  \<open>Encoding.decodeQuantum\<close>: carriage returns and newlines are skipped, any other byte
  outside the alphabet is an error, a last group of one character is an error, and the
  unused low bits of a last group are ignored (the encodings are not \<open>Strict\<close>).
\<close>

section \<open>Alphabets\<close>

definition url_alphabet :: string where
  "url_alphabet = ''ABCDEFGHIJKLMNOPQRSTUVWXYZabcdefghijklmnopqrstuvwxyz0123456789-_''"

definition std_alphabet :: string where
  "std_alphabet = ''ABCDEFGHIJKLMNOPQRSTUVWXYZabcdefghijklmnopqrstuvwxyz0123456789+/''"

fun index_of :: "char \<Rightarrow> string \<Rightarrow> nat option" where
  "index_of c [] = None"
| "index_of c (x # xs) = (if c = x then Some 0 else map_option Suc (index_of c xs))"

lemma index_of_nth: "distinct xs \<Longrightarrow> i < length xs \<Longrightarrow> index_of (xs ! i) xs = Some i"
proof (induction xs arbitrary: i)
  case Nil
  then show ?case by simp
next
  case (Cons x xs)
  then show ?case by (cases i) auto
qed

lemma index_of_less: "index_of c xs = Some i \<Longrightarrow> i < length xs"
  by (induction xs arbitrary: i) (auto split: if_splits)

definition enc_char :: "string \<Rightarrow> nat \<Rightarrow> char" where
  "enc_char alphabet d = alphabet ! d"

definition dec_char :: "string \<Rightarrow> char \<Rightarrow> nat option" where
  "dec_char alphabet c = index_of c alphabet"

section \<open>Encoding\<close>

definition byte :: "char \<Rightarrow> nat" where
  "byte c = of_char c"

lemma byte_less [simp]: "byte c < 256"
  using nat_of_char_less_256 [of c] by (simp add: byte_def)

lemma char_of_byte [simp]: "char_of (byte c) = c"
  by (simp add: byte_def)

text \<open>The four 6-bit digits of a group of three bytes, as \<open>Encode\<close> extracts them.\<close>

fun b64_encode :: "string \<Rightarrow> bool \<Rightarrow> string \<Rightarrow> string" where
  "b64_encode alphabet pad (a # b # c # rest) =
     (let v = byte a * 65536 + byte b * 256 + byte c
      in enc_char alphabet (v div 262144) # enc_char alphabet (v div 4096 mod 64) #
         enc_char alphabet (v div 64 mod 64) # enc_char alphabet (v mod 64) #
         b64_encode alphabet pad rest)"
| "b64_encode alphabet pad [a, b] =
     (let v = byte a * 65536 + byte b * 256
      in [enc_char alphabet (v div 262144), enc_char alphabet (v div 4096 mod 64),
          enc_char alphabet (v div 64 mod 64)] @ (if pad then ''='' else ''''))"
| "b64_encode alphabet pad [a] =
     (let v = byte a * 65536
      in [enc_char alphabet (v div 262144), enc_char alphabet (v div 4096 mod 64)] @
         (if pad then ''=='' else ''''))"
| "b64_encode alphabet pad [] = []"

definition RawURLEncode :: "string \<Rightarrow> string" where
  "RawURLEncode s = b64_encode url_alphabet False s"

definition StdEncode :: "string \<Rightarrow> string" where
  "StdEncode s = b64_encode std_alphabet True s"

section \<open>Decoding\<close>

fun b64_values :: "string \<Rightarrow> string \<Rightarrow> nat list option" where
  "b64_values alphabet [] = Some []"
| "b64_values alphabet (c # cs) = (case dec_char alphabet c of
       None \<Rightarrow> None
     | Some d \<Rightarrow> map_option ((#) d) (b64_values alphabet cs))"

fun b64_groups :: "nat list \<Rightarrow> string option" where
  "b64_groups (p # q # r # s # rest) =
     (let v = p * 262144 + q * 4096 + r * 64 + s
      in map_option (\<lambda>t. char_of (v div 65536) # char_of (v div 256 mod 256) #
           char_of (v mod 256) # t) (b64_groups rest))"
| "b64_groups [p, q, r] =
     (let v = p * 262144 + q * 4096 + r * 64
      in Some [char_of (v div 65536), char_of (v div 256 mod 256)])"
| "b64_groups [p, q] = (let v = p * 262144 + q * 4096 in Some [char_of (v div 65536)])"
| "b64_groups [p] = None"
| "b64_groups [] = Some []"

definition no_newlines :: "string \<Rightarrow> string" where
  "no_newlines s = filter (\<lambda>c. c \<noteq> CHR 0x0A \<and> c \<noteq> CHR 0x0D) s"

definition RawURLDecode :: "string \<Rightarrow> string res" where
  "RawURLDecode s =
     (case Option.bind (b64_values url_alphabet (no_newlines s)) b64_groups of
        None \<Rightarrow> Inl (PlainError [Lit ''illegal base64 data''])
      | Some t \<Rightarrow> Inr t)"

text \<open>
  With padding the length is a multiple of four, newlines apart; the padding is one or two equality
  signs at the end, and nothing follows it.
\<close>

definition StdDecode :: "string \<Rightarrow> string res" where
  "StdDecode s =
     (let t = no_newlines s;
          digits = takeWhile (\<lambda>c. c \<noteq> CHR ''='') t;
          pad = dropWhile (\<lambda>c. c \<noteq> CHR ''='') t in
      case (if length t mod 4 = 0 \<and> pad \<in> {'''', ''='', ''==''}
            then Option.bind (b64_values std_alphabet digits) b64_groups else None) of
        None \<Rightarrow> Inl (PlainError [Lit ''illegal base64 data''])
      | Some u \<Rightarrow> Inr u)"

section \<open>Round trip\<close>

lemma b64_pack3:
  assumes "a < 256" "b < 256" "c < (256::nat)"
  defines "v \<equiv> a * 65536 + b * 256 + c"
  shows "v div 262144 < 64"
    and "v div 262144 * 262144 + v div 4096 mod 64 * 4096 + v div 64 mod 64 * 64 + v mod 64 = v"
    and "v div 65536 = a" "v div 256 mod 256 = b" "v mod 256 = c"
proof -
  have v: "v < 16777216" using assms by (simp add: v_def)
  then show "v div 262144 < 64" by (simp add: less_mult_imp_div_less)
  have d1: "v div 4096 = v div 262144 * 64 + v div 4096 mod 64"
    using div_mult_mod_eq [of "v div 4096" 64] by (simp add: div_mult2_eq [symmetric])
  have d2: "v div 64 = v div 4096 * 64 + v div 64 mod 64"
    using div_mult_mod_eq [of "v div 64" 64] by (simp add: div_mult2_eq [symmetric])
  have d3: "v = v div 64 * 64 + v mod 64" by simp
  show "v div 262144 * 262144 + v div 4096 mod 64 * 4096 + v div 64 mod 64 * 64 + v mod 64 = v"
    using d1 d2 d3 by linarith
  show "v div 65536 = a" using assms by (simp add: v_def)
  have "v div 256 = a * 256 + b" using assms by (simp add: v_def)
  then show "v div 256 mod 256 = b" using assms by simp
  have "v = (a * 256 + b) * 256 + c" by (simp add: v_def)
  then show "v mod 256 = c" using assms by (metis mod_less mod_mult_self3)
qed

text \<open>Kept apart from the arithmetic: how the decoder reads back one encoded group.\<close>

lemma mod64 [simp]: "(n::nat) mod 64 < 64"
  by simp

lemma b64_groups4:
  "p * 262144 + q * 4096 + r * 64 + s = v \<Longrightarrow>
   b64_groups (p # q # r # s # rest) =
     map_option (\<lambda>t. char_of (v div 65536) # char_of (v div 256 mod 256) # char_of (v mod 256) # t)
       (b64_groups rest)"
  by (simp only: b64_groups.simps Let_def)

lemma b64_groups3:
  "p * 262144 + q * 4096 + r * 64 = v \<Longrightarrow>
   b64_groups [p, q, r] = Some [char_of (v div 65536), char_of (v div 256 mod 256)]"
  by (simp only: b64_groups.simps Let_def)

lemma b64_groups2:
  "p * 262144 + q * 4096 = v \<Longrightarrow> b64_groups [p, q] = Some [char_of (v div 65536)]"
  by (simp only: b64_groups.simps Let_def)

lemma b64_tail_digits:
  fixes a b :: nat
  shows "(a * 65536 + b * 256) mod 64 = 0" "a * 65536 div 64 mod 64 = 0" "a * 65536 mod 64 = 0"
proof -
  have "a * 65536 + b * 256 = 64 * (a * 1024 + b * 4)" by simp
  then show "(a * 65536 + b * 256) mod 64 = 0" by (metis mod_mult_self1_is_0)
  have "a * 65536 = 64 * (64 * (a * 16))" by simp
  then show "a * 65536 div 64 mod 64 = 0" "a * 65536 mod 64 = 0"
    by (metis mod_mult_self1_is_0 nonzero_mult_div_cancel_left zero_neq_numeral)+
qed

lemma triples_induct [case_names 1 2 3 4]:
  assumes "\<And>a b c rest. P rest \<Longrightarrow> P (a # b # c # rest)" and "\<And>a b. P [a, b]" and "\<And>a. P [a]" and "P []"
  shows "P s"
  using assms by (induction_schema) (pat_completeness, lexicographic_order)

text \<open>What both encodings need of their alphabet.\<close>

locale b64_alphabet =
  fixes alphabet :: string
  assumes length_alphabet: "length alphabet = 64"
    and distinct_alphabet: "distinct alphabet"
    and plain_alphabet: "CHR 0x0A \<notin> set alphabet" "CHR 0x0D \<notin> set alphabet" "CHR ''='' \<notin> set alphabet"
begin

lemma dec_enc_char [simp]: "d < 64 \<Longrightarrow> dec_char alphabet (enc_char alphabet d) = Some d"
  by (simp add: dec_char_def enc_char_def index_of_nth length_alphabet distinct_alphabet)

lemma enc_char_plain:
  assumes "d < 64"
  shows "enc_char alphabet d \<noteq> CHR 0x0A" "enc_char alphabet d \<noteq> CHR 0x0D" "enc_char alphabet d \<noteq> CHR ''=''"
proof -
  have "enc_char alphabet d \<in> set alphabet"
    using assms by (simp add: enc_char_def length_alphabet)
  then show "enc_char alphabet d \<noteq> CHR 0x0A" "enc_char alphabet d \<noteq> CHR 0x0D" "enc_char alphabet d \<noteq> CHR ''=''"
    using plain_alphabet by metis+
qed

lemma b64_values_enc:
  "d < 64 \<Longrightarrow> b64_values alphabet (enc_char alphabet d # cs) = map_option ((#) d) (b64_values alphabet cs)"
  by simp

lemma b64_decode_encode:
  "\<exists>ds. b64_values alphabet (b64_encode alphabet False s) = Some ds \<and> b64_groups ds = Some s"
proof (induction s rule: triples_induct)
  case (1 a b c rest)
  define v where "v = byte a * 65536 + byte b * 256 + byte c"
  note p = b64_pack3 [OF byte_less byte_less byte_less, of a b c, folded v_def]
  from 1 obtain ds where
    ds: "b64_values alphabet (b64_encode alphabet False rest) = Some ds" "b64_groups ds = Some rest"
    by blast
  have e: "b64_encode alphabet False (a # b # c # rest) =
      enc_char alphabet (v div 262144) # enc_char alphabet (v div 4096 mod 64) #
      enc_char alphabet (v div 64 mod 64) # enc_char alphabet (v mod 64) #
      b64_encode alphabet False rest"
    by (simp only: b64_encode.simps Let_def v_def)
  have "b64_values alphabet (b64_encode alphabet False (a # b # c # rest)) =
      Some (v div 262144 # v div 4096 mod 64 # v div 64 mod 64 # v mod 64 # ds)"
    by (simp only: e b64_values_enc p(1) mod64 ds option.map)
  moreover have "b64_groups (v div 262144 # v div 4096 mod 64 # v div 64 mod 64 # v mod 64 # ds) =
      Some (a # b # c # rest)"
    by (simp only: b64_groups4 [OF p(2)] ds option.map p(3-5) char_of_byte)
  ultimately show ?case by blast
next
  case (2 a b)
  define v where "v = byte a * 65536 + byte b * 256"
  have z: "(0::nat) < 256" by simp
  note p = b64_pack3 [OF byte_less byte_less z, of a b, unfolded add_0_right, folded v_def]
  have v0: "v mod 64 = 0" unfolding v_def by (rule b64_tail_digits)
  have e: "b64_encode alphabet False [a, b] =
      [enc_char alphabet (v div 262144), enc_char alphabet (v div 4096 mod 64),
       enc_char alphabet (v div 64 mod 64)]"
    by (simp add: v_def Let_def)
  have "b64_values alphabet (b64_encode alphabet False [a, b]) =
      Some [v div 262144, v div 4096 mod 64, v div 64 mod 64]"
    by (simp only: e b64_values_enc p(1) mod64 b64_values.simps(1) option.map)
  moreover have "v div 262144 * 262144 + v div 4096 mod 64 * 4096 + v div 64 mod 64 * 64 = v"
    using p(2) v0 by (simp only: add_0_right)
  then have "b64_groups [v div 262144, v div 4096 mod 64, v div 64 mod 64] = Some [a, b]"
    by (simp only: b64_groups3 p(3,4) char_of_byte)
  ultimately show ?case by blast
next
  case (3 a)
  define v where "v = byte a * 65536"
  have z: "(0::nat) < 256" by simp
  note q = b64_pack3 [OF byte_less z z, of a, unfolded mult_zero_left add_0_right, folded v_def]
  have e: "b64_encode alphabet False [a] =
      [enc_char alphabet (v div 262144), enc_char alphabet (v div 4096 mod 64)]"
    by (simp add: v_def Let_def)
  have "b64_values alphabet (b64_encode alphabet False [a]) = Some [v div 262144, v div 4096 mod 64]"
    by (simp only: e b64_values_enc q(1) mod64 b64_values.simps(1) option.map)
  moreover have "v div 262144 * 262144 + v div 4096 mod 64 * 4096 = v"
    using q(2) b64_tail_digits(2,3) [of "byte a"]
    by (simp only: v_def mult_zero_left add_0_right)
  then have "b64_groups [v div 262144, v div 4096 mod 64] = Some [a]"
    using q(3) by (simp only: b64_groups2 char_of_byte)
  ultimately show ?case by blast
next
  case 4
  show ?case by simp
qed

lemma b64_encode_chars:
  "\<forall>c \<in> set (b64_encode alphabet False s). \<exists>d<64. c = enc_char alphabet d"
proof (induction s rule: triples_induct)
  case (1 a b c rest)
  have "(byte a * 65536 + byte b * 256 + byte c) div 262144 < 64"
    by (rule b64_pack3(1) [OF byte_less byte_less byte_less])
  with 1 show ?case by (auto simp: Let_def intro: mod64)
next
  case (2 a b)
  have "(byte a * 65536 + byte b * 256 + 0) div 262144 < 64"
    by (rule b64_pack3(1) [OF byte_less byte_less]) simp
  then show ?case by (auto simp: Let_def intro: mod64)
next
  case (3 a)
  have "(byte a * 65536 + 0 * 256 + 0) div 262144 < 64"
    by (rule b64_pack3(1) [OF byte_less]) simp_all
  then show ?case by (auto simp: Let_def intro: mod64)
next
  case 4
  show ?case by simp
qed

lemma b64_encode_plain: "c \<in> set (b64_encode alphabet False s) \<Longrightarrow> c \<notin> {CHR 0x0A, CHR 0x0D, CHR ''=''}"
proof -
  assume "c \<in> set (b64_encode alphabet False s)"
  then obtain d where "d < 64" "c = enc_char alphabet d" using b64_encode_chars [of s] by auto
  then show ?thesis using enc_char_plain [of d] by simp
qed

lemma b64_encode_no_newline: "no_newlines (b64_encode alphabet False s) = b64_encode alphabet False s"
  using b64_encode_plain [of _ s] by (auto simp: no_newlines_def filter_id_conv)

end

interpretation url: b64_alphabet url_alphabet
  by (unfold_locales; simp add: url_alphabet_def)

interpretation std: b64_alphabet std_alphabet
  by (unfold_locales; simp add: std_alphabet_def)

lemma RawURLDecode_Encode: "RawURLDecode (RawURLEncode s) = Inr s"
  using url.b64_decode_encode [of s]
  by (auto simp: RawURLDecode_def RawURLEncode_def url.b64_encode_no_newline)

lemma b64_encode_nonempty [simp]: "b64_encode alphabet pad s = [] \<longleftrightarrow> s = []"
  by (cases "(alphabet, pad, s)" rule: b64_encode.cases) (auto simp: Let_def)

lemma RawURLEncode_nonempty [simp]: "RawURLEncode s = [] \<longleftrightarrow> s = []"
  by (simp add: RawURLEncode_def)

lemma StdEncode_nonempty [simp]: "StdEncode s = [] \<longleftrightarrow> s = []"
  by (simp add: StdEncode_def)

lemma four_more: "4 dvd n \<Longrightarrow> 4 dvd Suc (Suc (Suc (Suc n)))" for n :: nat
  by presburger

lemma b64_encode_padded:
  "(\<exists>p. p \<in> {'''', ''='', ''==''} \<and> b64_encode alphabet True s = b64_encode alphabet False s @ p) \<and>
    4 dvd length (b64_encode alphabet True s)"
proof (induction s rule: triples_induct)
  case (1 a b c rest)
  have e: "\<exists>h1 h2 h3 h4. \<forall>pad. b64_encode alphabet pad (a # b # c # rest) = h1 # h2 # h3 # h4 # b64_encode alphabet pad rest"
    unfolding b64_encode.simps Let_def by blast
  then obtain h1 h2 h3 h4 where e: "\<And>pad. b64_encode alphabet pad (a # b # c # rest) = h1 # h2 # h3 # h4 # b64_encode alphabet pad rest"
    by blast
  show ?case unfolding e using 1 four_more by simp
next
  case (2 a b)
  show ?case unfolding b64_encode.simps Let_def by (simp add: four_more)
next
  case (3 a)
  show ?case unfolding b64_encode.simps Let_def by (simp add: four_more)
qed simp

lemma StdDecode_Encode: "StdDecode (StdEncode s) = Inr s"
proof -
  let ?e = "b64_encode std_alphabet False s"
  obtain p where p: "p \<in> {'''', ''='', ''==''}" and e: "StdEncode s = ?e @ p" and len: "length (StdEncode s) mod 4 = 0"
    using b64_encode_padded [of std_alphabet s] unfolding StdEncode_def by (metis dvd_imp_mod_0)
  have nl: "no_newlines (?e @ p) = ?e @ p"
    using std.b64_encode_no_newline [of s] p by (auto simp: no_newlines_def)
  have eq: "c \<noteq> CHR ''=''" if "c \<in> set ?e" for c using std.b64_encode_plain [OF that] by simp
  have "takeWhile (\<lambda>c. c \<noteq> CHR ''='') (?e @ p) = ?e" "dropWhile (\<lambda>c. c \<noteq> CHR ''='') (?e @ p) = p"
    using p eq by (auto simp: takeWhile_append2 dropWhile_append2)
  with std.b64_decode_encode [of s] nl len p show ?thesis
    unfolding StdDecode_def Let_def e by auto
qed

end
