(* ===== verification/Pagination.thy ===== *)
theory Pagination
  imports Go_Base64 Osac_Backend
begin

text \<open>
  \<open>internal/pagination\<close> and the page tokens of \<open>internal/cluster/list.go\<close> and
  \<open>internal/vm/list.go\<close>, which hold the same codec twice. The locale \<open>page_token_codec\<close> is
  the contract of a token (opaque, round-trips an offset, rejects everything else as an invalid
  argument).
\<close>

section \<open>NormalizeMaxPageSize\<close>

definition maxPageSize :: int where
  "maxPageSize = 100"

definition NormalizeMaxPageSize :: "int option \<Rightarrow> int \<Rightarrow> int res" where
  "NormalizeMaxPageSize value defaultPageSize =
     (case value of
        None \<Rightarrow> Inr defaultPageSize
      | Some v \<Rightarrow>
          if v = 0 then Inr defaultPageSize
          else if v < 0 then
            Inl (StatusError InvalidArgument [Lit ''max_page_size must not be negative''])
          else if v > maxPageSize then Inr maxPageSize
          else Inr v)"

lemma NormalizeMaxPageSize_bounds:
  "NormalizeMaxPageSize value d = Inr n \<Longrightarrow> 1 \<le> d \<Longrightarrow> d \<le> maxPageSize \<Longrightarrow> 1 \<le> n \<and> n \<le> 100"
  by (auto simp: NormalizeMaxPageSize_def maxPageSize_def split: option.splits if_splits)

section \<open>Page tokens\<close>

definition encodePageToken :: "int \<Rightarrow> string" where
  "encodePageToken offset = RawURLEncode (Itoa offset)"

definition decodePageToken :: "string \<Rightarrow> int res" where
  "decodePageToken token =
     (case RawURLDecode token of
        Inl err \<Rightarrow> Inl (StatusError InvalidArgument (Lit ''invalid page_token: '' # error_msg err))
      | Inr raw \<Rightarrow>
          (case Atoi raw of
             Inl err \<Rightarrow> Inl (StatusError InvalidArgument (Lit ''invalid page_token: '' # error_msg err))
           | Inr n \<Rightarrow>
               if n < 0 \<or> n > MaxInt32
               then Inl (StatusError InvalidArgument [Lit ''invalid page_token: offset out of range''])
               else Inr (wrap32 n)))"

definition vm_encodePageToken :: "int \<Rightarrow> string" where
  "vm_encodePageToken offset = RawURLEncode (Itoa offset)"

definition vm_decodePageToken :: "string \<Rightarrow> int res" where
  "vm_decodePageToken token =
     (case RawURLDecode token of
        Inl err \<Rightarrow> Inl (StatusError InvalidArgument (Lit ''invalid page_token: '' # error_msg err))
      | Inr raw \<Rightarrow>
          (case Atoi raw of
             Inl err \<Rightarrow> Inl (StatusError InvalidArgument (Lit ''invalid page_token: '' # error_msg err))
           | Inr n \<Rightarrow>
               if n < 0 \<or> n > MaxInt32
               then Inl (StatusError InvalidArgument [Lit ''invalid page_token: offset out of range''])
               else Inr (wrap32 n)))"

locale page_token_codec =
  fixes encode :: "int \<Rightarrow> string"
    and decode :: "string \<Rightarrow> int res"
  assumes decode_encode: "0 \<le> n \<Longrightarrow> n \<le> MaxInt32 \<Longrightarrow> decode (encode n) = Inr n"
    and decode_range: "decode t = Inr n \<Longrightarrow> 0 \<le> n \<and> n \<le> MaxInt32"
    and decode_error: "decode t = Inl e \<Longrightarrow> grpc_code e = InvalidArgument"
    and encode_nonempty: "encode n \<noteq> ''''"
begin

lemma encode_inj: "0 \<le> m \<Longrightarrow> m \<le> MaxInt32 \<Longrightarrow> 0 \<le> n \<Longrightarrow> n \<le> MaxInt32 \<Longrightarrow>
  encode m = encode n \<longleftrightarrow> m = n"
  by (metis decode_encode sum.inject(2))

lemma decode_cases:
  obtains (ok) n where "decode t = Inr n" "0 \<le> n" "n \<le> MaxInt32"
  | (bad) e where "decode t = Inl e" "grpc_code e = InvalidArgument"
  using decode_range [of t] decode_error [of t] by (cases "decode t") auto

text \<open>How the services read the optional \<open>page_token\<close> parameter: absent or empty is offset 0.\<close>

lemma decode_optional:
  assumes "0 \<le> n" "n \<le> MaxInt32"
  shows "(case Some (encode n) of None \<Rightarrow> Inr 0 | Some t \<Rightarrow> if t = '''' then Inr 0 else decode t) = Inr n"
  using assms by (simp add: decode_encode encode_nonempty)

end

lemma page_token_int64: "0 \<le> n \<Longrightarrow> n \<le> MaxInt32 \<Longrightarrow> is_int64 n \<and> is_int32 n"
  by (simp add: is_int64_def is_int32_def MaxInt32_def)

lemma Itoa_nonempty [simp]: "Itoa n \<noteq> []"
  by (simp add: Itoa_def)

interpretation cluster_token: page_token_codec encodePageToken decodePageToken
proof (unfold_locales, goal_cases)
  case (1 n)
  with page_token_int64 [OF this] show ?case
    by (simp add: decodePageToken_def encodePageToken_def RawURLDecode_Encode Atoi_Itoa)
next
  case (2 t n)
  then show ?case
    by (auto simp: decodePageToken_def page_token_int64 split: sum.splits if_splits)
next
  case (3 t e)
  then show ?case by (auto simp: decodePageToken_def split: sum.splits if_splits)
next
  case (4 n)
  show ?case by (simp add: encodePageToken_def)
qed

lemma vm_token_is_cluster_token:
  "vm_encodePageToken = encodePageToken" "vm_decodePageToken = decodePageToken"
  by (simp_all add: fun_eq_iff vm_encodePageToken_def encodePageToken_def vm_decodePageToken_def
      decodePageToken_def)

interpretation vm_token: page_token_codec vm_encodePageToken vm_decodePageToken
  unfolding vm_token_is_cluster_token by (rule cluster_token.page_token_codec_axioms)

section \<open>Following page tokens\<close>

text \<open>
  A caller of a list operation: it asks for the first page and then for the page of each token
  it is given. \<open>op\<close> answers the results of a page and the next token. The fuel bounds the
  number of requests; running out is an error.
\<close>

fun follow_pages ::
  "nat \<Rightarrow> (string option \<Rightarrow> ('w, 'r list \<times> string option) call) \<Rightarrow> string option \<Rightarrow> ('w, 'r list) call"
where
  "follow_pages 0 op token w = (Inl (PlainError [Lit ''too many pages'']), w)"
| "follow_pages (Suc fuel) op token w =
     (case op token w of
        (Inl e, w1) \<Rightarrow> (Inl e, w1)
      | (Inr (rs, None), w1) \<Rightarrow> (Inr rs, w1)
      | (Inr (rs, Some t), w1) \<Rightarrow>
          (case follow_pages fuel op (Some t) w1 of
             (Inl e, w2) \<Rightarrow> (Inl e, w2)
           | (Inr rest, w2) \<Rightarrow> (Inr (rs @ rest), w2)))"

text \<open>The page of a collection that starts at \<open>n\<close>, with the token of the page after it.\<close>

definition page_of :: "(int \<Rightarrow> string) \<Rightarrow> nat \<Rightarrow> 'r list \<Rightarrow> nat \<Rightarrow> 'r list \<times> string option" where
  "page_of enc lim xs n =
     (let rs = take lim (drop n xs)
      in (rs, if rs \<noteq> [] \<and> n + length rs < length xs then Some (enc (int (n + length rs))) else None))"

text \<open>The law of a list operation with opaque tokens over a collection that stays the same.\<close>

locale paged_op =
  fixes op :: "string option \<Rightarrow> ('w, 'r list \<times> string option) call"
    and items :: "'w \<Rightarrow> 'r list"
    and inv :: "'w \<Rightarrow> bool"
    and enc :: "int \<Rightarrow> string"
    and lim :: nat
  assumes lim_pos: "0 < lim"
    and first_page: "inv w \<Longrightarrow> op None w = (Inr (page_of enc lim (items w) 0), w)"
    and next_page: "inv w \<Longrightarrow> n < length (items w) \<Longrightarrow>
      op (Some (enc (int n))) w = (Inr (page_of enc lim (items w) n), w)"
begin

lemma follow_from:
  assumes "inv w" and "op token w = (Inr (page_of enc lim (items w) n), w)"
    and "length (items w) - n < fuel"
  shows "follow_pages fuel op token w = (Inr (drop n (items w)), w)"
  using assms(2,3)
proof (induction fuel arbitrary: n token)
  case 0
  then show ?case by simp
next
  case (Suc fuel)
  let ?rs = "take lim (drop n (items w))" and ?m = "n + length (take lim (drop n (items w)))"
  have split: "drop n (items w) = ?rs @ drop lim (drop n (items w))"
    by (rule append_take_drop_id [symmetric])
  show ?case
  proof (cases "?rs \<noteq> [] \<and> ?m < length (items w)")
    case False
    with lim_pos have "drop lim (drop n (items w)) = []" by auto
    then have "?rs = drop n (items w)" by simp
    moreover have "snd (page_of enc lim (items w) n) = None" using False by (simp only: page_of_def Let_def snd_conv if_False)
    moreover have "fst (page_of enc lim (items w) n) = ?rs" by (simp add: page_of_def Let_def)
    ultimately show ?thesis using Suc.prems(1)
      by (cases "page_of enc lim (items w) n") simp
  next
    case True
    then have m: "?m = n + lim" and lt: "n + lim < length (items w)" using lim_pos by auto
    have "page_of enc lim (items w) n = (?rs, Some (enc (int (n + lim))))"
      unfolding page_of_def Let_def m using True m by simp
    moreover have "follow_pages fuel op (Some (enc (int (n + lim)))) w = (Inr (drop (n + lim) (items w)), w)"
      by (rule Suc.IH) (use next_page [OF assms(1) lt] Suc.prems(2) lim_pos lt in auto)
    ultimately show ?thesis using Suc.prems(1) split by (simp add: add.commute)
  qed
qed

lemma follow_all: "inv w \<Longrightarrow> follow_pages (Suc (length (items w))) op None w = (Inr (items w), w)"
  using follow_from [of w None 0 "Suc (length (items w))"] first_page by (simp del: follow_pages.simps)

end

section \<open>Properties\<close>

text \<open>
  C23. A page token round-trips: decoding the token of any offset in the non-negative
  \<open>int32\<close> range gives back that offset, for the cluster and for the VM codec.
\<close>

theorem page_token_roundtrip:
  assumes "0 \<le> n" and "n \<le> MaxInt32"
  shows "decodePageToken (encodePageToken n) = Inr n \<and>
    vm_decodePageToken (vm_encodePageToken n) = Inr n"
  using cluster_token.decode_encode [OF assms] vm_token.decode_encode [OF assms] by blast

theorem page_token_roundtrip_witness:
  "decodePageToken (encodePageToken 150) = Inr 150 \<and>
   vm_decodePageToken (vm_encodePageToken 150) = Inr 150"
  by (rule page_token_roundtrip) (simp_all add: MaxInt32_def)

text \<open>
  Whatever string a caller sends as a page token, decoding it either gives an offset in
  the non-negative \<open>int32\<close> range or an invalid-argument error: a tampered token never becomes
  a wrapped or negative offset and never an internal error.
\<close>

lemma page_token_total:
  shows "(\<exists>n. decodePageToken t = Inr n \<and> 0 \<le> n \<and> n \<le> MaxInt32) \<or>
    (\<exists>e. decodePageToken t = Inl e \<and> grpc_code e = InvalidArgument)"
  by (cases rule: cluster_token.decode_cases [of t]) blast+

text \<open>
  \<open>NormalizeMaxPageSize\<close> with the services' default of 50 answers a page size between 1
  and 100 for every requested size that is absent or not negative, echoes sizes from 1 to 100,
  and rejects exactly the negative ones.
\<close>

lemma page_size_contract:
  shows "(case NormalizeMaxPageSize value 50 of
      Inl e \<Rightarrow> grpc_code e = InvalidArgument \<and> (\<exists>v. value = Some v \<and> v < 0)
    | Inr n \<Rightarrow> 1 \<le> n \<and> n \<le> 100 \<and>
        (case value of None \<Rightarrow> n = 50
         | Some v \<Rightarrow> 0 \<le> v \<and> n = (if v = 0 then 50 else min v 100)))"
  by (simp add: NormalizeMaxPageSize_def maxPageSize_def split: option.split)

end
