(* ===== verification/Version_Matrix.thy ===== *)
theory Version_Matrix
  imports Go_Strings "HOL-Library.List_Lexorder" "HOL-Library.Char_ord"
begin

text \<open>
  \<open>internal/versionmatrix\<close>: the Kubernetes versions this provider supports. A matrix is the
  list of its entries, in any order, with distinct keys. Go compares and sorts strings byte by
  byte, which is the lexicographic order on lists of characters. \<open>os.ReadFile\<close> and
  \<open>json.Unmarshal\<close> are arguments of \<open>Load\<close>: what the file system holds, and the decoded
  map of a text.
\<close>

type_synonym Matrix = "(string \<times> string) list"

definition DefaultMatrix :: Matrix where
  "DefaultMatrix =
    [(''1.29'', ''quay.io/openshift-release-dev/ocp-release:4.16.0-multi''),
     (''1.30'', ''quay.io/openshift-release-dev/ocp-release:4.17.0-multi''),
     (''1.31'', ''quay.io/openshift-release-dev/ocp-release:4.18.0-multi''),
     (''1.32'', ''quay.io/openshift-release-dev/ocp-release:4.19.0-multi''),
     (''1.33'', ''quay.io/openshift-release-dev/ocp-release:4.20.0-multi'')]"

definition Matrix_Lookup :: "Matrix \<Rightarrow> string \<Rightarrow> string option" where
  "Matrix_Lookup m version = map_of m version"

definition SupportedVersions :: "Matrix \<Rightarrow> string list" where
  "SupportedVersions m = sort (map fst m)"

text \<open>The validation loop of \<open>Load\<close> over the decoded entries.\<close>

fun check_entries :: "string \<Rightarrow> Matrix \<Rightarrow> go_error option" where
  "check_entries path [] = None"
| "check_entries path ((version, img) # rest) =
     (if version = '''' then
        Some (PlainError [Lit ''version matrix file '', Quoted path,
          Lit '' contains an entry with an empty version key''])
      else if img = '''' then
        Some (PlainError [Lit ''version matrix file '', Quoted path,
          Lit '' contains an empty release_image for version '', Quoted version])
      else check_entries path rest)"

definition Matrix_Load ::
  "(string \<Rightarrow> string res) \<Rightarrow> (string \<Rightarrow> Matrix res) \<Rightarrow> string \<Rightarrow> Matrix res" where
  "Matrix_Load readFile unmarshal path =
     (if path = '''' then Inr DefaultMatrix
      else case readFile path of
        Inl err \<Rightarrow> Inl (WrapError [Lit ''reading version matrix file '', Quoted path] err)
      | Inr data \<Rightarrow>
          (case unmarshal data of
             Inl err \<Rightarrow> Inl (WrapError [Lit ''parsing version matrix file '', Quoted path] err)
           | Inr m \<Rightarrow>
               if length m = 0 then
                 Inl (PlainError [Lit ''version matrix file '', Quoted path, Lit '' contains no entries''])
               else (case check_entries path m of Some err \<Rightarrow> Inl err | None \<Rightarrow> Inr m)))"

section \<open>Lemmas\<close>

lemma check_entries_None:
  "check_entries path m = None \<longleftrightarrow> (\<forall>(v, img) \<in> set m. v \<noteq> '''' \<and> img \<noteq> '''')"
  by (induction path m rule: check_entries.induct) auto

lemma DefaultMatrix_keys: "map fst DefaultMatrix = [''1.29'', ''1.30'', ''1.31'', ''1.32'', ''1.33'']"
  by (simp add: DefaultMatrix_def)

lemma DefaultMatrix_usable: "\<forall>(v, img) \<in> set DefaultMatrix. v \<noteq> '''' \<and> img \<noteq> ''''"
  by (simp add: DefaultMatrix_def)

lemma set_SupportedVersions: "set (SupportedVersions m) = fst ` set m"
  by (simp add: SupportedVersions_def)

lemma Matrix_Lookup_SupportedVersions:
  "v \<in> set (SupportedVersions m) \<longleftrightarrow> Matrix_Lookup m v \<noteq> None"
  by (simp add: set_SupportedVersions Matrix_Lookup_def map_of_eq_None_iff)

section \<open>Properties\<close>

text \<open>
  A loaded matrix is usable: it has at least one entry and no entry with an empty version
  or an empty image, whatever the file holds and however its JSON decodes; with no path it is
  the built-in table.
\<close>

lemma Matrix_Load_usable:
  assumes "Matrix_Load readFile unmarshal path = Inr m"
  shows "m \<noteq> [] \<and> (\<forall>(v, img) \<in> set m. v \<noteq> '''' \<and> img \<noteq> '''') \<and>
    (path = '''' \<longrightarrow> m = DefaultMatrix)"
proof (cases "path = ''''")
  case True
  with assms DefaultMatrix_usable show ?thesis by (auto simp: Matrix_Load_def DefaultMatrix_def)
next
  case False
  with assms show ?thesis
    by (auto simp: Matrix_Load_def check_entries_None split: sum.splits option.splits if_splits)
qed

theorem Matrix_Load_usable_witness:
  "Matrix_Load (\<lambda>_. Inl (PlainError [])) (\<lambda>_. Inl (PlainError [])) '''' = Inr DefaultMatrix \<and>
   DefaultMatrix \<noteq> [] \<and> list_all (\<lambda>(v, img). v \<noteq> '''' \<and> img \<noteq> '''') DefaultMatrix"
proof -
  have load: "Matrix_Load (\<lambda>_. Inl (PlainError [])) (\<lambda>_. Inl (PlainError [])) '''' = Inr DefaultMatrix"
    by (simp add: Matrix_Load_def)
  from Matrix_Load_usable [OF this] load show ?thesis by (auto simp: list_all_iff)
qed

text \<open>
  C39. The advertised version list depends only on the matrix, not on the iteration order of the
  Go map: any two orders of the same entries give the same sorted list, which holds exactly the
  versions that \<open>Lookup\<close> accepts.
\<close>

theorem SupportedVersions_deterministic:
  assumes "distinct (map fst m)" and "distinct (map fst m')" and "set m = set m'"
  shows "SupportedVersions m = SupportedVersions m' \<and> sorted (SupportedVersions m) \<and>
    distinct (SupportedVersions m) \<and> (\<forall>v. v \<in> set (SupportedVersions m) \<longleftrightarrow> Matrix_Lookup m' v \<noteq> None)"
proof -
  have s: "set (map fst m) = set (map fst m')" using assms(3) by simp
  have "sort (map fst m) = sort (map fst m')"
    using assms(1,2) s by (intro sorted_distinct_set_unique) simp_all
  moreover have "v \<in> set (SupportedVersions m) \<longleftrightarrow> Matrix_Lookup m' v \<noteq> None" for v
    using Matrix_Lookup_SupportedVersions [of v m'] assms(3) by (simp add: set_SupportedVersions)
  ultimately show ?thesis using assms(1,2) by (simp add: SupportedVersions_def)
qed

theorem SupportedVersions_deterministic_witness:
  "SupportedVersions DefaultMatrix = SupportedVersions (rev DefaultMatrix) \<and>
   sorted (SupportedVersions DefaultMatrix) \<and> distinct (SupportedVersions DefaultMatrix) \<and>
   (\<forall>v. v \<in> set (SupportedVersions DefaultMatrix) \<longleftrightarrow> Matrix_Lookup (rev DefaultMatrix) v \<noteq> None)"
proof (rule SupportedVersions_deterministic)
  show d: "distinct (map fst DefaultMatrix)" by (simp add: DefaultMatrix_keys)
  then show "distinct (map fst (rev DefaultMatrix))" by (simp add: rev_map [symmetric])
qed (simp only: set_rev)

end
