(* ===== verification/Api_Types.thy ===== *)
theory Api_Types
  imports Go_Strings
begin

text \<open>
  The REST schema, \<open>api/v1alpha1/types.gen.go\<close>: its enumerations as datatypes with the
  string each constant stands for, its structs as records. An optional field (\<open>*T\<close> with
  \<open>omitempty\<close>) is an \<open>option\<close>; a time stamp is an \<open>int\<close> (nanoseconds).
\<close>

section \<open>Enumerations\<close>

datatype ClusterStatus =
    ClusterStatusACTIVE | ClusterStatusDEGRADED | ClusterStatusDELETED | ClusterStatusDELETING
  | ClusterStatusFAILED | ClusterStatusPROGRESSING | ClusterStatusUNAVAILABLE

fun ClusterStatus_string :: "ClusterStatus \<Rightarrow> string" where
  "ClusterStatus_string ClusterStatusACTIVE = ''ACTIVE''"
| "ClusterStatus_string ClusterStatusDEGRADED = ''DEGRADED''"
| "ClusterStatus_string ClusterStatusDELETED = ''DELETED''"
| "ClusterStatus_string ClusterStatusDELETING = ''DELETING''"
| "ClusterStatus_string ClusterStatusFAILED = ''FAILED''"
| "ClusterStatus_string ClusterStatusPROGRESSING = ''PROGRESSING''"
| "ClusterStatus_string ClusterStatusUNAVAILABLE = ''UNAVAILABLE''"

definition ClusterStatus_Valid :: "string \<Rightarrow> bool" where
  "ClusterStatus_Valid e \<longleftrightarrow>
     e = ''ACTIVE'' \<or> e = ''DEGRADED'' \<or> e = ''DELETED'' \<or> e = ''DELETING'' \<or> e = ''FAILED'' \<or>
     e = ''PROGRESSING'' \<or> e = ''UNAVAILABLE''"

datatype ErrorType =
    ErrorTypeALREADYEXISTS | ErrorTypeINTERNAL | ErrorTypeINVALIDARGUMENT | ErrorTypeNOTFOUND
  | ErrorTypePERMISSIONDENIED | ErrorTypeUNAUTHENTICATED | ErrorTypeUNAVAILABLE

fun ErrorType_string :: "ErrorType \<Rightarrow> string" where
  "ErrorType_string ErrorTypeALREADYEXISTS = ''https://dcm-project.github.io/problems/already-exists''"
| "ErrorType_string ErrorTypeINTERNAL = ''https://dcm-project.github.io/problems/internal''"
| "ErrorType_string ErrorTypeINVALIDARGUMENT = ''https://dcm-project.github.io/problems/invalid-argument''"
| "ErrorType_string ErrorTypeNOTFOUND = ''https://dcm-project.github.io/problems/not-found''"
| "ErrorType_string ErrorTypePERMISSIONDENIED = ''https://dcm-project.github.io/problems/permission-denied''"
| "ErrorType_string ErrorTypeUNAUTHENTICATED = ''https://dcm-project.github.io/problems/unauthenticated''"
| "ErrorType_string ErrorTypeUNAVAILABLE = ''https://dcm-project.github.io/problems/unavailable''"

definition ErrorType_Valid :: "string \<Rightarrow> bool" where
  "ErrorType_Valid e \<longleftrightarrow>
     e = ''https://dcm-project.github.io/problems/already-exists'' \<or>
     e = ''https://dcm-project.github.io/problems/internal'' \<or>
     e = ''https://dcm-project.github.io/problems/invalid-argument'' \<or>
     e = ''https://dcm-project.github.io/problems/not-found'' \<or>
     e = ''https://dcm-project.github.io/problems/permission-denied'' \<or>
     e = ''https://dcm-project.github.io/problems/unauthenticated'' \<or>
     e = ''https://dcm-project.github.io/problems/unavailable''"

datatype HealthStatus = Healthy | Unhealthy

fun HealthStatus_string :: "HealthStatus \<Rightarrow> string" where
  "HealthStatus_string Healthy = ''healthy''"
| "HealthStatus_string Unhealthy = ''unhealthy''"

definition HealthStatus_Valid :: "string \<Rightarrow> bool" where
  "HealthStatus_Valid e \<longleftrightarrow> e = ''healthy'' \<or> e = ''unhealthy''"

datatype VMStatus =
    VMStatusDELETED | VMStatusDELETING | VMStatusFAILED | VMStatusPAUSED
  | VMStatusPROVISIONING | VMStatusRUNNING | VMStatusSTOPPED | VMStatusSTOPPING

fun VMStatus_string :: "VMStatus \<Rightarrow> string" where
  "VMStatus_string VMStatusDELETED = ''DELETED''"
| "VMStatus_string VMStatusDELETING = ''DELETING''"
| "VMStatus_string VMStatusFAILED = ''FAILED''"
| "VMStatus_string VMStatusPAUSED = ''PAUSED''"
| "VMStatus_string VMStatusPROVISIONING = ''PROVISIONING''"
| "VMStatus_string VMStatusRUNNING = ''RUNNING''"
| "VMStatus_string VMStatusSTOPPED = ''STOPPED''"
| "VMStatus_string VMStatusSTOPPING = ''STOPPING''"

definition VMStatus_Valid :: "string \<Rightarrow> bool" where
  "VMStatus_Valid e \<longleftrightarrow>
     e = ''DELETED'' \<or> e = ''DELETING'' \<or> e = ''FAILED'' \<or> e = ''PAUSED'' \<or> e = ''PROVISIONING'' \<or>
     e = ''RUNNING'' \<or> e = ''STOPPED'' \<or> e = ''STOPPING''"

lemma inj_ClusterStatus_string: "ClusterStatus_string a = ClusterStatus_string b \<longleftrightarrow> a = b"
  by (cases a; cases b) simp_all

lemma inj_VMStatus_string: "VMStatus_string a = VMStatus_string b \<longleftrightarrow> a = b"
  by (cases a; cases b) simp_all

section \<open>Clusters\<close>

record api_ClusterNodeSet =
  ans_HostType :: "string option"
  ans_Size :: "int option"

record OSACProviderHints =
  oph_BaseDomain :: "string option"
  oph_PullSecret :: "string option"
  oph_ReleaseImage :: "string option"
  oph_SshKey :: "string option"
  oph_TemplateId :: string

record ClusterWorkerNodes =
  wn_Count :: int
  wn_Cpu :: "int option"
  wn_Memory :: "string option"
  wn_Storage :: "string option"

record ClusterNodes =
  cn_Worker :: ClusterWorkerNodes

record ClusterMetadata =
  cmd_Labels :: "(string \<rightharpoonup> string) option"
  cmd_Name :: string

record ClusterProviderHints =
  cph_Osac :: OSACProviderHints

record api_ClusterSpec =
  acs_Metadata :: ClusterMetadata
  acs_Nodes :: ClusterNodes
  acs_ProviderHints :: ClusterProviderHints
  acs_Version :: string

record api_Cluster =
  ac_CreateTime :: "int option"
  ac_Id :: "string option"
  ac_Kubeconfig :: "string option"
  ac_NodeSets :: "(string \<times> api_ClusterNodeSet) list option"
  ac_Path :: "string option"
  ac_Spec :: "api_ClusterSpec option"
  ac_Status :: "ClusterStatus option"
  ac_StatusMessage :: "string option"
  ac_UpdateTime :: "int option"
  ac_Version :: "string option"

text \<open>Go's zero value, what \<open>return v1alpha1.Cluster{}, err\<close> and composite literals start from.\<close>

definition api_Cluster_zero :: api_Cluster where
  "api_Cluster_zero = \<lparr>ac_CreateTime = None, ac_Id = None, ac_Kubeconfig = None,
     ac_NodeSets = None, ac_Path = None, ac_Spec = None, ac_Status = None,
     ac_StatusMessage = None, ac_UpdateTime = None, ac_Version = None\<rparr>"

record ClusterList =
  acl_NextPageToken :: "string option"
  acl_Results :: "api_Cluster list"

section \<open>Virtual machines\<close>

record OSACVMProviderHints =
  ovh_InstanceType :: string
  ovh_TemplateId :: string
  ovh_Windows :: "bool option"

record VMAccess =
  va_SshPublicKey :: "string option"

record VMDisk =
  vd_Capacity :: string
  vd_Name :: string

record VMGuestOS =
  vg_Type :: string

record VMMemory =
  vmem_Size :: string

record VMMetadata =
  vmd_Labels :: "(string \<rightharpoonup> string) option"
  vmd_Name :: string

record VMProviderHints =
  vph_Osac :: OSACVMProviderHints

record VMStorage =
  vst_Disks :: "VMDisk list"

record VMVCPU =
  vcpu_Count :: int

record VMSpec =
  vs_Access :: "VMAccess option"
  vs_GuestOs :: VMGuestOS
  vs_Memory :: "VMMemory option"
  vs_Metadata :: VMMetadata
  vs_ProviderHints :: VMProviderHints
  vs_Storage :: VMStorage
  vs_Vcpu :: "VMVCPU option"

record VirtualMachine =
  vm_CreateTime :: "int option"
  vm_ExternalIpAddress :: "string option"
  vm_Id :: "string option"
  vm_InternalIpAddress :: "string option"
  vm_Path :: "string option"
  vm_Spec :: "VMSpec option"
  vm_Status :: VMStatus
  vm_StatusMessage :: "string option"
  vm_UpdateTime :: "int option"

record VirtualMachineList =
  vml_NextPageToken :: "string option"
  vml_Results :: "VirtualMachine list"

section \<open>Errors, health and request parameters\<close>

record api_Error =
  err_Detail :: "string option"
  err_Instance :: "string option"
  err_Status :: "int option"
  err_Title :: string
  err_Type :: ErrorType

record api_Health =
  hl_Detail :: "string option"
  hl_Path :: "string option"
  hl_Status :: HealthStatus
  hl_Type :: "string option"
  hl_Uptime :: "int option"
  hl_Version :: "string option"

record ListParams =
  lp_PageToken :: "string option"
  lp_MaxPageSize :: "int option"

record CreateParams =
  cp_Id :: "string option"

section \<open>Every constant is valid and nothing else is\<close>

text \<open>
  The generated \<open>Valid\<close> methods accept exactly the strings of the declared constants of
  the cluster and VM status enumerations, of the error types and of the health statuses.
\<close>

lemma enum_valid_iff_constant:
  shows "(ClusterStatus_Valid e \<longleftrightarrow> e \<in> range ClusterStatus_string) \<and>
    (VMStatus_Valid e \<longleftrightarrow> e \<in> range VMStatus_string) \<and>
    (ErrorType_Valid e \<longleftrightarrow> e \<in> range ErrorType_string) \<and>
    (HealthStatus_Valid e \<longleftrightarrow> e \<in> range HealthStatus_string)"
proof (intro conjI)
  have u: "(UNIV :: ClusterStatus set) = {ClusterStatusACTIVE, ClusterStatusDEGRADED,
     ClusterStatusDELETED, ClusterStatusDELETING, ClusterStatusFAILED, ClusterStatusPROGRESSING,
     ClusterStatusUNAVAILABLE}" by (auto intro: ClusterStatus.exhaust)
  show "ClusterStatus_Valid e \<longleftrightarrow> e \<in> range ClusterStatus_string"
    by (simp only: ClusterStatus_Valid_def u image_insert image_empty ClusterStatus_string.simps insert_iff
        empty_iff simp_thms)
  have u: "(UNIV :: VMStatus set) = {VMStatusDELETED, VMStatusDELETING, VMStatusFAILED,
     VMStatusPAUSED, VMStatusPROVISIONING, VMStatusRUNNING, VMStatusSTOPPED, VMStatusSTOPPING}"
    by (auto intro: VMStatus.exhaust)
  show "VMStatus_Valid e \<longleftrightarrow> e \<in> range VMStatus_string"
    by (simp only: VMStatus_Valid_def u image_insert image_empty VMStatus_string.simps insert_iff
        empty_iff simp_thms)
  have u: "(UNIV :: ErrorType set) = {ErrorTypeALREADYEXISTS, ErrorTypeINTERNAL,
     ErrorTypeINVALIDARGUMENT, ErrorTypeNOTFOUND, ErrorTypePERMISSIONDENIED,
     ErrorTypeUNAUTHENTICATED, ErrorTypeUNAVAILABLE}" by (auto intro: ErrorType.exhaust)
  show "ErrorType_Valid e \<longleftrightarrow> e \<in> range ErrorType_string"
    by (simp only: ErrorType_Valid_def u image_insert image_empty ErrorType_string.simps insert_iff
        empty_iff simp_thms)
  have u: "(UNIV :: HealthStatus set) = {Healthy, Unhealthy}" by (auto intro: HealthStatus.exhaust)
  show "HealthStatus_Valid e \<longleftrightarrow> e \<in> range HealthStatus_string"
    by (simp only: HealthStatus_Valid_def u image_insert image_empty HealthStatus_string.simps insert_iff
        empty_iff simp_thms)
qed

end
