(* ===== verification/Grpc_Error.thy ===== *)
theory Grpc_Error
  imports Api_Types
begin

text \<open>
  From a gRPC error to an RFC 9457 problem response: \<open>internal/grpcerror\<close>,
  \<open>internal/httperror\<close> and the two \<open>error.go\<close> files of \<open>internal/handlers\<close>, which hold two
  copies of the same table. The locale \<open>error_mapper\<close> is what the handlers rely on; both
  copies are interpreted in it. Logging is not modelled.
\<close>

section \<open>The two classification tables\<close>

definition StatusBadRequest :: int where [simp]: "StatusBadRequest = 400"
definition StatusUnauthorized :: int where [simp]: "StatusUnauthorized = 401"
definition StatusForbidden :: int where [simp]: "StatusForbidden = 403"
definition StatusNotFound :: int where [simp]: "StatusNotFound = 404"
definition StatusConflict :: int where [simp]: "StatusConflict = 409"
definition StatusInternalServerError :: int where [simp]: "StatusInternalServerError = 500"
definition StatusBadGateway :: int where [simp]: "StatusBadGateway = 502"

definition InternalTitle :: string where
  "InternalTitle = ''Internal Server Error''"

definition InternalDetail :: string where
  "InternalDetail = ''an unexpected error occurred''"

definition Classify :: "go_error \<Rightarrow> int \<times> ErrorType \<times> string" where
  "Classify err = (case grpc_code err of
       InvalidArgument \<Rightarrow> (StatusBadRequest, ErrorTypeINVALIDARGUMENT, ''Bad Request'')
     | Unauthenticated \<Rightarrow> (StatusUnauthorized, ErrorTypeUNAUTHENTICATED, ''Unauthorized'')
     | PermissionDenied \<Rightarrow> (StatusForbidden, ErrorTypePERMISSIONDENIED, ''Forbidden'')
     | NotFound \<Rightarrow> (StatusNotFound, ErrorTypeNOTFOUND, ''Not Found'')
     | AlreadyExists \<Rightarrow> (StatusConflict, ErrorTypeALREADYEXISTS, ''Conflict'')
     | Unavailable \<Rightarrow> (StatusBadGateway, ErrorTypeUNAVAILABLE, ''Bad Gateway'')
     | DeadlineExceeded \<Rightarrow> (StatusBadGateway, ErrorTypeUNAVAILABLE, ''Bad Gateway'')
     | _ \<Rightarrow> (StatusInternalServerError, ErrorTypeINTERNAL, InternalTitle))"

definition classifyError :: "go_error \<Rightarrow> int \<times> ErrorType \<times> string" where
  "classifyError err = (case grpc_code err of
       InvalidArgument \<Rightarrow> (StatusBadRequest, ErrorTypeINVALIDARGUMENT, ''Bad Request'')
     | Unauthenticated \<Rightarrow> (StatusUnauthorized, ErrorTypeUNAUTHENTICATED, ''Unauthorized'')
     | PermissionDenied \<Rightarrow> (StatusForbidden, ErrorTypePERMISSIONDENIED, ''Forbidden'')
     | NotFound \<Rightarrow> (StatusNotFound, ErrorTypeNOTFOUND, ''Not Found'')
     | AlreadyExists \<Rightarrow> (StatusConflict, ErrorTypeALREADYEXISTS, ''Conflict'')
     | Unavailable \<Rightarrow> (StatusBadGateway, ErrorTypeUNAVAILABLE, ''Bad Gateway'')
     | DeadlineExceeded \<Rightarrow> (StatusBadGateway, ErrorTypeUNAVAILABLE, ''Bad Gateway'')
     | _ \<Rightarrow> (StatusInternalServerError, ErrorTypeINTERNAL, InternalTitle))"

section \<open>Error responses\<close>

text \<open>
  What reaches the client: status line, content type and body (the structure that
  \<open>json.Encoder\<close> writes).
\<close>

record http_error =
  he_Status :: int
  he_ContentType :: string
  he_Body :: api_Error

definition WriteResponse ::
  "int \<Rightarrow> ErrorType \<Rightarrow> string \<Rightarrow> string \<Rightarrow> string option \<Rightarrow> http_error" where
  "WriteResponse statusCode errType title detail inst =
     \<lparr>he_Status = statusCode,
      he_ContentType = ''application/problem+json'',
      he_Body = \<lparr>err_Detail = Ptr detail, err_Instance = inst, err_Status = Ptr (wrap32 statusCode),
                 err_Title = title, err_Type = errType\<rparr>\<rparr>"

record mappedError =
  me_status :: int
  me_errType :: ErrorType
  me_title :: string
  me_detail :: string

definition respond :: "mappedError \<Rightarrow> http_error" where
  "respond e = WriteResponse (me_status e) (me_errType e) (me_title e) (me_detail e) None"

text \<open>\<open>err_text\<close> is \<open>err.Error()\<close>: how an error prints.\<close>

definition mapError_cluster :: "(go_error \<Rightarrow> string) \<Rightarrow> go_error \<Rightarrow> mappedError" where
  "mapError_cluster err_text err =
     (let (status, errType, title) = classifyError err;
          detail = (if status = StatusInternalServerError then InternalDetail else err_text err)
      in \<lparr>me_status = status, me_errType = errType, me_title = title, me_detail = detail\<rparr>)"

definition mapError_vm :: "(go_error \<Rightarrow> string) \<Rightarrow> go_error \<Rightarrow> mappedError" where
  "mapError_vm err_text err =
     (let (status, errType, title) = Classify err;
          detail = (if status = StatusInternalServerError then InternalDetail else err_text err)
      in \<lparr>me_status = status, me_errType = errType, me_title = title, me_detail = detail\<rparr>)"

section \<open>What the handlers rely on\<close>

text \<open>
  A classifier reads an error only through its gRPC code, answers an error status, and the
  mapper replaces the text of an internal error.
\<close>

locale error_mapper =
  fixes classify :: "go_error \<Rightarrow> int \<times> ErrorType \<times> string"
    and mapper :: "(go_error \<Rightarrow> string) \<Rightarrow> go_error \<Rightarrow> mappedError"
  assumes classify_by_code: "grpc_code e = grpc_code e' \<Longrightarrow> classify e = classify e'"
    and classify_status: "fst (classify e) \<in> {400, 401, 403, 404, 409, 500, 502}"
    and classify_internal: "fst (classify e) = 500 \<longleftrightarrow> grpc_code e \<notin>
      {InvalidArgument, Unauthenticated, PermissionDenied, NotFound, AlreadyExists, Unavailable,
       DeadlineExceeded}"
    and mapper_fields: "mapper txt e =
      \<lparr>me_status = fst (classify e), me_errType = fst (snd (classify e)),
       me_title = snd (snd (classify e)),
       me_detail = (if fst (classify e) = 500 then InternalDetail else txt e)\<rparr>"
begin

lemma detail_of_code:
  "me_detail (mapper txt e) =
     (if grpc_code e \<in> {InvalidArgument, Unauthenticated, PermissionDenied, NotFound,
        AlreadyExists, Unavailable, DeadlineExceeded} then txt e else InternalDetail)"
  using classify_internal [of e] by (auto simp: mapper_fields)

lemma status_in_range: "400 \<le> me_status (mapper txt e) \<and> me_status (mapper txt e) < 600"
  using classify_status [of e] by (auto simp: mapper_fields)

lemma respond_status: "he_Status (respond (mapper txt e)) = fst (classify e)"
  by (simp add: respond_def WriteResponse_def mapper_fields)

lemma respond_body_status:
  "err_Status (he_Body (respond (mapper txt e))) = Some (he_Status (respond (mapper txt e)))"
  using classify_status [of e]
  by (auto simp: respond_def WriteResponse_def mapper_fields is_int32_def)

lemma respond_hides_internal:
  assumes "fst (classify e) = 500" and "fst (classify e') = 500"
    and "grpc_code e = grpc_code e'"
  shows "respond (mapper txt e) = respond (mapper txt' e')"
  using assms classify_by_code [OF assms(3)] by (simp add: mapper_fields)

end

interpretation cluster_errors: error_mapper classifyError mapError_cluster
proof (unfold_locales, goal_cases)
  case (1 e e')
  then show ?case by (simp add: classifyError_def)
next
  case (2 e)
  show ?case by (simp add: classifyError_def split: Code.split)
next
  case (3 e)
  show ?case by (simp add: classifyError_def split: Code.split)
next
  case (4 tx e)
  show ?case by (simp add: mapError_cluster_def Let_def split: prod.split)
qed

interpretation vm_errors: error_mapper Classify mapError_vm
proof (unfold_locales, goal_cases)
  case (1 e e')
  then show ?case by (simp add: Classify_def)
next
  case (2 e)
  show ?case by (simp add: Classify_def split: Code.split)
next
  case (3 e)
  show ?case by (simp add: Classify_def split: Code.split)
next
  case (4 tx e)
  show ?case by (simp add: mapError_vm_def Let_def split: prod.split)
qed

section \<open>Properties\<close>

text \<open>
  The cluster handler's own table and the shared \<open>grpcerror.Classify\<close> agree on every
  error, and both REST surfaces therefore answer the same problem response for it.
\<close>

lemma classifyError_is_Classify:
  shows "classifyError = Classify \<and> mapError_cluster = mapError_vm"
proof
  show c: "classifyError = Classify" by (simp add: fun_eq_iff classifyError_def Classify_def)
  then show "mapError_cluster = mapError_vm"
    by (simp add: fun_eq_iff mapError_cluster_def mapError_vm_def)
qed

text \<open>
  The response to an error carries the error's own text exactly when its code is one of
  the seven documented ones; every other error is answered with the fixed internal detail, so
  no internal error text reaches the client. The status is always an error status and is
  repeated, unwrapped, in the body.
\<close>

lemma error_response_hides_internal_text:
  shows "err_Detail (he_Body (respond (mapError_cluster err_text err))) =
      Some (if grpc_code err \<in> {InvalidArgument, Unauthenticated, PermissionDenied, NotFound,
              AlreadyExists, Unavailable, DeadlineExceeded} then err_text err else InternalDetail) \<and>
    err_Status (he_Body (respond (mapError_cluster err_text err))) =
      Some (he_Status (respond (mapError_cluster err_text err))) \<and>
    400 \<le> he_Status (respond (mapError_cluster err_text err)) \<and>
    he_Status (respond (mapError_cluster err_text err)) < 600"
proof (intro conjI)
  show "err_Detail (he_Body (respond (mapError_cluster err_text err))) =
      Some (if grpc_code err \<in> {InvalidArgument, Unauthenticated, PermissionDenied, NotFound,
              AlreadyExists, Unavailable, DeadlineExceeded} then err_text err else InternalDetail)"
    using cluster_errors.detail_of_code [of err_text err]
    by (simp add: respond_def WriteResponse_def)
  show "err_Status (he_Body (respond (mapError_cluster err_text err))) =
      Some (he_Status (respond (mapError_cluster err_text err)))"
    by (rule cluster_errors.respond_body_status)
  show "400 \<le> he_Status (respond (mapError_cluster err_text err))"
    "he_Status (respond (mapError_cluster err_text err)) < 600"
    using cluster_errors.status_in_range [of err_text err]
    by (simp_all add: respond_def WriteResponse_def)
qed

end
