(* ===== verification/Cluster_Service.thy ===== *)
theory Cluster_Service
  imports Osac_Backend Pagination Version_Matrix Grpc_Error
begin

text \<open>
  \<open>internal/cluster\<close>: the cluster operations of the REST API translated to OSAC's
  \<open>Clusters\<close>, \<open>ClusterTemplates\<close>, \<open>ClusterVersions\<close> and \<open>Secrets\<close> services. The
  service is a record of its clients; every operation threads the state \<open>'w\<close> of the remote
  side in the order of the calls. The semantic-version library
  \<open>github.com/Masterminds/semver/v3\<close> is the argument \<open>sv\<close>.
\<close>

record 'v SemVer =
  sv_NewVersion :: "string \<Rightarrow> 'v res"
  sv_GreaterThan :: "'v \<Rightarrow> 'v \<Rightarrow> bool"
  sv_Equal :: "'v \<Rightarrow> 'v \<Rightarrow> bool"

record 'w ClusterService =
  svc_client :: "(pb_Cluster, 'w) ResourceClient"
  svc_secrets :: "(pb_Secret, 'w) ResourceClient"
  svc_templates :: "(pb_ClusterTemplate, 'w) ResourceClient"
  svc_versions :: "(pb_ClusterVersion, 'w) ResourceClient"
  svc_matrix :: Matrix

definition cluster_New ::
  "(pb_Cluster, 'w) ResourceClient \<Rightarrow> (pb_Secret, 'w) ResourceClient \<Rightarrow> (pb_ClusterTemplate, 'w) ResourceClient \<Rightarrow>
   (pb_ClusterVersion, 'w) ResourceClient \<Rightarrow> Matrix \<Rightarrow> 'w ClusterService" where
  "cluster_New client secrets templates versions matrix =
     \<lparr>svc_client = client, svc_secrets = secrets, svc_templates = templates, svc_versions = versions, svc_matrix = matrix\<rparr>"

section \<open>status.go\<close>

definition is_degraded :: "pb_ClusterCondition \<Rightarrow> bool" where
  "is_degraded cond \<longleftrightarrow>
     cc_Type cond = CLUSTER_CONDITION_TYPE_DEGRADED \<and> cc_Status cond = CONDITION_STATUS_TRUE"

definition MapStatus :: "go_error option \<Rightarrow> pb_ClusterStatus option \<Rightarrow> ClusterStatus" where
  "MapStatus err status =
     (case err of
        Some e \<Rightarrow>
          (case grpc_code e of
             Unavailable \<Rightarrow> ClusterStatusUNAVAILABLE
           | DeadlineExceeded \<Rightarrow> ClusterStatusUNAVAILABLE
           | NotFound \<Rightarrow> ClusterStatusDELETED
           | _ \<Rightarrow> ClusterStatusFAILED)
      | None \<Rightarrow>
          if ClusterStatus_GetState status = CLUSTER_STATE_UNSPECIFIED then ClusterStatusPROGRESSING
          else if ClusterStatus_GetState status = CLUSTER_STATE_FAILED then ClusterStatusFAILED
          else if ClusterStatus_GetState status = CLUSTER_STATE_DELETING then ClusterStatusDELETING
          else if ClusterStatus_GetState status = CLUSTER_STATE_DELETE_FAILED then ClusterStatusFAILED
          else if list_ex is_degraded (ClusterStatus_GetConditions status) then ClusterStatusDEGRADED
          else if ClusterStatus_GetState status = CLUSTER_STATE_READY then ClusterStatusACTIVE
          else if ClusterStatus_GetState status = CLUSTER_STATE_PROGRESSING then ClusterStatusPROGRESSING
          else ClusterStatusFAILED)"

section \<open>translate.go\<close>

definition labelManagedBy :: string where "labelManagedBy = ''dcm.io/managed-by''"
definition labelInstanceID :: string where "labelInstanceID = ''dcm.io/instance-id''"
definition labelServiceType :: string where "labelServiceType = ''dcm.io/service-type''"
definition managedByValue :: string where "managedByValue = ''dcm''"
definition serviceTypeValue :: string where "serviceTypeValue = ''cluster''"

definition ownershipLabels :: "string \<Rightarrow> (string \<rightharpoonup> string)" where
  "ownershipLabels id' =
     [labelManagedBy \<mapsto> managedByValue, labelInstanceID \<mapsto> id', labelServiceType \<mapsto> serviceTypeValue]"

definition mergeLabels :: "(string \<rightharpoonup> string) option \<Rightarrow> string \<Rightarrow> (string \<rightharpoonup> string)" where
  "mergeLabels caller id' =
     (case caller of None \<Rightarrow> Map.empty | Some m \<Rightarrow> m) ++ ownershipLabels id'"

definition toOSACCluster ::
  "string \<Rightarrow> api_ClusterSpec \<Rightarrow> string \<Rightarrow> Reference option \<Rightarrow> pb_Cluster" where
  "toOSACCluster id' spec nodeSetKey versionRef =
     (let hints = cph_Osac (acs_ProviderHints spec);
          osacSpec = \<lparr>psp_Template = Some (Reference_of_Id (oph_TemplateId hints)),
            psp_NodeSets = [(nodeSetKey, \<lparr>pns_HostType = None,
              pns_Size = wrap32 (wn_Count (cn_Worker (acs_Nodes spec)))\<rparr>)],
            psp_PullSecret = oph_PullSecret hints,
            psp_SshPublicKey = oph_SshKey hints,
            psp_Version = versionRef\<rparr>
      in \<lparr>pc_Id = id',
          pc_Metadata = Some (Metadata_zero \<lparr>md_Name := cmd_Name (acs_Metadata spec),
            md_Labels := mergeLabels (cmd_Labels (acs_Metadata spec)) id'\<rparr>),
          pc_Spec = Some osacSpec,
          pc_Status = None\<rparr>)"

definition hostTypeOf :: "pb_ClusterNodeSet \<Rightarrow> string option" where
  "hostTypeOf v =
     (case pns_HostType v of
        None \<Rightarrow> None
      | Some ref \<Rightarrow>
          let value = (if rf_Id ref = '''' then rf_Name ref else rf_Id ref)
          in if value \<noteq> '''' then Ptr value else None)"

definition toAPINodeSets ::
  "(string \<times> pb_ClusterNodeSet) list \<Rightarrow> (string \<times> api_ClusterNodeSet) list option" where
  "toAPINodeSets raw =
     (if length raw = 0 then None
      else Some (map (\<lambda>(k, v). (k, \<lparr>ans_HostType = hostTypeOf v, ans_Size = Ptr (pns_Size v)\<rparr>)) raw))"

definition toAPICluster :: "pb_Cluster option \<Rightarrow> string option \<Rightarrow> api_Cluster" where
  "toAPICluster osacCluster version =
     api_Cluster_zero \<lparr>ac_Id := Ptr (Cluster_GetId osacCluster),
       ac_Path := Ptr (''clusters/'' @ Cluster_GetId osacCluster),
       ac_Status := Ptr (MapStatus None (Cluster_GetStatus osacCluster)),
       ac_NodeSets := toAPINodeSets (ClusterStatus_GetNodeSets (Cluster_GetStatus osacCluster)),
       ac_Version := version\<rparr>"

section \<open>service.go: resolving a request\<close>

definition SupportsVersion :: "'w ClusterService \<Rightarrow> string \<Rightarrow> bool" where
  "SupportsVersion s version \<longleftrightarrow> Matrix_Lookup (svc_matrix s) version \<noteq> None"

definition resolveNodeSetKey :: "'w ClusterService \<Rightarrow> string \<Rightarrow> ('w, string) call" where
  "resolveNodeSetKey s templateID w =
     (case rc_Get (svc_templates s) templateID w of
        (Inl err, w1) \<Rightarrow>
          if grpc_code err = NotFound then
            (Inl (StatusError InvalidArgument [Lit ''template '', Quoted templateID, Lit '' not found'']), w1)
          else (Inl err, w1)
      | (Inr resp, w1) \<Rightarrow>
          let nodeSets = ClusterTemplate_GetNodeSets (or_Object resp) in
          if length nodeSets \<noteq> 1 then
            (Inl (StatusError InvalidArgument [Lit ''template '', Quoted templateID, Lit '' defines '',
               Num (int (length nodeSets)), Lit '' node sets, expected exactly 1'']), w1)
          else (Inr (foldl (\<lambda>key (k, v). k) '''' nodeSets), w1))"

text \<open>
  The loop over the catalog. \<open>selected\<close> and \<open>selectedVersion\<close> are always set together, so
  the model pairs them.
\<close>

definition eligible :: "'v SemVer \<Rightarrow> string \<Rightarrow> pb_ClusterVersion \<Rightarrow> 'v option" where
  "eligible sv version candidate =
     (let candidateVersion = ClusterVersionSpec_GetVersion (cv_Spec candidate) in
      if candidateVersion \<noteq> version \<and> \<not> HasPrefix candidateVersion (version @ ''.'') then None
      else if Metadata_GetName (cv_Metadata candidate) = '''' then None
      else (case sv_NewVersion sv candidateVersion of Inl err \<Rightarrow> None | Inr p \<Rightarrow> Some p))"

fun selectVersion ::
  "'v SemVer \<Rightarrow> string \<Rightarrow> (pb_ClusterVersion \<times> 'v) option \<Rightarrow> pb_ClusterVersion list \<Rightarrow>
     (pb_ClusterVersion \<times> 'v) option" where
  "selectVersion sv version selected [] = selected"
| "selectVersion sv version selected (candidate # rest) =
     (case eligible sv version candidate of
        None \<Rightarrow> selectVersion sv version selected rest
      | Some parsed \<Rightarrow>
          (case selected of
             None \<Rightarrow> selectVersion sv version (Some (candidate, parsed)) rest
           | Some (sel, selVersion) \<Rightarrow>
               if sv_GreaterThan sv parsed selVersion \<or>
                  (sv_Equal sv parsed selVersion \<and>
                   Metadata_GetName (cv_Metadata candidate) < Metadata_GetName (cv_Metadata sel))
               then selectVersion sv version (Some (candidate, parsed)) rest
               else selectVersion sv version selected rest))"

definition ListRequest_empty :: ListRequest where
  "ListRequest_empty = \<lparr>lq_Offset = None, lq_Limit = None, lq_Filter = None, lq_Order = None\<rparr>"

definition resolveVersion ::
  "'v SemVer \<Rightarrow> 'w ClusterService \<Rightarrow> string \<Rightarrow> ('w, Reference) call" where
  "resolveVersion sv s version w =
     (case rc_List (svc_versions s) ListRequest_empty w of
        (Inl err, w1) \<Rightarrow> (Inl err, w1)
      | (Inr resp, w1) \<Rightarrow>
          (case selectVersion sv version None (lr_Items resp) of
             Some (selected, _) \<Rightarrow>
               (Inr \<lparr>rf_Id = cv_Id selected, rf_Name = Metadata_GetName (cv_Metadata selected),
                     rf_Project = '''', rf_Shared = False\<rparr>, w1)
           | None \<Rightarrow>
               (Inl (StatusError InvalidArgument [Lit ''cluster version '', Quoted version,
                  Lit '' is not available from OSAC'']), w1)))"

section \<open>service.go and list.go: the operations\<close>

definition Cluster_Create ::
  "'v SemVer \<Rightarrow> 'w ClusterService \<Rightarrow> string \<Rightarrow> api_ClusterSpec \<Rightarrow> ('w, api_Cluster) call" where
  "Cluster_Create sv s id' spec w =
     (if (case oph_ReleaseImage (cph_Osac (acs_ProviderHints spec)) of
            None \<Rightarrow> False | Some override \<Rightarrow> override \<noteq> '''') then
        (Inl (StatusError InvalidArgument
           [Lit ''OSAC ClusterVersion selection does not support provider_hints.osac.release_image'']), w)
      else case resolveNodeSetKey s (oph_TemplateId (cph_Osac (acs_ProviderHints spec))) w of
        (Inl err, w1) \<Rightarrow> (Inl err, w1)
      | (Inr nodeSetKey, w1) \<Rightarrow>
     (case resolveVersion sv s (acs_Version spec) w1 of
        (Inl err, w2) \<Rightarrow> (Inl err, w2)
      | (Inr versionRef, w2) \<Rightarrow>
     (case rc_Create (svc_client s) (Some (toOSACCluster id' spec nodeSetKey (Some versionRef))) w2 of
        (Inr resp, w3) \<Rightarrow> (Inr (toAPICluster (or_Object resp) (Some (acs_Version spec))), w3)
      | (Inl err, w3) \<Rightarrow>
          if grpc_code err \<noteq> AlreadyExists then (Inl err, w3)
          else
     (case rc_Get (svc_client s) id' w3 of
        (Inr getResp, w4) \<Rightarrow> (Inr (toAPICluster (or_Object getResp) (Some (acs_Version spec))), w4)
      | (Inl getErr, w4) \<Rightarrow>
          if grpc_code getErr = NotFound then (Inl err, w4) else (Inl getErr, w4)))))"

definition Cluster_Get :: "'w ClusterService \<Rightarrow> string \<Rightarrow> ('w, api_Cluster) call" where
  "Cluster_Get s id' w =
     (case rc_Get (svc_client s) id' w of
        (Inl err, w1) \<Rightarrow> (Inl err, w1)
      | (Inr resp, w1) \<Rightarrow>
          let result = toAPICluster (or_Object resp) None in
          if ac_Status result \<noteq> Some ClusterStatusACTIVE then
            (Inr (result \<lparr>ac_Kubeconfig := Some ''''\<rparr>), w1)
          else
     (case ClusterStatus_GetKubeconfigSecret (Cluster_GetStatus (or_Object resp)) of
        None \<Rightarrow> (Inl (StatusError Internal [Lit ''ACTIVE cluster has no kubeconfig Secret reference'']), w1)
      | Some secretRef \<Rightarrow>
          if lrf_Id secretRef = '''' then
            (Inl (StatusError Internal [Lit ''ACTIVE cluster has no kubeconfig Secret reference'']), w1)
          else
     (case rc_Get (svc_secrets s) (lrf_Id secretRef) w1 of
        (Inl err, w2) \<Rightarrow>
          if grpc_code err = NotFound then
            (Inl (StatusError Internal [Lit ''kubeconfig Secret '', Quoted (lrf_Id secretRef),
               Lit '' referenced by cluster '', Quoted id', Lit '' was not found'']), w2)
          else (Inl err, w2)
      | (Inr secretResp, w2) \<Rightarrow>
     (case or_Object secretResp of
        None \<Rightarrow> (Inl (StatusError Internal [Lit ''kubeconfig Secret '', Quoted (lrf_Id secretRef),
                  Lit '' returned no object'']), w2)
      | Some secret \<Rightarrow>
     (case sec_Data secret ''kubeconfig'' of
        None \<Rightarrow> (Inl (StatusError Internal [Lit ''kubeconfig Secret '', Quoted (lrf_Id secretRef),
                  Lit '' has no non-empty kubeconfig data'']), w2)
      | Some kubeconfigBytes \<Rightarrow>
          if length kubeconfigBytes = 0 then
            (Inl (StatusError Internal [Lit ''kubeconfig Secret '', Quoted (lrf_Id secretRef),
               Lit '' has no non-empty kubeconfig data'']), w2)
          else (Inr (result \<lparr>ac_Kubeconfig := Some (StdEncode kubeconfigBytes)\<rparr>), w2))))))"

definition Cluster_Delete :: "'w ClusterService \<Rightarrow> string \<Rightarrow> ('w, unit) call" where
  "Cluster_Delete s id' w =
     (case rc_Delete (svc_client s) id' w of
        (Inl err, w1) \<Rightarrow> if grpc_code err \<noteq> NotFound then (Inl err, w1) else (Inr (), w1)
      | (Inr _, w1) \<Rightarrow> (Inr (), w1))"

definition ownershipFilter :: string where
  "ownershipFilter = ''this.metadata.labels['' @ [CHR 0x22] @ ''dcm.io/managed-by'' @ [CHR 0x22] @
     ''] == '' @ [CHR 0x22] @ ''dcm'' @ [CHR 0x22]"

definition defaultPageSize :: int where
  "defaultPageSize = 50"

definition Cluster_List :: "'w ClusterService \<Rightarrow> ListParams \<Rightarrow> ('w, ClusterList) call" where
  "Cluster_List s params w =
     (case NormalizeMaxPageSize (lp_MaxPageSize params) defaultPageSize of
        Inl err \<Rightarrow> (Inl err, w)
      | Inr limit \<Rightarrow>
     (case (case lp_PageToken params of
              None \<Rightarrow> Inr 0
            | Some t \<Rightarrow> if t = '''' then Inr 0 else decodePageToken t) of
        Inl err \<Rightarrow> (Inl err, w)
      | Inr offset \<Rightarrow>
     (case rc_List (svc_client s) \<lparr>lq_Offset = Ptr offset, lq_Limit = Ptr limit,
             lq_Filter = Ptr ownershipFilter, lq_Order = None\<rparr> w of
        (Inl err, w1) \<Rightarrow> (Inl err, w1)
      | (Inr resp, w1) \<Rightarrow>
          let results = map (\<lambda>item. toAPICluster (Some item) None) (lr_Items resp);
              nextOffset = wrap32 (offset + wrap32 (int (length results)))
          in (Inr \<lparr>acl_NextPageToken =
                (if length results > 0 \<and> nextOffset < lr_Total resp
                 then Ptr (encodePageToken nextOffset) else None),
              acl_Results = results\<rparr>, w1))))"

section \<open>Lemmas: what a request becomes\<close>

lemma toAPICluster_status [simp]:
  "ac_Status (toAPICluster c v) = Some (MapStatus None (Cluster_GetStatus c))"
  by (simp add: toAPICluster_def)

lemma toAPICluster_fields [simp]:
  "ac_Id (toAPICluster c v) = Some (Cluster_GetId c)"
  "ac_Version (toAPICluster c v) = v"
  "ac_Kubeconfig (toAPICluster c v) = None"
  by (simp_all add: toAPICluster_def api_Cluster_zero_def)

lemma pc_Id_toOSACCluster [simp]: "pc_Id (toOSACCluster i spec k v) = i"
  by (simp add: toOSACCluster_def Let_def)

lemma mergeLabels_ownership [simp]:
  "mergeLabels caller i labelManagedBy = Some managedByValue"
  "mergeLabels caller i labelInstanceID = Some i"
  "mergeLabels caller i labelServiceType = Some serviceTypeValue"
  by (simp_all add: mergeLabels_def ownershipLabels_def labelManagedBy_def labelInstanceID_def
      labelServiceType_def)

lemma mergeLabels_other:
  "k \<notin> {labelManagedBy, labelInstanceID, labelServiceType} \<Longrightarrow>
   mergeLabels caller i k = Option.bind caller (\<lambda>m. m k)"
  by (auto simp: mergeLabels_def ownershipLabels_def map_add_def split: option.split)

lemma resolveNodeSetKey_cases:
  assumes "rc_Get (svc_templates s) t w = (ans, w1)"
  shows "fst (resolveNodeSetKey s t w) = Inr k \<longleftrightarrow>
    (\<exists>r v. ans = Inr r \<and> ClusterTemplate_GetNodeSets (or_Object r) = [(k, v)])"
    and "snd (resolveNodeSetKey s t w) = w1"
  using assms
  by (auto simp: resolveNodeSetKey_def Let_def length_Suc_conv split: sum.split)

section \<open>Lemmas: choosing a version\<close>

text \<open>
  The documented behaviour of the version library: precedence is a total preorder, \<open>Equal\<close>
  is "neither is greater" (build metadata is ignored by both).
\<close>

definition semver_order :: "'v SemVer \<Rightarrow> bool" where
  "semver_order sv \<longleftrightarrow>
     (\<forall>a b. sv_Equal sv a b \<longleftrightarrow> \<not> sv_GreaterThan sv a b \<and> \<not> sv_GreaterThan sv b a) \<and>
     (\<forall>a b. sv_GreaterThan sv a b \<longrightarrow> \<not> sv_GreaterThan sv b a) \<and>
     (\<forall>a b c. \<not> sv_GreaterThan sv a b \<longrightarrow> \<not> sv_GreaterThan sv b c \<longrightarrow> \<not> sv_GreaterThan sv a c)"

definition version_name :: "pb_ClusterVersion \<Rightarrow> string" where
  "version_name c = Metadata_GetName (cv_Metadata c)"

text \<open>Newer, or as new and earlier in the order of names.\<close>

definition preferred :: "'v SemVer \<Rightarrow> pb_ClusterVersion \<times> 'v \<Rightarrow> pb_ClusterVersion \<times> 'v \<Rightarrow> bool" where
  "preferred sv x y \<longleftrightarrow> sv_GreaterThan sv (snd x) (snd y) \<or>
     (sv_Equal sv (snd x) (snd y) \<and> version_name (fst x) < version_name (fst y))"

lemma semver_orderD:
  assumes "semver_order sv"
  shows "sv_Equal sv a b \<longleftrightarrow> \<not> sv_GreaterThan sv a b \<and> \<not> sv_GreaterThan sv b a"
    and "sv_GreaterThan sv a b \<Longrightarrow> \<not> sv_GreaterThan sv b a"
    and "\<not> sv_GreaterThan sv a b \<Longrightarrow> \<not> sv_GreaterThan sv b c \<Longrightarrow> \<not> sv_GreaterThan sv a c"
  using assms unfolding semver_order_def by blast+

lemma preferred_asym: "semver_order sv \<Longrightarrow> preferred sv x y \<Longrightarrow> \<not> preferred sv y x"
  unfolding preferred_def by (metis semver_orderD(1,2) less_asym)

lemma not_preferred_trans:
  assumes sv: "semver_order sv" and xy: "\<not> preferred sv x y" and yz: "\<not> preferred sv y z"
  shows "\<not> preferred sv x z"
proof
  note o = semver_orderD [OF sv]
  assume xz: "preferred sv x z"
  have ng: "\<not> sv_GreaterThan sv (snd x) (snd y)" "\<not> sv_GreaterThan sv (snd y) (snd z)"
    using xy yz by (auto simp: preferred_def)
  then have "\<not> sv_GreaterThan sv (snd x) (snd z)" by (rule o(3))
  with xz have eq: "sv_Equal sv (snd x) (snd z)" and lt: "version_name (fst x) < version_name (fst z)"
    by (auto simp: preferred_def)
  from eq have "\<not> sv_GreaterThan sv (snd z) (snd x)" by (simp add: o(1))
  with ng have "\<not> sv_GreaterThan sv (snd y) (snd x)" "\<not> sv_GreaterThan sv (snd z) (snd y)"
    using o(3) by blast+
  with ng have "sv_Equal sv (snd x) (snd y)" "sv_Equal sv (snd y) (snd z)" by (simp_all add: o(1))
  with xy yz have "\<not> version_name (fst x) < version_name (fst y)"
    "\<not> version_name (fst y) < version_name (fst z)" by (auto simp: preferred_def)
  with lt show False by simp
qed

lemma selectVersion_step:
  "selectVersion sv version (Some s) (c # cs) =
     (case eligible sv version c of
        None \<Rightarrow> selectVersion sv version (Some s) cs
      | Some p \<Rightarrow> selectVersion sv version (Some (if preferred sv (c, p) s then (c, p) else s)) cs)"
  by (cases s) (simp add: preferred_def version_name_def split: option.split)

lemma selectVersion_Some:
  assumes sv: "semver_order sv"
  shows "\<exists>r. selectVersion sv version (Some s) cs = Some r \<and>
    (r = s \<or> fst r \<in> set cs \<and> eligible sv version (fst r) = Some (snd r)) \<and>
    \<not> preferred sv s r \<and>
    (\<forall>c \<in> set cs. \<forall>p. eligible sv version c = Some p \<longrightarrow> \<not> preferred sv (c, p) r)"
proof (induction cs arbitrary: s)
  case Nil
  then show ?case using preferred_asym [OF sv, of s s] by auto
next
  case (Cons c cs)
  show ?case
  proof (cases "eligible sv version c")
    case None
    with Cons.IH [of s] show ?thesis by (auto simp: selectVersion_step)
  next
    case (Some p)
    define t where "t = (if preferred sv (c, p) s then (c, p) else s)"
    have ts: "\<not> preferred sv s t" "\<not> preferred sv (c, p) t"
      using preferred_asym [OF sv] unfolding t_def by (metis (full_types))+
    obtain r where r: "selectVersion sv version (Some t) cs = Some r"
      "r = t \<or> fst r \<in> set cs \<and> eligible sv version (fst r) = Some (snd r)" "\<not> preferred sv t r"
      "\<forall>c \<in> set cs. \<forall>p. eligible sv version c = Some p \<longrightarrow> \<not> preferred sv (c, p) r"
      using Cons.IH [of t] by blast
    have "\<not> preferred sv s r" "\<not> preferred sv (c, p) r"
      using not_preferred_trans [OF sv] ts r(3) by blast+
    moreover have "selectVersion sv version (Some s) (c # cs) = Some r"
      using r(1) Some by (simp add: selectVersion_step t_def del: selectVersion.simps)
    ultimately show ?thesis using r(2,4) Some by (auto simp: t_def split: if_splits)
  qed
qed

lemma selectVersion_newest:
  assumes sv: "semver_order sv"
  shows "case selectVersion sv version None cs of
      None \<Rightarrow> \<forall>c \<in> set cs. eligible sv version c = None
    | Some r \<Rightarrow> fst r \<in> set cs \<and> eligible sv version (fst r) = Some (snd r) \<and>
        (\<forall>c \<in> set cs. \<forall>p. eligible sv version c = Some p \<longrightarrow> \<not> preferred sv (c, p) r)"
proof (induction cs)
  case Nil
  then show ?case by simp
next
  case (Cons c cs)
  show ?case
  proof (cases "eligible sv version c")
    case None
    with Cons.IH show ?thesis by (auto split: option.splits)
  next
    case (Some p)
    with selectVersion_Some [OF sv, of version "(c, p)" cs] show ?thesis by auto
  qed
qed

lemma eligible_Some:
  "eligible sv version c = Some p \<longleftrightarrow>
     (ClusterVersionSpec_GetVersion (cv_Spec c) = version \<or>
      HasPrefix (ClusterVersionSpec_GetVersion (cv_Spec c)) (version @ ''.'')) \<and>
     version_name c \<noteq> '''' \<and> sv_NewVersion sv (ClusterVersionSpec_GetVersion (cv_Spec c)) = Inr p"
  by (auto simp: eligible_def Let_def version_name_def split: sum.splits)

lemma snd_resolveVersion:
  "rc_List (svc_versions s) ListRequest_empty w = (ans, w1) \<Longrightarrow> snd (resolveVersion sv s v w) = w1"
  by (simp add: resolveVersion_def split: sum.split option.split prod.split)

section \<open>The service over a backend\<close>

text \<open>
  What the service promises when OSAC keeps its contract: the \<open>Clusters\<close> service is a
  \<open>resource_backend\<close>, and the template and version catalogs only answer.
\<close>

locale cluster_backend = resource_backend "svc_client svc" pc_Id lookup inv
  for svc :: "'w ClusterService" and lookup :: "'w \<Rightarrow> string \<Rightarrow> pb_Cluster option" and inv :: "'w \<Rightarrow> bool" +
  fixes template_answer :: "string \<Rightarrow> pb_ClusterTemplate ObjectResponse res"
    and version_answer :: "pb_ClusterVersion ListResponse res"
  assumes template_read: "inv w \<Longrightarrow> rc_Get (svc_templates svc) t w = (template_answer t, w)"
    and version_read: "inv w \<Longrightarrow> rc_List (svc_versions svc) ListRequest_empty w = (version_answer, w)"
begin

lemma resolveNodeSetKey_read:
  assumes "inv w" and "inv w'"
  shows "resolveNodeSetKey svc t w = (fst (resolveNodeSetKey svc t w'), w)"
  using template_read [OF assms(1)] template_read [OF assms(2)]
  by (simp add: resolveNodeSetKey_def Let_def split: sum.split)

lemma resolveVersion_read:
  assumes "inv w" and "inv w'"
  shows "resolveVersion sv svc v w = (fst (resolveVersion sv svc v w'), w)"
  using version_read [OF assms(1)] version_read [OF assms(2)]
  by (simp add: resolveVersion_def split: sum.split option.split prod.split)

lemma create_cases':
  assumes "inv w" and "i \<noteq> ''''"
  obtains (rejected) e where "\<And>w'. inv w' \<Longrightarrow> Cluster_Create sv svc i spec w' = (Inl e, w')"
  | (stored) y where "lookup w i = Some y" "Cluster_Create sv svc i spec w =
      (Inr (toAPICluster (Some y) (Some (acs_Version spec))), w)"
  | (fresh) y w' where "lookup w i = None" "pc_Id y = i"
      "Cluster_Create sv svc i spec w = (Inr (toAPICluster (Some y) (Some (acs_Version spec))), w')"
      "lookup w' = (lookup w)(i \<mapsto> y)" "inv w'"
proof (cases "(case oph_ReleaseImage (cph_Osac (acs_ProviderHints spec)) of
    None \<Rightarrow> False | Some override \<Rightarrow> override \<noteq> '''')")
  case True
  show thesis by (rule rejected) (simp add: Cluster_Create_def True)
next
  case noimg: False
  show thesis
  proof (cases "fst (resolveNodeSetKey svc (oph_TemplateId (cph_Osac (acs_ProviderHints spec))) w)")
    case (Inl e)
    show thesis
      by (rule rejected [of e])
        (simp add: Cluster_Create_def noimg resolveNodeSetKey_read [OF _ assms(1)] Inl)
  next
    case (Inr k)
    note key = resolveNodeSetKey_read [OF _ assms(1), of _ "oph_TemplateId (cph_Osac (acs_ProviderHints spec))",
        unfolded Inr]
    show thesis
    proof (cases "fst (resolveVersion sv svc (acs_Version spec) w)")
      case (Inl e)
      show thesis
        by (rule rejected [of e])
          (simp add: Cluster_Create_def noimg key resolveVersion_read [OF _ assms(1)] Inl)
    next
      case (Inr ref)
      note ver = resolveVersion_read [OF _ assms(1), of _ sv "acs_Version spec", unfolded Inr]
      note step = Cluster_Create_def [of sv svc i spec w] noimg key [OF assms(1)] ver [OF assms(1)]
      have "pc_Id (toOSACCluster i spec k (Some ref)) \<noteq> ''''" using assms(2) by simp
      with assms(1) show thesis
      proof (cases rule: create_cases)
        case (taken y m)
        then have "Cluster_Create sv svc i spec w =
            (Inr (toAPICluster (Some y) (Some (acs_Version spec))), w)"
          using get_found [OF assms(1), of i y] by (simp add: step)
        with taken show thesis by (intro stored) simp_all
      next
        case (fresh y w')
        then have "Cluster_Create sv svc i spec w =
            (Inr (toAPICluster (Some y) (Some (acs_Version spec))), w')" by (simp add: step)
        with fresh show thesis by (intro that(3)) simp_all
      qed
    qed
  qed
qed

lemma create_retry:
  assumes "inv w" and "i \<noteq> ''''" and "Cluster_Create sv svc i spec w = (Inr c, w1)"
  shows "Cluster_Create sv svc i spec w1 = (Inr c, w1)"
  using assms(1,2)
proof (cases rule: create_cases' [where sv = sv and spec = spec])
  case (rejected e)
  with assms show ?thesis by simp
next
  case (stored y)
  with assms show ?thesis by simp
next
  case (fresh y w')
  then have w': "w1 = w'" and c: "c = toAPICluster (Some y) (Some (acs_Version spec))"
    using assms(3) by simp_all
  have i1: "inv w1" and l1: "lookup w1 i = Some y" using fresh w' by simp_all
  from i1 assms(2) show ?thesis
  proof (cases rule: create_cases' [where sv = sv and spec = spec])
    case (rejected e)
    with assms show ?thesis by simp
  next
    case (stored y')
    with l1 c show ?thesis by simp
  next
    case (fresh y' w2)
    with l1 show ?thesis by simp
  qed
qed

lemma create_error_unchanged:
  assumes "inv w" and "i \<noteq> ''''" and "Cluster_Create sv svc i spec w = (Inl e, w1)"
  shows "w1 = w"
  using assms(1,2) by (cases rule: create_cases' [where sv = sv and spec = spec]) (use assms in auto)

lemma create_lookup:
  assumes "inv w" and "i \<noteq> ''''" and "Cluster_Create sv svc i spec w = (Inr c, w1)"
  shows "inv w1 \<and> (\<exists>y. lookup w1 = (lookup w)(i \<mapsto> y) \<and> c = toAPICluster (Some y) (Some (acs_Version spec)))"
  using assms(1,2)
proof (cases rule: create_cases' [where sv = sv and spec = spec])
  case (stored y)
  with assms show ?thesis by (auto intro!: exI [of _ y])
qed (use assms in auto)

lemma delete_then_gone:
  assumes "inv w"
  shows "\<exists>w1. Cluster_Delete svc i w = (Inr (), w1) \<and> inv w1 \<and> lookup w1 = (lookup w)(i := None) \<and>
    Cluster_Delete svc i w1 = (Inr (), w1) \<and>
    (\<exists>m. Cluster_Get svc i w1 = (Inl (StatusError NotFound m), w1))"
proof -
  obtain w1 where w1: "Cluster_Delete svc i w = (Inr (), w1)" "inv w1" "lookup w1 = (lookup w)(i := None)"
    using assms
  proof (cases rule: delete_cases [where i = i])
    case (absent m)
    then have "lookup w = (lookup w)(i := None)" by (simp add: fun_eq_iff)
    with absent that [of w] assms show ?thesis by (simp add: Cluster_Delete_def)
  next
    case (found w')
    with that [of w'] show ?thesis by (simp add: Cluster_Delete_def)
  qed
  from w1(3) have "lookup w1 i = None" by simp
  from delete_absent [OF w1(2) this] get_absent [OF w1(2) this] w1 show ?thesis
    by (auto simp: Cluster_Delete_def Cluster_Get_def)
qed

end

section \<open>Paging through the clusters\<close>

definition cluster_page ::
  "'w ClusterService \<Rightarrow> int option \<Rightarrow> string option \<Rightarrow> ('w, api_Cluster list \<times> string option) call" where
  "cluster_page s pageSize token w =
     (case Cluster_List s \<lparr>lp_PageToken = token, lp_MaxPageSize = pageSize\<rparr> w of
        (Inl e, w1) \<Rightarrow> (Inl e, w1)
      | (Inr l, w1) \<Rightarrow> (Inr (acl_Results l, acl_NextPageToken l), w1))"

locale cluster_pages = page_source "rc_List (svc_client svc)" objs inv
  for svc :: "'w ClusterService" and objs :: "'w \<Rightarrow> pb_Cluster list" and inv :: "'w \<Rightarrow> bool" +
  fixes pageSize :: "int option" and lim :: nat
  assumes page_size: "NormalizeMaxPageSize pageSize defaultPageSize = Inr (int lim)"
    and int32_total: "inv w \<Longrightarrow> int (length (objs w)) \<le> MaxInt32"
begin

lemma lim_bounds: "0 < lim" "int lim \<le> MaxInt32"
  using NormalizeMaxPageSize_bounds [OF page_size]
  by (simp_all add: defaultPageSize_def maxPageSize_def MaxInt32_def)

lemma page_at:
  assumes "inv w" and "n \<le> length (objs w)"
    and tok: "(case token of None \<Rightarrow> Inr 0 | Some t \<Rightarrow> if t = '''' then Inr 0 else decodePageToken t) = Inr (int n)"
  shows "cluster_page svc pageSize token w =
    (Inr (page_of encodePageToken lim (map (\<lambda>c. toAPICluster (Some c) None) (objs w)) n), w)"
proof -
  let ?rs = "take lim (drop n (objs w))"
  have t: "int (length (objs w)) \<le> MaxInt32" by (rule int32_total [OF assms(1)])
  then have n: "int n \<le> MaxInt32" using assms(2) by simp
  have page: "rc_List (svc_client svc) \<lparr>lq_Offset = Some (int n), lq_Limit = Some (int lim),
      lq_Filter = Some ownershipFilter, lq_Order = None\<rparr> w =
    (Inr \<lparr>lr_Size = int (length ?rs), lr_Total = int (length (objs w)), lr_Items = ?rs\<rparr>, w)"
    using list_page [OF assms(1) _ n _ lim_bounds(2) t] lim_bounds(1) by simp
  have len: "n + length ?rs \<le> length (objs w)" using assms(2) by simp
  then have "is_int32 (int (length ?rs))" "is_int32 (int n + int (length ?rs))"
    using t by (simp_all add: is_int32_def MaxInt32_def)
  then have w32: "wrap32 (int n + wrap32 (int (length ?rs))) = int (n + length ?rs)" by simp
  show ?thesis
    using tok w32 unfolding cluster_page_def Cluster_List_def
    by (simp add: page_size page page_of_def Let_def take_map drop_map del: length_take length_drop)
qed

end

sublocale cluster_pages \<subseteq> pages: paged_op "cluster_page svc pageSize"
  "\<lambda>w. map (\<lambda>c. toAPICluster (Some c) None) (objs w)" inv encodePageToken lim
proof
  show "0 < lim" by (rule lim_bounds)
next
  fix w assume "inv w"
  then show "cluster_page svc pageSize None w =
      (Inr (page_of encodePageToken lim (map (\<lambda>c. toAPICluster (Some c) None) (objs w)) 0), w)"
    using page_at [of w 0 None] by simp
next
  fix w n assume a: "inv w" "n < length (map (\<lambda>c. toAPICluster (Some c) None) (objs w))"
  then have "int n \<le> MaxInt32" using int32_total [OF a(1)] by simp
  with a show "cluster_page svc pageSize (Some (encodePageToken (int n))) w =
      (Inr (page_of encodePageToken lim (map (\<lambda>c. toAPICluster (Some c) None) (objs w)) n), w)"
    using page_at [of w n "Some (encodePageToken (int n))"] cluster_token.encode_nonempty
      cluster_token.decode_encode [of "int n"] by simp
qed

context cluster_pages
begin

lemma all_pages:
  "inv w \<Longrightarrow> follow_pages (Suc (length (objs w))) (cluster_page svc pageSize) None w = (Inr (map (\<lambda>c. toAPICluster (Some c) None) (objs w)), w)"
  using pages.follow_all [of w] by simp

end

end
