(* ===== verification/Vm_Disk.thy ===== *)
theory Vm_Disk
  imports Api_Types Osac_Types
begin

text \<open>
  \<open>internal/vm/disk.go\<close>: disk capacities and the split of a request's disks into the boot
  disk and the others.

  A non-negative \<open>float64\<close> is the natural number of units of \<open>2 ^ (- 1074)\<close> it stands for (the
  smallest positive value), so that rounding is arithmetic on naturals: \<open>round64 a b\<close> is
  the representable number nearest to \<open>a / b\<close> units, ties to even. \<open>math.Ceil\<close> is exact.
  Converting a \<open>float64\<close> that does not fit to \<open>int32\<close> has no value the Go specification
  fixes; that value is the argument \<open>oor\<close> (of the out-of-range integer, \<open>None\<close> for
  infinity).
\<close>

section \<open>Text\<close>

text \<open>
  The UTF-8 encodings of the white space that \<open>strings.TrimSpace\<close> removes, and the \<open>\s\<close> of
  Go's regular expressions.
\<close>

definition space_runes :: "string list" where
  "space_runes = map (map char_of) ([[9], [10], [11], [12], [13], [32], [0xC2, 0x85], [0xC2, 0xA0],
     [0xE1, 0x9A, 0x80], [0xE2, 0x80, 0x80], [0xE2, 0x80, 0x81], [0xE2, 0x80, 0x82],
     [0xE2, 0x80, 0x83], [0xE2, 0x80, 0x84], [0xE2, 0x80, 0x85], [0xE2, 0x80, 0x86],
     [0xE2, 0x80, 0x87], [0xE2, 0x80, 0x88], [0xE2, 0x80, 0x89], [0xE2, 0x80, 0x8A],
     [0xE2, 0x80, 0xA8], [0xE2, 0x80, 0xA9], [0xE2, 0x80, 0xAF], [0xE2, 0x81, 0x9F],
     [0xE3, 0x80, 0x80]] :: nat list list)"

fun trim_left :: "nat \<Rightarrow> string list \<Rightarrow> string \<Rightarrow> string" where
  "trim_left 0 runes s = s"
| "trim_left (Suc n) runes s =
     (case find (\<lambda>r. HasPrefix s r) runes of
        None \<Rightarrow> s
      | Some r \<Rightarrow> trim_left n runes (drop (length r) s))"

text \<open>Each round removes at least a byte, so the length of the text is enough rounds.\<close>

definition TrimSpace :: "string \<Rightarrow> string" where
  "TrimSpace s =
     (let l = trim_left (length s) space_runes s
      in rev (trim_left (length l) (map rev space_runes) (rev l)))"

definition is_re_space :: "char \<Rightarrow> bool" where
  "is_re_space c \<longleftrightarrow> (of_char c :: nat) \<in> {9, 10, 12, 13, 32}"

definition is_letter :: "char \<Rightarrow> bool" where
  "is_letter c \<longleftrightarrow> (let n = of_char c :: nat in (65 \<le> n \<and> n \<le> 90) \<or> (97 \<le> n \<and> n \<le> 122))"

text \<open>
  \<open>capacityPattern.FindStringSubmatch\<close>: the two groups of
  \<open>^(-?[0-9]+(?:\.[0-9]+)?)\s*([A-Za-z]+)$\<close>. Adjacent parts of the pattern have disjoint
  characters, so matching from left to right, each part as far as it goes, is complete.
\<close>

definition capacity_match :: "string \<Rightarrow> (string \<times> string) option" where
  "capacity_match s =
     (let sign = (if HasPrefix s ''-'' then ''-'' else '''');
          body = drop (length sign) s;
          ip = takeWhile is_digit body;
          r1 = dropWhile is_digit body;
          fp = (if HasPrefix r1 ''.'' then takeWhile is_digit (tl r1) else '''');
          r2 = (if HasPrefix r1 ''.'' then dropWhile is_digit (tl r1) else r1);
          number = sign @ ip @ (if HasPrefix r1 ''.'' then ''.'' @ fp else '''');
          suffix = dropWhile is_re_space r2
      in if ip = '''' \<or> (HasPrefix r1 ''.'' \<and> fp = '''') \<or> suffix = '''' \<or> \<not> list_all is_letter suffix
         then None else Some (number, suffix))"

section \<open>Floating point\<close>

definition one_unit :: nat where
  "one_unit = 2 ^ 1074"

text \<open>\<open>a / b\<close> to the nearest integer, ties to even.\<close>

definition round_half_even :: "nat \<Rightarrow> nat \<Rightarrow> nat" where
  "round_half_even a b =
     (let q = a div b; r = a mod b
      in if 2 * r < b then q else if 2 * r > b then q + 1 else if even q then q else q + 1)"

fun bit_length :: "nat \<Rightarrow> nat" where
  "bit_length n = (if n = 0 then 0 else Suc (bit_length (n div 2)))"

declare bit_length.simps [simp del]

text \<open>53 significant bits, and no bit below the unit.\<close>

definition round64 :: "nat \<Rightarrow> nat \<Rightarrow> nat" where
  "round64 a b =
     (let e = bit_length (a div b) - 53 in round_half_even a (b * 2 ^ e) * 2 ^ e)"

text \<open>The first magnitude that is not finite: \<open>2 ^ 1024\<close>.\<close>

definition inf_units :: nat where
  "inf_units = 2 ^ 1024 * one_unit"

text \<open>
  \<open>strconv.ParseFloat(s, 64)\<close> on the numbers the pattern lets through: the sign and the
  magnitude, or a range error.
\<close>

definition ParseFloat :: "string \<Rightarrow> (bool \<times> nat) res" where
  "ParseFloat s =
     (let neg = HasPrefix s ''-'';
          body = (if neg then tl s else s);
          ip = takeWhile is_digit body;
          fp = drop 1 (dropWhile is_digit body);
          u = round64 (digits_value (ip @ fp) * one_unit) (10 ^ length fp)
      in if inf_units \<le> u
         then Inl (PlainError [Lit ''strconv.ParseFloat: parsing '', Quoted s, Lit '': value out of range''])
         else Inr (neg, u))"

text \<open>\<open>math.Ceil\<close> of a finite magnitude, as an integer.\<close>

definition Ceil_units :: "nat \<Rightarrow> int" where
  "Ceil_units u = int ((u + one_unit - 1) div one_unit)"

definition to_int32 :: "(int option \<Rightarrow> int) \<Rightarrow> nat \<Rightarrow> int" where
  "to_int32 oor u =
     (if inf_units \<le> u then oor None
      else if is_int32 (Ceil_units u) then Ceil_units u else oor (Some (Ceil_units u)))"

section \<open>ParseDiskCapacityGiB\<close>

definition invalid_capacity :: "string \<Rightarrow> msg" where
  "invalid_capacity capacity = [Lit ''invalid disk capacity '', Quoted capacity]"

definition ParseDiskCapacityGiB :: "(int option \<Rightarrow> int) \<Rightarrow> string \<Rightarrow> int res" where
  "ParseDiskCapacityGiB oor capacity =
     (case capacity_match (TrimSpace capacity) of
        None \<Rightarrow> Inl (PlainError (invalid_capacity capacity @
          [Lit '': expected a number followed by a unit (e.g. '', Quoted ''100GB'', Lit '')'']))
      | Some (number, uni) \<Rightarrow>
          (case ParseFloat number of
             Inl err \<Rightarrow> Inl (WrapError (invalid_capacity capacity) err)
           | Inr (neg, value) \<Rightarrow>
               if neg \<or> value = 0 then
                 Inl (PlainError (invalid_capacity capacity @ [Lit '': must be positive'']))
               else if ToUpper uni \<in> {''GB'', ''GIB''} then Inr (to_int32 oor value)
               else if ToUpper uni \<in> {''TB'', ''TIB''} then Inr (to_int32 oor (round64 (value * 1024) 1))
               else if ToUpper uni \<in> {''MB'', ''MIB''} then Inr (to_int32 oor (round64 value 1024))
               else Inl (PlainError (invalid_capacity capacity @ [Lit '': unrecognized unit '', Quoted uni]))))"

section \<open>splitDisks\<close>

definition bootDiskName :: string where
  "bootDiskName = ''boot''"

definition invalidArgument :: "msg \<Rightarrow> go_error" where
  "invalidArgument m = StatusError InvalidArgument m"

text \<open>The loop that translates the disks; \<open>boot\<close> and \<open>additional\<close> are its two results so far.\<close>

fun translateDisks ::
  "(int option \<Rightarrow> int) \<Rightarrow> pb_ComputeInstanceDisk option \<Rightarrow> pb_ComputeInstanceDisk list \<Rightarrow> VMDisk list \<Rightarrow>
     (pb_ComputeInstanceDisk option \<times> pb_ComputeInstanceDisk list) res" where
  "translateDisks oor boot additional [] = Inr (boot, additional)"
| "translateDisks oor boot additional (d # ds) =
     (case ParseDiskCapacityGiB oor (vd_Capacity d) of
        Inl parseErr \<Rightarrow> Inl (invalidArgument ([Lit ''storage.disks['', Quoted (vd_Name d), Lit '']: '']
          @ error_msg parseErr))
      | Inr sizeGiB \<Rightarrow>
          if vd_Name d = bootDiskName
          then translateDisks oor (Some \<lparr>cid_SizeGib = sizeGiB\<rparr>) additional ds
          else translateDisks oor boot (additional @ [\<lparr>cid_SizeGib = sizeGiB\<rparr>]) ds)"

definition bootCount :: "VMDisk list \<Rightarrow> nat" where
  "bootCount disks = length (filter (\<lambda>d. vd_Name d = bootDiskName) disks)"

definition splitDisks ::
  "(int option \<Rightarrow> int) \<Rightarrow> VMDisk list \<Rightarrow>
     (pb_ComputeInstanceDisk option \<times> pb_ComputeInstanceDisk list) res" where
  "splitDisks oor disks =
     (if bootCount disks \<noteq> 1 then
        Inl (invalidArgument [Lit ''storage.disks must contain exactly one disk named '', Quoted bootDiskName,
          Lit '', found '', Num (int (bootCount disks))])
      else translateDisks oor None [] disks)"

section \<open>Lemmas: text\<close>

lemma alnum_not_space:
  assumes "is_digit c \<or> is_letter c"
  shows "find (\<lambda>r. HasPrefix (c # cs) r) space_runes = None"
    and "find (\<lambda>r. HasPrefix (c # cs) r) (map rev space_runes) = None"
proof -
  have n: "(of_char c :: nat) \<in> {48..57} \<union> {65..90} \<union> {97..122}"
    using assms by (auto simp: is_digit_def is_letter_def Let_def)
  have "\<forall>r \<in> set space_runes. r \<noteq> [] \<and> (of_char (hd r) :: nat) \<notin> {48..57} \<union> {65..90} \<union> {97..122} \<and>
      (of_char (last r) :: nat) \<notin> {48..57} \<union> {65..90} \<union> {97..122}"
    by (simp add: space_runes_def)
  with n have "\<forall>r \<in> set space_runes. r \<noteq> [] \<and> hd r \<noteq> c \<and> last r \<noteq> c" by metis
  then have f: "\<forall>r \<in> set space_runes. r \<noteq> [] \<and> hd r \<noteq> c"
    and b: "\<forall>r \<in> set space_runes. r \<noteq> [] \<and> hd (rev r) \<noteq> c" by (simp_all add: hd_rev)
  have "HasPrefix (c # cs) p \<longleftrightarrow> False" if "p \<noteq> []" "hd p \<noteq> c" for p
    using that by (cases p) (simp_all add: HasPrefix_def)
  with f b show "find (\<lambda>r. HasPrefix (c # cs) r) space_runes = None"
    "find (\<lambda>r. HasPrefix (c # cs) r) (map rev space_runes) = None"
    by (simp_all add: find_None_iff)
qed

lemma TrimSpace_id:
  assumes "s \<noteq> []" "is_digit (hd s) \<or> is_letter (hd s)" "is_digit (last s) \<or> is_letter (last s)"
  shows "TrimSpace s = s"
proof -
  have l: "trim_left n space_runes s = s" for n
    using assms(1) alnum_not_space(1) [OF assms(2)] by (cases n; cases s) simp_all
  have "rev s = last s # rev (butlast s)"
    using assms(1) by (metis append_butlast_last_id rev.simps(2) rev_rev_ident rev_swap)
  then have "trim_left n (map rev space_runes) (rev s) = rev s" for n
    by (cases n) (simp_all only: trim_left.simps alnum_not_space(2) [OF assms(3)] option.case)
  with l show ?thesis by (simp add: TrimSpace_def Let_def)
qed

lemma digit_letter_disjoint: "is_letter c \<Longrightarrow> \<not> is_digit c \<and> c \<noteq> CHR ''.'' \<and> \<not> is_re_space c \<and> c \<noteq> CHR ''-''"
  by (auto simp: is_letter_def is_digit_def is_re_space_def Let_def)

lemma capacity_match_number:
  assumes "ds \<noteq> []" "\<forall>c \<in> set ds. is_digit c" "u \<noteq> []" "list_all is_letter u"
  shows "capacity_match (ds @ u) = Some (ds, u)"
proof -
  obtain c cs where u: "u = c # cs" using assms(3) by (cases u) auto
  then have c: "is_letter c" using assms(4) by simp
  note cd = digit_letter_disjoint [OF c]
  obtain d dr where ds: "ds = d # dr" "is_digit d" using assms(1,2) by (cases ds) auto
  have "\<not> HasPrefix (ds @ u) ''-''" using ds digit_not_sign [of d] by (simp add: HasPrefix_def)
  moreover have "takeWhile is_digit (ds @ u) = ds" "dropWhile is_digit (ds @ u) = u"
    using assms(2) cd u by (simp_all add: takeWhile_append dropWhile_append)
  moreover have "\<not> HasPrefix u ''.''" "dropWhile is_re_space u = u" using cd u by (simp_all add: HasPrefix_def)
  moreover have "\<exists>x \<in> set u. \<not> is_re_space x" using cd u by auto
  ultimately show ?thesis using assms by (simp add: capacity_match_def Let_def)
qed

section \<open>Lemmas: rounding\<close>

lemma bit_length_0 [simp]: "bit_length 0 = 0"
  by (simp add: bit_length.simps)

lemma bit_length_bound: "n < 2 ^ k \<Longrightarrow> bit_length n \<le> k"
proof (induction k arbitrary: n)
  case 0
  then show ?case by simp
next
  case (Suc k)
  then have "n div 2 < 2 ^ k" by auto
  from Suc.IH [OF this] show ?case by (subst bit_length.simps) simp
qed

lemma bit_length_shift: "0 < n \<Longrightarrow> bit_length (n * 2 ^ k) = bit_length n + k"
proof (induction k)
  case 0
  then show ?case by simp
next
  case (Suc k)
  have "bit_length (n * 2 ^ Suc k) = Suc (bit_length (n * 2 ^ Suc k div 2))"
    using Suc.prems by (subst bit_length.simps) simp
  also have "n * 2 ^ Suc k div 2 = n * 2 ^ k" by simp
  finally show ?case using Suc by simp
qed

lemma round_half_even_exact: "0 < b \<Longrightarrow> round_half_even (m * b) b = m"
  by (simp add: round_half_even_def)

text \<open>Numbers of at most 53 bits are not rounded by a power-of-two scaling.\<close>

lemma round64_exact:
  assumes "m < 2 ^ 53"
  shows "round64 (m * 2 ^ (j + k)) (2 ^ j) = m * 2 ^ k"
proof (cases "m = 0")
  case True
  then show ?thesis by (simp add: round64_def round_half_even_def)
next
  case False
  have q: "m * 2 ^ (j + k) div 2 ^ j = m * 2 ^ k" by (simp add: power_add)
  define e where "e = bit_length (m * 2 ^ k) - 53"
  have "e \<le> k" using bit_length_shift [of m k] bit_length_bound [OF assms] False by (simp add: e_def)
  then obtain i where k: "k = e + i" using le_Suc_ex by blast
  have "m * 2 ^ (j + k) = (m * 2 ^ i) * (2 ^ j * 2 ^ e)" by (simp add: k power_add)
  then have "round_half_even (m * 2 ^ (j + k)) (2 ^ j * 2 ^ e) = m * 2 ^ i"
    by (metis round_half_even_exact zero_less_numeral zero_less_power nat_0_less_mult_iff)
  then show ?thesis unfolding round64_def q e_def [symmetric] Let_def by (simp add: k power_add)
qed

lemma ParseFloat_nat_digits:
  assumes "n < 2 ^ 53"
  shows "ParseFloat (nat_digits n) = Inr (False, n * one_unit)"
proof -
  obtain c cs where c: "nat_digits n = c # cs" "is_digit c" using nat_digits_Cons by blast
  have "\<not> HasPrefix (nat_digits n) ''-''" using digit_not_sign [OF c(2)] c(1) by (simp add: HasPrefix_def)
  moreover have span: "takeWhile is_digit (nat_digits n) = nat_digits n" "dropWhile is_digit (nat_digits n) = []"
    using nat_digits_digits by (simp_all add: takeWhile_eq_all_conv)
  moreover have "round64 (n * one_unit) 1 = n * one_unit"
    using round64_exact [OF assms, of 0 1074] by (simp only: one_unit_def power_0 add_0)
  moreover have "n * one_unit < inf_units"
  proof -
    have "(2::nat) ^ 53 < 2 ^ 1024" by (rule power_strict_increasing) simp_all
    with assms have "n < 2 ^ 1024" by (rule less_trans)
    then show ?thesis by (simp only: inf_units_def one_unit_def mult_less_cancel2 zero_less_power zero_less_numeral simp_thms)
  qed
  ultimately show ?thesis by (simp add: ParseFloat_def Let_def span)
qed

lemma ceil_div:
  assumes "0 < (v :: nat)"
  shows "(n * v + m * v - 1) div v = (if m = 0 \<and> n = 0 then 0 else n + m - 1)"
proof (cases "n + m")
  case 0
  then show ?thesis by simp
next
  case (Suc k)
  then have "n * v + m * v - 1 = k * v + (v - 1)" using assms by (simp add: add_mult_distrib [symmetric])
  also have "(k * v + (v - 1)) div v = k + (v - 1) div v"
    using assms div_mult_self1 [of v "v - 1" k] by (simp only: add.commute)
  also have "(v - 1) div v = 0" using assms by simp
  finally show ?thesis using Suc by (auto simp: add_0_right)
qed

lemma one_unit_pos [simp]: "0 < one_unit"
  by (simp add: one_unit_def)

lemma Ceil_units_whole: "Ceil_units (n * one_unit) = int n"
  using ceil_div [of one_unit n 1] by (simp add: Ceil_units_def)

lemma ceil_div_1024:
  assumes "0 < (v :: nat)"
  shows "(n * v + v * 1024 - 1) div (v * 1024) = (n + 1023) div 1024"
proof -
  have "(n * v + v * 1024 - 1) div (v * 1024) = (n * v + 1024 * v - 1) div v div 1024"
    unfolding div_mult2_eq by (simp only: mult.commute)
  then show ?thesis using ceil_div [OF assms, of n 1024] by simp
qed

definition mib_unit :: nat where
  "mib_unit = 2 ^ 1064"

lemma one_unit_split: "one_unit = mib_unit * 1024"
proof -
  have "(1074::nat) = 1064 + 10" by simp
  then have "one_unit = mib_unit * 2 ^ 10" unfolding one_unit_def mib_unit_def by (metis power_add)
  moreover have "(2::nat) ^ 10 = 1024" by simp
  ultimately show ?thesis by (simp only:)
qed

lemma Ceil_units_fraction: "Ceil_units (n * mib_unit) = int ((n + 1023) div 1024)"
proof -
  have "0 < mib_unit" by (simp add: mib_unit_def)
  then show ?thesis unfolding Ceil_units_def one_unit_split by (simp only: ceil_div_1024)
qed

lemma upper_char_letter: "65 \<le> (of_char (upper_char c) :: nat) \<Longrightarrow> (of_char (upper_char c) :: nat) \<le> 90 \<Longrightarrow> is_letter c"
  by (auto simp: upper_char_def is_letter_def Let_def split: if_splits)

lemma ToUpper_unit_letters:
  assumes "ToUpper u \<in> {''GB'', ''GIB'', ''TB'', ''TIB'', ''MB'', ''MIB''}"
  shows "u \<noteq> [] \<and> list_all is_letter u"
proof -
  have "\<forall>c \<in> set (ToUpper u). 65 \<le> (of_char c :: nat) \<and> (of_char c :: nat) \<le> 90"
    using assms by auto
  then have "\<forall>c \<in> set u. is_letter c" by (auto simp: ToUpper_def upper_char_letter)
  moreover have "u \<noteq> []" using assms by (auto simp: ToUpper_def)
  ultimately show ?thesis by (simp add: list_all_iff)
qed

lemma capacity_match_unit:
  assumes "ToUpper u \<in> {''GB'', ''GIB'', ''TB'', ''TIB'', ''MB'', ''MIB''}"
  shows "capacity_match (TrimSpace (nat_digits n @ u)) = Some (nat_digits n, u)"
proof -
  note u = ToUpper_unit_letters [OF assms]
  have "is_digit (hd (nat_digits n))" "\<forall>c \<in> set (nat_digits n). is_digit c"
    using nat_digits_Cons [of n] nat_digits_digits by auto
  moreover have "is_letter (last u)" using u by (simp add: list_all_iff)
  ultimately show ?thesis using u
    by (simp add: TrimSpace_id capacity_match_number)
qed

lemma to_int32_whole:
  assumes "int n \<le> MaxInt32" shows "to_int32 oor (n * one_unit) = int n"
proof -
  have "n < 2 ^ 31" using assms by (simp add: MaxInt32_def)
  moreover have "(2::nat) ^ 31 < 2 ^ 1024" by (rule power_strict_increasing) simp_all
  ultimately have "n < 2 ^ 1024" by (rule less_trans)
  then have "n * one_unit < inf_units"
    by (simp only: inf_units_def mult_less_cancel2 one_unit_pos simp_thms)
  then show ?thesis using assms by (simp add: to_int32_def Ceil_units_whole is_int32_def MaxInt32_def)
qed

lemma to_int32_fraction:
  assumes "int n \<le> MaxInt32" shows "to_int32 oor (n * mib_unit) = int ((n + 1023) div 1024)"
proof -
  have le: "n * mib_unit \<le> n * one_unit" unfolding one_unit_split by simp
  have "n < 2 ^ 31" using assms by (simp add: MaxInt32_def)
  moreover have "(2::nat) ^ 31 < 2 ^ 1024" by (rule power_strict_increasing) simp_all
  ultimately have "n < 2 ^ 1024" by (rule less_trans)
  then have "n * one_unit < inf_units"
    by (simp only: inf_units_def mult_less_cancel2 one_unit_pos simp_thms)
  with le have lt: "n * mib_unit < inf_units" by (rule le_less_trans)
  have "is_int32 (int ((n + 1023) div 1024))" using assms by (auto simp: is_int32_def MaxInt32_def)
  with lt show ?thesis by (simp add: to_int32_def Ceil_units_fraction)
qed

section \<open>Lemmas: splitting\<close>

definition diskSize :: "(int option \<Rightarrow> int) \<Rightarrow> VMDisk \<Rightarrow> pb_ComputeInstanceDisk" where
  "diskSize oor d = \<lparr>cid_SizeGib = projr (ParseDiskCapacityGiB oor (vd_Capacity d))\<rparr>"

lemma translateDisks_ok:
  "translateDisks oor boot additional ds = Inr r \<longleftrightarrow>
     (\<forall>d \<in> set ds. \<not> isl (ParseDiskCapacityGiB oor (vd_Capacity d))) \<and>
     r = (case rev (filter (\<lambda>d. vd_Name d = bootDiskName) ds) of [] \<Rightarrow> boot | d # _ \<Rightarrow> Some (diskSize oor d),
          additional @ map (diskSize oor) (filter (\<lambda>d. vd_Name d \<noteq> bootDiskName) ds))"
  by (induction oor boot additional ds rule: translateDisks.induct)
    (auto simp: diskSize_def split: sum.split list.split)

lemma translateDisks_error: "translateDisks oor boot additional ds = Inl e \<Longrightarrow> grpc_code e = InvalidArgument"
  by (induction oor boot additional ds rule: translateDisks.induct)
    (auto simp: invalidArgument_def split: sum.splits if_splits)

section \<open>Properties\<close>

lemma units_upper:
  "ToUpper ''gb'' = ''GB''" "ToUpper ''TiB'' = ''TIB''" "ToUpper ''MB'' = ''MB''"
  by code_simp+

lemma capacity_units:
  assumes "0 < n" and "int n \<le> MaxInt32"
  shows "(ToUpper u \<in> {''GB'', ''GIB''} \<longrightarrow> ParseDiskCapacityGiB oor (nat_digits n @ u) = Inr (int n)) \<and>
    (ToUpper u \<in> {''TB'', ''TIB''} \<and> int n * 1024 \<le> MaxInt32 \<longrightarrow>
       ParseDiskCapacityGiB oor (nat_digits n @ u) = Inr (int n * 1024)) \<and>
    (ToUpper u \<in> {''MB'', ''MIB''} \<longrightarrow>
       ParseDiskCapacityGiB oor (nat_digits n @ u) = Inr (int ((n + 1023) div 1024)))"
proof -
  have "n < 2 ^ 31" using assms(2) by (simp add: MaxInt32_def)
  then have n53: "n < 2 ^ 53" "n * 1024 < 2 ^ 53" by simp_all
  note parse = ParseDiskCapacityGiB_def capacity_match_unit ParseFloat_nat_digits [OF n53(1)] assms(1)
  have tb: "round64 (n * one_unit * 1024) 1 = n * 1024 * one_unit"
    using round64_exact [OF n53(2), of 0 1074] unfolding one_unit_def
    by (simp only: power_0 add_0 mult.assoc mult.commute mult.left_commute)
  have mb: "round64 (n * one_unit) 1024 = n * mib_unit"
  proof -
    have "n * one_unit = n * 2 ^ (10 + 1064)" by (simp only: one_unit_def numeral_plus_numeral add_num_simps)
    moreover have "(1024::nat) = 2 ^ 10" by simp
    ultimately show ?thesis using round64_exact [OF n53(1), of 10 1064] by (simp only: mib_unit_def)
  qed
  show ?thesis
  proof (intro conjI impI, goal_cases)
    case 1
    then show ?case using assms(2) by (auto simp: parse to_int32_whole)
  next
    case 2
    then show ?case using to_int32_whole [of "n * 1024"] by (auto simp: parse tb [unfolded One_nat_def])
  next
    case 3
    then show ?case using to_int32_fraction [OF assms(2)] by (auto simp: parse mb)
  qed
qed



text \<open>
  C25. \<open>splitDisks\<close> succeeds exactly when one disk is named \<open>boot\<close> and every capacity
  parses; then the boot disk and the other disks, in their order, carry the parsed sizes. Every
  failure is an invalid-argument error.
\<close>

theorem splitDisks_correct:
  shows "case splitDisks oor disks of
      Inl e \<Rightarrow> grpc_code e = InvalidArgument \<and>
        (bootCount disks \<noteq> 1 \<or> (\<exists>d \<in> set disks. \<exists>x. ParseDiskCapacityGiB oor (vd_Capacity d) = Inl x))
    | Inr (boot, additional) \<Rightarrow>
        (\<exists>b. filter (\<lambda>d. vd_Name d = ''boot'') disks = [b] \<and>
           (\<exists>g. ParseDiskCapacityGiB oor (vd_Capacity b) = Inr g \<and> boot = Some \<lparr>cid_SizeGib = g\<rparr>)) \<and>
        map (\<lambda>x. Inr (cid_SizeGib x)) additional =
          map (\<lambda>d. ParseDiskCapacityGiB oor (vd_Capacity d)) (filter (\<lambda>d. vd_Name d \<noteq> ''boot'') disks)"
proof (cases "splitDisks oor disks")
  case (Inl e)
  show ?thesis
  proof (cases "bootCount disks = 1")
    case True
    with Inl have t: "translateDisks oor None [] disks = Inl e" by (simp add: splitDisks_def)
    then have "\<exists>d \<in> set disks. \<exists>x. ParseDiskCapacityGiB oor (vd_Capacity d) = Inl x"
      using translateDisks_ok [of oor None "[]" disks] by (auto simp: isl_def)
    with Inl t show ?thesis by (auto dest: translateDisks_error)
  next
    case False
    with Inl show ?thesis by (auto simp: splitDisks_def invalidArgument_def)
  qed
next
  case (Inr r)
  then have c: "bootCount disks = 1" and t: "translateDisks oor None [] disks = Inr r"
    by (auto simp: splitDisks_def split: if_splits)
  from c obtain b where b: "filter (\<lambda>d. vd_Name d = ''boot'') disks = [b]"
    by (auto simp: bootCount_def bootDiskName_def length_Suc_conv)
  then have bd: "b \<in> set disks" by (metis filter_is_subset list.set_intros(1) subsetD)
  have ok: "d \<in> set disks \<Longrightarrow> ParseDiskCapacityGiB oor (vd_Capacity d) = Inr (projr (ParseDiskCapacityGiB oor (vd_Capacity d)))" for d
    using t by (auto simp: translateDisks_ok)
  show ?thesis using t b ok [OF bd] ok by (auto simp: translateDisks_ok bootDiskName_def diskSize_def Inr)
qed

theorem splitDisks_correct_witness:
  "splitDisks (\<lambda>_. 0) [\<lparr>vd_Capacity = ''1TiB'', vd_Name = ''data''\<rparr>, \<lparr>vd_Capacity = ''20gb'', vd_Name = ''boot''\<rparr>] =
     Inr (Some \<lparr>cid_SizeGib = 20\<rparr>, [\<lparr>cid_SizeGib = 1024\<rparr>])"
proof -
  let ?ds = "[\<lparr>vd_Capacity = ''1TiB'', vd_Name = ''data''\<rparr>, \<lparr>vd_Capacity = ''20gb'', vd_Name = ''boot''\<rparr>]"
  have "nat_digits 1 = ''1''" "nat_digits 20 = ''20''" by code_simp+
  with capacity_units [of 1 "''TiB''" "\<lambda>_. 0"] capacity_units [of 20 "''gb''" "\<lambda>_. 0"]
  have c: "ParseDiskCapacityGiB (\<lambda>_. 0) ''1TiB'' = Inr 1024" "ParseDiskCapacityGiB (\<lambda>_. 0) ''20gb'' = Inr 20"
    by (simp_all add: MaxInt32_def units_upper)
  with splitDisks_correct [where oor = "\<lambda>_. 0" and disks = ?ds] show ?thesis
    by (cases "splitDisks (\<lambda>_. 0) ?ds") (auto simp: bootCount_def bootDiskName_def)
qed

end
