(* ===== verification/Vm_Service.thy ===== *)
theory Vm_Service
  imports Vm_Disk Pagination "HOL-Library.Monad_Syntax"
begin

text \<open>
  \<open>internal/vm\<close>: the virtual machine operations of the REST API translated to OSAC's
  \<open>ComputeInstances\<close>, and the default network that every machine is attached to, made on
  first use through \<open>Subnets\<close> and \<open>VirtualNetworks\<close>.

  Making the network waits for a resource to become ready. Time and cancellation are those of a
  \<open>Clock\<close>: \<open>clk_now\<close> reads \<open>time.Now()\<close>, \<open>clk_select\<close> is the \<open>select\<close> between
  \<open>ctx.Done()\<close> (the context's error) and \<open>time.After(d)\<close> (nothing). The waiting loop is a
  partial function: \<open>None\<close> is a loop that never ends, and the operations that contain it pass
  that on.
\<close>

record 'w Clock =
  clk_now :: "'w \<Rightarrow> int"
  clk_select :: "int \<Rightarrow> 'w \<Rightarrow> go_error option \<times> 'w"

record 'w VmService =
  vms_computeInstances :: "(pb_ComputeInstance, 'w) ResourceClient"
  vms_subnets :: "(pb_Subnet, 'w) ResourceClient"
  vms_virtualNetworks :: "(pb_VirtualNetwork, 'w) ResourceClient"
  vms_networkPollInterval :: int
  vms_networkPollTimeout :: int

section \<open>service.go: construction\<close>

definition defaultNetworkPollInterval :: int where
  "defaultNetworkPollInterval = 500 * 1000000"

definition defaultNetworkPollTimeout :: int where
  "defaultNetworkPollTimeout = 15 * 1000000000"

type_synonym 'w VmOption = "'w VmService \<Rightarrow> 'w VmService"

definition WithNetworkPollInterval :: "int \<Rightarrow> 'w VmOption" where
  "WithNetworkPollInterval d s = s \<lparr>vms_networkPollInterval := d\<rparr>"

definition WithNetworkPollTimeout :: "int \<Rightarrow> 'w VmOption" where
  "WithNetworkPollTimeout d s = s \<lparr>vms_networkPollTimeout := d\<rparr>"

definition vm_New ::
  "(pb_ComputeInstance, 'w) ResourceClient \<Rightarrow> (pb_Subnet, 'w) ResourceClient \<Rightarrow>
   (pb_VirtualNetwork, 'w) ResourceClient \<Rightarrow> 'w VmOption list \<Rightarrow> 'w VmService" where
  "vm_New computeInstances subnets virtualNetworks opts =
     fold (\<lambda>opt s. opt s) opts
       \<lparr>vms_computeInstances = computeInstances, vms_subnets = subnets,
        vms_virtualNetworks = virtualNetworks,
        vms_networkPollInterval = defaultNetworkPollInterval,
        vms_networkPollTimeout = defaultNetworkPollTimeout\<rparr>"

section \<open>status.go\<close>

definition vm_MapStatus :: "go_error option \<Rightarrow> pb_ComputeInstanceStatus option \<Rightarrow> VMStatus" where
  "vm_MapStatus err status =
     (case err of
        Some e \<Rightarrow> if grpc_code e = NotFound then VMStatusDELETED else VMStatusFAILED
      | None \<Rightarrow>
          let st = ComputeInstanceStatus_GetState status in
          if st = COMPUTE_INSTANCE_STATE_UNSPECIFIED then VMStatusPROVISIONING
          else if st = COMPUTE_INSTANCE_STATE_STARTING then VMStatusPROVISIONING
          else if st = COMPUTE_INSTANCE_STATE_RUNNING then VMStatusRUNNING
          else if st = COMPUTE_INSTANCE_STATE_FAILED then VMStatusFAILED
          else if st = COMPUTE_INSTANCE_STATE_DELETING then VMStatusDELETING
          else if st = COMPUTE_INSTANCE_STATE_STOPPING then VMStatusSTOPPING
          else if st = COMPUTE_INSTANCE_STATE_STOPPED then VMStatusSTOPPED
          else if st = COMPUTE_INSTANCE_STATE_PAUSED then VMStatusPAUSED
          else VMStatusFAILED)"

section \<open>translate.go\<close>

definition vm_labelManagedBy :: string where "vm_labelManagedBy = ''dcm.io/managed-by''"
definition vm_labelInstanceID :: string where "vm_labelInstanceID = ''dcm.io/instance-id''"
definition vm_labelServiceType :: string where "vm_labelServiceType = ''dcm.io/service-type''"
definition vm_managedByValue :: string where "vm_managedByValue = ''dcm''"
definition vm_serviceTypeValue :: string where "vm_serviceTypeValue = ''vm''"
definition imageSourceType :: string where "imageSourceType = ''registry''"

definition vm_ownershipLabels :: "string \<Rightarrow> (string \<rightharpoonup> string)" where
  "vm_ownershipLabels id' =
     [vm_labelManagedBy \<mapsto> vm_managedByValue, vm_labelInstanceID \<mapsto> id',
      vm_labelServiceType \<mapsto> vm_serviceTypeValue]"

definition vm_mergeLabels :: "(string \<rightharpoonup> string) option \<Rightarrow> string \<Rightarrow> (string \<rightharpoonup> string)" where
  "vm_mergeLabels caller id' =
     (case caller of None \<Rightarrow> Map.empty | Some m \<Rightarrow> m) ++ vm_ownershipLabels id'"

definition toOSACComputeInstance ::
  "(int option \<Rightarrow> int) \<Rightarrow> string \<Rightarrow> VMSpec \<Rightarrow> pb_ComputeInstance res" where
  "toOSACComputeInstance oor id' spec =
     (case splitDisks oor (vst_Disks (vs_Storage spec)) of
        Inl err \<Rightarrow> Inl err
      | Inr (bootDisk, additionalDisks) \<Rightarrow>
          let hints = vph_Osac (vs_ProviderHints spec);
              osacSpec = \<lparr>cis_Template = Some (Reference_of_Id (ovh_TemplateId hints)),
                cis_RestartRequestedAt = None,
                cis_Image = Some \<lparr>cii_SourceType = imageSourceType, cii_SourceRef = vg_Type (vs_GuestOs spec)\<rparr>,
                cis_SshPublicKey = (case vs_Access spec of None \<Rightarrow> None | Some a \<Rightarrow> va_SshPublicKey a),
                cis_BootDisk = bootDisk,
                cis_AdditionalDisks = additionalDisks,
                cis_RunStrategy = None, cis_UserData = None,
                cis_NetworkAttachments = [],
                cis_IsWindows = ovh_Windows hints,
                cis_InstanceType = Some (Reference_of_Id (ovh_InstanceType hints))\<rparr>
          in Inr \<lparr>ci_Id = id',
               ci_Metadata = Some (Metadata_zero \<lparr>md_Name := vmd_Name (vs_Metadata spec),
                 md_Labels := vm_mergeLabels (vmd_Labels (vs_Metadata spec)) id'\<rparr>),
               ci_Spec = Some osacSpec,
               ci_Status = None\<rparr>)"

definition toAPIVM :: "pb_ComputeInstance option \<Rightarrow> VirtualMachine" where
  "toAPIVM osacObj =
     (let status = ComputeInstance_GetStatus osacObj in
      \<lparr>vm_CreateTime = None,
       vm_ExternalIpAddress = Ptr (ComputeInstanceStatus_GetExternalIpAddress status),
       vm_Id = Ptr (ComputeInstance_GetId osacObj),
       vm_InternalIpAddress = Ptr (ComputeInstanceStatus_GetInternalIpAddress status),
       vm_Path = Ptr (''vms/'' @ ComputeInstance_GetId osacObj),
       vm_Spec = None,
       vm_Status = vm_MapStatus None status,
       vm_StatusMessage = None,
       vm_UpdateTime = None\<rparr>)"

section \<open>network.go\<close>

definition defaultNetworkServiceType :: string where "defaultNetworkServiceType = ''vm-default-network''"
definition defaultVNetCIDR :: string where "defaultVNetCIDR = ''10.200.0.0/16''"
definition defaultSubnetCIDR :: string where "defaultSubnetCIDR = ''10.200.1.0/24''"
definition ownerReferenceAnnotation :: string where
  "ownerReferenceAnnotation = ''osac.openshift.io/owner-reference''"
definition defaultVNetName :: string where "defaultVNetName = ''dcm-default-network''"
definition defaultSubnetName :: string where "defaultSubnetName = ''dcm-default-subnet''"

definition quoted :: "string \<Rightarrow> string" where
  "quoted s = [CHR 0x22] @ s @ [CHR 0x22]"

definition defaultNetworkFilter :: string where
  "defaultNetworkFilter =
     ''this.metadata.labels['' @ quoted vm_labelManagedBy @ ''] == '' @ quoted vm_managedByValue @
     '' && this.metadata.labels['' @ quoted vm_labelServiceType @ ''] == '' @ quoted defaultNetworkServiceType"

definition defaultNetworkLabels :: "string \<rightharpoonup> string" where
  "defaultNetworkLabels =
     [vm_labelManagedBy \<mapsto> vm_managedByValue, vm_labelServiceType \<mapsto> defaultNetworkServiceType]"

partial_function (option) pollLoop ::
  "'w Clock \<Rightarrow> int \<Rightarrow> int \<Rightarrow> int \<Rightarrow> ('w, bool) call \<Rightarrow> 'w \<Rightarrow> (unit res \<times> 'w) option"
where
  "pollLoop clk interval timeout deadline isReady w =
     (case isReady w of
        (Inl err, w1) \<Rightarrow> Some (Inl err, w1)
      | (Inr ready, w1) \<Rightarrow>
          if ready then Some (Inr (), w1)
          else if \<not> clk_now clk w1 < deadline then
            Some (Inl (StatusError DeadlineExceeded [Lit ''timed out after '', Num timeout,
              Lit '' waiting for network resource to become ready'']), w1)
          else
            (case clk_select clk interval w1 of
               (Some ctxErr, w2) \<Rightarrow> Some (Inl (from_context_error ctxErr), w2)
             | (None, w2) \<Rightarrow> pollLoop clk interval timeout deadline isReady w2))"

definition pollUntilReady ::
  "'w Clock \<Rightarrow> 'w VmService \<Rightarrow> ('w, bool) call \<Rightarrow> 'w \<Rightarrow> (unit res \<times> 'w) option" where
  "pollUntilReady clk s isReady w =
     pollLoop clk (vms_networkPollInterval s) (vms_networkPollTimeout s)
       (clk_now clk w + vms_networkPollTimeout s) isReady w"

definition vnetReady :: "'w VmService \<Rightarrow> string \<Rightarrow> ('w, bool) call" where
  "vnetReady s vnetID w =
     (case rc_Get (vms_virtualNetworks s) vnetID w of
        (Inl err, w1) \<Rightarrow> (Inl err, w1)
      | (Inr getResp, w1) \<Rightarrow>
          (Inr (VirtualNetworkStatus_GetState (VirtualNetwork_GetStatus (or_Object getResp)) =
             VIRTUAL_NETWORK_STATE_READY), w1))"

definition subnetReady :: "'w VmService \<Rightarrow> string \<Rightarrow> ('w, bool) call" where
  "subnetReady s subnetID w =
     (case rc_Get (vms_subnets s) subnetID w of
        (Inl err, w1) \<Rightarrow> (Inl err, w1)
      | (Inr getResp, w1) \<Rightarrow>
          (Inr (SubnetStatus_GetState (Subnet_GetStatus (or_Object getResp)) = SUBNET_STATE_READY), w1))"

definition defaultVirtualNetwork :: pb_VirtualNetwork where
  "defaultVirtualNetwork =
     \<lparr>vn_Id = '''',
      vn_Metadata = Some (Metadata_zero \<lparr>md_Name := defaultVNetName, md_Labels := defaultNetworkLabels\<rparr>),
      vn_Spec = Some \<lparr>vns_NetworkClass = None, vns_Ipv4Cidr = Ptr defaultVNetCIDR, vns_Ipv6Cidr = None,
        vns_Capabilities = Some \<lparr>vnc_EnableIpv4 = True, vnc_EnableIpv6 = False, vnc_EnableDualStack = False\<rparr>\<rparr>,
      vn_Status = None\<rparr>"

definition defaultSubnet :: "string \<Rightarrow> pb_Subnet" where
  "defaultSubnet vnetID =
     \<lparr>sn_Id = '''',
      sn_Metadata = Some (Metadata_zero \<lparr>md_Name := defaultSubnetName, md_Labels := defaultNetworkLabels,
        md_Annotations := [ownerReferenceAnnotation \<mapsto> vnetID]\<rparr>),
      sn_Spec = Some \<lparr>sns_VirtualNetwork = Some (LocalReference_of_Id vnetID),
        sns_Ipv4Cidr = Ptr defaultSubnetCIDR, sns_Ipv6Cidr = None\<rparr>,
      sn_Status = None\<rparr>"

definition provisionDefaultVirtualNetwork ::
  "'w Clock \<Rightarrow> 'w VmService \<Rightarrow> 'w \<Rightarrow> (string res \<times> 'w) option" where
  "provisionDefaultVirtualNetwork clk s w =
     (case rc_Create (vms_virtualNetworks s) (Some defaultVirtualNetwork) w of
        (Inl err, w1) \<Rightarrow> Some (Inl err, w1)
      | (Inr resp, w1) \<Rightarrow>
          (let vnetID = VirtualNetwork_GetId (or_Object resp) in
           do {
             (polled, w2) \<leftarrow> pollUntilReady clk s (vnetReady s vnetID) w1;
             (case polled of
                Inl err \<Rightarrow> Some (Inl err, w2)
              | Inr _ \<Rightarrow> Some (Inr vnetID, w2))
           }))"

definition provisionDefaultSubnet ::
  "'w Clock \<Rightarrow> 'w VmService \<Rightarrow> string \<Rightarrow> 'w \<Rightarrow> (string res \<times> 'w) option" where
  "provisionDefaultSubnet clk s vnetID w =
     (case rc_Create (vms_subnets s) (Some (defaultSubnet vnetID)) w of
        (Inl err, w1) \<Rightarrow> Some (Inl err, w1)
      | (Inr resp, w1) \<Rightarrow>
          (let subnetID = Subnet_GetId (or_Object resp) in
           do {
             (polled, w2) \<leftarrow> pollUntilReady clk s (subnetReady s subnetID) w1;
             (case polled of
                Inl err \<Rightarrow> Some (Inl err, w2)
              | Inr _ \<Rightarrow> Some (Inr subnetID, w2))
           }))"

definition resolveDefaultSubnet ::
  "'w Clock \<Rightarrow> 'w VmService \<Rightarrow> 'w \<Rightarrow> (string res \<times> 'w) option" where
  "resolveDefaultSubnet clk s w =
     (case rc_List (vms_subnets s) \<lparr>lq_Offset = None, lq_Limit = None,
             lq_Filter = Ptr defaultNetworkFilter, lq_Order = None\<rparr> w of
        (Inl err, w1) \<Rightarrow> Some (Inl err, w1)
      | (Inr listResp, w1) \<Rightarrow>
          (case lr_Items listResp of
             item # _ \<Rightarrow> Some (Inr (Subnet_GetId (Some item)), w1)
           | [] \<Rightarrow>
               do {
                 (vnet, w2) \<leftarrow> provisionDefaultVirtualNetwork clk s w1;
                 (case vnet of
                    Inl err \<Rightarrow> Some (Inl err, w2)
                  | Inr vnetID \<Rightarrow> provisionDefaultSubnet clk s vnetID w2)
               }))"

section \<open>service.go and list.go: the operations\<close>

definition attachSubnet :: "string \<Rightarrow> pb_ComputeInstance \<Rightarrow> pb_ComputeInstance" where
  "attachSubnet subnetID obj =
     obj \<lparr>ci_Spec := map_option (\<lambda>sp. sp \<lparr>cis_NetworkAttachments :=
       [\<lparr>na_Subnet = Some (LocalReference_of_Id subnetID), na_SecurityGroups = []\<rparr>]\<rparr>) (ci_Spec obj)\<rparr>"

definition VM_Create ::
  "(int option \<Rightarrow> int) \<Rightarrow> 'w Clock \<Rightarrow> 'w VmService \<Rightarrow> string \<Rightarrow> VMSpec \<Rightarrow> 'w \<Rightarrow>
     (VirtualMachine res \<times> 'w) option" where
  "VM_Create oor clk s id' spec w =
     (case toOSACComputeInstance oor id' spec of
        Inl err \<Rightarrow> Some (Inl err, w)
      | Inr obj \<Rightarrow>
          do {
            (subnet, w1) \<leftarrow> resolveDefaultSubnet clk s w;
            (case subnet of
               Inl err \<Rightarrow> Some (Inl err, w1)
             | Inr subnetID \<Rightarrow>
                 (case rc_Create (vms_computeInstances s) (Some (attachSubnet subnetID obj)) w1 of
                    (Inr resp, w2) \<Rightarrow> Some (Inr (toAPIVM (or_Object resp)), w2)
                  | (Inl err, w2) \<Rightarrow>
                      if grpc_code err = AlreadyExists then
                        (case rc_Get (vms_computeInstances s) id' w2 of
                           (Inl getErr, w3) \<Rightarrow> Some (Inl getErr, w3)
                         | (Inr getResp, w3) \<Rightarrow> Some (Inr (toAPIVM (or_Object getResp)), w3))
                      else Some (Inl err, w2)))
          })"

definition VM_Get :: "'w VmService \<Rightarrow> string \<Rightarrow> ('w, VirtualMachine) call" where
  "VM_Get s id' w =
     (case rc_Get (vms_computeInstances s) id' w of
        (Inl err, w1) \<Rightarrow> (Inl err, w1)
      | (Inr resp, w1) \<Rightarrow> (Inr (toAPIVM (or_Object resp)), w1))"

definition VM_Delete :: "'w VmService \<Rightarrow> string \<Rightarrow> ('w, unit) call" where
  "VM_Delete s id' w =
     (case rc_Delete (vms_computeInstances s) id' w of
        (Inl err, w1) \<Rightarrow> if grpc_code err \<noteq> NotFound then (Inl err, w1) else (Inr (), w1)
      | (Inr _, w1) \<Rightarrow> (Inr (), w1))"

definition vm_ownershipFilter :: string where
  "vm_ownershipFilter = ''this.metadata.labels['' @ quoted ''dcm.io/managed-by'' @ ''] == '' @ quoted ''dcm''"

definition vm_defaultPageSize :: int where
  "vm_defaultPageSize = 50"

definition VM_List :: "'w VmService \<Rightarrow> ListParams \<Rightarrow> ('w, VirtualMachineList) call" where
  "VM_List s params w =
     (case NormalizeMaxPageSize (lp_MaxPageSize params) vm_defaultPageSize of
        Inl err \<Rightarrow> (Inl err, w)
      | Inr limit \<Rightarrow>
     (case (case lp_PageToken params of
              None \<Rightarrow> Inr 0
            | Some t \<Rightarrow> if t = '''' then Inr 0 else vm_decodePageToken t) of
        Inl err \<Rightarrow> (Inl err, w)
      | Inr offset \<Rightarrow>
     (case rc_List (vms_computeInstances s) \<lparr>lq_Offset = Ptr offset, lq_Limit = Ptr limit,
             lq_Filter = Ptr vm_ownershipFilter, lq_Order = None\<rparr> w of
        (Inl err, w1) \<Rightarrow> (Inl err, w1)
      | (Inr resp, w1) \<Rightarrow>
          let results = map (\<lambda>item. toAPIVM (Some item)) (lr_Items resp);
              nextOffset = wrap32 (offset + wrap32 (int (length results)))
          in (Inr \<lparr>vml_NextPageToken =
                (if length results > 0 \<and> nextOffset < lr_Total resp
                 then Ptr (vm_encodePageToken nextOffset) else None),
              vml_Results = results\<rparr>, w1))))"

section \<open>Waiting ends\<close>

text \<open>A clock that has moved on by at least the waiting time when the wait was not cancelled.\<close>

locale ticking_clock =
  fixes clk :: "'w Clock"
  assumes select_advances: "clk_select clk d w = (None, w') \<Longrightarrow> clk_now clk w + d \<le> clk_now clk w'"
begin

lemma poll_returns:
  assumes pos: "0 < interval"
    and mono: "\<And>w. clk_now clk w \<le> clk_now clk (snd (isReady w))"
  shows "\<exists>r w'. pollLoop clk interval timeout deadline isReady w = Some (r, w')"
proof (induction "nat (deadline - clk_now clk w)" arbitrary: w rule: less_induct)
  case less
  obtain r w1 where r: "isReady w = (r, w1)" by force
  with mono [of w] have w1: "clk_now clk w \<le> clk_now clk w1" by simp
  show ?case
  proof (cases "r = Inr False \<and> clk_now clk w1 < deadline")
    case False
    with r show ?thesis by (subst pollLoop.simps) (auto split: sum.split)
  next
    case True
    obtain c w2 where c: "clk_select clk interval w1 = (c, w2)" by force
    show ?thesis
    proof (cases c)
      case (Some e)
      with r True c show ?thesis by (subst pollLoop.simps) simp
    next
      case None
      with c select_advances have "clk_now clk w1 + interval \<le> clk_now clk w2" by blast
      with pos w1 True have "nat (deadline - clk_now clk w2) < nat (deadline - clk_now clk w)" by simp
      from less.hyps [OF this] r True c None show ?thesis by (subst pollLoop.simps) simp
    qed
  qed
qed

end

text \<open>Whatever the clock does, a wait that succeeds ended on a check that said ready.\<close>

lemma pollLoop_ready:
  assumes "pollLoop clk interval timeout deadline isReady w = Some (Inr (), w')"
  shows "\<exists>w0. isReady w0 = (Inr True, w')"
proof -
  have "fst (Inr () :: unit res, w') = Inr () \<longrightarrow> (\<exists>w0. isReady w0 = (Inr True, snd (Inr () :: unit res, w')))"
  proof (rule pollLoop.raw_induct [where
        P = "\<lambda>clk i t d rdy w r. fst r = Inr () \<longrightarrow> (\<exists>w0. rdy w0 = (Inr True, snd r))", OF _ assms], goal_cases)
    case (1 loop clk i t d rdy w r)
    have ih: "\<exists>w0. rdy w0 = (Inr True, snd r)" if "loop clk i t d rdy w2 = Some r" "fst r = Inr ()" for w2
      using 1(1) that by blast
    from 1(2) show ?case
      by (auto split: prod.splits sum.splits if_splits option.splits dest!: ih)
  qed
  then show ?thesis by simp
qed

context ticking_clock
begin

lemma provision_vnet_returns:
  assumes "0 < vms_networkPollInterval s"
    and "\<And>i w. clk_now clk w \<le> clk_now clk (snd (rc_Get (vms_virtualNetworks s) i w))"
  shows "\<exists>r. provisionDefaultVirtualNetwork clk s w = Some r"
proof -
  have mono: "clk_now clk w \<le> clk_now clk (snd (vnetReady s i w))" for i w
    using assms(2) [of w i] by (auto simp: vnetReady_def split: prod.split sum.split)
  have poll: "\<exists>r w'. pollLoop clk (vms_networkPollInterval s) t d (vnetReady s i) w = Some (r, w')" for i t d w
    by (rule poll_returns [OF assms(1) mono])
  obtain a w1 where a: "rc_Create (vms_virtualNetworks s) (Some defaultVirtualNetwork) w = (a, w1)" by force
  show ?thesis
  proof (cases a)
    case (Inl e)
    with a show ?thesis by (simp add: provisionDefaultVirtualNetwork_def)
  next
    case (Inr resp)
    note call = a [unfolded Inr]
    obtain r w2 where "pollUntilReady clk s (vnetReady s (VirtualNetwork_GetId (or_Object resp))) w1 = Some (r, w2)"
      unfolding pollUntilReady_def using poll by blast
    then show ?thesis by (cases r) (simp_all add: provisionDefaultVirtualNetwork_def call Let_def)
  qed
qed

lemma provision_subnet_returns:
  assumes "0 < vms_networkPollInterval s"
    and "\<And>i w. clk_now clk w \<le> clk_now clk (snd (rc_Get (vms_subnets s) i w))"
  shows "\<exists>r. provisionDefaultSubnet clk s v w = Some r"
proof -
  have mono: "clk_now clk w \<le> clk_now clk (snd (subnetReady s i w))" for i w
    using assms(2) [of w i] by (auto simp: subnetReady_def split: prod.split sum.split)
  have poll: "\<exists>r w'. pollLoop clk (vms_networkPollInterval s) t d (subnetReady s i) w = Some (r, w')" for i t d w
    by (rule poll_returns [OF assms(1) mono])
  obtain a w1 where a: "rc_Create (vms_subnets s) (Some (defaultSubnet v)) w = (a, w1)" by force
  show ?thesis
  proof (cases a)
    case (Inl e)
    with a show ?thesis by (simp add: provisionDefaultSubnet_def)
  next
    case (Inr resp)
    note call = a [unfolded Inr]
    obtain r w2 where "pollUntilReady clk s (subnetReady s (Subnet_GetId (or_Object resp))) w1 = Some (r, w2)"
      unfolding pollUntilReady_def using poll by blast
    then show ?thesis by (cases r) (simp_all add: provisionDefaultSubnet_def call Let_def)
  qed
qed

lemma resolve_returns:
  assumes "0 < vms_networkPollInterval s"
    and "\<And>i w. clk_now clk w \<le> clk_now clk (snd (rc_Get (vms_virtualNetworks s) i w))"
    and "\<And>i w. clk_now clk w \<le> clk_now clk (snd (rc_Get (vms_subnets s) i w))"
  shows "\<exists>r. resolveDefaultSubnet clk s w = Some r"
proof -
  have "\<exists>r. (case v of (Inl e, w2) \<Rightarrow> Some (Inl e, w2)
      | (Inr i, w2) \<Rightarrow> provisionDefaultSubnet clk s i w2) = Some r" for v :: "string res \<times> 'w"
    using provision_subnet_returns [OF assms(1,3)] by (auto split: prod.split sum.split)
  moreover have "\<exists>v. provisionDefaultVirtualNetwork clk s w1 = Some v" for w1
    by (rule provision_vnet_returns [OF assms(1,2)])
  ultimately have "\<exists>r. do { (vnet, w2) \<leftarrow> provisionDefaultVirtualNetwork clk s w1;
      (case vnet of Inl e \<Rightarrow> Some (Inl e, w2) | Inr i \<Rightarrow> provisionDefaultSubnet clk s i w2) } = Some r" for w1
    by (metis (no_types, lifting) bind.bind_lunit case_prod_conv prod.exhaust_sel)
  then show ?thesis by (auto simp: resolveDefaultSubnet_def split: prod.split sum.split list.split)
qed

lemma create_returns:
  assumes "0 < vms_networkPollInterval s"
    and "\<And>i w. clk_now clk w \<le> clk_now clk (snd (rc_Get (vms_virtualNetworks s) i w))"
    and "\<And>i w. clk_now clk w \<le> clk_now clk (snd (rc_Get (vms_subnets s) i w))"
  shows "\<exists>r. VM_Create oor clk s i spec w = Some r"
proof (cases "toOSACComputeInstance oor i spec")
  case (Inl e)
  then show ?thesis by (simp add: VM_Create_def)
next
  case (Inr obj)
  obtain r w1 where "resolveDefaultSubnet clk s w = Some (r, w1)"
    using resolve_returns [OF assms] by (metis prod.collapse)
  with Inr show ?thesis by (auto simp: VM_Create_def split: sum.split prod.split)
qed

end

section \<open>The service over a backend\<close>

text \<open>
  What the service promises when OSAC keeps its contract. \<open>net w\<close> is the default subnet, once
  there is one; the laws of the network say that resolving it answers it, or makes it, and that
  the compute instances do not disturb it.
\<close>

locale vm_backend = resource_backend "vms_computeInstances svc" ci_Id lookup inv
  for svc :: "'w VmService" and lookup :: "'w \<Rightarrow> string \<Rightarrow> pb_ComputeInstance option" and inv :: "'w \<Rightarrow> bool" +
  fixes clk :: "'w Clock" and net :: "'w \<Rightarrow> string option"
  assumes net_known: "inv w \<Longrightarrow> net w = Some sid \<Longrightarrow> resolveDefaultSubnet clk svc w = Some (Inr sid, w)"
    and net_made: "inv w \<Longrightarrow> net w = None \<Longrightarrow> \<exists>sid w'. resolveDefaultSubnet clk svc w = Some (Inr sid, w') \<and>
      net w' = Some sid \<and> inv w' \<and> lookup w' = lookup w"
    and create_keeps_net: "inv w \<Longrightarrow> net (snd (rc_Create (vms_computeInstances svc) x w)) = net w"
begin

lemma resolve_cases:
  assumes "inv w"
  obtains sid w' where "resolveDefaultSubnet clk svc w = Some (Inr sid, w')" "net w' = Some sid" "inv w'"
    "lookup w' = lookup w" "net w \<noteq> None \<longrightarrow> w' = w"
  using net_known [OF assms] net_made [OF assms] assms by (cases "net w") blast+

lemma ci_Id_translated: "toOSACComputeInstance oor i spec = Inr obj \<Longrightarrow> ci_Id (attachSubnet sid obj) = i"
  by (auto simp: toOSACComputeInstance_def attachSubnet_def Let_def split: sum.splits prod.splits)

lemma vm_create_cases:
  assumes w: "inv w" and i: "i \<noteq> ''''"
  obtains (rejected) e where "toOSACComputeInstance oor i spec = Inl e"
      "\<And>w'. VM_Create oor clk svc i spec w' = Some (Inl e, w')"
  | (stored) y w' where "lookup w i = Some y" "VM_Create oor clk svc i spec w = Some (Inr (toAPIVM (Some y)), w')"
      "lookup w' = lookup w" "net w' \<noteq> None" "inv w'" "net w \<noteq> None \<longrightarrow> w' = w"
  | (fresh) y w' where "lookup w i = None" "ci_Id y = i"
      "VM_Create oor clk svc i spec w = Some (Inr (toAPIVM (Some y)), w')"
      "lookup w' = (lookup w)(i \<mapsto> y)" "net w' \<noteq> None" "inv w'"
proof (cases "toOSACComputeInstance oor i spec")
  case (Inl e)
  show thesis by (rule rejected [OF Inl]) (simp add: VM_Create_def Inl)
next
  case (Inr obj)
  from w obtain sid w1 where r: "resolveDefaultSubnet clk svc w = Some (Inr sid, w1)" "net w1 = Some sid"
    "inv w1" "lookup w1 = lookup w" "net w \<noteq> None \<longrightarrow> w1 = w" by (rule resolve_cases)
  note id_obj = ci_Id_translated [OF Inr, of sid]
  have "ci_Id (attachSubnet sid obj) \<noteq> ''''" using i id_obj by simp
  with r(3) show thesis
  proof (cases rule: create_cases)
    case (taken y m)
    then have y: "lookup w1 i = Some y" by (simp add: id_obj)
    then have "rc_Get (vms_computeInstances svc) i w1 = (Inr \<lparr>or_Object = Some y\<rparr>, w1)"
      by (rule get_found [OF r(3)])
    with taken have "VM_Create oor clk svc i spec w = Some (Inr (toAPIVM (Some y)), w1)"
      by (simp add: VM_Create_def Inr r(1))
    with y r show thesis by (intro stored [of y w1]) simp_all
  next
    case (fresh y w')
    then have "VM_Create oor clk svc i spec w = Some (Inr (toAPIVM (Some y)), w')"
      by (simp add: VM_Create_def Inr r(1))
    moreover have "net w' = Some sid" using create_keeps_net [OF r(3)] fresh r(2) by (metis snd_conv)
    ultimately show thesis using fresh r id_obj by (intro that(3) [of y w']) simp_all
  qed
qed

lemma vm_create_retry:
  assumes w: "inv w" and i: "i \<noteq> ''''" and "VM_Create oor clk svc i spec w = Some (Inr v, w1)"
  shows "VM_Create oor clk svc i spec w1 = Some (Inr v, w1)"
proof -
  have i1: "inv w1 \<and> net w1 \<noteq> None \<and> (\<exists>y. lookup w1 i = Some y \<and> v = toAPIVM (Some y))"
    using w i by (cases rule: vm_create_cases [where oor = oor and spec = spec]) (use assms(3) in auto)
  then have "inv w1" ..
  from this i show ?thesis
    by (cases rule: vm_create_cases [where oor = oor and spec = spec]) (use i1 assms(3) in auto)
qed

lemma vm_delete_then_gone:
  assumes "inv w"
  shows "\<exists>w1. VM_Delete svc i w = (Inr (), w1) \<and> inv w1 \<and> lookup w1 = (lookup w)(i := None) \<and>
    VM_Delete svc i w1 = (Inr (), w1) \<and> (\<exists>m. VM_Get svc i w1 = (Inl (StatusError NotFound m), w1))"
proof -
  obtain w1 where w1: "VM_Delete svc i w = (Inr (), w1)" "inv w1" "lookup w1 = (lookup w)(i := None)"
    using assms
  proof (cases rule: delete_cases [where i = i])
    case (absent m)
    then have "lookup w = (lookup w)(i := None)" by (simp add: fun_eq_iff)
    with absent that [of w] assms show ?thesis by (simp add: VM_Delete_def)
  next
    case (found w')
    with that [of w'] show ?thesis by (simp add: VM_Delete_def)
  qed
  from w1(3) have "lookup w1 i = None" by simp
  from delete_absent [OF w1(2) this] get_absent [OF w1(2) this] w1 show ?thesis
    by (auto simp: VM_Delete_def VM_Get_def)
qed

end

section \<open>Paging through the virtual machines\<close>

definition vm_page ::
  "'w VmService \<Rightarrow> int option \<Rightarrow> string option \<Rightarrow> ('w, VirtualMachine list \<times> string option) call" where
  "vm_page s pageSize token w =
     (case VM_List s \<lparr>lp_PageToken = token, lp_MaxPageSize = pageSize\<rparr> w of
        (Inl e, w1) \<Rightarrow> (Inl e, w1)
      | (Inr l, w1) \<Rightarrow> (Inr (vml_Results l, vml_NextPageToken l), w1))"

locale vm_pages = page_source "rc_List (vms_computeInstances svc)" objs inv
  for svc :: "'w VmService" and objs :: "'w \<Rightarrow> pb_ComputeInstance list" and inv :: "'w \<Rightarrow> bool" +
  fixes pageSize :: "int option" and lim :: nat
  assumes page_size: "NormalizeMaxPageSize pageSize vm_defaultPageSize = Inr (int lim)"
    and int32_total: "inv w \<Longrightarrow> int (length (objs w)) \<le> MaxInt32"
begin

lemma lim_bounds: "0 < lim" "int lim \<le> MaxInt32"
  using NormalizeMaxPageSize_bounds [OF page_size]
  by (simp_all add: vm_defaultPageSize_def maxPageSize_def MaxInt32_def)

lemma page_at:
  assumes "inv w" and "n \<le> length (objs w)"
    and tok: "(case token of None \<Rightarrow> Inr 0 | Some t \<Rightarrow> if t = '''' then Inr 0 else vm_decodePageToken t) = Inr (int n)"
  shows "vm_page svc pageSize token w =
    (Inr (page_of vm_encodePageToken lim (map (\<lambda>c. toAPIVM (Some c)) (objs w)) n), w)"
proof -
  let ?rs = "take lim (drop n (objs w))"
  have t: "int (length (objs w)) \<le> MaxInt32" by (rule int32_total [OF assms(1)])
  then have n: "int n \<le> MaxInt32" using assms(2) by simp
  have page: "rc_List (vms_computeInstances svc) \<lparr>lq_Offset = Some (int n), lq_Limit = Some (int lim),
      lq_Filter = Some vm_ownershipFilter, lq_Order = None\<rparr> w =
    (Inr \<lparr>lr_Size = int (length ?rs), lr_Total = int (length (objs w)), lr_Items = ?rs\<rparr>, w)"
    using list_page [OF assms(1) _ n _ lim_bounds(2) t] lim_bounds(1) by simp
  have len: "n + length ?rs \<le> length (objs w)" using assms(2) by simp
  then have "is_int32 (int (length ?rs))" "is_int32 (int n + int (length ?rs))"
    using t by (simp_all add: is_int32_def MaxInt32_def)
  then have w32: "wrap32 (int n + wrap32 (int (length ?rs))) = int (n + length ?rs)" by simp
  show ?thesis
    using tok w32 unfolding vm_page_def VM_List_def
    by (simp add: page_size page page_of_def Let_def take_map drop_map del: length_take length_drop)
qed

end

sublocale vm_pages \<subseteq> pages: paged_op "vm_page svc pageSize"
  "\<lambda>w. map (\<lambda>c. toAPIVM (Some c)) (objs w)" inv vm_encodePageToken lim
proof
  show "0 < lim" by (rule lim_bounds)
next
  fix w assume "inv w"
  then show "vm_page svc pageSize None w =
      (Inr (page_of vm_encodePageToken lim (map (\<lambda>c. toAPIVM (Some c)) (objs w)) 0), w)"
    using page_at [of w 0 None] by simp
next
  fix w n assume a: "inv w" "n < length (map (\<lambda>c. toAPIVM (Some c)) (objs w))"
  then have "int n \<le> MaxInt32" using int32_total [OF a(1)] by simp
  with a show "vm_page svc pageSize (Some (vm_encodePageToken (int n))) w =
      (Inr (page_of vm_encodePageToken lim (map (\<lambda>c. toAPIVM (Some c)) (objs w)) n), w)"
    using page_at [of w n "Some (vm_encodePageToken (int n))"] vm_token.encode_nonempty
      vm_token.decode_encode [of "int n"] by simp
qed

context vm_pages
begin

lemma all_pages:
  "inv w \<Longrightarrow> follow_pages (Suc (length (objs w))) (vm_page svc pageSize) None w = (Inr (map (\<lambda>c. toAPIVM (Some c)) (objs w)), w)"
  using pages.follow_all [of w] by simp

end

end
