(* ===== verification/Status_Poll.thy ===== *)
theory Status_Poll
  imports Status_Publisher Config Cluster_Service Vm_Service
begin

text \<open>
  \<open>internal/statuspoll\<close>: \<open>message.go\<close>, the message of a status, and \<open>poller.go\<close>, the loop that
  lists every cluster and compute instance, compares what it finds with what it reported last and
  publishes what changed.

  The publisher is an argument, the function \<open>publish\<close> over a state \<open>'p\<close>; so is the order in
  which a loop over a cache visits its keys. The page loops may run forever against a server that
  keeps promising more, so they are partial functions; what they need to return is a lemma. Each
  of the two service types has its own copy of the operations, as in the code; the locale
  \<open>status_cache\<close> is what the copies share.
\<close>

section \<open>message.go\<close>

definition clusterConditionTypeFor :: "ClusterStatus \<Rightarrow> int \<times> bool" where
  "clusterConditionTypeFor status =
     (case status of
        ClusterStatusACTIVE \<Rightarrow> (CLUSTER_CONDITION_TYPE_READY, True)
      | ClusterStatusPROGRESSING \<Rightarrow> (CLUSTER_CONDITION_TYPE_PROGRESSING, True)
      | ClusterStatusDEGRADED \<Rightarrow> (CLUSTER_CONDITION_TYPE_DEGRADED, True)
      | ClusterStatusFAILED \<Rightarrow> (CLUSTER_CONDITION_TYPE_FAILED, True)
      | _ \<Rightarrow> (CLUSTER_CONDITION_TYPE_UNSPECIFIED, False))"

text \<open>The loop over the conditions: the message or reason of the first of the type, if it has one.\<close>

fun condition_message :: "int \<Rightarrow> pb_ClusterCondition list \<Rightarrow> string option" where
  "condition_message condType [] = None"
| "condition_message condType (c # conditions) =
     (if cc_Type c \<noteq> condType then condition_message condType conditions
      else if opt_string (cc_Message c) \<noteq> '''' then Some (opt_string (cc_Message c))
      else if opt_string (cc_Reason c) \<noteq> '''' then Some (opt_string (cc_Reason c))
      else None)"

definition clusterMessage :: "ClusterStatus \<Rightarrow> pb_ClusterCondition list \<Rightarrow> string" where
  "clusterMessage status conditions =
     (let (condType, ok) = clusterConditionTypeFor status in
      case (if ok then condition_message condType conditions else None) of
        Some m \<Rightarrow> m
      | None \<Rightarrow> ''cluster is '' @ ToLower (ClusterStatus_string status))"

fun restart_message :: "pb_ComputeInstanceCondition list \<Rightarrow> string option" where
  "restart_message [] = None"
| "restart_message (c # conditions) =
     (if cic_Type c \<noteq> COMPUTE_INSTANCE_CONDITION_TYPE_RESTART_FAILED \<or> cic_Status c \<noteq> CONDITION_STATUS_TRUE
      then restart_message conditions
      else if opt_string (cic_Message c) \<noteq> '''' then Some (opt_string (cic_Message c))
      else if opt_string (cic_Reason c) \<noteq> '''' then Some (opt_string (cic_Reason c))
      else restart_message conditions)"

definition vmMessage :: "VMStatus \<Rightarrow> pb_ComputeInstanceCondition list \<Rightarrow> string" where
  "vmMessage status conditions =
     (case restart_message conditions of
        Some m \<Rightarrow> m
      | None \<Rightarrow> ''vm is '' @ ToLower (VMStatus_string status))"

section \<open>poller.go: the poller\<close>

definition poll_ownershipFilter :: string where
  "poll_ownershipFilter = ''this.metadata.labels['' @ quoted ''dcm.io/managed-by'' @ ''] == '' @ quoted ''dcm''"

definition listPageSize :: int where "listPageSize = 100"

definition disappearedMessage :: string where "disappearedMessage = ''resource no longer found''"

definition defaultListTimeout :: int where "defaultListTimeout = 10 * second"

definition clusterSubject :: string where "clusterSubject = ''dcm.cluster''"
definition vmSubject :: string where "vmSubject = ''dcm.vm''"
definition providerSourcePrefix :: string where "providerSourcePrefix = ''dcm/providers/''"

record cachedStatus =
  cs_status :: string
  cs_message :: string

record 'w Poller =
  plr_clusters :: "(pb_Cluster, 'w) ResourceClient"
  plr_computeInstances :: "(pb_ComputeInstance, 'w) ResourceClient"
  plr_clusterServiceType :: ServiceType
  plr_vmServiceType :: ServiceType
  plr_interval :: int
  plr_resyncEvery :: int
  plr_listTimeout :: int
  plr_clusterCache :: "string \<rightharpoonup> cachedStatus"
  plr_vmCache :: "string \<rightharpoonup> cachedStatus"
  plr_cycle :: int

definition poll_New ::
  "(pb_Cluster, 'w) ResourceClient \<Rightarrow> (pb_ComputeInstance, 'w) ResourceClient \<Rightarrow> string \<Rightarrow> string \<Rightarrow>
   StatusConfig \<Rightarrow> 'w Poller" where
  "poll_New clusters computeInstances clusterProviderName vmProviderName cfg =
     (let resyncEvery = (if stc_ResyncEvery cfg \<le> 0 then 1 else stc_ResyncEvery cfg);
          listTimeout = (if stc_ListTimeout cfg \<le> 0 then defaultListTimeout else stc_ListTimeout cfg) in
      \<lparr>plr_clusters = clusters, plr_computeInstances = computeInstances,
       plr_clusterServiceType = \<lparr>st_Subject = clusterSubject, st_Type = ''dcm.status.cluster'',
         st_Source = providerSourcePrefix @ clusterProviderName\<rparr>,
       plr_vmServiceType = \<lparr>st_Subject = vmSubject, st_Type = ''dcm.status.vm'',
         st_Source = providerSourcePrefix @ vmProviderName\<rparr>,
       plr_interval = stc_PollInterval cfg, plr_resyncEvery = resyncEvery, plr_listTimeout = listTimeout,
       plr_clusterCache = Map.empty, plr_vmCache = Map.empty, plr_cycle = 0\<rparr>)"

section \<open>poller.go: listing every page\<close>

text \<open>The loop of \<open>listClusters\<close> and of \<open>listComputeInstances\<close>, which is the same text twice.\<close>

partial_function (option) listLoop ::
  "(ListRequest \<Rightarrow> ('w, 'a ListResponse) call) \<Rightarrow> 'a list \<Rightarrow> int \<Rightarrow> 'w \<Rightarrow> ('a list res \<times> 'w) option" where
  "listLoop list_call all offset w =
     (case list_call \<lparr>lq_Offset = Ptr offset, lq_Limit = Ptr listPageSize, lq_Filter = Ptr poll_ownershipFilter,
            lq_Order = None\<rparr> w of
        (Inl err, w1) \<Rightarrow> Some (Inl err, w1)
      | (Inr resp, w1) \<Rightarrow>
          if lr_Items resp = [] then Some (Inr (all @ lr_Items resp), w1)
          else if wrap32 (offset + wrap32 (int (length (lr_Items resp)))) \<ge> lr_Total resp
          then Some (Inr (all @ lr_Items resp), w1)
          else listLoop list_call (all @ lr_Items resp) (wrap32 (offset + wrap32 (int (length (lr_Items resp))))) w1)"

definition listClusters :: "'w Poller \<Rightarrow> 'w \<Rightarrow> (pb_Cluster list res \<times> 'w) option" where
  "listClusters p w = listLoop (rc_List (plr_clusters p)) [] 0 w"

definition listComputeInstances :: "'w Poller \<Rightarrow> 'w \<Rightarrow> (pb_ComputeInstance list res \<times> 'w) option" where
  "listComputeInstances p w = listLoop (rc_List (plr_computeInstances p)) [] 0 w"

section \<open>poller.go: one cycle\<close>

type_synonym 'p publisher = "ServiceType \<Rightarrow> string \<Rightarrow> string \<Rightarrow> string \<Rightarrow> 'p \<Rightarrow> 'p"

definition publishClusterIfNeeded ::
  "'p publisher \<Rightarrow> string \<Rightarrow> string \<Rightarrow> string \<Rightarrow> bool \<Rightarrow> 'w Poller \<times> 'p \<Rightarrow> 'w Poller \<times> 'p" where
  "publishClusterIfNeeded publish id' status message resync = (\<lambda>(p, q).
     let changed = (case plr_clusterCache p id' of
           None \<Rightarrow> True
         | Some cached \<Rightarrow> cs_status cached \<noteq> status \<or> cs_message cached \<noteq> message) in
     (p \<lparr>plr_clusterCache := (plr_clusterCache p)(id' \<mapsto> \<lparr>cs_status = status, cs_message = message\<rparr>)\<rparr>,
      if changed \<or> resync then publish (plr_clusterServiceType p) id' status message q else q))"

definition publishVMIfNeeded ::
  "'p publisher \<Rightarrow> string \<Rightarrow> string \<Rightarrow> string \<Rightarrow> bool \<Rightarrow> 'w Poller \<times> 'p \<Rightarrow> 'w Poller \<times> 'p" where
  "publishVMIfNeeded publish id' status message resync = (\<lambda>(p, q).
     let changed = (case plr_vmCache p id' of
           None \<Rightarrow> True
         | Some cached \<Rightarrow> cs_status cached \<noteq> status \<or> cs_message cached \<noteq> message) in
     (p \<lparr>plr_vmCache := (plr_vmCache p)(id' \<mapsto> \<lparr>cs_status = status, cs_message = message\<rparr>)\<rparr>,
      if changed \<or> resync then publish (plr_vmServiceType p) id' status message q else q))"

text \<open>\<open>ids\<close> is the order of the loop over the cache.\<close>

definition pollClusters ::
  "'p publisher \<Rightarrow> string list \<Rightarrow> bool \<Rightarrow> 'w Poller \<Rightarrow> 'w \<Rightarrow> 'p \<Rightarrow> ('w Poller \<times> 'w \<times> 'p) option" where
  "pollClusters publish ids resync p w q =
     (case listClusters p w of
        None \<Rightarrow> None
      | Some (Inl err, w1) \<Rightarrow> Some (p, w1, q)
      | Some (Inr items, w1) \<Rightarrow>
          let seen = set (map (\<lambda>item. Cluster_GetId (Some item)) items);
              (p1, q1) = fold (\<lambda>item.
                let status = MapStatus None (Cluster_GetStatus (Some item));
                    message = clusterMessage status (ClusterStatus_GetConditions (Cluster_GetStatus (Some item)))
                in publishClusterIfNeeded publish (Cluster_GetId (Some item)) (ClusterStatus_string status) message resync)
                items (p, q);
              (p2, q2) = fold (\<lambda>id' (p, q).
                if id' \<in> seen then (p, q)
                else (p \<lparr>plr_clusterCache := (plr_clusterCache p)(id' := None)\<rparr>,
                      publish (plr_clusterServiceType p) id' (ClusterStatus_string ClusterStatusDELETED) disappearedMessage q))
                ids (p1, q1)
          in Some (p2, w1, q2))"

definition pollVMs ::
  "'p publisher \<Rightarrow> string list \<Rightarrow> bool \<Rightarrow> 'w Poller \<Rightarrow> 'w \<Rightarrow> 'p \<Rightarrow> ('w Poller \<times> 'w \<times> 'p) option" where
  "pollVMs publish ids resync p w q =
     (case listComputeInstances p w of
        None \<Rightarrow> None
      | Some (Inl err, w1) \<Rightarrow> Some (p, w1, q)
      | Some (Inr items, w1) \<Rightarrow>
          let seen = set (map (\<lambda>item. ComputeInstance_GetId (Some item)) items);
              (p1, q1) = fold (\<lambda>item.
                let status = vm_MapStatus None (ComputeInstance_GetStatus (Some item));
                    message = vmMessage status (ComputeInstanceStatus_GetConditions (ComputeInstance_GetStatus (Some item)))
                in publishVMIfNeeded publish (ComputeInstance_GetId (Some item)) (VMStatus_string status) message resync)
                items (p, q);
              (p2, q2) = fold (\<lambda>id' (p, q).
                if id' \<in> seen then (p, q)
                else (p \<lparr>plr_vmCache := (plr_vmCache p)(id' := None)\<rparr>,
                      publish (plr_vmServiceType p) id' (VMStatus_string VMStatusDELETED) disappearedMessage q))
                ids (p1, q1)
          in Some (p2, w1, q2))"

definition runCycle ::
  "'p publisher \<Rightarrow> string list \<Rightarrow> string list \<Rightarrow> 'w Poller \<Rightarrow> 'w \<Rightarrow> 'p \<Rightarrow> ('w Poller \<times> 'w \<times> 'p) option" where
  "runCycle publish cids vids p w q =
     (let resync = (plr_cycle p mod plr_resyncEvery p = 0) in
      case pollClusters publish cids resync p w q of
        None \<Rightarrow> None
      | Some (p1, w1, q1) \<Rightarrow>
          (case pollVMs publish vids resync p1 w1 q1 of
             None \<Rightarrow> None
           | Some (p2, w2, q2) \<Rightarrow> Some (p2 \<lparr>plr_cycle := wrap64 (plr_cycle p2 + 1)\<rparr>, w2, q2)))"

text \<open>
  The goroutine, up to the end of its context: a cycle, then one more after each tick. A tick
  comes with what the rest of the world did to OSAC meanwhile and with the orders of the loops.
\<close>

type_synonym 'w tick = "('w \<Rightarrow> 'w) \<times> string list \<times> string list"

fun poller_run :: "'p publisher \<Rightarrow> 'w tick \<Rightarrow> 'w tick list \<Rightarrow> 'w Poller \<Rightarrow> 'w \<Rightarrow> 'p \<Rightarrow> ('w Poller \<times> 'w \<times> 'p) option"
where
  "poller_run publish (meanwhile, cids, vids) ticks p w q =
     (case runCycle publish cids vids p (meanwhile w) q of
        None \<Rightarrow> None
      | Some (p1, w1, q1) \<Rightarrow>
          (case ticks of
             [] \<Rightarrow> Some (p1, w1, q1)
           | tick # rest \<Rightarrow> poller_run publish tick rest p1 w1 q1))"

section \<open>Lemmas: the page loop\<close>

context page_source
begin

lemma listLoop_from:
  assumes "inv w" and "int (length (items w)) \<le> MaxInt32" and "n \<le> length (items w)"
  shows "listLoop list_call (take n (items w)) (int n) w = Some (Inr (items w), w)"
  using assms(3)
proof (induction "length (items w) - n" arbitrary: n rule: less_induct)
  case less
  define rs where "rs = take 100 (drop n (items w))"
  have n: "int n \<le> MaxInt32" using less.prems assms(2) by simp
  have page: "list_call \<lparr>lq_Offset = Some (int n), lq_Limit = Some listPageSize, lq_Filter = Some poll_ownershipFilter,
      lq_Order = None\<rparr> w = (Inr \<lparr>lr_Size = int (length rs), lr_Total = int (length (items w)), lr_Items = rs\<rparr>, w)"
    using list_page [OF assms(1) _ n _ _ assms(2), of listPageSize] by (simp add: listPageSize_def MaxInt32_def rs_def)
  have len: "n + length rs \<le> length (items w)" using less.prems by (simp add: rs_def)
  have wrap: "wrap32 (int n + wrap32 (int (length rs))) = int (n + length rs)"
    using len assms(2) by (subst wrap32_int32, simp_all add: is_int32_def MaxInt32_def)+
  have all: "take n (items w) @ rs = take (n + length rs) (items w)"
    by (simp add: rs_def take_add min_def)
  have nonempty: "rs \<noteq> [] \<longleftrightarrow> n < length (items w)" by (auto simp: rs_def)
  consider (empty) "rs = []" | (last) "rs \<noteq> []" "n + length rs = length (items w)"
    | (more) "rs \<noteq> []" "n + length rs < length (items w)" using len by linarith
  then show ?case
  proof cases
    case empty
    with less.prems nonempty have "n = length (items w)" by simp
    with empty page show ?thesis by (subst listLoop.simps) simp
  next
    case last
    with page wrap all show ?thesis by (subst listLoop.simps) simp
  next
    case more
    then have "0 < length rs" by simp
    with more have "length (items w) - (n + length rs) < length (items w) - n" by linarith
    from less.hyps [OF this len]
    have "listLoop list_call (take (n + length rs) (items w)) (int (n + length rs)) w = Some (Inr (items w), w)" .
    with page wrap all more show ?thesis by (subst listLoop.simps) simp
  qed
qed

lemma listLoop_complete:
  "inv w \<Longrightarrow> int (length (items w)) \<le> MaxInt32 \<Longrightarrow> listLoop list_call [] 0 w = Some (Inr (items w), w)"
  using listLoop_from [of w 0] by simp

end

text \<open>
  What the loop needs to return: a server that honours the limit and promises at most some total.
\<close>

definition bounded_pages :: "int \<Rightarrow> (ListRequest \<Rightarrow> ('w, 'a ListResponse) call) \<Rightarrow> bool" where
  "bounded_pages bound list_call \<longleftrightarrow>
     (\<forall>req w resp w1. list_call req w = (Inr resp, w1) \<longrightarrow>
        (case lq_Limit req of None \<Rightarrow> True | Some lim \<Rightarrow> int (length (lr_Items resp)) \<le> max 0 lim) \<and> lr_Total resp \<le> bound)"

lemma listLoop_returns:
  assumes "bounded_pages bound list_call" and "bound \<le> MaxInt32 - listPageSize" and "0 \<le> offset" "offset \<le> bound"
  shows "listLoop list_call all offset w \<noteq> None"
  using assms(3,4)
proof (induction "nat (bound - offset)" arbitrary: all offset w rule: less_induct)
  case less
  let ?req = "\<lparr>lq_Offset = Some offset, lq_Limit = Some listPageSize, lq_Filter = Some poll_ownershipFilter, lq_Order = None\<rparr>"
  obtain r w1 where call: "list_call ?req w = (r, w1)" by force
  show ?case
  proof (cases r)
    case (Inl e)
    with call show ?thesis by (subst listLoop.simps) simp
  next
    case (Inr resp)
    define n where "n = int (length (lr_Items resp))"
    have n: "0 \<le> n" "n \<le> listPageSize" and t: "lr_Total resp \<le> bound"
      using assms(1) call Inr by (fastforce simp: bounded_pages_def n_def listPageSize_def)+
    have "wrap32 n = n" using n by (intro wrap32_int32) (simp add: is_int32_def listPageSize_def)
    moreover have "wrap32 (offset + n) = offset + n"
      using n less.prems assms(2) by (intro wrap32_int32) (simp add: is_int32_def listPageSize_def MaxInt32_def)
    ultimately have step: "listLoop list_call all offset w =
      (if lr_Items resp = [] then Some (Inr (all @ lr_Items resp), w1)
       else if offset + n \<ge> lr_Total resp then Some (Inr (all @ lr_Items resp), w1)
       else listLoop list_call (all @ lr_Items resp) (offset + n) w1)"
      using call Inr by (subst listLoop.simps) (simp add: n_def)
    show ?thesis
    proof (cases "lr_Items resp = [] \<or> offset + n \<ge> lr_Total resp")
      case True
      then show ?thesis by (auto simp: step)
    next
      case False
      then have lt: "0 < n" "offset + n < bound" using t by (auto simp: n_def)
      then have "listLoop list_call (all @ lr_Items resp) (offset + n) w1 \<noteq> None"
        using less.prems by (intro less.hyps) simp_all
      with False show ?thesis by (simp add: step)
    qed
  qed
qed

section \<open>Lemmas: one poll\<close>

text \<open>
  What a poll reports: the listing as identifiers with their status, \<open>changes\<close> of it against the
  cache, and the message \<open>gone\<close> for what the cache has and the listing does not.
\<close>

definition changes ::
  "bool \<Rightarrow> (string \<rightharpoonup> cachedStatus) \<Rightarrow> (string \<times> cachedStatus) list \<Rightarrow> (string \<times> cachedStatus) list" where
  "changes resync cache found = filter (\<lambda>(i, c). cache i \<noteq> Some c \<or> resync) found"

definition vanished :: "cachedStatus \<Rightarrow> (string \<times> cachedStatus) list \<Rightarrow> string list \<Rightarrow> (string \<times> cachedStatus) list" where
  "vanished gone found ids = map (\<lambda>i. (i, gone)) (filter (\<lambda>i. i \<notin> fst ` set found) ids)"

definition send_all :: "'p publisher \<Rightarrow> ServiceType \<Rightarrow> (string \<times> cachedStatus) list \<Rightarrow> 'p \<Rightarrow> 'p" where
  "send_all publish st us q = fold (\<lambda>(i, c). publish st i (cs_status c) (cs_message c)) us q"

lemma send_all_append: "send_all publish st (us @ vs) q = send_all publish st vs (send_all publish st us q)"
  by (simp add: send_all_def)

lemma send_all_Nil [simp]: "send_all publish st [] q = q"
  by (simp add: send_all_def)

lemma send_all_Cons [simp]:
  "send_all publish st ((i, c) # us) q = send_all publish st us (publish st i (cs_status c) (cs_message c) q)"
  by (simp add: send_all_def)

text \<open>
  A cache in the poller: how it is read and written, and a poll written over it. The two polls of
  the code are instances.
\<close>

locale status_cache =
  fixes cache :: "'w Poller \<Rightarrow> (string \<rightharpoonup> cachedStatus)"
    and set_cache :: "(string \<rightharpoonup> cachedStatus) \<Rightarrow> 'w Poller \<Rightarrow> 'w Poller"
    and stype :: "'w Poller \<Rightarrow> ServiceType"
    and listing :: "'w Poller \<Rightarrow> 'w \<Rightarrow> ('a list res \<times> 'w) option"
    and found :: "'a list \<Rightarrow> (string \<times> cachedStatus) list"
    and gone :: cachedStatus
    and poll :: "'p publisher \<Rightarrow> string list \<Rightarrow> bool \<Rightarrow> 'w Poller \<Rightarrow> 'w \<Rightarrow> 'p \<Rightarrow> ('w Poller \<times> 'w \<times> 'p) option"
  assumes cache_set [simp]: "cache (set_cache c p) = c"
    and set_set [simp]: "set_cache c (set_cache d p) = set_cache c p"
    and set_same: "set_cache (cache p) p = p"
    and stype_set [simp]: "stype (set_cache c p) = stype p"
    and poll_failed: "listing p w = Some (Inl err, w1) \<Longrightarrow> poll publish ids resync p w q = Some (p, w1, q)"
    and poll_listed: "listing p w = Some (Inr xs, w1) \<Longrightarrow> poll publish ids resync p w q =
      (let (p1, q1) = fold (\<lambda>(i, c) (p, q). (set_cache ((cache p)(i \<mapsto> c)) p,
               if cache p i \<noteq> Some c \<or> resync then publish (stype p) i (cs_status c) (cs_message c) q else q))
             (found xs) (p, q);
           (p2, q2) = fold (\<lambda>i (p, q). if i \<in> fst ` set (found xs) then (p, q)
               else (set_cache ((cache p)(i := None)) p, publish (stype p) i (cs_status gone) (cs_message gone) q))
             ids (p1, q1)
       in Some (p2, w1, q2))"
begin

lemma report_found:
  assumes "distinct (map fst us)"
  shows "fold (\<lambda>(i, c) (p, q). (set_cache ((cache p)(i \<mapsto> c)) p,
        if cache p i \<noteq> Some c \<or> resync then publish (stype p) i (cs_status c) (cs_message c) q else q)) us (p, q) =
    (set_cache (cache p ++ map_of us) p, send_all publish (stype p) (changes resync (cache p) us) q)"
  using assms
proof (induction us arbitrary: p q)
  case Nil
  then show ?case by (simp add: set_same changes_def)
next
  case (Cons u us)
  obtain i c where u: "u = (i, c)" by force
  from Cons.prems have i: "i \<notin> dom (map_of us)" by (simp add: u dom_map_of_conv_image_fst)
  have "changes resync ((cache p)(i \<mapsto> c)) us = changes resync (cache p) us"
    using Cons.prems by (auto simp: u changes_def image_iff intro!: filter_cong)
  moreover have "(cache p)(i \<mapsto> c) ++ map_of us = cache p ++ map_of ((i, c) # us)"
    by (simp add: map_add_upd_left [OF i])
  moreover have "changes resync (cache p) ((i, c) # us) =
      (if cache p i \<noteq> Some c \<or> resync then [(i, c)] else []) @ changes resync (cache p) us"
    by (simp add: changes_def)
  moreover have "distinct (map fst us)" using Cons.prems by simp
  ultimately show ?case
    by (simp only: u fold_Cons comp_apply split_conv Cons.IH cache_set set_set stype_set send_all_append
        if_distrib [where f = "\<lambda>us. send_all publish (stype p) us q"] send_all_Cons send_all_Nil)
qed

lemma report_vanished:
  "fold (\<lambda>i (p, q). if i \<in> seen then (p, q)
      else (set_cache ((cache p)(i := None)) p, publish (stype p) i (cs_status gone) (cs_message gone) q)) ids (p, q) =
   (set_cache (\<lambda>i. if i \<in> set ids - seen then None else cache p i) p,
    send_all publish (stype p) (map (\<lambda>i. (i, gone)) (filter (\<lambda>i. i \<notin> seen) ids)) q)"
proof (induction ids arbitrary: p q)
  case Nil
  then show ?case by (simp add: set_same)
next
  case (Cons i ids)
  have "(\<lambda>j. if j \<in> set ids - seen then None else ((cache p)(i := None)) j) =
      (\<lambda>j. if j \<in> set (i # ids) - seen then None else cache p j)" if "i \<notin> seen"
    using that by auto
  moreover have "(\<lambda>j. if j \<in> set ids - seen then None else cache p j) =
      (\<lambda>j. if j \<in> set (i # ids) - seen then None else cache p j)" if "i \<in> seen"
    using that by auto
  ultimately show ?case
    by (cases "i \<in> seen") (simp_all only: fold_Cons comp_apply split_conv if_True if_False simp_thms Cons.IH
        cache_set set_set stype_set filter.simps list.map send_all_Cons)
qed

lemma poll_reports:
  assumes "listing p w = Some (Inr xs, w1)" and "distinct (map fst (found xs))"
    and "set ids = dom (cache p) \<union> fst ` set (found xs)"
  shows "poll publish ids resync p w q =
    Some (set_cache (map_of (found xs)) p, w1,
      send_all publish (stype p) (changes resync (cache p) (found xs) @ vanished gone (found xs) ids) q)"
proof -
  let ?F = "fst ` set (found xs)"
  have "(if i \<in> set ids - ?F then None else (cache p ++ map_of (found xs)) i) = map_of (found xs) i" for i
  proof (cases "i \<in> ?F")
    case True
    then obtain c where "map_of (found xs) i = Some c" by (metis dom_map_of_conv_image_fst domD)
    with True show ?thesis by (simp add: map_add_def)
  next
    case False
    then have "map_of (found xs) i = None" by (simp add: map_of_eq_None_iff)
    with False assms(3) show ?thesis by (auto simp: map_add_def)
  qed
  then show ?thesis
    unfolding poll_listed [OF assms(1)] report_found [OF assms(2)] report_vanished Let_def split_conv cache_set
      set_set stype_set vanished_def send_all_append by presburger
qed

text \<open>A listing that agrees with the cache, on a cycle that does not resync, is silent.\<close>

lemma poll_quiet:
  assumes "listing p w = Some (Inr xs, w1)" and "distinct (map fst (found xs))"
    and "cache p = map_of (found xs)" and "set ids = dom (cache p)"
  shows "poll publish ids False p w q = Some (p, w1, q)"
proof -
  have "changes False (cache p) (found xs) = []"
    using assms(2,3) by (auto simp: changes_def filter_empty_conv)
  moreover have "vanished gone (found xs) ids = []"
    using assms(3,4) by (simp add: vanished_def filter_empty_conv dom_map_of_conv_image_fst)
  moreover have "set ids = dom (cache p) \<union> fst ` set (found xs)"
    using assms(3,4) by (simp add: dom_map_of_conv_image_fst)
  ultimately show ?thesis using poll_reports [OF assms(1,2)] set_same [of p] assms(3) by simp
qed

end

section \<open>The two polls\<close>

definition cluster_report :: "pb_Cluster \<Rightarrow> cachedStatus" where
  "cluster_report c =
     (let status = MapStatus None (Cluster_GetStatus (Some c)) in
      \<lparr>cs_status = ClusterStatus_string status,
       cs_message = clusterMessage status (ClusterStatus_GetConditions (Cluster_GetStatus (Some c)))\<rparr>)"

definition vm_report :: "pb_ComputeInstance \<Rightarrow> cachedStatus" where
  "vm_report c =
     (let status = vm_MapStatus None (ComputeInstance_GetStatus (Some c)) in
      \<lparr>cs_status = VMStatus_string status,
       cs_message = vmMessage status (ComputeInstanceStatus_GetConditions (ComputeInstance_GetStatus (Some c)))\<rparr>)"

definition clusters_found :: "pb_Cluster list \<Rightarrow> (string \<times> cachedStatus) list" where
  "clusters_found = map (\<lambda>c. (Cluster_GetId (Some c), cluster_report c))"

definition vms_found :: "pb_ComputeInstance list \<Rightarrow> (string \<times> cachedStatus) list" where
  "vms_found = map (\<lambda>c. (ComputeInstance_GetId (Some c), vm_report c))"

definition cluster_gone :: cachedStatus where
  "cluster_gone = \<lparr>cs_status = ClusterStatus_string ClusterStatusDELETED, cs_message = disappearedMessage\<rparr>"

definition vm_gone :: cachedStatus where
  "vm_gone = \<lparr>cs_status = VMStatus_string VMStatusDELETED, cs_message = disappearedMessage\<rparr>"

lemma changed_iff:
  "(case m id' of None \<Rightarrow> True | Some cached \<Rightarrow> cs_status cached \<noteq> s \<or> cs_message cached \<noteq> t) \<longleftrightarrow>
   m id' \<noteq> Some \<lparr>cs_status = s, cs_message = t\<rparr>"
  by (auto split: option.split)

lemma cluster_step:
  "publishClusterIfNeeded publish id' s t resync = (\<lambda>(p, q).
     (plr_clusterCache_update (\<lambda>_. (plr_clusterCache p)(id' \<mapsto> \<lparr>cs_status = s, cs_message = t\<rparr>)) p,
      if plr_clusterCache p id' \<noteq> Some \<lparr>cs_status = s, cs_message = t\<rparr> \<or> resync
      then publish (plr_clusterServiceType p) id' s t q else q))"
  by (simp only: publishClusterIfNeeded_def Let_def changed_iff)

lemma vm_step:
  "publishVMIfNeeded publish id' s t resync = (\<lambda>(p, q).
     (plr_vmCache_update (\<lambda>_. (plr_vmCache p)(id' \<mapsto> \<lparr>cs_status = s, cs_message = t\<rparr>)) p,
      if plr_vmCache p id' \<noteq> Some \<lparr>cs_status = s, cs_message = t\<rparr> \<or> resync
      then publish (plr_vmServiceType p) id' s t q else q))"
  by (simp only: publishVMIfNeeded_def Let_def changed_iff)

lemma seen_clusters: "set (map (\<lambda>item. Cluster_GetId (Some item)) xs) = fst ` set (clusters_found xs)"
  by (simp add: clusters_found_def image_image)

lemma seen_vms: "set (map (\<lambda>item. ComputeInstance_GetId (Some item)) xs) = fst ` set (vms_found xs)"
  by (simp add: vms_found_def image_image)

interpretation cluster_poll: status_cache plr_clusterCache "\<lambda>c. plr_clusterCache_update (\<lambda>_. c)"
  plr_clusterServiceType listClusters clusters_found cluster_gone pollClusters
proof (unfold_locales, goal_cases)
  case (6 p w xs w1 publish ids resync q)
  show ?case unfolding pollClusters_def 6 option.case sum.case prod.case seen_clusters
    by (simp only: clusters_found_def fold_map comp_def split_conv Let_def cluster_step cluster_report_def cluster_gone_def
        cachedStatus.select_convs)
qed (simp_all add: pollClusters_def)

interpretation vm_poll: status_cache plr_vmCache "\<lambda>c. plr_vmCache_update (\<lambda>_. c)"
  plr_vmServiceType listComputeInstances vms_found vm_gone pollVMs
proof (unfold_locales, goal_cases)
  case (6 p w xs w1 publish ids resync q)
  show ?case unfolding pollVMs_def 6 option.case sum.case prod.case seen_vms
    by (simp only: vms_found_def fold_map comp_def split_conv Let_def vm_step vm_report_def vm_gone_def
        cachedStatus.select_convs)
qed (simp_all add: pollVMs_def)

lemma found_ids [simp]:
  "map fst (clusters_found cs) = map pc_Id cs" "map fst (vms_found vs) = map ci_Id vs"
  "fst ` set (clusters_found cs) = pc_Id ` set cs" "fst ` set (vms_found vs) = ci_Id ` set vs"
  by (simp_all add: clusters_found_def vms_found_def comp_def image_image)

lemma reported_once:
  assumes "distinct (map fst us)" and "distinct ids"
  shows "distinct (map fst (changes resync cache us @ vanished gone us ids))"
proof -
  have "map fst (vanished gone us ids) = filter (\<lambda>i. i \<notin> fst ` set us) ids" by (simp add: vanished_def comp_def)
  moreover have "distinct (map fst (changes resync cache us))"
    using assms(1) by (simp add: changes_def distinct_map_filter)
  moreover have "fst ` set (changes resync cache us) \<subseteq> fst ` set us" by (auto simp: changes_def)
  ultimately show ?thesis using assms(2) by (auto simp del: set_map simp: image_set [symmetric])
qed

context status_cache
begin

lemma found_only_cache:
  "\<exists>c q'. fold (\<lambda>(i, c) (p, q). (set_cache ((cache p)(i \<mapsto> c)) p,
      if cache p i \<noteq> Some c \<or> resync then publish (stype p) i (cs_status c) (cs_message c) q else q)) us (p, q) =
    (set_cache c p, q')"
proof (induction us arbitrary: p q)
  case Nil
  then show ?case using set_same [of p] by (metis fold_simps(1))
next
  case (Cons u us)
  obtain i c where u: "u = (i, c)" by force
  let ?p = "set_cache ((cache p)(i \<mapsto> c)) p"
  let ?q = "if cache p i \<noteq> Some c \<or> resync then publish (stype p) i (cs_status c) (cs_message c) q else q"
  from Cons.IH [of ?p ?q] show ?case by (simp only: u fold_Cons comp_apply split_conv set_set)
qed

text \<open>A poll whose listing returns, returns, and changes nothing but its cache.\<close>

lemma poll_returns:
  assumes "listing p w \<noteq> None"
  obtains c w' q' where "poll publish ids resync p w q = Some (set_cache c p, w', q')"
proof -
  from assms obtain r w1 where l: "listing p w = Some (r, w1)" by force
  show thesis
  proof (cases r)
    case (Inl e)
    with poll_failed l set_same that show ?thesis by metis
  next
    case (Inr xs)
    obtain c q1 where "fold (\<lambda>(i, c) (p, q). (set_cache ((cache p)(i \<mapsto> c)) p,
      if cache p i \<noteq> Some c \<or> resync then publish (stype p) i (cs_status c) (cs_message c) q else q)) (found xs) (p, q) =
      (set_cache c p, q1)"
      using found_only_cache [where resync = resync and publish = publish and us = "found xs" and p = p and q = q]
      by (elim exE) (rule that)
    with that show ?thesis
      unfolding poll_listed [OF l [unfolded Inr]] by (simp only: Let_def split_conv report_vanished set_set)
  qed
qed

end

lemma runCycle_returns:
  assumes "bounded_pages bound (rc_List (plr_clusters p))" and "bounded_pages bound (rc_List (plr_computeInstances p))"
    and "0 \<le> bound" and "bound \<le> MaxInt32 - listPageSize"
  obtains p' w' q' where "runCycle publish cids vids p w q = Some (p', w', q')"
    "plr_clusters p' = plr_clusters p" "plr_computeInstances p' = plr_computeInstances p"
proof -
  let ?resync = "plr_cycle p mod plr_resyncEvery p = 0"
  have "listClusters p w \<noteq> None"
    unfolding listClusters_def by (rule listLoop_returns [OF assms(1,4)]) (use assms(3) in simp_all)
  then obtain c w1 q1 where 1: "pollClusters publish cids ?resync p w q = Some (p \<lparr>plr_clusterCache := c\<rparr>, w1, q1)"
    by (rule cluster_poll.poll_returns)
  have "listComputeInstances (p \<lparr>plr_clusterCache := c\<rparr>) w1 \<noteq> None"
    unfolding listComputeInstances_def by (rule listLoop_returns [OF _ assms(4)]) (use assms(2,3) in simp_all)
  then obtain d w2 q2 where "pollVMs publish vids ?resync (p \<lparr>plr_clusterCache := c\<rparr>) w1 q1 =
      Some (p \<lparr>plr_clusterCache := c, plr_vmCache := d\<rparr>, w2, q2)"
    by (rule vm_poll.poll_returns)
  with 1 that show ?thesis by (simp add: runCycle_def Let_def)
qed

section \<open>An example\<close>

definition demo_list :: "'a list \<Rightarrow> ('a, 'w) ResourceClient" where
  "demo_list xs =
     \<lparr>rc_List = \<lambda>req w. (Inr \<lparr>lr_Size = int (length xs), lr_Total = int (length xs), lr_Items = xs\<rparr>, w),
      rc_Get = \<lambda>_ w. (Inl ContextCanceled, w), rc_Create = \<lambda>_ w. (Inl ContextCanceled, w),
      rc_Delete = \<lambda>_ w. (Inl ContextCanceled, w)\<rparr>"

definition demo_cluster :: pb_Cluster where
  "demo_cluster = \<lparr>pc_Id = ''c1'', pc_Metadata = None, pc_Spec = None, pc_Status = None\<rparr>"

definition demo_poller :: "unit Poller" where
  "demo_poller = (poll_New (demo_list [demo_cluster]) (demo_list []) ''c'' ''v''
     \<lparr>stc_PollInterval = second, stc_ResyncEvery = 2, stc_ListTimeout = 0\<rparr>) \<lparr>plr_cycle := 1\<rparr>"

lemma demo_poller_lists:
  "listClusters demo_poller () = Some (Inr [demo_cluster], ())"
  "listComputeInstances demo_poller () = Some (Inr [], ())"
  "listClusters (demo_poller \<lparr>plr_clusterCache := c\<rparr>) () = Some (Inr [demo_cluster], ())"
  by (simp_all add: listClusters_def listComputeInstances_def demo_poller_def poll_New_def demo_list_def
      wrap32_def listLoop.simps [of _ "[]"])

lemma demo_poller_sel [simp]:
  "plr_clusterCache demo_poller = Map.empty" "plr_vmCache demo_poller = Map.empty"
  "plr_cycle demo_poller = 1" "plr_resyncEvery demo_poller = 2"
  by (simp_all add: demo_poller_def poll_New_def)

lemma demo_report: "cluster_report demo_cluster = \<lparr>cs_status = ''PROGRESSING'', cs_message = ''cluster is progressing''\<rparr>"
proof -
  have "ToLower ''PROGRESSING'' = ''progressing''" by code_simp
  then show ?thesis
    by (simp add: cluster_report_def demo_cluster_def MapStatus_def clusterMessage_def clusterConditionTypeFor_def pb_simps)
qed

section \<open>Properties\<close>



text \<open>
  C10. What a poll reports, for both service types: after a listing the cache is exactly that
  listing, and what was published is, in order, each listed resource that is new or has another
  status or message (every one on a resync cycle), then each resource that was cached and is no
  longer listed, as deleted; no resource twice.
\<close>

theorem poll_reports_changes:
  assumes "listClusters p w = Some (Inr cs, w1)" and "distinct (map pc_Id cs)"
    and "distinct cids" and "set cids = dom (plr_clusterCache p) \<union> pc_Id ` set cs"
    and "listComputeInstances p' w' = Some (Inr vs, w2)" and "distinct (map ci_Id vs)"
    and "distinct vids" and "set vids = dom (plr_vmCache p') \<union> ci_Id ` set vs"
  shows "(let us = changes resync (plr_clusterCache p) (clusters_found cs) @ vanished cluster_gone (clusters_found cs) cids in
      pollClusters publish cids resync p w q =
        Some (p \<lparr>plr_clusterCache := map_of (clusters_found cs)\<rparr>, w1, send_all publish (plr_clusterServiceType p) us q) \<and>
      distinct (map fst us)) \<and>
    (let us = changes resync (plr_vmCache p') (vms_found vs) @ vanished vm_gone (vms_found vs) vids in
      pollVMs publish vids resync p' w' q =
        Some (p' \<lparr>plr_vmCache := map_of (vms_found vs)\<rparr>, w2, send_all publish (plr_vmServiceType p') us q) \<and>
      distinct (map fst us))"
proof -
  have c: "distinct (map fst (clusters_found cs))" "set cids = dom (plr_clusterCache p) \<union> fst ` set (clusters_found cs)"
    and v: "distinct (map fst (vms_found vs))" "set vids = dom (plr_vmCache p') \<union> fst ` set (vms_found vs)"
    using assms by simp_all
  show ?thesis unfolding Let_def
    by (intro conjI cluster_poll.poll_reports [OF assms(1) c] reported_once [OF c(1) assms(3)]
        vm_poll.poll_reports [OF assms(5) v] reported_once [OF v(1) assms(7)])
qed

theorem poll_reports_changes_witness:
  "pollClusters (\<lambda>st i s m q. q @ [(i, s)]) [''gone'', ''c1''] False
      (demo_poller \<lparr>plr_clusterCache := [''gone'' \<mapsto> cluster_gone]\<rparr>) () [] =
    Some (demo_poller \<lparr>plr_clusterCache := [''c1'' \<mapsto> cluster_report demo_cluster]\<rparr>, (),
      [(''c1'', ''PROGRESSING''), (''gone'', ''DELETED'')])"
proof -
  let ?p = "demo_poller \<lparr>plr_clusterCache := [''gone'' \<mapsto> cluster_gone]\<rparr>"
  have ids: "set [''gone'', ''c1''] = dom (plr_clusterCache ?p) \<union> pc_Id ` set [demo_cluster]"
    by (auto simp: demo_cluster_def)
  have "distinct [''gone'', ''c1'']" by simp
  from poll_reports_changes [OF demo_poller_lists(3) _ this ids demo_poller_lists(2), where vids = "[]" and
      publish = "\<lambda>st i s m q. q @ [(i, s)]" and resync = False and q = "[]"]
  show ?thesis
    by (simp add: Let_def changes_def vanished_def clusters_found_def demo_cluster_def [symmetric] demo_report
        cluster_gone_def send_all_def) (simp add: demo_cluster_def)
qed

text \<open>
  A cycle that learns nothing says nothing: when a listing fails, or agrees with what was
  last reported and the cycle is no resync, nothing is published for that service type and its
  cache stays; so one failed listing neither reports resources as deleted nor keeps the other
  service type from being polled, and a deletion is reported once.
\<close>

lemma nothing_new_nothing_published:
  assumes "plr_cycle p mod plr_resyncEvery p \<noteq> 0"
    and "listClusters p w = Some (rc, w1)" and "listComputeInstances p w1 = Some (rv, w2)"
    and "set cids = dom (plr_clusterCache p)" and "set vids = dom (plr_vmCache p)"
    and "case rc of Inl _ \<Rightarrow> True | Inr cs \<Rightarrow> distinct (map pc_Id cs) \<and> plr_clusterCache p = map_of (clusters_found cs)"
    and "case rv of Inl _ \<Rightarrow> True | Inr vs \<Rightarrow> distinct (map ci_Id vs) \<and> plr_vmCache p = map_of (vms_found vs)"
  shows "runCycle publish cids vids p w q = Some (p \<lparr>plr_cycle := wrap64 (plr_cycle p + 1)\<rparr>, w2, q)"
proof -
  have "pollClusters publish cids False p w q = Some (p, w1, q)"
  proof (cases rc)
    case (Inl e)
    with assms(2) show ?thesis by (intro cluster_poll.poll_failed) simp
  next
    case (Inr cs)
    with assms(2,4,6) show ?thesis by (intro cluster_poll.poll_quiet [of p w cs]) simp_all
  qed
  moreover have "pollVMs publish vids False p w1 q = Some (p, w2, q)"
  proof (cases rv)
    case (Inl e)
    with assms(3) show ?thesis by (intro vm_poll.poll_failed) simp
  next
    case (Inr vs)
    with assms(3,5,7) show ?thesis by (intro vm_poll.poll_quiet [of p w1 vs]) simp_all
  qed
  ultimately show ?thesis using assms(1) by (simp add: runCycle_def)
qed

theorem nothing_new_nothing_published_witness:
  "runCycle (\<lambda>st i s m q. i # q) [''c1''] [] (demo_poller \<lparr>plr_clusterCache := map_of (clusters_found [demo_cluster])\<rparr>) () [] =
   Some (demo_poller \<lparr>plr_clusterCache := map_of (clusters_found [demo_cluster]), plr_cycle := wrap64 2\<rparr>, (), [])"
proof -
  let ?p = "demo_poller \<lparr>plr_clusterCache := map_of (clusters_found [demo_cluster])\<rparr>"
  have "runCycle (\<lambda>st i s m q. i # q) [''c1''] [] ?p () [] = Some (?p \<lparr>plr_cycle := wrap64 (plr_cycle ?p + 1)\<rparr>, (), [])"
    by (rule nothing_new_nothing_published [where rc = "Inr [demo_cluster]" and rv = "Inr []"])
      (simp_all add: demo_poller_lists, simp_all add: demo_poller_lists listComputeInstances_def clusters_found_def vms_found_def demo_cluster_def
        demo_poller_def poll_New_def demo_list_def listLoop.simps [of _ "[]"])
  then show ?thesis by simp
qed

end
