(* ===== verification/Mock_Store.thy ===== *)
theory Mock_Store
  imports Prelude
begin

text \<open>
  \<open>test/mockprovider/store.go\<close>: the keyed, insertion-ordered store behind every service of
  the in-memory provider. Each operation runs under the store's mutex, so it is one atomic
  function of the state. The abstract view is an association list in creation order.
\<close>

record 'a resourceStore =
  st_items :: "string \<rightharpoonup> 'a"
  st_order :: "string list"

definition newResourceStore :: "'a resourceStore" where
  "newResourceStore = \<lparr>st_items = Map.empty, st_order = []\<rparr>"

definition store_create :: "string \<Rightarrow> 'a \<Rightarrow> 'a resourceStore \<Rightarrow> 'a res \<times> 'a resourceStore" where
  "store_create id' obj s =
     (if st_items s id' \<noteq> None then
        (Inl (StatusError AlreadyExists [Quoted id', Lit '' already exists'']), s)
      else (Inr obj, s \<lparr>st_items := (st_items s)(id' \<mapsto> obj), st_order := st_order s @ [id']\<rparr>))"

definition store_insert :: "string \<Rightarrow> 'a \<Rightarrow> 'a resourceStore \<Rightarrow> 'a resourceStore" where
  "store_insert id' obj s =
     s \<lparr>st_items := (st_items s)(id' \<mapsto> obj), st_order := st_order s @ [id']\<rparr>"

definition store_get :: "string \<Rightarrow> 'a resourceStore \<Rightarrow> 'a res" where
  "store_get id' s =
     (case st_items s id' of
        None \<Rightarrow> Inl (StatusError NotFound [Quoted id', Lit '' not found''])
      | Some obj \<Rightarrow> Inr obj)"

text \<open>Every identifier of the order is in the map (\<open>store_wf\<close>), so \<open>the\<close> is never of \<open>None\<close>.\<close>

definition store_list :: "int \<Rightarrow> int \<Rightarrow> 'a resourceStore \<Rightarrow> 'a list \<times> int" where
  "store_list offset limit s =
     (let total = int (length (st_order s));
          offset = (if offset < 0 then 0 else offset);
          offset = (if offset > total then total else offset);
          ids = drop (nat offset) (st_order s);
          ids = (if limit > 0 \<and> limit < int (length ids) then take (nat limit) ids else ids)
      in (map (\<lambda>id'. the (st_items s id')) ids, total))"

definition store_delete :: "string \<Rightarrow> 'a resourceStore \<Rightarrow> unit res \<times> 'a resourceStore" where
  "store_delete id' s =
     (if st_items s id' = None then
        (Inl (StatusError NotFound [Quoted id', Lit '' not found'']), s)
      else (Inr (), s \<lparr>st_items := (st_items s)(id' := None), st_order := remove1 id' (st_order s)\<rparr>))"

section \<open>Well-formedness and the abstract view\<close>

definition store_wf :: "'a resourceStore \<Rightarrow> bool" where
  "store_wf s \<longleftrightarrow> distinct (st_order s) \<and> set (st_order s) = dom (st_items s)"

definition contents :: "'a resourceStore \<Rightarrow> (string \<times> 'a) list" where
  "contents s = map (\<lambda>id'. (id', the (st_items s id'))) (st_order s)"

lemma store_wf_new [simp]: "store_wf newResourceStore"
  by (simp add: store_wf_def newResourceStore_def)

lemma store_wf_insert: "store_wf s \<Longrightarrow> st_items s id' = None \<Longrightarrow> store_wf (store_insert id' obj s)"
  by (auto simp: store_wf_def store_insert_def)

lemma store_wf_create: "store_wf s \<Longrightarrow> store_wf (snd (store_create id' obj s))"
  by (auto simp: store_wf_def store_create_def)

lemma store_wf_delete: "store_wf s \<Longrightarrow> store_wf (snd (store_delete id' s))"
  by (auto simp: store_wf_def store_delete_def set_remove1_eq)

lemma map_of_contents: "store_wf s \<Longrightarrow> map_of (contents s) = st_items s"
  by (rule ext) (auto simp: contents_def store_wf_def map_of_map_restrict restrict_map_def)

lemma fst_contents: "map fst (contents s) = st_order s"
  by (simp add: contents_def comp_def)

lemma snd_contents: "map snd (contents s) = map (\<lambda>id'. the (st_items s id')) (st_order s)"
  by (simp add: contents_def comp_def)

lemma contents_insert:
  assumes "store_wf s" and "st_items s id' = None"
  shows "contents (store_insert id' obj s) = contents s @ [(id', obj)]"
proof -
  have "id' \<notin> set (st_order s)" using assms by (auto simp: store_wf_def)
  then show ?thesis by (auto simp: contents_def store_insert_def)
qed

lemma contents_delete:
  assumes "store_wf s"
  shows "contents (snd (store_delete id' s)) = filter (\<lambda>(k, v). k \<noteq> id') (contents s)"
proof (cases "st_items s id' = None")
  case True
  then have "id' \<notin> set (st_order s)" using assms by (auto simp: store_wf_def)
  then have "filter (\<lambda>k. k \<noteq> id') (st_order s) = st_order s" by (auto intro!: filter_True)
  with True show ?thesis by (simp add: store_delete_def contents_def filter_map comp_def)
next
  case False
  have "remove1 id' (st_order s) = filter (\<lambda>k. k \<noteq> id') (st_order s)"
    using assms by (simp add: store_wf_def distinct_remove1_removeAll removeAll_filter_not_eq neq_commute)
  with False show ?thesis by (auto simp: store_delete_def contents_def filter_map comp_def)
qed

lemma store_list_page:
  assumes "0 \<le> off" and "0 < lim"
  shows "store_list off lim s =
    (take (nat lim) (drop (nat off) (map snd (contents s))), int (length (contents s)))"
proof -
  have len: "length (contents s) = length (st_order s)" by (simp add: contents_def)
  show ?thesis
  proof (cases "off > int (length (st_order s))")
    case True
    with assms show ?thesis by (simp add: store_list_def len)
  next
    case False
    with assms show ?thesis
      by (auto simp: store_list_def snd_contents len take_map drop_map Let_def min_def)
  qed
qed

section \<open>Property\<close>



end
