(* ===== verification/Grpc_Stubs.thy ===== *)
theory Grpc_Stubs
  imports Osac_Types
begin

text \<open>
  The generated gRPC code of \<open>internal/osacpb/osac/public/v1/*_grpc.pb.go\<close>: per service the names of
  its methods, the client over a connection, the server that answers \<open>Unimplemented\<close>, the handlers of
  its methods, its descriptor and its registration. The seven services with \<open>List\<close>, \<open>Get\<close>, \<open>Create\<close>,
  \<open>Update\<close> and \<open>Delete\<close> are the same code over different messages, so it stands here once, over
  the message types of a service, with an instance for each. The library \<open>grpc-go\<close> is not modelled: the
  connection is an argument, and \<open>grpc_documented\<close> says what is assumed of it.
\<close>

section \<open>Messages\<close>

text \<open>\<open>Update\<close> has a \<open>fieldmaskpb.FieldMask\<close>, which is a list of paths.\<close>

record 'a UpdateRequest =
  ur_Object :: "'a option"
  ur_UpdateMask :: "string list option"
  ur_Lock :: bool

datatype 'a service_message =
    ListRequestMsg ListRequest | ListResponseMsg "'a ListResponse"
  | GetRequestMsg string | GetResponseMsg "'a ObjectResponse"
  | CreateRequestMsg "'a option" | CreateResponseMsg "'a ObjectResponse"
  | UpdateRequestMsg "'a UpdateRequest" | UpdateResponseMsg "'a ObjectResponse"
  | DeleteRequestMsg string | DeleteResponseMsg

record AuthnCapabilities =
  ac_TrustedTokenIssuers :: "string list"

record CapabilitiesGetResponse =
  cgr_Authn :: "AuthnCapabilities option"

datatype capabilities_message = CapabilitiesGetRequestMsg | CapabilitiesGetResponseMsg CapabilitiesGetResponse

datatype pb_message =
    CapabilitiesMsg capabilities_message
  | ClustersMsg "pb_Cluster service_message"
  | SecretsMsg "pb_Secret service_message"
  | ClusterTemplatesMsg "pb_ClusterTemplate service_message"
  | ClusterVersionsMsg "pb_ClusterVersion service_message"
  | ComputeInstancesMsg "pb_ComputeInstance service_message"
  | SubnetsMsg "pb_Subnet service_message"
  | VirtualNetworksMsg "pb_VirtualNetwork service_message"

text \<open>
  The Go types of the messages of one method: how a request and a response are messages, and how a
  message is read into a variable of the type. Reading another message into it is an error.
\<close>

record ('i, 'o) rpc_types =
  rt_in :: "'i \<Rightarrow> pb_message"
  rt_out :: "'o \<Rightarrow> pb_message"
  rt_read_in :: "pb_message \<Rightarrow> 'i option"
  rt_read_out :: "pb_message \<Rightarrow> 'o option"

definition mistyped :: go_error where
  "mistyped = StatusError Internal [Lit ''cannot unmarshal the message'']"

text \<open>
  The interface a generated client gives its callers and the one a server implements are the same
  five functions; the program calls four of them (\<open>ResourceClient\<close>).
\<close>

record ('a, 'w) ServiceMethods = "('a, 'w) ResourceClient" +
  rc_Update :: "'a UpdateRequest \<Rightarrow> ('w, 'a ObjectResponse) call"

section \<open>Method names\<close>

datatype rpc = ListRPC | GetRPC | CreateRPC | UpdateRPC | DeleteRPC

fun rpc_name :: "rpc \<Rightarrow> string" where
  "rpc_name ListRPC = ''List''"
| "rpc_name GetRPC = ''Get''"
| "rpc_name CreateRPC = ''Create''"
| "rpc_name UpdateRPC = ''Update''"
| "rpc_name DeleteRPC = ''Delete''"

definition Capabilities_Get_FullMethodName :: string where
  "Capabilities_Get_FullMethodName = ''/osac.public.v1.Capabilities/Get''"

fun Clusters_FullMethodName :: "rpc \<Rightarrow> string" where
  "Clusters_FullMethodName ListRPC = ''/osac.public.v1.Clusters/List''"
| "Clusters_FullMethodName GetRPC = ''/osac.public.v1.Clusters/Get''"
| "Clusters_FullMethodName CreateRPC = ''/osac.public.v1.Clusters/Create''"
| "Clusters_FullMethodName UpdateRPC = ''/osac.public.v1.Clusters/Update''"
| "Clusters_FullMethodName DeleteRPC = ''/osac.public.v1.Clusters/Delete''"

fun Secrets_FullMethodName :: "rpc \<Rightarrow> string" where
  "Secrets_FullMethodName ListRPC = ''/osac.public.v1.Secrets/List''"
| "Secrets_FullMethodName GetRPC = ''/osac.public.v1.Secrets/Get''"
| "Secrets_FullMethodName CreateRPC = ''/osac.public.v1.Secrets/Create''"
| "Secrets_FullMethodName UpdateRPC = ''/osac.public.v1.Secrets/Update''"
| "Secrets_FullMethodName DeleteRPC = ''/osac.public.v1.Secrets/Delete''"

fun ClusterTemplates_FullMethodName :: "rpc \<Rightarrow> string" where
  "ClusterTemplates_FullMethodName ListRPC = ''/osac.public.v1.ClusterTemplates/List''"
| "ClusterTemplates_FullMethodName GetRPC = ''/osac.public.v1.ClusterTemplates/Get''"
| "ClusterTemplates_FullMethodName CreateRPC = ''/osac.public.v1.ClusterTemplates/Create''"
| "ClusterTemplates_FullMethodName UpdateRPC = ''/osac.public.v1.ClusterTemplates/Update''"
| "ClusterTemplates_FullMethodName DeleteRPC = ''/osac.public.v1.ClusterTemplates/Delete''"

fun ClusterVersions_FullMethodName :: "rpc \<Rightarrow> string" where
  "ClusterVersions_FullMethodName ListRPC = ''/osac.public.v1.ClusterVersions/List''"
| "ClusterVersions_FullMethodName GetRPC = ''/osac.public.v1.ClusterVersions/Get''"
| "ClusterVersions_FullMethodName CreateRPC = ''/osac.public.v1.ClusterVersions/Create''"
| "ClusterVersions_FullMethodName UpdateRPC = ''/osac.public.v1.ClusterVersions/Update''"
| "ClusterVersions_FullMethodName DeleteRPC = ''/osac.public.v1.ClusterVersions/Delete''"

fun ComputeInstances_FullMethodName :: "rpc \<Rightarrow> string" where
  "ComputeInstances_FullMethodName ListRPC = ''/osac.public.v1.ComputeInstances/List''"
| "ComputeInstances_FullMethodName GetRPC = ''/osac.public.v1.ComputeInstances/Get''"
| "ComputeInstances_FullMethodName CreateRPC = ''/osac.public.v1.ComputeInstances/Create''"
| "ComputeInstances_FullMethodName UpdateRPC = ''/osac.public.v1.ComputeInstances/Update''"
| "ComputeInstances_FullMethodName DeleteRPC = ''/osac.public.v1.ComputeInstances/Delete''"

fun Subnets_FullMethodName :: "rpc \<Rightarrow> string" where
  "Subnets_FullMethodName ListRPC = ''/osac.public.v1.Subnets/List''"
| "Subnets_FullMethodName GetRPC = ''/osac.public.v1.Subnets/Get''"
| "Subnets_FullMethodName CreateRPC = ''/osac.public.v1.Subnets/Create''"
| "Subnets_FullMethodName UpdateRPC = ''/osac.public.v1.Subnets/Update''"
| "Subnets_FullMethodName DeleteRPC = ''/osac.public.v1.Subnets/Delete''"

fun VirtualNetworks_FullMethodName :: "rpc \<Rightarrow> string" where
  "VirtualNetworks_FullMethodName ListRPC = ''/osac.public.v1.VirtualNetworks/List''"
| "VirtualNetworks_FullMethodName GetRPC = ''/osac.public.v1.VirtualNetworks/Get''"
| "VirtualNetworks_FullMethodName CreateRPC = ''/osac.public.v1.VirtualNetworks/Create''"
| "VirtualNetworks_FullMethodName UpdateRPC = ''/osac.public.v1.VirtualNetworks/Update''"
| "VirtualNetworks_FullMethodName DeleteRPC = ''/osac.public.v1.VirtualNetworks/Delete''"

section \<open>Message types of the services\<close>

text \<open>
  A service's messages inside \<open>pb_message\<close>: the constructor and its inverse.
\<close>

record 'a pb_service =
  ps_embed :: "'a service_message \<Rightarrow> pb_message"
  ps_project :: "pb_message \<Rightarrow> 'a service_message option"

definition Clusters_pb :: "pb_Cluster pb_service" where
  "Clusters_pb = \<lparr>ps_embed = ClustersMsg, ps_project = \<lambda>m. case m of ClustersMsg x \<Rightarrow> Some x | _ \<Rightarrow> None\<rparr>"

definition Secrets_pb :: "pb_Secret pb_service" where
  "Secrets_pb = \<lparr>ps_embed = SecretsMsg, ps_project = \<lambda>m. case m of SecretsMsg x \<Rightarrow> Some x | _ \<Rightarrow> None\<rparr>"

definition ClusterTemplates_pb :: "pb_ClusterTemplate pb_service" where
  "ClusterTemplates_pb =
     \<lparr>ps_embed = ClusterTemplatesMsg, ps_project = \<lambda>m. case m of ClusterTemplatesMsg x \<Rightarrow> Some x | _ \<Rightarrow> None\<rparr>"

definition ClusterVersions_pb :: "pb_ClusterVersion pb_service" where
  "ClusterVersions_pb =
     \<lparr>ps_embed = ClusterVersionsMsg, ps_project = \<lambda>m. case m of ClusterVersionsMsg x \<Rightarrow> Some x | _ \<Rightarrow> None\<rparr>"

definition ComputeInstances_pb :: "pb_ComputeInstance pb_service" where
  "ComputeInstances_pb =
     \<lparr>ps_embed = ComputeInstancesMsg, ps_project = \<lambda>m. case m of ComputeInstancesMsg x \<Rightarrow> Some x | _ \<Rightarrow> None\<rparr>"

definition Subnets_pb :: "pb_Subnet pb_service" where
  "Subnets_pb = \<lparr>ps_embed = SubnetsMsg, ps_project = \<lambda>m. case m of SubnetsMsg x \<Rightarrow> Some x | _ \<Rightarrow> None\<rparr>"

definition VirtualNetworks_pb :: "pb_VirtualNetwork pb_service" where
  "VirtualNetworks_pb =
     \<lparr>ps_embed = VirtualNetworksMsg, ps_project = \<lambda>m. case m of VirtualNetworksMsg x \<Rightarrow> Some x | _ \<Rightarrow> None\<rparr>"

lemmas pb_service_defs = Clusters_pb_def Secrets_pb_def ClusterTemplates_pb_def ClusterVersions_pb_def
  ComputeInstances_pb_def Subnets_pb_def VirtualNetworks_pb_def

definition reading :: "(pb_message \<Rightarrow> 'a service_message option) \<Rightarrow> ('a service_message \<Rightarrow> 'b option) \<Rightarrow>
    pb_message \<Rightarrow> 'b option" where
  "reading project sel m = Option.bind (project m) sel"

definition List_types :: "'a pb_service \<Rightarrow> (ListRequest, 'a ListResponse) rpc_types" where
  "List_types s = \<lparr>rt_in = \<lambda>x. ps_embed s (ListRequestMsg x), rt_out = \<lambda>x. ps_embed s (ListResponseMsg x),
     rt_read_in = reading (ps_project s) (\<lambda>m. case m of ListRequestMsg x \<Rightarrow> Some x | _ \<Rightarrow> None),
     rt_read_out = reading (ps_project s) (\<lambda>m. case m of ListResponseMsg x \<Rightarrow> Some x | _ \<Rightarrow> None)\<rparr>"

definition Get_types :: "'a pb_service \<Rightarrow> (string, 'a ObjectResponse) rpc_types" where
  "Get_types s = \<lparr>rt_in = \<lambda>x. ps_embed s (GetRequestMsg x), rt_out = \<lambda>x. ps_embed s (GetResponseMsg x),
     rt_read_in = reading (ps_project s) (\<lambda>m. case m of GetRequestMsg x \<Rightarrow> Some x | _ \<Rightarrow> None),
     rt_read_out = reading (ps_project s) (\<lambda>m. case m of GetResponseMsg x \<Rightarrow> Some x | _ \<Rightarrow> None)\<rparr>"

definition Create_types :: "'a pb_service \<Rightarrow> ('a option, 'a ObjectResponse) rpc_types" where
  "Create_types s = \<lparr>rt_in = \<lambda>x. ps_embed s (CreateRequestMsg x), rt_out = \<lambda>x. ps_embed s (CreateResponseMsg x),
     rt_read_in = reading (ps_project s) (\<lambda>m. case m of CreateRequestMsg x \<Rightarrow> Some x | _ \<Rightarrow> None),
     rt_read_out = reading (ps_project s) (\<lambda>m. case m of CreateResponseMsg x \<Rightarrow> Some x | _ \<Rightarrow> None)\<rparr>"

definition Update_types :: "'a pb_service \<Rightarrow> ('a UpdateRequest, 'a ObjectResponse) rpc_types" where
  "Update_types s = \<lparr>rt_in = \<lambda>x. ps_embed s (UpdateRequestMsg x), rt_out = \<lambda>x. ps_embed s (UpdateResponseMsg x),
     rt_read_in = reading (ps_project s) (\<lambda>m. case m of UpdateRequestMsg x \<Rightarrow> Some x | _ \<Rightarrow> None),
     rt_read_out = reading (ps_project s) (\<lambda>m. case m of UpdateResponseMsg x \<Rightarrow> Some x | _ \<Rightarrow> None)\<rparr>"

definition Delete_types :: "'a pb_service \<Rightarrow> (string, unit) rpc_types" where
  "Delete_types s = \<lparr>rt_in = \<lambda>x. ps_embed s (DeleteRequestMsg x), rt_out = \<lambda>_. ps_embed s DeleteResponseMsg,
     rt_read_in = reading (ps_project s) (\<lambda>m. case m of DeleteRequestMsg x \<Rightarrow> Some x | _ \<Rightarrow> None),
     rt_read_out = reading (ps_project s) (\<lambda>m. case m of DeleteResponseMsg \<Rightarrow> Some () | _ \<Rightarrow> None)\<rparr>"

lemmas rpc_types_defs = List_types_def Get_types_def Create_types_def Update_types_def Delete_types_def reading_def

definition Capabilities_Get_types :: "(unit, CapabilitiesGetResponse) rpc_types" where
  "Capabilities_Get_types = \<lparr>rt_in = \<lambda>_. CapabilitiesMsg CapabilitiesGetRequestMsg,
     rt_out = \<lambda>x. CapabilitiesMsg (CapabilitiesGetResponseMsg x),
     rt_read_in = \<lambda>m. (case m of CapabilitiesMsg CapabilitiesGetRequestMsg \<Rightarrow> Some () | _ \<Rightarrow> None),
     rt_read_out = \<lambda>m. (case m of CapabilitiesMsg (CapabilitiesGetResponseMsg x) \<Rightarrow> Some x | _ \<Rightarrow> None)\<rparr>"

text \<open>Types whose messages can be read back.\<close>

definition readable :: "('i, 'o) rpc_types \<Rightarrow> bool" where
  "readable T \<longleftrightarrow> (\<forall>x. rt_read_in T (rt_in T x) = Some x) \<and> (\<forall>x. rt_read_out T (rt_out T x) = Some x)"

definition embedding :: "'a pb_service \<Rightarrow> bool" where
  "embedding s \<longleftrightarrow> (\<forall>m. ps_project s (ps_embed s m) = Some m)"

lemma readable_types:
  assumes "embedding s"
  shows "readable (List_types s)" "readable (Get_types s)" "readable (Create_types s)" "readable (Update_types s)"
    "readable (Delete_types s)"
  using assms by (simp_all add: readable_def rpc_types_defs embedding_def)

lemma readable_Capabilities: "readable Capabilities_Get_types"
  by (simp add: readable_def Capabilities_Get_types_def)

lemma embedding_services [simp]:
  "embedding Clusters_pb" "embedding Secrets_pb" "embedding ClusterTemplates_pb" "embedding ClusterVersions_pb"
  "embedding ComputeInstances_pb" "embedding Subnets_pb" "embedding VirtualNetworks_pb"
  by (simp_all add: embedding_def pb_service_defs)

section \<open>Clients\<close>

text \<open>
  A connection (\<open>grpc.ClientConnInterface\<close>): \<open>Invoke\<close> with the method's name and the request, which
  answers the error or what was decoded into the response. The state is the remote side's.
\<close>

type_synonym 'w ClientConn = "string \<Rightarrow> pb_message \<Rightarrow> ('w, pb_message) call"

text \<open>The body every client method has.\<close>

definition client_call :: "('i, 'o) rpc_types \<Rightarrow> string \<Rightarrow> 'w ClientConn \<Rightarrow> 'i \<Rightarrow> ('w, 'o) call" where
  "client_call T fullMethod cc req w =
     (case cc fullMethod (rt_in T req) w of
        (Inl err, w1) \<Rightarrow> (Inl err, w1)
      | (Inr m, w1) \<Rightarrow>
          (case rt_read_out T m of
             None \<Rightarrow> (Inl mistyped, w1)
           | Some out \<Rightarrow> (Inr out, w1)))"

definition client_methods :: "'a pb_service \<Rightarrow> (rpc \<Rightarrow> string) \<Rightarrow> 'w ClientConn \<Rightarrow> ('a, 'w) ServiceMethods" where
  "client_methods s fullMethod cc =
     \<lparr>rc_List = client_call (List_types s) (fullMethod ListRPC) cc,
      rc_Get = client_call (Get_types s) (fullMethod GetRPC) cc,
      rc_Create = client_call (Create_types s) (fullMethod CreateRPC) cc,
      rc_Delete = client_call (Delete_types s) (fullMethod DeleteRPC) cc,
      rc_Update = client_call (Update_types s) (fullMethod UpdateRPC) cc\<rparr>"

definition CapabilitiesClient_Get :: "'w ClientConn \<Rightarrow> ('w, CapabilitiesGetResponse) call" where
  "CapabilitiesClient_Get cc = client_call Capabilities_Get_types Capabilities_Get_FullMethodName cc ()"

definition NewClustersClient :: "'w ClientConn \<Rightarrow> (pb_Cluster, 'w) ServiceMethods" where
  "NewClustersClient = client_methods Clusters_pb Clusters_FullMethodName"

definition NewSecretsClient :: "'w ClientConn \<Rightarrow> (pb_Secret, 'w) ServiceMethods" where
  "NewSecretsClient = client_methods Secrets_pb Secrets_FullMethodName"

definition NewClusterTemplatesClient :: "'w ClientConn \<Rightarrow> (pb_ClusterTemplate, 'w) ServiceMethods" where
  "NewClusterTemplatesClient = client_methods ClusterTemplates_pb ClusterTemplates_FullMethodName"

definition NewClusterVersionsClient :: "'w ClientConn \<Rightarrow> (pb_ClusterVersion, 'w) ServiceMethods" where
  "NewClusterVersionsClient = client_methods ClusterVersions_pb ClusterVersions_FullMethodName"

definition NewComputeInstancesClient :: "'w ClientConn \<Rightarrow> (pb_ComputeInstance, 'w) ServiceMethods" where
  "NewComputeInstancesClient = client_methods ComputeInstances_pb ComputeInstances_FullMethodName"

definition NewSubnetsClient :: "'w ClientConn \<Rightarrow> (pb_Subnet, 'w) ServiceMethods" where
  "NewSubnetsClient = client_methods Subnets_pb Subnets_FullMethodName"

definition NewVirtualNetworksClient :: "'w ClientConn \<Rightarrow> (pb_VirtualNetwork, 'w) ServiceMethods" where
  "NewVirtualNetworksClient = client_methods VirtualNetworks_pb VirtualNetworks_FullMethodName"

section \<open>Servers\<close>

text \<open>
  \<open>Unimplemented...Server\<close>, which every server embeds: a method it does not define itself is this one.
  The text of its error names the method only, so that it is one value for all services.
\<close>

definition not_implemented :: "rpc \<Rightarrow> ('w, 'b) call" where
  "not_implemented m w =
     (Inl (StatusError Unimplemented [Lit (''method '' @ rpc_name m @ '' not implemented'')]), w)"

definition UnimplementedServer :: "('a, 'w) ServiceMethods" where
  "UnimplementedServer =
     \<lparr>rc_List = \<lambda>_. not_implemented ListRPC, rc_Get = \<lambda>_. not_implemented GetRPC,
      rc_Create = \<lambda>_. not_implemented CreateRPC, rc_Delete = \<lambda>_. not_implemented DeleteRPC,
      rc_Update = \<lambda>_. not_implemented UpdateRPC\<rparr>"

definition UnimplementedCapabilitiesServer_Get :: "('w, CapabilitiesGetResponse) call" where
  "UnimplementedCapabilitiesServer_Get = not_implemented GetRPC"

section \<open>Handlers\<close>

text \<open>
  A handler gets what the decoder made of the request for its type (\<open>dec\<close>) and the server's
  interceptor, if it has one. An interceptor is given the request, the full method name and the
  handler, which asserts the type of the request it is passed on; a failed assertion panics, which ends
  the server's process, and the caller sees the connection close.
\<close>

type_synonym 'w UnaryHandler = "pb_message \<Rightarrow> ('w, pb_message) call"
type_synonym 'w UnaryServerInterceptor = "pb_message \<Rightarrow> string \<Rightarrow> 'w UnaryHandler \<Rightarrow> ('w, pb_message) call"
type_synonym 'w MethodHandler = "pb_message res \<Rightarrow> 'w UnaryServerInterceptor option \<Rightarrow> ('w, pb_message) call"

definition server_panics :: "('w, 'b) call" where
  "server_panics w = (Inl (StatusError Unavailable [Lit ''connection closed'']), w)"

definition answer_call :: "('i, 'o) rpc_types \<Rightarrow> ('i \<Rightarrow> ('w, 'o) call) \<Rightarrow> 'i \<Rightarrow> ('w, pb_message) call" where
  "answer_call T f req w = (case f req w of (Inl err, w1) \<Rightarrow> (Inl err, w1) | (Inr x, w1) \<Rightarrow> (Inr (rt_out T x), w1))"

definition method_Handler ::
  "('i, 'o) rpc_types \<Rightarrow> string \<Rightarrow> ('srv \<Rightarrow> 'i \<Rightarrow> ('w, 'o) call) \<Rightarrow> 'srv \<Rightarrow> 'w MethodHandler" where
  "method_Handler T fullMethod method srv dec interceptor w =
     (case dec of
        Inl err \<Rightarrow> (Inl err, w)
      | Inr m \<Rightarrow>
          (case rt_read_in T m of
             None \<Rightarrow> (Inl mistyped, w)
           | Some req \<Rightarrow>
               (case interceptor of
                  None \<Rightarrow> answer_call T (method srv) req w
                | Some icpt \<Rightarrow>
                    icpt (rt_in T req) fullMethod
                      (\<lambda>r. case rt_read_in T r of None \<Rightarrow> server_panics | Some req \<Rightarrow> answer_call T (method srv) req) w)))"

section \<open>Descriptors and registration\<close>

record ('srv, 'w) ServiceDesc =
  sd_ServiceName :: string
  sd_Methods :: "(string \<times> ('srv \<Rightarrow> 'w MethodHandler)) list"

definition resource_ServiceDesc ::
  "string \<Rightarrow> 'a pb_service \<Rightarrow> (rpc \<Rightarrow> string) \<Rightarrow> (('a, 'w) ServiceMethods, 'w) ServiceDesc" where
  "resource_ServiceDesc name s fullMethod =
     \<lparr>sd_ServiceName = name, sd_Methods =
        [(''List'', method_Handler (List_types s) (fullMethod ListRPC) rc_List),
         (''Get'', method_Handler (Get_types s) (fullMethod GetRPC) rc_Get),
         (''Create'', method_Handler (Create_types s) (fullMethod CreateRPC) rc_Create),
         (''Update'', method_Handler (Update_types s) (fullMethod UpdateRPC) rc_Update),
         (''Delete'', method_Handler (Delete_types s) (fullMethod DeleteRPC) rc_Delete)]\<rparr>"

definition Capabilities_ServiceDesc :: "(('w, CapabilitiesGetResponse) call, 'w) ServiceDesc" where
  "Capabilities_ServiceDesc =
     \<lparr>sd_ServiceName = ''osac.public.v1.Capabilities'', sd_Methods =
        [(''Get'', method_Handler Capabilities_Get_types Capabilities_Get_FullMethodName (\<lambda>srv _. srv))]\<rparr>"

definition Clusters_ServiceDesc :: "((pb_Cluster, 'w) ServiceMethods, 'w) ServiceDesc" where
  "Clusters_ServiceDesc = resource_ServiceDesc ''osac.public.v1.Clusters'' Clusters_pb Clusters_FullMethodName"

definition Secrets_ServiceDesc :: "((pb_Secret, 'w) ServiceMethods, 'w) ServiceDesc" where
  "Secrets_ServiceDesc = resource_ServiceDesc ''osac.public.v1.Secrets'' Secrets_pb Secrets_FullMethodName"

definition ClusterTemplates_ServiceDesc :: "((pb_ClusterTemplate, 'w) ServiceMethods, 'w) ServiceDesc" where
  "ClusterTemplates_ServiceDesc =
     resource_ServiceDesc ''osac.public.v1.ClusterTemplates'' ClusterTemplates_pb ClusterTemplates_FullMethodName"

definition ClusterVersions_ServiceDesc :: "((pb_ClusterVersion, 'w) ServiceMethods, 'w) ServiceDesc" where
  "ClusterVersions_ServiceDesc =
     resource_ServiceDesc ''osac.public.v1.ClusterVersions'' ClusterVersions_pb ClusterVersions_FullMethodName"

definition ComputeInstances_ServiceDesc :: "((pb_ComputeInstance, 'w) ServiceMethods, 'w) ServiceDesc" where
  "ComputeInstances_ServiceDesc =
     resource_ServiceDesc ''osac.public.v1.ComputeInstances'' ComputeInstances_pb ComputeInstances_FullMethodName"

definition Subnets_ServiceDesc :: "((pb_Subnet, 'w) ServiceMethods, 'w) ServiceDesc" where
  "Subnets_ServiceDesc = resource_ServiceDesc ''osac.public.v1.Subnets'' Subnets_pb Subnets_FullMethodName"

definition VirtualNetworks_ServiceDesc :: "((pb_VirtualNetwork, 'w) ServiceMethods, 'w) ServiceDesc" where
  "VirtualNetworks_ServiceDesc =
     resource_ServiceDesc ''osac.public.v1.VirtualNetworks'' VirtualNetworks_pb VirtualNetworks_FullMethodName"

text \<open>
  What has been registered with a \<open>grpc.Server\<close>, in order: \<open>RegisterService\<close> takes a descriptor with
  the server behind it. The test for a server embedded by pointer does nothing for those of this program.
\<close>

type_synonym 'w registry = "(string \<times> (string \<times> 'w MethodHandler) list) list"

definition RegisterService :: "('srv, 'w) ServiceDesc \<Rightarrow> 'srv \<Rightarrow> 'w registry \<Rightarrow> 'w registry" where
  "RegisterService desc srv regs = regs @ [(sd_ServiceName desc, map (\<lambda>(m, h). (m, h srv)) (sd_Methods desc))]"

definition RegisterCapabilitiesServer :: "('w, CapabilitiesGetResponse) call \<Rightarrow> 'w registry \<Rightarrow> 'w registry" where
  "RegisterCapabilitiesServer = RegisterService Capabilities_ServiceDesc"

definition RegisterClustersServer :: "(pb_Cluster, 'w) ServiceMethods \<Rightarrow> 'w registry \<Rightarrow> 'w registry" where
  "RegisterClustersServer = RegisterService Clusters_ServiceDesc"

definition RegisterSecretsServer :: "(pb_Secret, 'w) ServiceMethods \<Rightarrow> 'w registry \<Rightarrow> 'w registry" where
  "RegisterSecretsServer = RegisterService Secrets_ServiceDesc"

definition RegisterClusterTemplatesServer :: "(pb_ClusterTemplate, 'w) ServiceMethods \<Rightarrow> 'w registry \<Rightarrow> 'w registry" where
  "RegisterClusterTemplatesServer = RegisterService ClusterTemplates_ServiceDesc"

definition RegisterClusterVersionsServer :: "(pb_ClusterVersion, 'w) ServiceMethods \<Rightarrow> 'w registry \<Rightarrow> 'w registry" where
  "RegisterClusterVersionsServer = RegisterService ClusterVersions_ServiceDesc"

definition RegisterComputeInstancesServer :: "(pb_ComputeInstance, 'w) ServiceMethods \<Rightarrow> 'w registry \<Rightarrow> 'w registry" where
  "RegisterComputeInstancesServer = RegisterService ComputeInstances_ServiceDesc"

definition RegisterSubnetsServer :: "(pb_Subnet, 'w) ServiceMethods \<Rightarrow> 'w registry \<Rightarrow> 'w registry" where
  "RegisterSubnetsServer = RegisterService Subnets_ServiceDesc"

definition RegisterVirtualNetworksServer :: "(pb_VirtualNetwork, 'w) ServiceMethods \<Rightarrow> 'w registry \<Rightarrow> 'w registry" where
  "RegisterVirtualNetworksServer = RegisterService VirtualNetworks_ServiceDesc"

lemmas register_defs = RegisterCapabilitiesServer_def RegisterClustersServer_def RegisterSecretsServer_def
  RegisterClusterTemplatesServer_def RegisterClusterVersionsServer_def RegisterComputeInstancesServer_def
  RegisterSubnetsServer_def RegisterVirtualNetworksServer_def

lemmas service_desc_defs = Capabilities_ServiceDesc_def Clusters_ServiceDesc_def Secrets_ServiceDesc_def
  ClusterTemplates_ServiceDesc_def ClusterVersions_ServiceDesc_def ComputeInstances_ServiceDesc_def
  Subnets_ServiceDesc_def VirtualNetworks_ServiceDesc_def

end
