(* ===== verification/Mock_Provider.thy ===== *)
theory Mock_Provider
  imports Mock_Store Cluster_Service Vm_Service Grpc_Stubs
begin

text \<open>
  \<open>test/mockprovider\<close>: the in-memory OSAC that the provider is run against, and the place where
  the contracts of \<open>Osac_Backend\<close>, \<open>Cluster_Service\<close> and \<open>Vm_Service\<close> are discharged.

  The state of its servers is one record. \<open>os_uuid\<close> stands for \<open>uuid.NewString\<close>: the
  \<open>n\<close>-th identifier it generates, \<open>os_uuids\<close> counting those handed out; \<open>os_now\<close> is the
  time of the clock that \<open>mock_clock\<close> advances. A method the servers leave to the embedded
  \<open>Unimplemented...Server\<close> answers \<open>Unimplemented\<close>; a nil object in a create of a subnet or
  network, which the code dereferences, ends the connection.
\<close>

record Osac =
  os_clusters :: "pb_Cluster resourceStore"
  os_secrets :: "string \<rightharpoonup> pb_Secret"
  os_instances :: "pb_ComputeInstance resourceStore"
  os_subnets :: "pb_Subnet resourceStore"
  os_vnets :: "pb_VirtualNetwork resourceStore"
  os_uuid :: "nat \<Rightarrow> string"
  os_uuids :: nat
  os_now :: int

definition newOsac :: "(nat \<Rightarrow> string) \<Rightarrow> Osac" where
  "newOsac uuid = \<lparr>os_clusters = newResourceStore, os_secrets = Map.empty,
     os_instances = newResourceStore, os_subnets = newResourceStore, os_vnets = newResourceStore,
     os_uuid = uuid, os_uuids = 0, os_now = 0\<rparr>"

text \<open>\<open>int(req.GetOffset())\<close>: an unset field reads as zero.\<close>

definition opt_int :: "int option \<Rightarrow> int" where
  "opt_int x = (case x of None \<Rightarrow> 0 | Some n \<Rightarrow> n)"

text \<open>The body every \<open>List\<close> method shares.\<close>

definition list_response :: "'a resourceStore \<Rightarrow> ListRequest \<Rightarrow> 'a ListResponse" where
  "list_response st req =
     (case store_list (opt_int (lq_Offset req)) (opt_int (lq_Limit req)) st of
        (page, n) \<Rightarrow>
          \<lparr>lr_Size = wrap32 (int (length page)), lr_Total = wrap32 n, lr_Items = page\<rparr>)"

section \<open>clusters.go\<close>

definition secretID_of :: "string \<Rightarrow> string" where
  "secretID_of id' = ''mock-kubeconfig-'' @ id'"

definition mockClusterStatus :: "string \<Rightarrow> pb_ClusterStatus" where
  "mockClusterStatus id' = \<lparr>pst_State = CLUSTER_STATE_READY, pst_Conditions = [], pst_ApiUrl = '''',
     pst_ConsoleUrl = '''', pst_NodeSets = [], pst_ApiEndpoint = '''', pst_IngressEndpoint = '''',
     pst_StateTransitionTime = None,
     pst_KubeconfigSecret = Some \<lparr>lrf_Id = secretID_of id', lrf_Name = id' @ ''-kubeconfig''\<rparr>,
     pst_PasswordSecret = None\<rparr>"

definition newline :: string where
  "newline = [CHR 0x0A]"

definition kubeconfigStub :: "string \<Rightarrow> string" where
  "kubeconfigStub id' = ''apiVersion: v1'' @ newline @ ''kind: Config'' @ newline @ ''clusters:'' @ newline @
     ''- name: '' @ id' @ newline @ ''  cluster:'' @ newline @
     ''    server: https://mock-provider.invalid:6443'' @ newline @
     ''current-context: '' @ id' @ newline"

definition mockSecret :: "string \<Rightarrow> pb_Secret" where
  "mockSecret id' = \<lparr>sec_Id = secretID_of id', sec_Metadata = None,
     sec_Data = [''kubeconfig'' \<mapsto> kubeconfigStub id'], sec_Type = SECRET_TYPE_KUBECONFIG\<rparr>"

definition Clusters_Create :: "pb_Cluster option \<Rightarrow> (Osac, pb_Cluster ObjectResponse) call" where
  "Clusters_Create req w =
     (case req of
        None \<Rightarrow> (Inl (StatusError InvalidArgument [Lit ''object.id is required'']), w)
      | Some obj \<Rightarrow>
          if pc_Id obj = '''' then (Inl (StatusError InvalidArgument [Lit ''object.id is required'']), w)
          else
            let obj = obj \<lparr>pc_Status := Some (mockClusterStatus (pc_Id obj))\<rparr> in
            (case store_create (pc_Id obj) obj (os_clusters w) of
               (Inl err, st) \<Rightarrow> (Inl err, w \<lparr>os_clusters := st\<rparr>)
             | (Inr created, st) \<Rightarrow>
                 (Inr \<lparr>or_Object = Some created\<rparr>,
                  w \<lparr>os_clusters := st,
                     os_secrets := (os_secrets w)(secretID_of (pc_Id obj) \<mapsto> mockSecret (pc_Id obj))\<rparr>)))"

definition Clusters_Get :: "string \<Rightarrow> (Osac, pb_Cluster ObjectResponse) call" where
  "Clusters_Get id' w =
     (case store_get id' (os_clusters w) of
        Inl err \<Rightarrow> (Inl err, w)
      | Inr obj \<Rightarrow> (Inr \<lparr>or_Object = Some obj\<rparr>, w))"

definition Clusters_List :: "ListRequest \<Rightarrow> (Osac, pb_Cluster ListResponse) call" where
  "Clusters_List req w = (Inr (list_response (os_clusters w) req), w)"

definition Clusters_Delete :: "string \<Rightarrow> (Osac, unit) call" where
  "Clusters_Delete id' w =
     (case store_delete id' (os_clusters w) of
        (Inl err, st) \<Rightarrow> (Inl err, w \<lparr>os_clusters := st\<rparr>)
      | (Inr _, st) \<Rightarrow>
          (Inr (), w \<lparr>os_clusters := st, os_secrets := (os_secrets w)(secretID_of id' := None)\<rparr>))"

definition Secrets_Get :: "string \<Rightarrow> (Osac, pb_Secret ObjectResponse) call" where
  "Secrets_Get id' w =
     (case os_secrets w id' of
        None \<Rightarrow> (Inl (StatusError NotFound [Lit ''secret not found'']), w)
      | Some secret \<Rightarrow>
          (Inr \<lparr>or_Object = Some \<lparr>sec_Id = sec_Id secret, sec_Metadata = None,
             sec_Data = sec_Data secret, sec_Type = sec_Type secret\<rparr>\<rparr>, w))"

definition mock_clusters :: "(pb_Cluster, Osac) ResourceClient" where
  "mock_clusters = \<lparr>rc_List = Clusters_List, rc_Get = Clusters_Get, rc_Create = Clusters_Create,
     rc_Delete = Clusters_Delete\<rparr>"

definition mock_secrets :: "(pb_Secret, Osac) ResourceClient" where
  "mock_secrets = \<lparr>rc_List = \<lambda>_. not_implemented ListRPC, rc_Get = Secrets_Get, rc_Create = \<lambda>_. not_implemented CreateRPC,
     rc_Delete = \<lambda>_. not_implemented DeleteRPC\<rparr>"

section \<open>clustertemplates.go\<close>

definition defaultHCPTemplateID :: string where
  "defaultHCPTemplateID = ''default-hcp''"

definition ClusterTemplates_answer :: "string \<Rightarrow> pb_ClusterTemplate ObjectResponse res" where
  "ClusterTemplates_answer id' =
     (if id' \<noteq> defaultHCPTemplateID then
        Inl (StatusError NotFound [Lit ''cluster template '', Quoted id', Lit '' not found''])
      else Inr \<lparr>or_Object = Some \<lparr>ct_Id = defaultHCPTemplateID, ct_Metadata = None,
        ct_NodeSets = [(''compute'', \<lparr>pns_HostType = Some (Reference_of_Id ''compute''), pns_Size = 1\<rparr>)]\<rparr>\<rparr>)"

definition ClusterTemplates_Get :: "string \<Rightarrow> (Osac, pb_ClusterTemplate ObjectResponse) call" where
  "ClusterTemplates_Get id' w = (ClusterTemplates_answer id', w)"

definition mock_templates :: "(pb_ClusterTemplate, Osac) ResourceClient" where
  "mock_templates = \<lparr>rc_List = \<lambda>_. not_implemented ListRPC, rc_Get = ClusterTemplates_Get,
     rc_Create = \<lambda>_. not_implemented CreateRPC, rc_Delete = \<lambda>_. not_implemented DeleteRPC\<rparr>"

section \<open>computeinstances.go\<close>

definition runningStatus :: pb_ComputeInstanceStatus where
  "runningStatus = \<lparr>cist_State = COMPUTE_INSTANCE_STATE_RUNNING, cist_Conditions = [],
     cist_InternalIpAddress = '''', cist_LastRestartedAt = None, cist_ExternalIpAddress = '''',
     cist_StateTransitionTime = None\<rparr>"

definition ComputeInstances_Create ::
  "pb_ComputeInstance option \<Rightarrow> (Osac, pb_ComputeInstance ObjectResponse) call" where
  "ComputeInstances_Create req w =
     (case req of
        None \<Rightarrow> (Inl (StatusError InvalidArgument [Lit ''object.id is required'']), w)
      | Some obj \<Rightarrow>
          if ci_Id obj = '''' then (Inl (StatusError InvalidArgument [Lit ''object.id is required'']), w)
          else
            let obj = obj \<lparr>ci_Status := Some runningStatus\<rparr> in
            (case store_create (ci_Id obj) obj (os_instances w) of
               (Inl err, st) \<Rightarrow> (Inl err, w \<lparr>os_instances := st\<rparr>)
             | (Inr created, st) \<Rightarrow> (Inr \<lparr>or_Object = Some created\<rparr>, w \<lparr>os_instances := st\<rparr>)))"

definition ComputeInstances_Get :: "string \<Rightarrow> (Osac, pb_ComputeInstance ObjectResponse) call" where
  "ComputeInstances_Get id' w =
     (case store_get id' (os_instances w) of
        Inl err \<Rightarrow> (Inl err, w)
      | Inr obj \<Rightarrow> (Inr \<lparr>or_Object = Some obj\<rparr>, w))"

definition ComputeInstances_List :: "ListRequest \<Rightarrow> (Osac, pb_ComputeInstance ListResponse) call" where
  "ComputeInstances_List req w = (Inr (list_response (os_instances w) req), w)"

definition ComputeInstances_Delete :: "string \<Rightarrow> (Osac, unit) call" where
  "ComputeInstances_Delete id' w =
     (case store_delete id' (os_instances w) of
        (Inl err, st) \<Rightarrow> (Inl err, w \<lparr>os_instances := st\<rparr>)
      | (Inr _, st) \<Rightarrow> (Inr (), w \<lparr>os_instances := st\<rparr>))"

definition mock_instances :: "(pb_ComputeInstance, Osac) ResourceClient" where
  "mock_instances = \<lparr>rc_List = ComputeInstances_List, rc_Get = ComputeInstances_Get,
     rc_Create = ComputeInstances_Create, rc_Delete = ComputeInstances_Delete\<rparr>"

section \<open>subnets.go and virtualnetworks.go\<close>

definition Subnets_Create :: "pb_Subnet option \<Rightarrow> (Osac, pb_Subnet ObjectResponse) call" where
  "Subnets_Create req w =
     (case req of
        None \<Rightarrow> server_panics w
      | Some obj \<Rightarrow>
          let obj = obj \<lparr>sn_Id := os_uuid w (os_uuids w),
                sn_Status := Some \<lparr>snst_State = SUBNET_STATE_READY, snst_Message = None\<rparr>\<rparr> in
          (Inr \<lparr>or_Object = Some obj\<rparr>,
           w \<lparr>os_uuids := Suc (os_uuids w), os_subnets := store_insert (sn_Id obj) obj (os_subnets w)\<rparr>))"

definition Subnets_Get :: "string \<Rightarrow> (Osac, pb_Subnet ObjectResponse) call" where
  "Subnets_Get id' w =
     (case store_get id' (os_subnets w) of
        Inl err \<Rightarrow> (Inl err, w)
      | Inr obj \<Rightarrow> (Inr \<lparr>or_Object = Some obj\<rparr>, w))"

definition Subnets_List :: "ListRequest \<Rightarrow> (Osac, pb_Subnet ListResponse) call" where
  "Subnets_List req w = (Inr (list_response (os_subnets w) req), w)"

definition Subnets_Delete :: "string \<Rightarrow> (Osac, unit) call" where
  "Subnets_Delete id' w =
     (case store_delete id' (os_subnets w) of
        (Inl err, st) \<Rightarrow> (Inl err, w \<lparr>os_subnets := st\<rparr>)
      | (Inr _, st) \<Rightarrow> (Inr (), w \<lparr>os_subnets := st\<rparr>))"

definition mock_subnets :: "(pb_Subnet, Osac) ResourceClient" where
  "mock_subnets = \<lparr>rc_List = Subnets_List, rc_Get = Subnets_Get, rc_Create = Subnets_Create,
     rc_Delete = Subnets_Delete\<rparr>"

definition VirtualNetworks_Create ::
  "pb_VirtualNetwork option \<Rightarrow> (Osac, pb_VirtualNetwork ObjectResponse) call" where
  "VirtualNetworks_Create req w =
     (case req of
        None \<Rightarrow> server_panics w
      | Some obj \<Rightarrow>
          let obj = obj \<lparr>vn_Id := os_uuid w (os_uuids w),
                vn_Status := Some \<lparr>vnst_State = VIRTUAL_NETWORK_STATE_READY, vnst_Message = None\<rparr>\<rparr> in
          (Inr \<lparr>or_Object = Some obj\<rparr>,
           w \<lparr>os_uuids := Suc (os_uuids w), os_vnets := store_insert (vn_Id obj) obj (os_vnets w)\<rparr>))"

definition VirtualNetworks_Get :: "string \<Rightarrow> (Osac, pb_VirtualNetwork ObjectResponse) call" where
  "VirtualNetworks_Get id' w =
     (case store_get id' (os_vnets w) of
        Inl err \<Rightarrow> (Inl err, w)
      | Inr obj \<Rightarrow> (Inr \<lparr>or_Object = Some obj\<rparr>, w))"

definition VirtualNetworks_List :: "ListRequest \<Rightarrow> (Osac, pb_VirtualNetwork ListResponse) call" where
  "VirtualNetworks_List req w = (Inr (list_response (os_vnets w) req), w)"

definition VirtualNetworks_Delete :: "string \<Rightarrow> (Osac, unit) call" where
  "VirtualNetworks_Delete id' w =
     (case store_delete id' (os_vnets w) of
        (Inl err, st) \<Rightarrow> (Inl err, w \<lparr>os_vnets := st\<rparr>)
      | (Inr _, st) \<Rightarrow> (Inr (), w \<lparr>os_vnets := st\<rparr>))"

definition mock_vnets :: "(pb_VirtualNetwork, Osac) ResourceClient" where
  "mock_vnets = \<lparr>rc_List = VirtualNetworks_List, rc_Get = VirtualNetworks_Get,
     rc_Create = VirtualNetworks_Create, rc_Delete = VirtualNetworks_Delete\<rparr>"

section \<open>The services wired to it\<close>

text \<open>
  The mock provider registers no \<open>ClusterVersions\<close> service; \<open>catalog ans\<close> is a service that
  lists a fixed catalog \<open>ans\<close> and answers \<open>Unimplemented\<close> otherwise, so that
  \<open>unregistered\<close> is what the mock serves, and another \<open>ans\<close> is a provider that has one.
\<close>

definition catalog :: "'a ListResponse res \<Rightarrow> ('a, 'w) ResourceClient" where
  "catalog ans = \<lparr>rc_List = \<lambda>_ w. (ans, w), rc_Get = \<lambda>_. not_implemented GetRPC, rc_Create = \<lambda>_. not_implemented CreateRPC,
     rc_Delete = \<lambda>_. not_implemented DeleteRPC\<rparr>"

definition unregistered :: "'a ListResponse res" where
  "unregistered = Inl (StatusError Unimplemented [Lit ''unknown service''])"

definition mock_cluster_service :: "pb_ClusterVersion ListResponse res \<Rightarrow> Matrix \<Rightarrow> Osac ClusterService" where
  "mock_cluster_service ans m = \<lparr>svc_client = mock_clusters, svc_secrets = mock_secrets,
     svc_templates = mock_templates, svc_versions = catalog ans, svc_matrix = m\<rparr>"

definition mock_vm_service :: "Osac VmService" where
  "mock_vm_service = vm_New mock_instances mock_subnets mock_vnets []"

text \<open>A clock whose waits are never cancelled.\<close>

definition mock_clock :: "Osac Clock" where
  "mock_clock = \<lparr>clk_now = os_now, clk_select = \<lambda>d w. (None, w \<lparr>os_now := os_now w + d\<rparr>)\<rparr>"

lemmas mock_client_defs = mock_clusters_def mock_secrets_def mock_templates_def mock_instances_def
  mock_subnets_def mock_vnets_def catalog_def mock_cluster_service_def

lemma mock_vm_service_sel [simp, mock_simps]:
  "vms_computeInstances mock_vm_service = mock_instances"
  "vms_subnets mock_vm_service = mock_subnets"
  "vms_virtualNetworks mock_vm_service = mock_vnets"
  "vms_networkPollInterval mock_vm_service = 500000000"
  "vms_networkPollTimeout mock_vm_service = 15000000000"
  by (simp_all add: mock_vm_service_def vm_New_def defaultNetworkPollInterval_def defaultNetworkPollTimeout_def)

section \<open>Consistency of the provider's state\<close>

definition clusters_ok :: "Osac \<Rightarrow> bool" where
  "clusters_ok w \<longleftrightarrow> store_wf (os_clusters w) \<and>
     (\<forall>i c. st_items (os_clusters w) i = Some c \<longrightarrow> pc_Id c = i \<and> i \<noteq> '''' \<and>
        pc_Status c = Some (mockClusterStatus i) \<and> os_secrets w (secretID_of i) = Some (mockSecret i))"

definition instances_ok :: "Osac \<Rightarrow> bool" where
  "instances_ok w \<longleftrightarrow> store_wf (os_instances w) \<and>
     (\<forall>i c. st_items (os_instances w) i = Some c \<longrightarrow> ci_Id c = i \<and> ci_Status c = Some runningStatus)"

definition generated :: "Osac \<Rightarrow> string set" where
  "generated w = os_uuid w ` {..< os_uuids w}"

definition networks_ok :: "Osac \<Rightarrow> bool" where
  "networks_ok w \<longleftrightarrow> inj (os_uuid w) \<and> store_wf (os_subnets w) \<and> store_wf (os_vnets w) \<and>
     dom (st_items (os_subnets w)) \<subseteq> generated w \<and> dom (st_items (os_vnets w)) \<subseteq> generated w \<and>
     (\<forall>i c. st_items (os_subnets w) i = Some c \<longrightarrow> sn_Id c = i) \<and>
     (\<forall>i c. st_items (os_vnets w) i = Some c \<longrightarrow> vn_Id c = i)"

definition osac_inv :: "Osac \<Rightarrow> bool" where
  "osac_inv w \<longleftrightarrow> clusters_ok w \<and> instances_ok w \<and> networks_ok w"

lemma osac_invD: "osac_inv w \<Longrightarrow> clusters_ok w" "osac_inv w \<Longrightarrow> instances_ok w" "osac_inv w \<Longrightarrow> networks_ok w"
  by (simp_all add: osac_inv_def)

lemma clusters_okD:
  "clusters_ok w \<Longrightarrow> store_wf (os_clusters w)"
  "clusters_ok w \<Longrightarrow> st_items (os_clusters w) i = Some c \<Longrightarrow> pc_Id c = i \<and> i \<noteq> '''' \<and>
     pc_Status c = Some (mockClusterStatus i) \<and> os_secrets w (secretID_of i) = Some (mockSecret i)"
  by (simp_all add: clusters_ok_def)

lemma instances_okD:
  "instances_ok w \<Longrightarrow> store_wf (os_instances w)"
  "instances_ok w \<Longrightarrow> st_items (os_instances w) i = Some c \<Longrightarrow> ci_Id c = i \<and> ci_Status c = Some runningStatus"
  by (simp_all add: instances_ok_def)

lemma secretID_of_inj [simp]: "secretID_of i = secretID_of j \<longleftrightarrow> i = j"
  by (simp add: secretID_of_def)

lemma osac_inv_new: "inj uuid \<Longrightarrow> osac_inv (newOsac uuid)"
  by (simp add: osac_inv_def newOsac_def clusters_ok_def instances_ok_def networks_ok_def generated_def)
    (simp add: newResourceStore_def)

lemma Clusters_Create_inv: "osac_inv w \<Longrightarrow> osac_inv (snd (Clusters_Create x w))"
  by (auto simp: osac_inv_def clusters_ok_def instances_ok_def networks_ok_def generated_def
      Clusters_Create_def Let_def store_create_def store_wf_def split: option.split)

lemma Clusters_Delete_inv: "osac_inv w \<Longrightarrow> osac_inv (snd (Clusters_Delete i w))"
  by (auto simp: osac_inv_def clusters_ok_def instances_ok_def networks_ok_def generated_def
      Clusters_Delete_def store_delete_def store_wf_def set_remove1_eq)

lemma ComputeInstances_Create_inv: "osac_inv w \<Longrightarrow> osac_inv (snd (ComputeInstances_Create x w))"
  by (auto simp: osac_inv_def clusters_ok_def instances_ok_def networks_ok_def generated_def
      ComputeInstances_Create_def Let_def store_create_def store_wf_def split: option.split)

lemma ComputeInstances_Delete_inv: "osac_inv w \<Longrightarrow> osac_inv (snd (ComputeInstances_Delete i w))"
  by (auto simp: osac_inv_def clusters_ok_def instances_ok_def networks_ok_def generated_def
      ComputeInstances_Delete_def store_delete_def store_wf_def set_remove1_eq)

text \<open>A generated identifier is new.\<close>

lemma fresh_uuid: "networks_ok w \<Longrightarrow> os_uuid w (os_uuids w) \<notin> generated w"
  by (auto simp: networks_ok_def generated_def dest: injD)

lemma generated_Suc: "os_uuid w' = os_uuid w \<Longrightarrow> os_uuids w' = Suc (os_uuids w) \<Longrightarrow>
  generated w' = insert (os_uuid w (os_uuids w)) (generated w)"
  by (auto simp: generated_def lessThan_Suc)

lemma Subnets_Create_inv: "osac_inv w \<Longrightarrow> osac_inv (snd (Subnets_Create x w))"
proof (cases x)
  case (Some obj)
  assume w: "osac_inv w"
  let ?w = "snd (Subnets_Create x w)"
  have new: "st_items (os_subnets w) (os_uuid w (os_uuids w)) = None"
    using fresh_uuid [OF osac_invD(3) [OF w]] w by (auto simp: osac_inv_def networks_ok_def)
  have g: "generated ?w = insert (os_uuid w (os_uuids w)) (generated w)"
    by (rule generated_Suc) (simp_all add: Some Subnets_Create_def Let_def)
  from w have "networks_ok ?w" unfolding networks_ok_def g osac_inv_def
    by (auto simp: Some Subnets_Create_def Let_def store_wf_insert new store_insert_def store_wf_def)
  with w show ?thesis
    by (simp add: osac_inv_def clusters_ok_def instances_ok_def Some Subnets_Create_def Let_def)
qed (simp add: Subnets_Create_def server_panics_def)

lemma VirtualNetworks_Create_inv: "osac_inv w \<Longrightarrow> osac_inv (snd (VirtualNetworks_Create x w))"
proof (cases x)
  case (Some obj)
  assume w: "osac_inv w"
  let ?w = "snd (VirtualNetworks_Create x w)"
  have new: "st_items (os_vnets w) (os_uuid w (os_uuids w)) = None"
    using fresh_uuid [OF osac_invD(3) [OF w]] w by (auto simp: osac_inv_def networks_ok_def)
  have g: "generated ?w = insert (os_uuid w (os_uuids w)) (generated w)"
    by (rule generated_Suc) (simp_all add: Some VirtualNetworks_Create_def Let_def)
  from w have "networks_ok ?w" unfolding networks_ok_def g osac_inv_def
    by (auto simp: Some VirtualNetworks_Create_def Let_def store_wf_insert new store_insert_def store_wf_def)
  with w show ?thesis
    by (simp add: osac_inv_def clusters_ok_def instances_ok_def Some VirtualNetworks_Create_def Let_def)
qed (simp add: VirtualNetworks_Create_def server_panics_def)

lemma Subnets_Delete_inv: "osac_inv w \<Longrightarrow> osac_inv (snd (Subnets_Delete i w))"
  by (auto simp: osac_inv_def clusters_ok_def instances_ok_def networks_ok_def generated_def
      Subnets_Delete_def store_delete_def store_wf_def set_remove1_eq)

lemma VirtualNetworks_Delete_inv: "osac_inv w \<Longrightarrow> osac_inv (snd (VirtualNetworks_Delete i w))"
  by (auto simp: osac_inv_def clusters_ok_def instances_ok_def networks_ok_def generated_def
      VirtualNetworks_Delete_def store_delete_def store_wf_def set_remove1_eq)

section \<open>The contracts hold\<close>

interpretation cluster_store: resource_backend mock_clusters pc_Id "\<lambda>w. st_items (os_clusters w)" osac_inv
proof (unfold_locales, goal_cases)
  case (1 w i x)
  then show ?case by (simp add: mock_client_defs Clusters_Get_def store_get_def)
next
  case (2 w i)
  then show ?case by (simp add: mock_client_defs Clusters_Get_def store_get_def)
next
  case (3 w x)
  then show ?case by (auto simp: mock_client_defs Clusters_Create_def Let_def store_create_def)
next
  case (4 w x)
  then show ?case using Clusters_Create_inv [OF 4(1), of "Some x"]
    by (auto simp: mock_client_defs Clusters_Create_def Let_def store_create_def)
next
  case (5 w i)
  then show ?case by (simp add: mock_client_defs Clusters_Delete_def store_delete_def)
next
  case (6 w i)
  then show ?case using Clusters_Delete_inv [OF 6(1), of i]
    by (auto simp: mock_client_defs Clusters_Delete_def store_delete_def)
qed

interpretation instance_store: resource_backend mock_instances ci_Id "\<lambda>w. st_items (os_instances w)" osac_inv
proof (unfold_locales, goal_cases)
  case (1 w i x)
  then show ?case by (simp add: mock_client_defs ComputeInstances_Get_def store_get_def)
next
  case (2 w i)
  then show ?case by (simp add: mock_client_defs ComputeInstances_Get_def store_get_def)
next
  case (3 w x)
  then show ?case by (auto simp: mock_client_defs ComputeInstances_Create_def Let_def store_create_def)
next
  case (4 w x)
  then show ?case using ComputeInstances_Create_inv [OF 4(1), of "Some x"]
    by (auto simp: mock_client_defs ComputeInstances_Create_def Let_def store_create_def)
next
  case (5 w i)
  then show ?case by (simp add: mock_client_defs ComputeInstances_Delete_def store_delete_def)
next
  case (6 w i)
  then show ?case using ComputeInstances_Delete_inv [OF 6(1), of i]
    by (auto simp: mock_client_defs ComputeInstances_Delete_def store_delete_def)
qed

lemma mock_cluster_service_sel [simp]:
  "svc_client (mock_cluster_service ans m) = mock_clusters"
  "svc_secrets (mock_cluster_service ans m) = mock_secrets"
  "svc_templates (mock_cluster_service ans m) = mock_templates"
  "svc_versions (mock_cluster_service ans m) = catalog ans"
  "svc_matrix (mock_cluster_service ans m) = m"
  by (simp_all add: mock_cluster_service_def)

interpretation mock_cluster: cluster_backend "mock_cluster_service ans m" "\<lambda>w. st_items (os_clusters w)"
  osac_inv ClusterTemplates_answer ans
proof (unfold mock_cluster_service_sel cluster_backend_def cluster_backend_axioms_def, intro conjI allI impI)
  show "resource_backend mock_clusters pc_Id (\<lambda>w. st_items (os_clusters w)) osac_inv"
    by (rule cluster_store.resource_backend_axioms)
qed (simp_all add: mock_templates_def ClusterTemplates_Get_def catalog_def)

interpretation mock_ticks: ticking_clock mock_clock
  by unfold_locales (auto simp: mock_clock_def)

section \<open>The default network on the mock\<close>

definition mock_net :: "Osac \<Rightarrow> string option" where
  "mock_net w = (case st_order (os_subnets w) of [] \<Rightarrow> None | i # _ \<Rightarrow> Some i)"

text \<open>The state after the first request for the default network: one network, one subnet in it.\<close>

definition new_vnet :: "Osac \<Rightarrow> pb_VirtualNetwork" where
  "new_vnet w = defaultVirtualNetwork \<lparr>vn_Id := os_uuid w (os_uuids w),
     vn_Status := Some \<lparr>vnst_State = VIRTUAL_NETWORK_STATE_READY, vnst_Message = None\<rparr>\<rparr>"

definition new_subnet :: "Osac \<Rightarrow> pb_Subnet" where
  "new_subnet w = defaultSubnet (os_uuid w (os_uuids w)) \<lparr>sn_Id := os_uuid w (Suc (os_uuids w)),
     sn_Status := Some \<lparr>snst_State = SUBNET_STATE_READY, snst_Message = None\<rparr>\<rparr>"

definition with_network :: "Osac \<Rightarrow> Osac" where
  "with_network w = w \<lparr>os_uuids := Suc (Suc (os_uuids w)),
     os_vnets := store_insert (os_uuid w (os_uuids w)) (new_vnet w) (os_vnets w),
     os_subnets := store_insert (os_uuid w (Suc (os_uuids w))) (new_subnet w) (os_subnets w)\<rparr>"

lemma pollUntilReady_now: "isReady w = (Inr True, w') \<Longrightarrow> pollUntilReady clk s isReady w = Some (Inr (), w')"
  unfolding pollUntilReady_def by (subst pollLoop.simps) simp

lemma subnet_list_all:
  "fst (rc_List mock_subnets \<lparr>lq_Offset = None, lq_Limit = None, lq_Filter = f, lq_Order = g\<rparr> w) =
     Inr \<lparr>lr_Size = wrap32 (int (length (st_order (os_subnets w)))),
          lr_Total = wrap32 (int (length (st_order (os_subnets w)))),
          lr_Items = map (\<lambda>i. the (st_items (os_subnets w) i)) (st_order (os_subnets w))\<rparr>"
  by (simp add: mock_client_defs Subnets_List_def list_response_def store_list_def opt_int_def)

lemma mock_provision_vnet:
  "provisionDefaultVirtualNetwork clk mock_vm_service w = Some (Inr (os_uuid w (os_uuids w)),
     w \<lparr>os_uuids := Suc (os_uuids w), os_vnets := store_insert (os_uuid w (os_uuids w)) (new_vnet w) (os_vnets w)\<rparr>)"
proof -
  let ?i = "os_uuid w (os_uuids w)" and ?w = "w \<lparr>os_uuids := Suc (os_uuids w),
    os_vnets := store_insert (os_uuid w (os_uuids w)) (new_vnet w) (os_vnets w)\<rparr>"
  have "vnetReady mock_vm_service ?i ?w = (Inr True, ?w)"
    by (simp add: vnetReady_def mock_vnets_def VirtualNetworks_Get_def store_get_def store_insert_def new_vnet_def)
  then have poll: "pollUntilReady clk mock_vm_service (vnetReady mock_vm_service ?i) ?w = Some (Inr (), ?w)"
    by (rule pollUntilReady_now)
  have "rc_Create (vms_virtualNetworks mock_vm_service) (Some defaultVirtualNetwork) w =
      (Inr \<lparr>or_Object = Some (new_vnet w)\<rparr>, ?w)"
    by (simp add: mock_vnets_def VirtualNetworks_Create_def Let_def new_vnet_def)
  moreover have "vn_Id (new_vnet w) = ?i" by (simp add: new_vnet_def)
  ultimately show ?thesis by (simp add: provisionDefaultVirtualNetwork_def Let_def poll)
qed

lemma mock_provision_subnet:
  "provisionDefaultSubnet clk mock_vm_service v w = Some (Inr (os_uuid w (os_uuids w)),
     w \<lparr>os_uuids := Suc (os_uuids w), os_subnets := store_insert (os_uuid w (os_uuids w))
        (defaultSubnet v \<lparr>sn_Id := os_uuid w (os_uuids w),
           sn_Status := Some \<lparr>snst_State = SUBNET_STATE_READY, snst_Message = None\<rparr>\<rparr>) (os_subnets w)\<rparr>)"
proof -
  let ?s = "defaultSubnet v \<lparr>sn_Id := os_uuid w (os_uuids w),
    sn_Status := Some \<lparr>snst_State = SUBNET_STATE_READY, snst_Message = None\<rparr>\<rparr>"
  let ?i = "os_uuid w (os_uuids w)" and ?w = "w \<lparr>os_uuids := Suc (os_uuids w),
    os_subnets := store_insert (os_uuid w (os_uuids w)) ?s (os_subnets w)\<rparr>"
  have "subnetReady mock_vm_service ?i ?w = (Inr True, ?w)"
    by (simp add: subnetReady_def mock_subnets_def Subnets_Get_def store_get_def store_insert_def)
  then have poll: "pollUntilReady clk mock_vm_service (subnetReady mock_vm_service ?i) ?w = Some (Inr (), ?w)"
    by (rule pollUntilReady_now)
  have "rc_Create (vms_subnets mock_vm_service) (Some (defaultSubnet v)) w = (Inr \<lparr>or_Object = Some ?s\<rparr>, ?w)"
    by (simp add: mock_subnets_def Subnets_Create_def Let_def)
  then show ?thesis by (simp add: provisionDefaultSubnet_def Let_def poll)
qed

lemma mock_resolve:
  assumes "osac_inv w"
  shows "resolveDefaultSubnet clk mock_vm_service w =
    (case mock_net w of
       None \<Rightarrow> Some (Inr (os_uuid w (Suc (os_uuids w))), with_network w)
     | Some sid \<Rightarrow> Some (Inr sid, w))"
proof -
  let ?req = "\<lparr>lq_Offset = None, lq_Limit = None, lq_Filter = Some defaultNetworkFilter, lq_Order = None\<rparr>"
  have same: "snd (rc_List mock_subnets ?req w) = w" by (simp add: mock_subnets_def Subnets_List_def)
  then have l: "rc_List mock_subnets ?req w = (Inr \<lparr>lr_Size = wrap32 (int (length (st_order (os_subnets w)))),
          lr_Total = wrap32 (int (length (st_order (os_subnets w)))),
          lr_Items = map (\<lambda>i. the (st_items (os_subnets w) i)) (st_order (os_subnets w))\<rparr>, w)"
    using subnet_list_all by (metis prod.collapse)
  show ?thesis
  proof (cases "st_order (os_subnets w)")
    case Nil
    with l show ?thesis
      by (simp add: resolveDefaultSubnet_def mock_provision_vnet mock_provision_subnet mock_net_def
          with_network_def new_subnet_def)
  next
    case (Cons i rest)
    have "i \<in> dom (st_items (os_subnets w))" using Cons assms
      by (auto simp: osac_inv_def networks_ok_def store_wf_def)
    then obtain c where "st_items (os_subnets w) i = Some c" "sn_Id c = i" using assms
      by (auto simp: osac_inv_def networks_ok_def)
    with Cons l show ?thesis by (simp add: resolveDefaultSubnet_def mock_net_def)
  qed
qed

lemma with_network_creates:
  "with_network w = snd (Subnets_Create (Some (defaultSubnet (os_uuid w (os_uuids w))))
     (snd (VirtualNetworks_Create (Some defaultVirtualNetwork) w)))"
  by (simp add: with_network_def Subnets_Create_def VirtualNetworks_Create_def Let_def new_vnet_def new_subnet_def)

lemma with_network_inv: "osac_inv w \<Longrightarrow> osac_inv (with_network w)"
  unfolding with_network_creates by (intro Subnets_Create_inv VirtualNetworks_Create_inv)

interpretation mock_vm: vm_backend mock_vm_service "\<lambda>w. st_items (os_instances w)" osac_inv mock_clock mock_net
proof (unfold vm_backend_def vm_backend_axioms_def mock_vm_service_sel, intro conjI allI impI)
  show "resource_backend mock_instances ci_Id (\<lambda>w. st_items (os_instances w)) osac_inv"
    by (rule instance_store.resource_backend_axioms)
next
  fix w sid assume "osac_inv w" "mock_net w = Some sid"
  then show "resolveDefaultSubnet mock_clock mock_vm_service w = Some (Inr sid, w)" by (simp add: mock_resolve)
next
  fix w assume "osac_inv w" "mock_net w = None"
  moreover from this have "mock_net (with_network w) = Some (os_uuid w (Suc (os_uuids w)))"
    by (auto simp: mock_net_def with_network_def store_insert_def split: list.splits)
  moreover have "st_items (os_instances (with_network w)) = st_items (os_instances w)"
    by (simp add: with_network_def)
  ultimately show "\<exists>sid w'. resolveDefaultSubnet mock_clock mock_vm_service w = Some (Inr sid, w') \<and>
      mock_net w' = Some sid \<and> osac_inv w' \<and> st_items (os_instances w') = st_items (os_instances w)"
    by (auto simp: mock_resolve with_network_inv)
next
  fix w x
  show "mock_net (snd (rc_Create mock_instances x w)) = mock_net w"
    by (auto simp: mock_instances_def ComputeInstances_Create_def Let_def mock_net_def split: option.split sum.split prod.split)
qed

section \<open>Paging over the mock\<close>

definition cluster_objs :: "Osac \<Rightarrow> pb_Cluster list" where
  "cluster_objs w = map snd (contents (os_clusters w))"

definition instance_objs :: "Osac \<Rightarrow> pb_ComputeInstance list" where
  "instance_objs w = map snd (contents (os_instances w))"

definition int32_many :: "Osac \<Rightarrow> bool" where
  "int32_many w \<longleftrightarrow> int (length (cluster_objs w)) \<le> MaxInt32 \<and> int (length (instance_objs w)) \<le> MaxInt32"

lemma list_response_page:
  assumes "0 \<le> off" "0 < lim" "int (length (contents st)) \<le> MaxInt32"
  shows "list_response st \<lparr>lq_Offset = Some off, lq_Limit = Some lim, lq_Filter = f, lq_Order = g\<rparr> =
    \<lparr>lr_Size = int (length (take (nat lim) (drop (nat off) (map snd (contents st))))),
     lr_Total = int (length (contents st)),
     lr_Items = take (nat lim) (drop (nat off) (map snd (contents st)))\<rparr>"
proof -
  have "is_int32 (int (length (contents st)))"
    "is_int32 (int (length (take (nat lim) (drop (nat off) (map snd (contents st))))))"
    using assms(3) by (simp_all add: is_int32_def MaxInt32_def)
  then show ?thesis using assms(1,2)
    by (simp add: list_response_def opt_int_def store_list_page del: length_take length_drop length_map)
qed

interpretation cluster_source: page_source "rc_List mock_clusters" cluster_objs int32_many
proof (unfold_locales, goal_cases)
  case (1 w off lim f ord)
  then show ?case by (simp add: mock_clusters_def Clusters_List_def list_response_page cluster_objs_def)
qed

interpretation instance_source: page_source "rc_List mock_instances" instance_objs int32_many
proof (unfold_locales, goal_cases)
  case (1 w off lim f ord)
  then show ?case by (simp add: mock_instances_def ComputeInstances_List_def list_response_page instance_objs_def)
qed

lemma mock_cluster_pages:
  "NormalizeMaxPageSize ps defaultPageSize = Inr (int lim) \<Longrightarrow>
   cluster_pages (mock_cluster_service ans m) cluster_objs int32_many ps lim"
  unfolding cluster_pages_def cluster_pages_axioms_def mock_cluster_service_sel
  using cluster_source.page_source_axioms by (simp add: int32_many_def)

lemma mock_vm_pages:
  "NormalizeMaxPageSize ps vm_defaultPageSize = Inr (int lim) \<Longrightarrow>
   vm_pages mock_vm_service instance_objs int32_many ps lim"
  unfolding vm_pages_def vm_pages_axioms_def mock_vm_service_sel
  using instance_source.page_source_axioms by (simp add: int32_many_def)

text \<open>Without a requested size, the pages have the default size.\<close>

interpretation default_cluster_pages: cluster_pages "mock_cluster_service ans m" cluster_objs int32_many None 50
  by (rule mock_cluster_pages) (simp add: NormalizeMaxPageSize_def defaultPageSize_def)

interpretation default_vm_pages: vm_pages mock_vm_service instance_objs int32_many None 50
  by (rule mock_vm_pages) (simp add: NormalizeMaxPageSize_def vm_defaultPageSize_def)

end
