(* ===== verification/Service_Contract.thy ===== *)
theory Service_Contract
  imports Mock_Provider
begin

text \<open>
  What the cluster and the VM service promise, for any OSAC where the promise is theirs alone,
  and over the in-memory provider where it takes both sides.
\<close>

section \<open>Lemmas\<close>

lemma MapStatus_None_ready:
  "MapStatus None st = ClusterStatusACTIVE \<longleftrightarrow>
     ClusterStatus_GetState st = CLUSTER_STATE_READY \<and> \<not> list_ex is_degraded (ClusterStatus_GetConditions st)"
  by (auto simp: MapStatus_def pb_simps)

text \<open>A version library on dotted numbers, for the concrete inputs.\<close>

fun dotted :: "string \<Rightarrow> string \<Rightarrow> nat list" where
  "dotted acc [] = [digits_value acc]"
| "dotted acc (c # cs) = (if c = CHR ''.'' then digits_value acc # dotted [] cs else dotted (acc @ [c]) cs)"

definition numeric_semver :: "nat list SemVer" where
  "numeric_semver = \<lparr>sv_NewVersion = \<lambda>s. Inr (dotted [] s), sv_GreaterThan = \<lambda>a b. b < a, sv_Equal = (=)\<rparr>"

lemma numeric_semver_order: "semver_order numeric_semver"
  by (auto simp: semver_order_def numeric_semver_def)

definition version_entry :: "string \<Rightarrow> string \<Rightarrow> pb_ClusterVersion" where
  "version_entry n v = \<lparr>cv_Id = n, cv_Metadata = Some (Metadata_zero \<lparr>md_Name := n\<rparr>),
     cv_Spec = Some \<lparr>cvs_Enabled = None, cvs_IsDefault = None, cvs_State = 0, cvs_Version = v\<rparr>\<rparr>"

definition small_catalog :: "pb_ClusterVersion ListResponse" where
  "small_catalog = \<lparr>lr_Size = 3, lr_Total = 3, lr_Items =
     [version_entry ''a'' ''1.29.2'', version_entry ''b'' ''1.30.99'', version_entry ''c'' ''1.29.10'']\<rparr>"

section \<open>Status\<close>

text \<open>
  The reported cluster status, for every state and condition list OSAC can send, unknown
  states included: ACTIVE exactly for a ready cluster with no DEGRADED condition that is true,
  DEGRADED exactly when such a condition accompanies a state that is not unspecified, failed or
  being deleted, PROGRESSING for a cluster not reconciled yet. DELETED and UNAVAILABLE are only
  reported for an error of the call, and then by its code alone.
\<close>

lemma cluster_status_table:
  shows "(MapStatus None st = ClusterStatusACTIVE \<longleftrightarrow> ClusterStatus_GetState st = 2 \<and>
      \<not> (\<exists>c \<in> set (ClusterStatus_GetConditions st). cc_Type c = 4 \<and> cc_Status c = 1)) \<and>
    (MapStatus None st = ClusterStatusDEGRADED \<longleftrightarrow> ClusterStatus_GetState st \<notin> {0, 3, 4, 5} \<and>
      (\<exists>c \<in> set (ClusterStatus_GetConditions st). cc_Type c = 4 \<and> cc_Status c = 1)) \<and>
    (MapStatus None st = ClusterStatusPROGRESSING \<longleftrightarrow> ClusterStatus_GetState st = 0 \<or>
      (ClusterStatus_GetState st = 1 \<and>
       \<not> (\<exists>c \<in> set (ClusterStatus_GetConditions st). cc_Type c = 4 \<and> cc_Status c = 1))) \<and>
    (MapStatus None st = ClusterStatusDELETING \<longleftrightarrow> ClusterStatus_GetState st = 4) \<and>
    MapStatus None st \<noteq> ClusterStatusDELETED \<and> MapStatus None st \<noteq> ClusterStatusUNAVAILABLE \<and>
    MapStatus (Some e) st = (if grpc_code e = NotFound then ClusterStatusDELETED
      else if grpc_code e \<in> {Unavailable, DeadlineExceeded} then ClusterStatusUNAVAILABLE
      else ClusterStatusFAILED)"
proof -
  have d: "list_ex is_degraded cs \<longleftrightarrow> (\<exists>c \<in> set cs. cc_Type c = 4 \<and> cc_Status c = 1)" for cs
    by (auto simp: list_ex_iff is_degraded_def pb_simps)
  show ?thesis
    by (auto simp: MapStatus_def pb_simps d split: Code.split)
qed

text \<open>
  The reported VM status: each OSAC state has its one DCM status, an unspecified state is
  PROVISIONING, an unknown one FAILED; DELETED is reported exactly for a NotFound error of the
  call, every other error is FAILED.
\<close>

lemma vm_status_table:
  shows "vm_MapStatus None st =
      (let n = ComputeInstanceStatus_GetState st in
       if n \<in> {0..7} then
         [VMStatusPROVISIONING, VMStatusPROVISIONING, VMStatusRUNNING, VMStatusFAILED, VMStatusDELETING,
          VMStatusSTOPPING, VMStatusSTOPPED, VMStatusPAUSED] ! nat n
       else VMStatusFAILED) \<and>
    vm_MapStatus None st \<noteq> VMStatusDELETED \<and>
    vm_MapStatus (Some e) st = (if grpc_code e = NotFound then VMStatusDELETED else VMStatusFAILED)"
proof -
  have "n \<in> {0..7} \<Longrightarrow> n = 0 \<or> n = 1 \<or> n = 2 \<or> n = 3 \<or> n = 4 \<or> n = 5 \<or> n = 6 \<or> n = 7" for n :: int by auto
  then show ?thesis
    by (cases "ComputeInstanceStatus_GetState st \<in> {0..7}") (auto simp: vm_MapStatus_def Let_def pb_simps)
qed

section \<open>Requests\<close>


definition example_spec :: api_ClusterSpec where
  "example_spec = \<lparr>acs_Metadata = \<lparr>cmd_Labels = Some [''dcm.io/managed-by'' \<mapsto> ''me'', ''team'' \<mapsto> ''a''], cmd_Name = ''n''\<rparr>,
     acs_Nodes = \<lparr>cn_Worker = \<lparr>wn_Count = 3, wn_Cpu = None, wn_Memory = None, wn_Storage = None\<rparr>\<rparr>,
     acs_ProviderHints = \<lparr>cph_Osac = \<lparr>oph_BaseDomain = None, oph_PullSecret = None, oph_ReleaseImage = None,
       oph_SshKey = None, oph_TemplateId = ''default-hcp''\<rparr>\<rparr>, acs_Version = ''1.29''\<rparr>"


end
