(* ===== verification/Provider_Contract.thy ===== *)
theory Provider_Contract
  imports Service_Contract
begin

text \<open>
  The operations of the two services, end to end: which version a create selects, which errors
  an operation can answer, and what creating, reading, listing and deleting do over the
  in-memory provider.
\<close>

section \<open>Choosing a version\<close>

text \<open>
  C6. When the catalog answers, \<open>resolveVersion\<close> refers to an entry that matches the
  requested minor version, has a name and parses, such that no other such entry is newer, nor as
  new with a smaller name: the choice does not depend on the catalog's order. It fails, with an
  invalid-argument error, exactly when there is no such entry.
\<close>

theorem resolveVersion_newest:
  assumes "semver_order sv" and "rc_List (svc_versions s) ListRequest_empty w = (Inr resp, w1)"
  shows "case resolveVersion sv s version w of
      (Inl e, w') \<Rightarrow> w' = w1 \<and> grpc_code e = InvalidArgument \<and>
        (\<forall>c \<in> set (lr_Items resp). eligible sv version c = None)
    | (Inr ref, w') \<Rightarrow> w' = w1 \<and> (\<exists>c \<in> set (lr_Items resp). \<exists>p. eligible sv version c = Some p \<and>
        rf_Id ref = cv_Id c \<and> rf_Name ref = version_name c \<and>
        (ClusterVersionSpec_GetVersion (cv_Spec c) = version \<or>
         HasPrefix (ClusterVersionSpec_GetVersion (cv_Spec c)) (version @ ''.'')) \<and>
        (\<forall>c' \<in> set (lr_Items resp). \<forall>p'. eligible sv version c' = Some p' \<longrightarrow>
           \<not> sv_GreaterThan sv p' p \<and> \<not> (sv_Equal sv p' p \<and> version_name c' < version_name c)))"
proof -
  have newest: "case selectVersion sv version None (lr_Items resp) of
      None \<Rightarrow> \<forall>c \<in> set (lr_Items resp). eligible sv version c = None
    | Some r \<Rightarrow> fst r \<in> set (lr_Items resp) \<and> eligible sv version (fst r) = Some (snd r) \<and>
        (\<forall>c \<in> set (lr_Items resp). \<forall>p. eligible sv version c = Some p \<longrightarrow> \<not> preferred sv (c, p) r)"
    by (rule selectVersion_newest [OF assms(1)])
  show ?thesis
  proof (cases "selectVersion sv version None (lr_Items resp)")
    case None
    with newest assms(2) show ?thesis by (simp add: resolveVersion_def)
  next
    case (Some r)
    obtain c p where r: "r = (c, p)" by force
    from newest Some r have c: "c \<in> set (lr_Items resp)" "eligible sv version c = Some p"
      and best: "\<forall>c' \<in> set (lr_Items resp). \<forall>p'. eligible sv version c' = Some p' \<longrightarrow> \<not> preferred sv (c', p') (c, p)"
      by simp_all
    have "ClusterVersionSpec_GetVersion (cv_Spec c) = version \<or>
        HasPrefix (ClusterVersionSpec_GetVersion (cv_Spec c)) (version @ ''.'')"
      using c(2) unfolding eligible_Some by blast
    moreover have "resolveVersion sv s version w = (Inr \<lparr>rf_Id = cv_Id c, rf_Name = version_name c,
        rf_Project = '''', rf_Shared = False\<rparr>, w1)"
      using Some r assms(2) by (simp add: resolveVersion_def version_name_def)
    ultimately show ?thesis using c best by (auto simp: preferred_def)
  qed
qed

lemma small_catalog_select:
  "resolveVersion numeric_semver (mock_cluster_service (Inr small_catalog) []) ''1.29'' w =
     (Inr \<lparr>rf_Id = ''c'', rf_Name = ''c'', rf_Project = '''', rf_Shared = False\<rparr>, w)"
  by (simp add: resolveVersion_def catalog_def small_catalog_def version_entry_def eligible_def
      Metadata_zero_def numeric_semver_def HasPrefix_def digits_value_def digit_val_def)

theorem resolveVersion_newest_witness:
  "resolveVersion numeric_semver (mock_cluster_service (Inr small_catalog) []) ''1.29'' (newOsac (\<lambda>_. '''')) =
     (Inr \<lparr>rf_Id = ''c'', rf_Name = ''c'', rf_Project = '''', rf_Shared = False\<rparr>, newOsac (\<lambda>_. '''')) \<and>
   (\<exists>c \<in> set (lr_Items small_catalog). rf_Id \<lparr>rf_Id = ''c'', rf_Name = ''c'', rf_Project = '''', rf_Shared = False\<rparr> = cv_Id c)"
  using resolveVersion_newest [OF numeric_semver_order,
      of "mock_cluster_service (Inr small_catalog) []" "newOsac (\<lambda>_. '''')" small_catalog "newOsac (\<lambda>_. '''')" "''1.29''"]
  unfolding small_catalog_select by (simp add: catalog_def) blast

section \<open>Errors of a create\<close>

lemma resolveNodeSetKey_not_404: "resolveNodeSetKey s t w = (Inl e, w') \<Longrightarrow> grpc_code e \<noteq> NotFound"
  by (auto simp: resolveNodeSetKey_def Let_def split: prod.splits sum.splits if_splits)

lemma resolveVersion_not_404:
  assumes "\<And>req w e w'. rc_List (svc_versions s) req w = (Inl e, w') \<Longrightarrow> grpc_code e \<noteq> NotFound"
    and "resolveVersion sv s v w = (Inl e, w')"
  shows "grpc_code e \<noteq> NotFound"
  using assms by (auto simp: resolveVersion_def split: prod.splits sum.splits option.splits)

text \<open>
  Creating a cluster never answers NotFound unless OSAC's own create or version listing
  does: an unknown template is an invalid argument, and a name conflict whose identifier does
  not exist stays the conflict OSAC reported.
\<close>

lemma cluster_create_not_404:
  assumes "\<And>req w e w'. rc_List (svc_versions s) req w = (Inl e, w') \<Longrightarrow> grpc_code e \<noteq> NotFound"
    and "\<And>x w e w'. rc_Create (svc_client s) x w = (Inl e, w') \<Longrightarrow> grpc_code e \<noteq> NotFound"
    and "Cluster_Create sv s i spec w = (Inl e, w')"
  shows "grpc_code e \<noteq> NotFound"
proof
  assume e: "grpc_code e = NotFound"
  let ?t = "oph_TemplateId (cph_Osac (acs_ProviderHints spec))"
  obtain k w1 where k: "resolveNodeSetKey s ?t w = (k, w1)" by force
  have "\<exists>key. k = Inr key"
    using k e assms(3) resolveNodeSetKey_not_404 [of s ?t w e] by (cases k) (auto simp: Cluster_Create_def split: if_splits)
  then obtain key where k: "resolveNodeSetKey s ?t w = (Inr key, w1)" using k by blast
  obtain r w2 where r: "resolveVersion sv s (acs_Version spec) w1 = (r, w2)" by force
  have "\<exists>ref. r = Inr ref"
  proof (cases r)
    case (Inl e')
    with r k e assms(3) have "e' = e" by (auto simp: Cluster_Create_def split: if_splits)
    moreover have "grpc_code e' \<noteq> NotFound"
      by (rule resolveVersion_not_404 [OF _ r [unfolded Inl]]) (rule assms(1))
    ultimately show ?thesis using e by simp
  qed simp
  then obtain ref where r: "resolveVersion sv s (acs_Version spec) w1 = (Inr ref, w2)" using r by blast
  show False
    using assms(2,3) e by (auto simp: Cluster_Create_def k r split: if_splits sum.splits prod.splits)
qed

theorem cluster_create_not_404_witness:
  "fst (Cluster_Create numeric_semver (mock_cluster_service (Inr small_catalog) []) ''x''
     (example_spec \<lparr>acs_ProviderHints := \<lparr>cph_Osac = \<lparr>oph_BaseDomain = None, oph_PullSecret = None,
        oph_ReleaseImage = None, oph_SshKey = None, oph_TemplateId = ''nope''\<rparr>\<rparr>\<rparr>) (newOsac (\<lambda>_. '''')))
   = Inl (StatusError InvalidArgument [Lit ''template '', Quoted ''nope'', Lit '' not found'']) \<and>
   grpc_code (StatusError InvalidArgument [Lit ''template '', Quoted ''nope'', Lit '' not found'']) \<noteq> NotFound"
proof -
  let ?s = "mock_cluster_service (Inr small_catalog) []" and ?w = "newOsac (\<lambda>_. '''')"
  let ?e = "StatusError InvalidArgument [Lit ''template '', Quoted ''nope'', Lit '' not found'']"
  let ?spec = "example_spec \<lparr>acs_ProviderHints := \<lparr>cph_Osac = \<lparr>oph_BaseDomain = None, oph_PullSecret = None,
        oph_ReleaseImage = None, oph_SshKey = None, oph_TemplateId = ''nope''\<rparr>\<rparr>\<rparr>"
  have r: "Cluster_Create numeric_semver ?s ''x'' ?spec ?w = (Inl ?e, ?w)"
    by (simp add: Cluster_Create_def resolveNodeSetKey_def mock_templates_def ClusterTemplates_Get_def
        ClusterTemplates_answer_def defaultHCPTemplateID_def)
  have "grpc_code ?e \<noteq> NotFound"
    by (rule cluster_create_not_404 [of ?s, OF _ _ r])
      (auto simp: catalog_def mock_clusters_def Clusters_Create_def Let_def store_create_def
        split: option.splits if_splits)
  with r show ?thesis by simp
qed

text \<open>
  The VM service, in the same situation, answers the NotFound of its own lookup and loses the
  conflict.
\<close>

lemma vm_create_conflict_is_404:
  assumes "toOSACComputeInstance oor i spec = Inr obj" "resolveDefaultSubnet clk s w = Some (Inr sid, w1)"
    "rc_Create (vms_computeInstances s) (Some (attachSubnet sid obj)) w1 = (Inl e, w2)" "grpc_code e = AlreadyExists"
    "rc_Get (vms_computeInstances s) i w2 = (Inl g, w3)" "grpc_code g = NotFound"
  shows "VM_Create oor clk s i spec w = Some (Inl g, w3) \<and> grpc_code g = NotFound"
  using assms by (simp add: VM_Create_def)

text \<open>
  The mock provider registers no \<open>ClusterVersions\<close> service, so creating a cluster against it
  as it is always fails.
\<close>

lemma mock_cluster_create_unregistered:
  "\<exists>e. Cluster_Create sv (mock_cluster_service unregistered m) i spec w = (Inl e, w)"
  by (auto simp: Cluster_Create_def resolveNodeSetKey_def Let_def mock_templates_def ClusterTemplates_Get_def
      resolveVersion_def catalog_def unregistered_def split: sum.split)

section \<open>Reading a cluster\<close>

text \<open>
  C22. A cluster that is read always carries a kubeconfig field; it is not empty exactly when the
  reported status is ACTIVE, and then it decodes to the bytes stored under the key
  \<open>kubeconfig\<close> of the Secret the cluster refers to. Nothing is ever read as ACTIVE without one.
\<close>

theorem cluster_get_kubeconfig:
  assumes "Cluster_Get s i w = (Inr c, w')"
  shows "(ac_Status c = Some ClusterStatusACTIVE \<longleftrightarrow> ac_Kubeconfig c \<noteq> Some '''') \<and> ac_Kubeconfig c \<noteq> None \<and>
    (ac_Status c = Some ClusterStatusACTIVE \<longrightarrow>
      (\<exists>r w1 ref resp sec bytes. rc_Get (svc_client s) i w = (Inr r, w1) \<and>
         ClusterStatus_GetKubeconfigSecret (Cluster_GetStatus (or_Object r)) = Some ref \<and> lrf_Id ref \<noteq> '''' \<and>
         rc_Get (svc_secrets s) (lrf_Id ref) w1 = (Inr resp, w') \<and> or_Object resp = Some sec \<and>
         sec_Data sec ''kubeconfig'' = Some bytes \<and> bytes \<noteq> [] \<and> ac_Kubeconfig c = Some (StdEncode bytes) \<and>
         StdDecode (StdEncode bytes) = Inr bytes))"
proof -
  obtain r w1 where r: "rc_Get (svc_client s) i w = (Inr r, w1)"
    using assms by (auto simp: Cluster_Get_def split: prod.splits sum.splits)
  show ?thesis
  proof (cases "MapStatus None (Cluster_GetStatus (or_Object r)) = ClusterStatusACTIVE")
    case False
    with assms r show ?thesis by (auto simp: Cluster_Get_def Let_def)
  next
    case True
    with assms r show ?thesis
      by (auto simp: Cluster_Get_def Let_def StdDecode_Encode split: option.splits if_splits prod.splits sum.splits)
  qed
qed

section \<open>Creating and deleting, over the mock\<close>

lemma mock_create_example:
  "Cluster_Create numeric_semver (mock_cluster_service (Inr small_catalog) []) ''x'' example_spec (newOsac uuid) =
   (Inr (toAPICluster (Some (toOSACCluster ''x'' example_spec ''compute''
      (Some \<lparr>rf_Id = ''c'', rf_Name = ''c'', rf_Project = '''', rf_Shared = False\<rparr>)
        \<lparr>pc_Status := Some (mockClusterStatus ''x'')\<rparr>)) (Some ''1.29'')),
    snd (Cluster_Create numeric_semver (mock_cluster_service (Inr small_catalog) []) ''x'' example_spec (newOsac uuid)))"
proof -
  have t: "oph_TemplateId (cph_Osac (acs_ProviderHints example_spec)) = ''default-hcp''"
    "oph_ReleaseImage (cph_Osac (acs_ProviderHints example_spec)) = None" "acs_Version example_spec = ''1.29''"
    by (simp_all add: example_spec_def)
  show ?thesis
    by (simp add: Cluster_Create_def t small_catalog_select resolveNodeSetKey_def mock_templates_def
        ClusterTemplates_Get_def ClusterTemplates_answer_def defaultHCPTemplateID_def mock_clusters_def
        Clusters_Create_def Let_def store_create_def newOsac_def newResourceStore_def)
qed

lemma inj_nat_digits: "inj nat_digits"
  by (metis digits_value_nat_digits injI)

text \<open>
  C5. Retrying a create is safe. Over the in-memory provider with any version catalog, after a
  create has succeeded the same create answers the same body, version included, and changes
  nothing; a create that fails changes nothing either.
\<close>

theorem cluster_create_idempotent:
  assumes "osac_inv w" and "i \<noteq> ''''"
  shows "case Cluster_Create sv (mock_cluster_service ans m) i spec w of
      (Inl e, w1) \<Rightarrow> w1 = w
    | (Inr c, w1) \<Rightarrow> osac_inv w1 \<and> ac_Version c = Some (acs_Version spec) \<and>
        Cluster_Create sv (mock_cluster_service ans m) i spec w1 = (Inr c, w1)"
proof -
  obtain r w1 where r: "Cluster_Create sv (mock_cluster_service ans m) i spec w = (r, w1)" by force
  show ?thesis
  proof (cases r)
    case (Inl e)
    with r mock_cluster.create_error_unchanged [OF assms] show ?thesis by simp
  next
    case (Inr c)
    note r = r [unfolded Inr]
    from mock_cluster.create_retry [OF assms r] mock_cluster.create_lookup [OF assms r] r show ?thesis by auto
  qed
qed

theorem cluster_create_idempotent_witness:
  "case Cluster_Create numeric_semver (mock_cluster_service (Inr small_catalog) []) ''x'' example_spec (newOsac nat_digits) of
      (Inl e, w1) \<Rightarrow> w1 = newOsac nat_digits
    | (Inr c, w1) \<Rightarrow> osac_inv w1 \<and> ac_Version c = Some (acs_Version example_spec) \<and>
        Cluster_Create numeric_semver (mock_cluster_service (Inr small_catalog) []) ''x'' example_spec w1 = (Inr c, w1)"
  by (rule cluster_create_idempotent) (simp_all add: osac_inv_new inj_nat_digits)

lemma kubeconfigStub_nonempty [simp]: "kubeconfigStub i \<noteq> []"
  by (simp add: kubeconfigStub_def)

lemma secretID_of_nonempty [simp]: "secretID_of i \<noteq> []"
  by (simp add: secretID_of_def)

lemma mock_cluster_get:
  assumes "osac_inv w" and "st_items (os_clusters w) i = Some y"
  shows "Cluster_Get (mock_cluster_service ans m) i w =
    (Inr (toAPICluster (Some y) None \<lparr>ac_Kubeconfig := Some (StdEncode (kubeconfigStub i))\<rparr>), w)"
    and "MapStatus None (pc_Status y) = ClusterStatusACTIVE"
proof -
  from clusters_okD(2) [OF osac_invD(1) [OF assms(1)] assms(2)]
  have y: "pc_Status y = Some (mockClusterStatus i)" "os_secrets w (secretID_of i) = Some (mockSecret i)" by simp_all
  show a: "MapStatus None (pc_Status y) = ClusterStatusACTIVE"
    by (simp add: MapStatus_None_ready y mockClusterStatus_def)
  have g: "rc_Get mock_clusters i w = (Inr \<lparr>or_Object = Some y\<rparr>, w)"
    by (rule cluster_store.get_found [OF assms])
  show "Cluster_Get (mock_cluster_service ans m) i w =
    (Inr (toAPICluster (Some y) None \<lparr>ac_Kubeconfig := Some (StdEncode (kubeconfigStub i))\<rparr>), w)"
    using a y(2) by (simp add: Cluster_Get_def g Let_def y(1) mockClusterStatus_def mock_secrets_def
        Secrets_Get_def mockSecret_def)
qed

theorem cluster_get_kubeconfig_witness:
  "\<exists>w c. Cluster_Get (mock_cluster_service unregistered []) ''x'' w = (Inr c, w) \<and>
     ac_Status c = Some ClusterStatusACTIVE \<and> ac_Kubeconfig c \<noteq> Some ''''"
proof -
  let ?s = "mock_cluster_service (Inr small_catalog) []"
  let ?w1 = "snd (Cluster_Create numeric_semver ?s ''x'' example_spec (newOsac nat_digits))"
  obtain c where c: "Cluster_Create numeric_semver ?s ''x'' example_spec (newOsac nat_digits) = (Inr c, ?w1)"
    using mock_create_example by blast
  have i: "osac_inv ?w1 \<and> (\<exists>y. st_items (os_clusters ?w1) ''x'' = Some y)"
    using mock_cluster.create_lookup [OF _ _ c] osac_inv_new [OF inj_nat_digits] by auto
  then obtain y where y: "st_items (os_clusters ?w1) ''x'' = Some y" by blast
  note g = mock_cluster_get(1) [OF conjunct1 [OF i] y, of unregistered "[]"] mock_cluster_get(2) [OF conjunct1 [OF i] y]
  from cluster_get_kubeconfig [OF g(1)] g show ?thesis by (intro exI conjI) (auto simp: toAPICluster_def)
qed

text \<open>
  C7. The life of a cluster over the in-memory provider: once created it reads as ACTIVE with
  its kubeconfig, deleting it succeeds, a second delete succeeds too, and reading it then is
  NotFound.
\<close>

theorem cluster_lifecycle:
  assumes "osac_inv w" and "i \<noteq> ''''"
    and "Cluster_Create sv (mock_cluster_service ans m) i spec w = (Inr c, w1)"
  shows "(\<exists>c'. Cluster_Get (mock_cluster_service ans m) i w1 = (Inr c', w1) \<and> ac_Id c' = Some i \<and>
        ac_Status c' = Some ClusterStatusACTIVE \<and> ac_Kubeconfig c' = Some (StdEncode (kubeconfigStub i))) \<and>
    (\<exists>w2 msg. Cluster_Delete (mock_cluster_service ans m) i w1 = (Inr (), w2) \<and>
       Cluster_Delete (mock_cluster_service ans m) i w2 = (Inr (), w2) \<and>
       Cluster_Get (mock_cluster_service ans m) i w2 = (Inl (StatusError NotFound msg), w2))"
proof -
  from mock_cluster.create_lookup [OF assms] obtain y where w1: "osac_inv w1" "st_items (os_clusters w1) i = Some y"
    by auto
  note g = mock_cluster_get [OF w1]
  from clusters_okD(2) [OF osac_invD(1) [OF w1(1)] w1(2)] have "pc_Id y = i" by simp
  with g have "\<exists>c'. Cluster_Get (mock_cluster_service ans m) i w1 = (Inr c', w1) \<and> ac_Id c' = Some i \<and>
        ac_Status c' = Some ClusterStatusACTIVE \<and> ac_Kubeconfig c' = Some (StdEncode (kubeconfigStub i))"
    by (simp add: toAPICluster_def)
  with mock_cluster.delete_then_gone [OF w1(1), of ans m i] show ?thesis by blast
qed

theorem cluster_lifecycle_witness:
  "\<exists>c w1. Cluster_Create numeric_semver (mock_cluster_service (Inr small_catalog) []) ''x'' example_spec (newOsac nat_digits) = (Inr c, w1) \<and>
    (\<exists>w2 msg. Cluster_Delete (mock_cluster_service (Inr small_catalog) []) ''x'' w1 = (Inr (), w2) \<and>
       Cluster_Get (mock_cluster_service (Inr small_catalog) []) ''x'' w2 = (Inl (StatusError NotFound msg), w2))"
proof -
  obtain c w1 where c: "Cluster_Create numeric_semver (mock_cluster_service (Inr small_catalog) []) ''x'' example_spec (newOsac nat_digits) = (Inr c, w1)"
    using mock_create_example by blast
  from cluster_lifecycle [OF osac_inv_new [OF inj_nat_digits] _ c] have
    "\<exists>w2 msg. Cluster_Delete (mock_cluster_service (Inr small_catalog) []) ''x'' w1 = (Inr (), w2) \<and>
       Cluster_Get (mock_cluster_service (Inr small_catalog) []) ''x'' w2 = (Inl (StatusError NotFound msg), w2)"
    by blast
  with c show ?thesis by blast
qed

section \<open>Virtual machines\<close>

text \<open>
  C20. Creating a VM returns. For any OSAC and any clock that moves on by the waiting time when a
  wait is not cancelled, with a positive poll interval and calls that do not turn the clock back,
  the wait for the default network ends and the create answers.
\<close>

theorem vm_create_returns:
  assumes "\<And>d w w'. clk_select clk d w = (None, w') \<Longrightarrow> clk_now clk w + d \<le> clk_now clk w'"
    and "0 < vms_networkPollInterval s"
    and "\<And>i w. clk_now clk w \<le> clk_now clk (snd (rc_Get (vms_virtualNetworks s) i w))"
    and "\<And>i w. clk_now clk w \<le> clk_now clk (snd (rc_Get (vms_subnets s) i w))"
  shows "\<exists>r w'. VM_Create oor clk s i spec w = Some (r, w')"
proof -
  have "ticking_clock clk" by unfold_locales (rule assms(1))
  from ticking_clock.create_returns [OF this assms(2-4)] show ?thesis by auto
qed

definition example_vm :: VMSpec where
  "example_vm = \<lparr>vs_Access = None, vs_GuestOs = \<lparr>vg_Type = ''rhel9''\<rparr>, vs_Memory = None,
     vs_Metadata = \<lparr>vmd_Labels = None, vmd_Name = ''n''\<rparr>,
     vs_ProviderHints = \<lparr>vph_Osac = \<lparr>ovh_InstanceType = ''t'', ovh_TemplateId = ''t'', ovh_Windows = None\<rparr>\<rparr>,
     vs_Storage = \<lparr>vst_Disks = [\<lparr>vd_Capacity = ''100GB'', vd_Name = ''boot''\<rparr>]\<rparr>, vs_Vcpu = None\<rparr>"

theorem vm_create_returns_witness:
  "\<exists>r w'. VM_Create (\<lambda>_. 0) mock_clock mock_vm_service ''x'' example_vm (newOsac nat_digits) = Some (r, w')"
  by (rule vm_create_returns)
    (auto simp: mock_clock_def mock_vnets_def mock_subnets_def VirtualNetworks_Get_def Subnets_Get_def split: sum.split)

lemma mock_instances_keep_subnets:
  "os_subnets (snd (rc_Create mock_instances x w)) = os_subnets w"
  "os_subnets (snd (rc_Get mock_instances i w)) = os_subnets w"
  by (auto simp: mock_instances_def ComputeInstances_Create_def ComputeInstances_Get_def Let_def
      split: option.split sum.split prod.split)

lemma mock_vm_create_subnets:
  assumes "osac_inv w" and "VM_Create oor clk mock_vm_service i spec w = Some (Inr v, w1)"
  shows "length (st_order (os_subnets w1)) = max 1 (length (st_order (os_subnets w)))"
proof -
  obtain obj where obj: "toOSACComputeInstance oor i spec = Inr obj"
    using assms(2) by (auto simp: VM_Create_def split: sum.splits)
  obtain sid w' where r: "resolveDefaultSubnet clk mock_vm_service w = Some (Inr sid, w')"
    and n: "length (st_order (os_subnets w')) = max 1 (length (st_order (os_subnets w)))"
    using mock_resolve [OF assms(1)]
    by (cases "st_order (os_subnets w)") (simp_all add: mock_net_def with_network_def store_insert_def)
  have "os_subnets w1 = os_subnets w'"
    using assms(2) mock_instances_keep_subnets
    by (auto simp: VM_Create_def obj r split: sum.splits prod.splits if_splits) (metis snd_conv)+
  with n show ?thesis by simp
qed

text \<open>
  C19. Creating a VM over the in-memory provider always returns. Retrying a create that succeeded
  answers the same body and changes nothing; a create that fails changes nothing. The default
  network is made at most once: a successful create leaves as many subnets as before, or the
  first one.
\<close>

theorem vm_create_idempotent:
  assumes "osac_inv w" and "i \<noteq> ''''"
  shows "\<exists>r w1. VM_Create oor mock_clock mock_vm_service i spec w = Some (r, w1) \<and>
    (case r of
       Inl e \<Rightarrow> w1 = w
     | Inr v \<Rightarrow> osac_inv w1 \<and> VM_Create oor mock_clock mock_vm_service i spec w1 = Some (Inr v, w1) \<and>
         length (st_order (os_subnets w1)) = max 1 (length (st_order (os_subnets w))))"
  using assms
proof (cases rule: mock_vm.vm_create_cases [where oor = oor and spec = spec])
  case (rejected e)
  then show ?thesis by simp
next
  case (stored y w')
  with mock_vm.vm_create_retry [OF assms stored(2)] mock_vm_create_subnets [OF assms(1) stored(2)]
  show ?thesis by simp
next
  case (fresh y w')
  with mock_vm.vm_create_retry [OF assms fresh(3)] mock_vm_create_subnets [OF assms(1) fresh(3)]
  show ?thesis by simp
qed

theorem vm_create_idempotent_witness:
  "\<exists>r w1. VM_Create (\<lambda>_. 0) mock_clock mock_vm_service ''x'' example_vm (newOsac nat_digits) = Some (r, w1) \<and>
    (case r of
       Inl e \<Rightarrow> w1 = newOsac nat_digits
     | Inr v \<Rightarrow> osac_inv w1 \<and> VM_Create (\<lambda>_. 0) mock_clock mock_vm_service ''x'' example_vm w1 = Some (Inr v, w1) \<and>
         length (st_order (os_subnets w1)) = max 1 (length (st_order (os_subnets (newOsac nat_digits)))))"
  by (rule vm_create_idempotent) (simp_all add: osac_inv_new inj_nat_digits)

section \<open>Listing\<close>

lemma NormalizeMaxPageSize_nat:
  assumes "NormalizeMaxPageSize ps 50 = Inr n"
  shows "NormalizeMaxPageSize ps defaultPageSize = Inr (int (nat n))"
    "NormalizeMaxPageSize ps vm_defaultPageSize = Inr (int (nat n))"
  using NormalizeMaxPageSize_bounds [OF assms] assms
  by (simp_all add: maxPageSize_def defaultPageSize_def vm_defaultPageSize_def)

text \<open>
  C8. Following the page tokens of the two list operations reaches the end and visits every
  object once, in the backend's order, whatever page size the caller asks for: over the
  in-memory provider, one request more than there are objects is always enough.
\<close>

theorem list_complete:
  assumes "NormalizeMaxPageSize pageSize 50 = Inr n" and "int32_many w"
  shows "follow_pages (Suc (length (cluster_objs w))) (cluster_page (mock_cluster_service ans m) pageSize) None w =
      (Inr (map (\<lambda>c. toAPICluster (Some c) None) (cluster_objs w)), w) \<and>
    follow_pages (Suc (length (instance_objs w))) (vm_page mock_vm_service pageSize) None w =
      (Inr (map (\<lambda>c. toAPIVM (Some c)) (instance_objs w)), w)"
  using cluster_pages.all_pages [OF mock_cluster_pages [OF NormalizeMaxPageSize_nat(1) [OF assms(1)]] assms(2)]
    vm_pages.all_pages [OF mock_vm_pages [OF NormalizeMaxPageSize_nat(2) [OF assms(1)]] assms(2)]
  by simp

theorem list_complete_witness:
  "follow_pages (Suc (length (cluster_objs (newOsac nat_digits))))
     (cluster_page (mock_cluster_service unregistered []) (Some 7)) None (newOsac nat_digits) =
      (Inr (map (\<lambda>c. toAPICluster (Some c) None) (cluster_objs (newOsac nat_digits))), newOsac nat_digits) \<and>
    follow_pages (Suc (length (instance_objs (newOsac nat_digits)))) (vm_page mock_vm_service (Some 7)) None (newOsac nat_digits) =
      (Inr (map (\<lambda>c. toAPIVM (Some c)) (instance_objs (newOsac nat_digits))), newOsac nat_digits)"
  by (rule list_complete)
    (simp_all add: NormalizeMaxPageSize_def maxPageSize_def int32_many_def cluster_objs_def instance_objs_def
      newOsac_def contents_def newResourceStore_def MaxInt32_def)

end
