(* ===== verification/Poll_Contract.thy ===== *)
theory Poll_Contract
  imports Status_Poll Provider_Contract
begin

text \<open>
  The poller between its two neighbours: the listings come from the in-memory provider, through
  the law \<open>page_source\<close> it satisfies, and the updates go to the publisher's queue.
\<close>

section \<open>Updates in the publisher's queue\<close>

definition queued :: "ServiceType \<Rightarrow> cachedStatus \<Rightarrow> pendingValue" where
  "queued st c = \<lparr>pv_serviceType = st, pv_status = cs_status c, pv_message = cs_message c\<rparr>"

lemma status_key_eq [simp]:
  "status_key st i = status_key st' j \<longleftrightarrow> st_Subject st = st_Subject st' \<and> i = j"
  by (auto simp: status_key_def)

lemma pending_send_all:
  assumes "distinct (map fst us)"
  shows "pub_pending (send_all Publish st us q) (status_key st i) =
    (case map_of us i of None \<Rightarrow> pub_pending q (status_key st i) | Some c \<Rightarrow> Some (queued st c))"
  using assms
proof (induction us arbitrary: q)
  case Nil
  then show ?case by simp
next
  case (Cons u us)
  then show ?case by (cases u) (auto simp: queued_def map_of_eq_None_iff split: option.split dest: map_of_SomeD intro: rev_image_eqI)
qed

lemma pending_send_all_other:
  assumes "st_Subject st \<noteq> st_Subject st'"
  shows "pub_pending (send_all Publish st us q) (status_key st' i) = pub_pending q (status_key st' i)"
  using assms by (induction us arbitrary: q) auto

lemma map_of_vanished:
  "map_of (vanished gone found ids) i = (if i \<in> set ids \<and> map_of found i = None then Some gone else None)"
proof -
  have "map_of (vanished gone found ids) i = (if i \<in> set ids \<and> i \<notin> fst ` set found then Some gone else None)"
    by (simp add: vanished_def map_of_map_restrict restrict_map_def map_of_Cons_code(1) comp_def [symmetric])
  then show ?thesis by (simp add: map_of_eq_None_iff)
qed

lemma map_of_report:
  "map_of (changes True cache found @ vanished gone found ids) i =
     (case map_of found i of Some c \<Rightarrow> Some c | None \<Rightarrow> if i \<in> set ids then Some gone else None)"
  by (cases "map_of found i") (simp_all add: changes_def map_add_def map_of_vanished)

section \<open>The listing of the in-memory provider\<close>

lemma contents_key: "store_wf st \<Longrightarrow> (i, c) \<in> set (contents st) \<Longrightarrow> st_items st i = Some c"
  by (auto simp: contents_def store_wf_def)

lemma clusters_found_mock:
  assumes "clusters_ok w"
  shows "clusters_found (cluster_objs w) = map (\<lambda>(i, c). (i, cluster_report c)) (contents (os_clusters w))"
  using clusters_okD(2) [OF assms contents_key [OF clusters_okD(1) [OF assms]]]
  by (force simp: clusters_found_def cluster_objs_def)

lemma vms_found_mock:
  assumes "instances_ok w"
  shows "vms_found (instance_objs w) = map (\<lambda>(i, c). (i, vm_report c)) (contents (os_instances w))"
  using instances_okD(2) [OF assms contents_key [OF instances_okD(1) [OF assms]]]
  by (force simp: vms_found_def instance_objs_def)

lemma mock_found:
  assumes "osac_inv w"
  shows "map_of (clusters_found (cluster_objs w)) i = map_option cluster_report (st_items (os_clusters w) i)"
    "map_of (vms_found (instance_objs w)) i = map_option vm_report (st_items (os_instances w) i)"
    "distinct (map pc_Id (cluster_objs w))" "distinct (map ci_Id (instance_objs w))"
    "pc_Id ` set (cluster_objs w) = dom (st_items (os_clusters w))"
    "ci_Id ` set (instance_objs w) = dom (st_items (os_instances w))"
proof -
  note c = clusters_okD(1) [OF osac_invD(1) [OF assms]] and v = instances_okD(1) [OF osac_invD(2) [OF assms]]
  note fc = clusters_found_mock [OF osac_invD(1) [OF assms]] and fv = vms_found_mock [OF osac_invD(2) [OF assms]]
  show "map_of (clusters_found (cluster_objs w)) i = map_option cluster_report (st_items (os_clusters w) i)"
    by (simp add: fc map_of_map map_of_contents [OF c])
  show "map_of (vms_found (instance_objs w)) i = map_option vm_report (st_items (os_instances w) i)"
    by (simp add: fv map_of_map map_of_contents [OF v])
  have "map pc_Id (cluster_objs w) = st_order (os_clusters w)"
    using arg_cong [OF fc, of "map fst"] by (simp add: comp_def split_def fst_contents)
  with c show "distinct (map pc_Id (cluster_objs w))" "pc_Id ` set (cluster_objs w) = dom (st_items (os_clusters w))"
    by (simp_all add: store_wf_def flip: list.set_map)
  have "map ci_Id (instance_objs w) = st_order (os_instances w)"
    using arg_cong [OF fv, of "map fst"] by (simp add: comp_def split_def fst_contents)
  with v show "distinct (map ci_Id (instance_objs w))" "ci_Id ` set (instance_objs w) = dom (st_items (os_instances w))"
    by (simp_all add: store_wf_def flip: list.set_map)
qed

lemma mock_listings:
  assumes "int32_many w"
  shows "plr_clusters p = mock_clusters \<Longrightarrow> listClusters p w = Some (Inr (cluster_objs w), w)"
    "plr_computeInstances p = mock_instances \<Longrightarrow> listComputeInstances p w = Some (Inr (instance_objs w), w)"
  using page_source.listLoop_complete [OF cluster_source.page_source_axioms assms]
    page_source.listLoop_complete [OF instance_source.page_source_axioms assms] assms
  by (simp_all add: listClusters_def listComputeInstances_def int32_many_def)

lemma poller_caches:
  "plr_clusterCache (p \<lparr>plr_clusterCache := c, plr_vmCache := d, plr_cycle := n\<rparr>) = c"
  "plr_vmCache (p \<lparr>plr_clusterCache := c, plr_vmCache := d, plr_cycle := n\<rparr>) = d"
  by simp_all

section \<open>Properties\<close>

text \<open>
  C9. End to end, a resync cycle against the in-memory provider: whatever the caches and the
  queue held before, afterwards the queue holds, for every cluster and compute instance OSAC has,
  its current status and message, for every one that was cached and is gone its deletion, and
  nothing else changed; the caches are exactly what OSAC has. So a status missed in an earlier
  cycle is repaired by the next resync.
\<close>

theorem resync_queues_every_status:
  assumes "osac_inv w" and "int32_many w"
    and "plr_clusters p = mock_clusters" and "plr_computeInstances p = mock_instances"
    and "plr_cycle p mod plr_resyncEvery p = 0"
    and "st_Subject (plr_clusterServiceType p) \<noteq> st_Subject (plr_vmServiceType p)"
    and "set cids = dom (plr_clusterCache p) \<union> dom (st_items (os_clusters w))"
    and "set vids = dom (plr_vmCache p) \<union> dom (st_items (os_instances w))"
    and "distinct cids" and "distinct vids"
  shows "\<exists>p' q'. runCycle Publish cids vids p w q = Some (p', w, q') \<and>
    (\<forall>i. pub_pending q' (status_key (plr_clusterServiceType p) i) =
       (case st_items (os_clusters w) i of
          Some c \<Rightarrow> Some (queued (plr_clusterServiceType p) (cluster_report c))
        | None \<Rightarrow> if plr_clusterCache p i = None then pub_pending q (status_key (plr_clusterServiceType p) i)
                 else Some (queued (plr_clusterServiceType p) cluster_gone))) \<and>
    (\<forall>i. pub_pending q' (status_key (plr_vmServiceType p) i) =
       (case st_items (os_instances w) i of
          Some c \<Rightarrow> Some (queued (plr_vmServiceType p) (vm_report c))
        | None \<Rightarrow> if plr_vmCache p i = None then pub_pending q (status_key (plr_vmServiceType p) i)
                 else Some (queued (plr_vmServiceType p) vm_gone))) \<and>
    (\<forall>i. plr_clusterCache p' i = map_option cluster_report (st_items (os_clusters w) i) \<and>
      plr_vmCache p' i = map_option vm_report (st_items (os_instances w) i))"
proof -
  note m = mock_found [OF assms(1)]
  let ?fc = "clusters_found (cluster_objs w)" and ?fv = "vms_found (instance_objs w)"
  let ?uc = "changes True (plr_clusterCache p) ?fc @ vanished cluster_gone ?fc cids"
  let ?uv = "changes True (plr_vmCache p) ?fv @ vanished vm_gone ?fv vids"
  let ?p = "p \<lparr>plr_clusterCache := map_of ?fc\<rparr>"
  define q1 where "q1 = send_all Publish (plr_clusterServiceType p) ?uc q"
  define q2 where "q2 = send_all Publish (plr_vmServiceType p) ?uv q1"
  have ids: "distinct (map fst ?fc)" "set cids = dom (plr_clusterCache p) \<union> fst ` set ?fc"
    "distinct (map fst ?fv)" "set vids = dom (plr_vmCache ?p) \<union> fst ` set ?fv"
    using m assms(7,8) by simp_all
  have "pollClusters Publish cids True p w q = Some (?p, w, q1)"
    unfolding q1_def by (rule cluster_poll.poll_reports [OF mock_listings(1) [OF assms(2,3)] ids(1,2)])
  moreover have "pollVMs Publish vids True ?p w q1 = Some (?p \<lparr>plr_vmCache := map_of ?fv\<rparr>, w, q2)"
    using vm_poll.poll_reports [OF mock_listings(2) [OF assms(2), of ?p] ids(3,4), of Publish True q1] assms(4)
    by (simp add: q2_def)
  ultimately have run: "runCycle Publish cids vids p w q =
      Some (?p \<lparr>plr_vmCache := map_of ?fv, plr_cycle := wrap64 (plr_cycle p + 1)\<rparr>, w, q2)"
    using assms(5) by (simp add: runCycle_def)
  have once: "distinct (map fst ?uc)" "distinct (map fst ?uv)"
    by (rule reported_once [OF ids(1) assms(9)], rule reported_once [OF ids(3) assms(10)])
  have qc: "pub_pending q2 (status_key (plr_clusterServiceType p) i) =
       (case st_items (os_clusters w) i of
          Some c \<Rightarrow> Some (queued (plr_clusterServiceType p) (cluster_report c))
        | None \<Rightarrow> if plr_clusterCache p i = None then pub_pending q (status_key (plr_clusterServiceType p) i)
                 else Some (queued (plr_clusterServiceType p) cluster_gone))" for i
    unfolding q2_def pending_send_all_other [OF assms(6) [symmetric]] q1_def pending_send_all [OF once(1)] map_of_report m(1)
    using assms(7) by (cases "st_items (os_clusters w) i"; cases "plr_clusterCache p i") auto
  have qv: "pub_pending q2 (status_key (plr_vmServiceType p) i) =
       (case st_items (os_instances w) i of
          Some c \<Rightarrow> Some (queued (plr_vmServiceType p) (vm_report c))
        | None \<Rightarrow> if plr_vmCache p i = None then pub_pending q (status_key (plr_vmServiceType p) i)
                 else Some (queued (plr_vmServiceType p) vm_gone))" for i
    unfolding q2_def pending_send_all [OF once(2)] map_of_report m(2)
    unfolding q1_def pending_send_all_other [OF assms(6)]
    using assms(8) by (cases "st_items (os_instances w) i"; cases "plr_vmCache p i") auto
  show ?thesis by (intro exI conjI allI, rule run) (simp_all only: qc qv m(1,2) poller_caches)
qed

text \<open>One cluster in OSAC, and one in the cache that OSAC no longer has.\<close>

definition demo_osac :: Osac where
  "demo_osac = snd (Clusters_Create (Some demo_cluster) (newOsac nat_digits))"

definition demo_sync :: "Osac Poller" where
  "demo_sync = (poll_New mock_clusters mock_instances ''c'' ''v'' \<lparr>stc_PollInterval = second, stc_ResyncEvery = 0, stc_ListTimeout = 0\<rparr>)
     \<lparr>plr_clusterCache := [''gone'' \<mapsto> cluster_gone]\<rparr>"

lemma demo_osac_items:
  "st_items (os_clusters demo_osac) = [''c1'' \<mapsto> demo_cluster \<lparr>pc_Status := Some (mockClusterStatus ''c1'')\<rparr>]"
  "st_items (os_instances demo_osac) = Map.empty"
  "int32_many demo_osac"
  by (simp_all add: demo_osac_def Clusters_Create_def demo_cluster_def newOsac_def newResourceStore_def store_create_def
      store_insert_def int32_many_def cluster_objs_def instance_objs_def contents_def MaxInt32_def Let_def)

theorem resync_queues_every_status_witness:
  "\<exists>p' q'. runCycle Publish [''c1'', ''gone''] [] demo_sync demo_osac (newPublisher []) = Some (p', demo_osac, q') \<and>
    pub_pending q' (status_key (plr_clusterServiceType demo_sync) ''c1'') = Some (queued (plr_clusterServiceType demo_sync)
      (cluster_report (demo_cluster \<lparr>pc_Status := Some (mockClusterStatus ''c1'')\<rparr>))) \<and>
    pub_pending q' (status_key (plr_clusterServiceType demo_sync) ''gone'') =
      Some (queued (plr_clusterServiceType demo_sync) cluster_gone)"
proof -
  have p: "plr_clusters demo_sync = mock_clusters" "plr_computeInstances demo_sync = mock_instances"
    "plr_cycle demo_sync mod plr_resyncEvery demo_sync = 0" "plr_clusterCache demo_sync = [''gone'' \<mapsto> cluster_gone]"
    "plr_vmCache demo_sync = Map.empty" "st_Subject (plr_clusterServiceType demo_sync) \<noteq> st_Subject (plr_vmServiceType demo_sync)"
    by (simp_all add: demo_sync_def poll_New_def clusterSubject_def vmSubject_def)
  have inv: "osac_inv demo_osac"
    unfolding demo_osac_def by (rule Clusters_Create_inv [OF osac_inv_new [OF inj_nat_digits]])
  have ids: "set [''c1'', ''gone''] = dom (plr_clusterCache demo_sync) \<union> dom (st_items (os_clusters demo_osac))"
    "set [] = dom (plr_vmCache demo_sync) \<union> dom (st_items (os_instances demo_osac))"
    by (auto simp: p demo_osac_items)
  have "distinct [''c1'', ''gone'']" "distinct ([] :: string list)" by simp_all
  from resync_queues_every_status [OF inv demo_osac_items(3) p(1-3,6) ids this, where q = "newPublisher []"]
  obtain p' q' where run: "runCycle Publish [''c1'', ''gone''] [] demo_sync demo_osac (newPublisher []) = Some (p', demo_osac, q')"
    and k: "\<And>i. pub_pending q' (status_key (plr_clusterServiceType demo_sync) i) =
       (case st_items (os_clusters demo_osac) i of
          Some c \<Rightarrow> Some (queued (plr_clusterServiceType demo_sync) (cluster_report c))
        | None \<Rightarrow> if plr_clusterCache demo_sync i = None
            then pub_pending (newPublisher []) (status_key (plr_clusterServiceType demo_sync) i)
            else Some (queued (plr_clusterServiceType demo_sync) cluster_gone))"
    by blast
  show ?thesis by (intro exI conjI, rule run) (simp_all add: k demo_osac_items p(4))
qed

end
