(* ===== verification/Status_Pipeline.thy ===== *)
theory Status_Pipeline
  imports Poll_Contract
begin

text \<open>
  The whole path of a status: OSAC, the poller goroutine of \<open>internal/statuspoll\<close>, the queue and the
  worker goroutine of \<open>internal/statuspublisher\<close>, and JetStream, as one system of interleaved steps.
  OSAC is the in-memory provider and may change between any two steps; a listing may fail; the calls
  of \<open>Publish\<close> a poll makes are single steps, so the worker runs between them.
\<close>

section \<open>The system\<close>

text \<open>A poll leaves the calls it makes, in order; each is then made in a step of its own.\<close>

definition record_call :: "publisher_event list publisher" where
  "record_call st resourceID status message calls = calls @ [Published st resourceID status message]"

datatype poll_phase = BetweenCycles | ListingClusters bool | ListingVMs bool

record pipeline =
  pp_poller :: "Osac Poller"
  pp_phase :: poll_phase
  pp_calls :: "publisher_event list"
  pp_osac :: Osac
  pp_pub :: publisher_sys

datatype pipeline_event =
    OsacChanged Osac
  | CycleStarted
  | ClustersListed "string list" Osac
  | ClustersFailed go_error
  | VMsListed "string list" Osac
  | VMsFailed go_error
  | PublisherMoved publisher_event

definition failing :: "go_error \<Rightarrow> ('a, 'w) ResourceClient" where
  "failing err = \<lparr>rc_List = \<lambda>_ w. (Inl err, w), rc_Get = \<lambda>_ w. (Inl err, w), rc_Create = \<lambda>_ w. (Inl err, w),
     rc_Delete = \<lambda>_ w. (Inl err, w)\<rparr>"

definition pipeline_start :: "publisherOption list \<Rightarrow> string \<Rightarrow> string \<Rightarrow> StatusConfig \<Rightarrow> Osac \<Rightarrow> pipeline" where
  "pipeline_start opts clusterName vmName cfg w =
     \<lparr>pp_poller = poll_New mock_clusters mock_instances clusterName vmName cfg, pp_phase = BetweenCycles,
      pp_calls = [], pp_osac = w, pp_pub = publisher_start (newPublisher opts)\<rparr>"

fun is_publish :: "publisher_event \<Rightarrow> bool" where
  "is_publish (Published st i s m) \<longleftrightarrow> True"
| "is_publish _ \<longleftrightarrow> False"

inductive pipeline_step ::
  "(string \<Rightarrow> StatusPayload \<Rightarrow> string res) \<Rightarrow> (Event \<Rightarrow> string res) \<Rightarrow> pipeline \<Rightarrow> pipeline_event \<Rightarrow> pipeline \<Rightarrow> bool"
  for setData marshal where
  osac_changed: "osac_inv w \<Longrightarrow> int32_many w \<Longrightarrow>
    pipeline_step setData marshal P (OsacChanged w) (P \<lparr>pp_osac := w\<rparr>)"
| cycle_started: "pp_phase P = BetweenCycles \<Longrightarrow> pp_calls P = [] \<Longrightarrow>
    pipeline_step setData marshal P CycleStarted
      (P \<lparr>pp_phase := ListingClusters (plr_cycle (pp_poller P) mod plr_resyncEvery (pp_poller P) = 0)\<rparr>)"
| clusters_listed: "pp_phase P = ListingClusters resync \<Longrightarrow> pp_calls P = [] \<Longrightarrow> distinct ids \<Longrightarrow>
    set ids = dom (plr_clusterCache (pp_poller P)) \<union> dom (st_items (os_clusters (pp_osac P))) \<Longrightarrow>
    pollClusters record_call ids resync (pp_poller P) (pp_osac P) [] = Some (p, w, calls) \<Longrightarrow>
    pipeline_step setData marshal P (ClustersListed ids (pp_osac P))
      (P \<lparr>pp_poller := p, pp_osac := w, pp_phase := ListingVMs resync, pp_calls := calls\<rparr>)"
| clusters_failed: "pp_phase P = ListingClusters resync \<Longrightarrow> pp_calls P = [] \<Longrightarrow>
    pollClusters record_call ids resync ((pp_poller P) \<lparr>plr_clusters := failing err\<rparr>) (pp_osac P) [] = Some (p, w, calls) \<Longrightarrow>
    pipeline_step setData marshal P (ClustersFailed err)
      (P \<lparr>pp_poller := p \<lparr>plr_clusters := mock_clusters\<rparr>, pp_osac := w, pp_phase := ListingVMs resync, pp_calls := calls\<rparr>)"
| vms_listed: "pp_phase P = ListingVMs resync \<Longrightarrow> pp_calls P = [] \<Longrightarrow> distinct ids \<Longrightarrow>
    set ids = dom (plr_vmCache (pp_poller P)) \<union> dom (st_items (os_instances (pp_osac P))) \<Longrightarrow>
    pollVMs record_call ids resync (pp_poller P) (pp_osac P) [] = Some (p, w, calls) \<Longrightarrow>
    pipeline_step setData marshal P (VMsListed ids (pp_osac P))
      (P \<lparr>pp_poller := p \<lparr>plr_cycle := wrap64 (plr_cycle p + 1)\<rparr>, pp_osac := w, pp_phase := BetweenCycles, pp_calls := calls\<rparr>)"
| vms_failed: "pp_phase P = ListingVMs resync \<Longrightarrow> pp_calls P = [] \<Longrightarrow>
    pollVMs record_call ids resync ((pp_poller P) \<lparr>plr_computeInstances := failing err\<rparr>) (pp_osac P) [] = Some (p, w, calls) \<Longrightarrow>
    pipeline_step setData marshal P (VMsFailed err)
      (P \<lparr>pp_poller := p \<lparr>plr_computeInstances := mock_instances, plr_cycle := wrap64 (plr_cycle p + 1)\<rparr>, pp_osac := w,
          pp_phase := BetweenCycles, pp_calls := calls\<rparr>)"
| publish_called: "pp_calls P = e # calls \<Longrightarrow> publisher_step setData marshal (pp_pub P) e s \<Longrightarrow>
    pipeline_step setData marshal P (PublisherMoved e) (P \<lparr>pp_pub := s, pp_calls := calls\<rparr>)"
| worker_moved: "\<not> is_publish e \<Longrightarrow> publisher_step setData marshal (pp_pub P) e s \<Longrightarrow>
    pipeline_step setData marshal P (PublisherMoved e) (P \<lparr>pp_pub := s\<rparr>)"

inductive_cases pipeline_stepE: "pipeline_step setData marshal P e P'"

inductive pipeline_run ::
  "(string \<Rightarrow> StatusPayload \<Rightarrow> string res) \<Rightarrow> (Event \<Rightarrow> string res) \<Rightarrow> pipeline \<Rightarrow> pipeline_event list \<Rightarrow> pipeline \<Rightarrow> bool"
  for setData marshal P0 where
  pipeline_begin: "pipeline_run setData marshal P0 [] P0"
| pipeline_next: "pipeline_run setData marshal P0 es P \<Longrightarrow> pipeline_step setData marshal P e P' \<Longrightarrow>
    pipeline_run setData marshal P0 (es @ [e]) P'"

text \<open>What a run was to the publisher, and which OSAC each listing saw last.\<close>

fun moves :: "pipeline_event list \<Rightarrow> publisher_event list" where
  "moves [] = []"
| "moves (PublisherMoved e # es) = e # moves es"
| "moves (_ # es) = moves es"

definition listed_clusters :: "pipeline_event list \<Rightarrow> Osac option" where
  "listed_clusters es = fold (\<lambda>e x. case e of ClustersListed ids w \<Rightarrow> Some w | _ \<Rightarrow> x) es None"

definition listed_vms :: "pipeline_event list \<Rightarrow> Osac option" where
  "listed_vms es = fold (\<lambda>e x. case e of VMsListed ids w \<Rightarrow> Some w | _ \<Rightarrow> x) es None"

section \<open>Lemmas\<close>

lemma listed_snoc [simp]:
  "listed_clusters (es @ [e]) = (case e of ClustersListed ids w \<Rightarrow> Some w | _ \<Rightarrow> listed_clusters es)"
  "listed_vms (es @ [e]) = (case e of VMsListed ids w \<Rightarrow> Some w | _ \<Rightarrow> listed_vms es)"
  "listed_clusters [] = None" "listed_vms [] = None"
  by (auto simp: listed_clusters_def listed_vms_def split: pipeline_event.split)

lemma moves_append [simp]: "moves (es @ fs) = moves es @ moves fs"
  by (induction es rule: moves.induct) simp_all

text \<open>The publisher's part of a run is a run of the publisher.\<close>

lemma pipeline_publisher:
  "pipeline_run setData marshal P0 es P \<Longrightarrow> pp_pub P0 = publisher_start q \<Longrightarrow>
   publisher_run setData marshal q (moves es) (pp_pub P)"
proof (induction rule: pipeline_run.induct)
  case pipeline_begin
  then show ?case by (simp add: run_start)
next
  case (pipeline_next es P e P')
  from pipeline_next.hyps(2) pipeline_next.IH [OF pipeline_next.prems] show ?case
    by (cases rule: pipeline_step.cases) (simp_all add: run_step)
qed

lemma send_all_record:
  "send_all record_call st us calls = calls @ map (\<lambda>(i, c). Published st i (cs_status c) (cs_message c)) us"
  by (induction us arbitrary: calls) (auto simp: record_call_def)

lemma published_for_append: "published_for k (es @ fs) = published_for k es @ published_for k fs"
  by (simp add: published_for_def)

lemma published_for_Cons: "published_for k (e # es) = published_value k e @ published_for k es"
  by (simp add: published_for_def)

lemma published_calls:
  assumes "distinct (map fst us)"
  shows "published_for (status_key st i) (map (\<lambda>(i, c). Published st i (cs_status c) (cs_message c)) us) =
    (case map_of us i of None \<Rightarrow> [] | Some c \<Rightarrow> [queued st c])"
  using assms
proof (induction us)
  case Nil
  then show ?case by simp
next
  case (Cons u us)
  obtain j c where u: "u = (j, c)" by force
  from Cons.prems have "i = j \<Longrightarrow> map_of us i = None" by (simp add: u map_of_eq_None_iff)
  with Cons show ?case by (auto simp: u published_for_Cons queued_def)
qed

lemma published_other:
  "st_Subject st \<noteq> st_Subject st' \<Longrightarrow>
   published_for (status_key st' i) (map (\<lambda>(i, c). Published st i (cs_status c) (cs_message c)) us) = []"
  by (induction us) (auto simp: published_for_Cons)

text \<open>
  The cache is what has been decided to be published last: for each entry the last call, made or still
  to make, is its value; for every other identifier there was none or it was the deletion.
\<close>

definition stands :: "'v \<Rightarrow> 'v option \<Rightarrow> 'v list \<Rightarrow> bool" where
  "stands gone current vs \<longleftrightarrow>
     (case current of Some v \<Rightarrow> vs \<noteq> [] \<and> last vs = v | None \<Rightarrow> vs = [] \<or> last vs = gone)"

definition synced :: "ServiceType \<Rightarrow> cachedStatus \<Rightarrow> (string \<rightharpoonup> cachedStatus) \<Rightarrow> publisher_event list \<Rightarrow> bool" where
  "synced st gone cache es \<longleftrightarrow>
     (\<forall>i. stands (queued st gone) (map_option (queued st) (cache i)) (published_for (status_key st i) es))"

lemma map_of_changes:
  assumes "distinct (map fst us)"
  shows "map_of (changes resync cache us) i =
    (case map_of us i of Some c \<Rightarrow> if cache i \<noteq> Some c \<or> resync then Some c else None | None \<Rightarrow> None)"
  using assms
proof (induction us)
  case Nil
  then show ?case by (simp add: changes_def)
next
  case (Cons u us)
  obtain j c where u: "u = (j, c)" by force
  have c: "changes resync cache ((j, c) # us) = (if cache j \<noteq> Some c \<or> resync then [(j, c)] else []) @ changes resync cache us"
    by (simp add: changes_def)
  from Cons.prems have "i = j \<Longrightarrow> map_of us i = None" by (simp add: u map_of_eq_None_iff)
  moreover from Cons have "map_of (changes resync cache us) i =
      (case map_of us i of Some c \<Rightarrow> if cache i \<noteq> Some c \<or> resync then Some c else None | None \<Rightarrow> None)" by simp
  ultimately show ?case unfolding u c by (cases "i = j"; cases resync) simp_all
qed

lemma synced_poll:
  assumes "synced st gone cache es" and "distinct (map fst us)" and "distinct ids"
    and "set ids = dom cache \<union> fst ` set us"
  shows "synced st gone (map_of us) (es @ send_all record_call st (changes resync cache us @ vanished gone us ids) [])"
proof -
  let ?vs = "changes resync cache us @ vanished gone us ids"
  have new: "published_for (status_key st i) (es @ send_all record_call st ?vs []) =
      published_for (status_key st i) es @ (case map_of ?vs i of None \<Rightarrow> [] | Some c \<Rightarrow> [queued st c])" for i
    by (simp add: send_all_record published_for_append published_calls [OF reported_once [OF assms(2,3)]] del: map_append)
  have m: "map_of ?vs i = (case map_of us i of
      Some c \<Rightarrow> if cache i \<noteq> Some c \<or> resync then Some c else None
    | None \<Rightarrow> if cache i = None then None else Some gone)" for i
  proof -
    have "i \<in> set ids \<and> map_of us i = None \<longleftrightarrow> cache i \<noteq> None \<and> map_of us i = None"
      using assms(4) by (auto simp: map_of_eq_None_iff)
    then show ?thesis
      unfolding map_of_append map_add_def map_of_vanished map_of_changes [OF assms(2)]
      by (cases "map_of us i") auto
  qed
  show ?thesis unfolding synced_def new m
  proof
    fix i
    from assms(1) have "stands (queued st gone) (map_option (queued st) (cache i)) (published_for (status_key st i) es)"
      by (simp add: synced_def)
    then show "stands (queued st gone) (map_option (queued st) (map_of us i))
       (published_for (status_key st i) es @
        (case case map_of us i of Some c \<Rightarrow> if cache i \<noteq> Some c \<or> resync then Some c else None
            | None \<Rightarrow> if cache i = None then None else Some gone of
           None \<Rightarrow> [] | Some c \<Rightarrow> [queued st c]))"
      by (cases "map_of us i"; cases "cache i") (auto simp: stands_def)
  qed
qed

lemma failing_listings:
  "listClusters (p \<lparr>plr_clusters := failing err\<rparr>) w = Some (Inl err, w)"
  "listComputeInstances (p \<lparr>plr_computeInstances := failing err\<rparr>) w = Some (Inl err, w)"
  by (simp_all add: listClusters_def listComputeInstances_def failing_def listLoop.simps [of "\<lambda>_ w. (Inl err, w)"])

definition pipeline_inv :: "ServiceType \<Rightarrow> ServiceType \<Rightarrow> pipeline_event list \<Rightarrow> pipeline \<Rightarrow> bool" where
  "pipeline_inv cst vst es P \<longleftrightarrow>
     osac_inv (pp_osac P) \<and> int32_many (pp_osac P) \<and>
     plr_clusters (pp_poller P) = mock_clusters \<and> plr_computeInstances (pp_poller P) = mock_instances \<and>
     plr_clusterServiceType (pp_poller P) = cst \<and> plr_vmServiceType (pp_poller P) = vst \<and>
     synced cst cluster_gone (plr_clusterCache (pp_poller P)) (moves es @ pp_calls P) \<and>
     synced vst vm_gone (plr_vmCache (pp_poller P)) (moves es @ pp_calls P) \<and>
     plr_clusterCache (pp_poller P) = (case listed_clusters es of None \<Rightarrow> Map.empty
       | Some w \<Rightarrow> \<lambda>i. map_option cluster_report (st_items (os_clusters w) i)) \<and>
     plr_vmCache (pp_poller P) = (case listed_vms es of None \<Rightarrow> Map.empty
       | Some w \<Rightarrow> \<lambda>i. map_option vm_report (st_items (os_instances w) i))"

lemma synced_other:
  "st_Subject st \<noteq> st_Subject st' \<Longrightarrow> synced st' gone cache es \<Longrightarrow> synced st' gone cache (es @ send_all record_call st us [])"
  by (simp add: synced_def send_all_record published_for_append published_other)

text \<open>What the two polls of the step relation answer.\<close>

lemma clusters_polled:
  assumes "pipeline_inv cst vst es P" and "set ids = dom (plr_clusterCache (pp_poller P)) \<union> dom (st_items (os_clusters (pp_osac P)))"
  defines "found \<equiv> clusters_found (cluster_objs (pp_osac P))"
  shows "pollClusters record_call ids resync (pp_poller P) (pp_osac P) [] =
      Some ((pp_poller P) \<lparr>plr_clusterCache := map_of found\<rparr>, pp_osac P,
        send_all record_call cst (changes resync (plr_clusterCache (pp_poller P)) found @ vanished cluster_gone found ids) [])"
    and "distinct (map fst found)" and "set ids = dom (plr_clusterCache (pp_poller P)) \<union> fst ` set found"
    and "map_of found = (\<lambda>i. map_option cluster_report (st_items (os_clusters (pp_osac P)) i))"
proof -
  note inv = assms(1) [unfolded pipeline_inv_def]
  note m = mock_found [of "pp_osac P"]
  show d: "distinct (map fst found)" and ids: "set ids = dom (plr_clusterCache (pp_poller P)) \<union> fst ` set found"
    using inv m assms(2) by (simp_all add: found_def)
  show "map_of found = (\<lambda>i. map_option cluster_report (st_items (os_clusters (pp_osac P)) i))"
    using inv m by (intro ext) (simp add: found_def)
  have list: "listClusters (pp_poller P) (pp_osac P) = Some (Inr (cluster_objs (pp_osac P)), pp_osac P)"
    using inv by (intro mock_listings) simp_all
  show "pollClusters record_call ids resync (pp_poller P) (pp_osac P) [] =
      Some ((pp_poller P) \<lparr>plr_clusterCache := map_of found\<rparr>, pp_osac P,
        send_all record_call cst (changes resync (plr_clusterCache (pp_poller P)) found @ vanished cluster_gone found ids) [])"
    using cluster_poll.poll_reports [OF list d [unfolded found_def] ids [unfolded found_def], of record_call resync "[]"] inv
    by (simp add: found_def)
qed

lemma vms_polled:
  assumes "pipeline_inv cst vst es P" and "set ids = dom (plr_vmCache (pp_poller P)) \<union> dom (st_items (os_instances (pp_osac P)))"
  defines "found \<equiv> vms_found (instance_objs (pp_osac P))"
  shows "pollVMs record_call ids resync (pp_poller P) (pp_osac P) [] =
      Some ((pp_poller P) \<lparr>plr_vmCache := map_of found\<rparr>, pp_osac P,
        send_all record_call vst (changes resync (plr_vmCache (pp_poller P)) found @ vanished vm_gone found ids) [])"
    and "distinct (map fst found)" and "set ids = dom (plr_vmCache (pp_poller P)) \<union> fst ` set found"
    and "map_of found = (\<lambda>i. map_option vm_report (st_items (os_instances (pp_osac P)) i))"
proof -
  note inv = assms(1) [unfolded pipeline_inv_def]
  note m = mock_found [of "pp_osac P"]
  show d: "distinct (map fst found)" and ids: "set ids = dom (plr_vmCache (pp_poller P)) \<union> fst ` set found"
    using inv m assms(2) by (simp_all add: found_def)
  show "map_of found = (\<lambda>i. map_option vm_report (st_items (os_instances (pp_osac P)) i))"
    using inv m by (intro ext) (simp add: found_def)
  have list: "listComputeInstances (pp_poller P) (pp_osac P) = Some (Inr (instance_objs (pp_osac P)), pp_osac P)"
    using inv by (intro mock_listings) simp_all
  show "pollVMs record_call ids resync (pp_poller P) (pp_osac P) [] =
      Some ((pp_poller P) \<lparr>plr_vmCache := map_of found\<rparr>, pp_osac P,
        send_all record_call vst (changes resync (plr_vmCache (pp_poller P)) found @ vanished vm_gone found ids) [])"
    using vm_poll.poll_reports [OF list d [unfolded found_def] ids [unfolded found_def], of record_call resync "[]"] inv
    by (simp add: found_def)
qed

lemma pipeline_step_inv:
  assumes "pipeline_step setData marshal P e P'" and "pipeline_inv cst vst es P" and "st_Subject cst \<noteq> st_Subject vst"
  shows "pipeline_inv cst vst (es @ [e]) P'"
  using assms(1)
proof cases
  case (clusters_listed resync ids p w calls)
  let ?q = "pp_poller P" and ?fc = "clusters_found (cluster_objs (pp_osac P))"
  note inv = assms(2) [unfolded pipeline_inv_def]
  note polled = clusters_polled [OF assms(2) clusters_listed(6)]
  have sy: "synced cst cluster_gone (plr_clusterCache ?q) (moves es)" "synced vst vm_gone (plr_vmCache ?q) (moves es)"
    using inv unfolding clusters_listed(4) append_Nil2 by blast+
  note same = trans [OF polled(1) [symmetric] clusters_listed(7), unfolded option.inject prod.inject]
  have res: "p = ?q \<lparr>plr_clusterCache := map_of ?fc\<rparr>" "w = pp_osac P"
    "calls = send_all record_call cst (changes resync (plr_clusterCache ?q) ?fc @ vanished cluster_gone ?fc ids) []"
    using same by blast+
  have "synced cst cluster_gone (map_of ?fc) (moves es @ calls)" unfolding res
    by (rule synced_poll [OF _ polled(2) clusters_listed(5) polled(3)]) (rule sy)
  moreover have "synced vst vm_gone (plr_vmCache ?q) (moves es @ calls)" unfolding res
    by (rule synced_other [OF assms(3)]) (rule sy)
  ultimately show ?thesis using inv clusters_listed(1,2) res polled(4) by (simp add: pipeline_inv_def)
next
  case (vms_listed resync ids p w calls)
  let ?q = "pp_poller P" and ?fv = "vms_found (instance_objs (pp_osac P))"
  note inv = assms(2) [unfolded pipeline_inv_def]
  note polled = vms_polled [OF assms(2) vms_listed(6)]
  have sy: "synced cst cluster_gone (plr_clusterCache ?q) (moves es)" "synced vst vm_gone (plr_vmCache ?q) (moves es)"
    using inv unfolding vms_listed(4) append_Nil2 by blast+
  note same = trans [OF polled(1) [symmetric] vms_listed(7), unfolded option.inject prod.inject]
  have res: "p = ?q \<lparr>plr_vmCache := map_of ?fv\<rparr>" "w = pp_osac P"
    "calls = send_all record_call vst (changes resync (plr_vmCache ?q) ?fv @ vanished vm_gone ?fv ids) []"
    using same by blast+
  have "synced vst vm_gone (map_of ?fv) (moves es @ calls)" unfolding res
    by (rule synced_poll [OF _ polled(2) vms_listed(5) polled(3)]) (rule sy)
  moreover have "synced cst cluster_gone (plr_clusterCache ?q) (moves es @ calls)" unfolding res
    by (rule synced_other [OF assms(3) [symmetric]]) (rule sy)
  ultimately show ?thesis using inv vms_listed(1,2) res polled(4) by (simp add: pipeline_inv_def)
next
  case (clusters_failed resync ids err p w calls)
  from trans [OF cluster_poll.poll_failed [OF failing_listings(1), symmetric] clusters_failed(5)]
  have "p = (pp_poller P) \<lparr>plr_clusters := failing err\<rparr>" "w = pp_osac P" "calls = []" by simp_all
  with assms(2) clusters_failed(1,2,4) show ?thesis unfolding pipeline_inv_def by (elim conjE) simp
next
  case (vms_failed resync ids err p w calls)
  from trans [OF vm_poll.poll_failed [OF failing_listings(2), symmetric] vms_failed(5)]
  have "p = (pp_poller P) \<lparr>plr_computeInstances := failing err\<rparr>" "w = pp_osac P" "calls = []" by simp_all
  with assms(2) vms_failed(1,2,4) show ?thesis unfolding pipeline_inv_def by (elim conjE) simp
next
  case (worker_moved e' s)
  then have "published_for k (es' @ e' # fs) = published_for k (es' @ fs)" for k es' fs
    by (cases e') (simp_all add: published_for_append published_for_Cons)
  with assms(2) worker_moved(1,2) show ?thesis unfolding pipeline_inv_def synced_def by (elim conjE) simp
qed (use assms(2) in \<open>unfold pipeline_inv_def, elim conjE, simp\<close>)+

lemma pipeline_run_inv:
  assumes "osac_inv w" and "int32_many w" and "pipeline_run setData marshal (pipeline_start opts clusterName vmName cfg w) es P"
  shows "pipeline_inv (plr_clusterServiceType (pp_poller P)) (plr_vmServiceType (pp_poller P)) es P"
    and "st_Subject (plr_clusterServiceType (pp_poller P)) \<noteq> st_Subject (plr_vmServiceType (pp_poller P))"
    and "plr_clusterServiceType (pp_poller P) = plr_clusterServiceType (pp_poller (pipeline_start opts clusterName vmName cfg w))"
    and "plr_vmServiceType (pp_poller P) = plr_vmServiceType (pp_poller (pipeline_start opts clusterName vmName cfg w))"
proof -
  let ?p = "poll_New mock_clusters mock_instances clusterName vmName cfg :: Osac Poller"
  have subjects: "st_Subject (plr_clusterServiceType ?p) \<noteq> st_Subject (plr_vmServiceType ?p)"
    by (simp add: poll_New_def Let_def clusterSubject_def vmSubject_def)
  have inv: "pipeline_inv (plr_clusterServiceType ?p) (plr_vmServiceType ?p) es P"
    using assms(3)
  proof (induction rule: pipeline_run.induct)
    case pipeline_begin
    show ?case using assms(1,2)
      by (simp add: pipeline_inv_def pipeline_start_def poll_New_def Let_def synced_def stands_def)
  next
    case (pipeline_next es P e P')
    then show ?case using pipeline_step_inv subjects by blast
  qed
  then have types: "plr_clusterServiceType (pp_poller P) = plr_clusterServiceType ?p"
    "plr_vmServiceType (pp_poller P) = plr_vmServiceType ?p" by (simp_all add: pipeline_inv_def)
  show "pipeline_inv (plr_clusterServiceType (pp_poller P)) (plr_vmServiceType (pp_poller P)) es P"
    unfolding types by (rule inv)
  show "st_Subject (plr_clusterServiceType (pp_poller P)) \<noteq> st_Subject (plr_vmServiceType (pp_poller P))"
    unfolding types by (rule subjects)
  show "plr_clusterServiceType (pp_poller P) = plr_clusterServiceType (pp_poller (pipeline_start opts clusterName vmName cfg w))"
    "plr_vmServiceType (pp_poller P) = plr_vmServiceType (pp_poller (pipeline_start opts clusterName vmName cfg w))"
    unfolding types by (simp_all add: pipeline_start_def)
qed

text \<open>What was decided last was also acknowledged last, once nothing is to be called or pending.\<close>

lemma delivered_stands:
  assumes "publisher_run setData marshal (newPublisher opts) es s" and "synced st gone cache es"
    and "pub_pending (sy_pub s) (status_key st i) = None" and "encoded_all (status_key st i) es"
  shows "stands (queued st gone) (map_option (queued st) (cache i)) (acked_for (status_key st i) es)"
proof -
  let ?k = "status_key st i"
  have "order_inv ?k es s" by (rule publisher_run_order [OF assms(1)]) (simp add: newPublisher_def Let_def)
  then have "ordered (in_hand (sy_pc s) ?k) None (published_for ?k es) (acked_for ?k es) True"
    using assms(3,4) by (simp add: order_inv_def)
  then have "subseq (acked_for ?k es) (published_for ?k es) \<and>
      (published_for ?k es = [] \<or> acked_for ?k es \<noteq> [] \<and> last (acked_for ?k es) = last (published_for ?k es))"
    by (cases "in_hand (sy_pc s) ?k") (auto elim: ordered.elims)
  moreover have "stands (queued st gone) (map_option (queued st) (cache i)) (published_for ?k es)"
    using assms(2) by (simp add: synced_def)
  ultimately show ?thesis by (auto simp: stands_def split: option.splits)
qed

section \<open>Properties\<close>


section \<open>An example\<close>

text \<open>One cycle up to the cluster listing, whose one status is published and acknowledged.\<close>

definition demo_settings :: StatusConfig where
  "demo_settings = \<lparr>stc_PollInterval = second, stc_ResyncEvery = 2, stc_ListTimeout = 0\<rparr>"

definition demo_service :: ServiceType where
  "demo_service = \<lparr>st_Subject = clusterSubject, st_Type = ''dcm.status.cluster'', st_Source = ''dcm/providers/c''\<rparr>"

definition demo_report :: cachedStatus where
  "demo_report = cluster_report (demo_cluster \<lparr>pc_Status := Some (mockClusterStatus ''c1'')\<rparr>)"

definition demo_events :: "pipeline_event list" where
  "demo_events =
     (let k = status_key demo_service ''c1''; v = queued demo_service demo_report in
      [CycleStarted, ClustersListed [''c1''] demo_osac,
       PublisherMoved (Published demo_service ''c1'' (cs_status demo_report) (cs_message demo_report)),
       PublisherMoved (Scanned 0 [k]), PublisherMoved Tau, PublisherMoved (Encoded ''u'' 0),
       PublisherMoved (Acked k v ''c1''), PublisherMoved Tau])"

lemma pipeline_nextI:
  "pipeline_run setData marshal P0 es P \<Longrightarrow> pipeline_step setData marshal P e P1 \<Longrightarrow> es @ [e] = es' \<Longrightarrow> P1 = P' \<Longrightarrow>
   pipeline_run setData marshal P0 es' P'"
  by (blast intro: pipeline_next)

lemma demo_pipeline:
  "\<exists>P. pipeline_run demo_data demo_marshal (pipeline_start [] ''c'' ''v'' demo_settings demo_osac) demo_events P \<and>
     pp_calls P = [] \<and> plr_clusterServiceType (pp_poller P) = demo_service \<and>
     pub_pending (sy_pub (pp_pub P)) (status_key demo_service ''c1'') = None"
proof -
  let ?R = "pipeline_run demo_data demo_marshal (pipeline_start [] ''c'' ''v'' demo_settings demo_osac)"
  let ?p = "poll_New mock_clusters mock_instances ''c'' ''v'' demo_settings :: Osac Poller"
  let ?seen = "?p \<lparr>plr_clusterCache := map_of (clusters_found (cluster_objs demo_osac))\<rparr>"
  let ?k = "status_key demo_service ''c1''" and ?v = "queued demo_service demo_report"
  let ?call = "Published demo_service ''c1'' (cs_status demo_report) (cs_message demo_report)"
  let ?new = "newPublisher []"
  let ?q = "Publish demo_service ''c1'' (cs_status demo_report) (cs_message demo_report) ?new"
  let ?s = "\<lambda>q pc att. \<lparr>sy_pub = q, sy_pc = pc, sy_attempted = att, sy_wait = - 1, sy_ctxDone = False\<rparr>"
  let ?P = "\<lambda>p ph calls s. \<lparr>pp_poller = p, pp_phase = ph, pp_calls = calls, pp_osac = demo_osac, pp_pub = s\<rparr>"
  let ?es = "\<lambda>n. take n demo_events"
  have inv: "osac_inv demo_osac"
    unfolding demo_osac_def by (rule Clusters_Create_inv [OF osac_inv_new [OF inj_nat_digits]])
  have p: "plr_clusterServiceType ?p = demo_service" "plr_clusterCache ?p = Map.empty"
    "plr_clusters ?p = mock_clusters" "plr_cycle ?p mod plr_resyncEvery ?p = 0"
    by (simp_all add: poll_New_def Let_def demo_service_def providerSourcePrefix_def demo_settings_def)
  have found: "clusters_found (cluster_objs demo_osac) = [(''c1'', demo_report)]"
    by (simp add: clusters_found_mock [OF osac_invD(1) [OF inv]] demo_report_def, simp add: demo_osac_def Clusters_Create_def
        demo_cluster_def newOsac_def newResourceStore_def store_create_def store_insert_def contents_def Let_def)
  have ids: "set [''c1''] = dom (plr_clusterCache ?p) \<union> fst ` set (clusters_found (cluster_objs demo_osac))"
    "distinct (map fst (clusters_found (cluster_objs demo_osac)))"
    unfolding found by (simp_all add: p)
  have poll: "pollClusters record_call [''c1''] True ?p demo_osac [] = Some (?seen, demo_osac, [?call])"
    unfolding cluster_poll.poll_reports [OF mock_listings(1) [OF demo_osac_items(3) p(3)] ids(2,1), of record_call True "[]"]
    by (simp add: found p(1) changes_def vanished_def record_call_def)
  have r1: "?R (?es 1) (?P ?p (ListingClusters True) [] (?s ?new Scanning False))"
    by (rule pipeline_nextI [OF pipeline_begin cycle_started])
      (simp_all add: pipeline_start_def publisher_start_def demo_events_def Let_def p(4))
  have r2: "?R (?es 2) (?P ?seen (ListingVMs True) [?call] (?s ?new Scanning False))"
    by (rule pipeline_nextI [OF r1 clusters_listed [where resync = True and ids = "[''c1'']" and p = ?seen and w = demo_osac
        and calls = "[?call]"]])
      (use poll in \<open>simp_all add: demo_events_def Let_def p(2) demo_osac_items\<close>)
  have r3: "?R (?es 3) (?P ?seen (ListingVMs True) [] (?s ?q Scanning False))"
    by (rule pipeline_nextI [OF r2 publish_called [OF _ publish [of _ _ _ demo_service "''c1''" "cs_status demo_report" "cs_message demo_report"]]])
      (simp_all add: demo_events_def Let_def)
  have r4: "?R (?es 4) (?P ?seen (ListingVMs True) [] (?s ?q (Attempting [?k]) True))"
    by (rule pipeline_nextI [OF r3 worker_moved [OF _ scan]])
      (simp_all add: demo_events_def Let_def map_iteration_def scanRound_def, simp)
  have r5: "?R (?es 5) (?P ?seen (ListingVMs True) [] (?s ?q (Encoding ?k ?v []) True))"
    by (rule pipeline_nextI [OF r4 worker_moved [OF _ read_some]])
      (simp_all add: demo_events_def Let_def currentValue_def queued_def)
  have r6: "?R (?es 6) (?P ?seen (ListingVMs True) [] (?s ?q (Sending ?k ?v ''c1'' []) True))"
    by (rule pipeline_nextI [OF r5 worker_moved [OF _ encode_ok]])
      (simp_all add: demo_events_def Let_def buildEnvelope_def demo_data_def demo_marshal_def status_key_def)
  have r7: "?R (?es 7) (?P ?seen (ListingVMs True) [] (?s ?q (Removing ?k ?v []) True))"
    by (rule pipeline_nextI [OF r6 worker_moved [OF _ ack]]) (simp_all add: demo_events_def Let_def)
  let ?last = "?P ?seen (ListingVMs True) [] (?s (removeIfUnchanged ?k ?v ?q) (Clearing ?k []) True)"
  have "?R (?es 8) ?last"
    by (rule pipeline_nextI [OF r7 worker_moved [OF _ remove]]) (simp_all add: demo_events_def Let_def)
  moreover have "?es 8 = demo_events" by (simp add: demo_events_def Let_def)
  ultimately show ?thesis
    by (intro exI [of _ ?last]) (simp add: p(1) queued_def)
qed


end
