(* ===== verification/Delivery_Progress.thy ===== *)
theory Delivery_Progress
  imports Status_Publisher
begin

text \<open>
  Progress of the delivery worker of \<open>internal/statuspublisher\<close>: from every state it can reach, when
  JetStream accepts messages and time passes, it can deliver everything that is pending. A failed
  message, a wait or a wake-up never leaves an update where no continuation delivers it.
\<close>

section \<open>Paths on which JetStream accepts\<close>

fun willing :: "publisher_event \<Rightarrow> bool" where
  "willing (Published st i s m) \<longleftrightarrow> False"
| "willing ContextEnded \<longleftrightarrow> False"
| "willing (Refused k v e) \<longleftrightarrow> False"
| "willing (EncodeFailed k v) \<longleftrightarrow> False"
| "willing _ \<longleftrightarrow> True"

inductive worker_path ::
  "(string \<Rightarrow> StatusPayload \<Rightarrow> string res) \<Rightarrow> (Event \<Rightarrow> string res) \<Rightarrow>
   publisher_sys \<Rightarrow> publisher_event list \<Rightarrow> publisher_sys \<Rightarrow> bool"
  for setData marshal where
  path_nil: "worker_path setData marshal s [] s"
| path_step: "publisher_step setData marshal s e s1 \<Longrightarrow> willing e \<Longrightarrow> worker_path setData marshal s1 es s2 \<Longrightarrow>
    worker_path setData marshal s (e # es) s2"

definition encodable :: "(string \<Rightarrow> StatusPayload \<Rightarrow> string res) \<Rightarrow> (Event \<Rightarrow> string res) \<Rightarrow> bool" where
  "encodable setData marshal \<longleftrightarrow>
     (\<forall>st i status message. \<exists>uuid now raw. buildEnvelope setData marshal uuid now st i status message = Inr raw)"

lemma path_append:
  "worker_path setData marshal s es s1 \<Longrightarrow> worker_path setData marshal s1 fs s2 \<Longrightarrow> worker_path setData marshal s (es @ fs) s2"
  by (induction rule: worker_path.induct) (auto intro: worker_path.intros)

lemma path_run:
  "worker_path setData marshal s fs s' \<Longrightarrow> publisher_run setData marshal p es s \<Longrightarrow> publisher_run setData marshal p (es @ fs) s'"
proof (induction arbitrary: es rule: worker_path.induct)
  case (path_nil s)
  then show ?case by simp
next
  case (path_step s e s1 fs s2)
  from path_step.IH [OF run_step [OF path_step.prems path_step.hyps(1)]] show ?case by simp
qed

lemma path_willing: "worker_path setData marshal s es s' \<Longrightarrow> list_all willing es"
  by (induction rule: worker_path.induct) simp_all

lemma path_ctx: "worker_path setData marshal s es s' \<Longrightarrow> sy_ctxDone s' = sy_ctxDone s"
proof (induction rule: worker_path.induct)
  case (path_step s e s1 es s2)
  from path_step.hyps(1,2) have "sy_ctxDone s1 = sy_ctxDone s" by (cases rule: publisher_step.cases) simp_all
  with path_step.IH show ?case by simp
qed simp

text \<open>A state can get to where a condition holds.\<close>

definition can_reach ::
  "(string \<Rightarrow> StatusPayload \<Rightarrow> string res) \<Rightarrow> (Event \<Rightarrow> string res) \<Rightarrow> publisher_sys \<Rightarrow> (publisher_sys \<Rightarrow> bool) \<Rightarrow> bool" where
  "can_reach setData marshal s Q \<longleftrightarrow> (\<exists>es s'. worker_path setData marshal s es s' \<and> Q s')"

lemma reach_here: "Q s \<Longrightarrow> can_reach setData marshal s Q"
  unfolding can_reach_def by (blast intro: path_nil)

lemma reach_step:
  "publisher_step setData marshal s e s1 \<Longrightarrow> willing e \<Longrightarrow> can_reach setData marshal s1 Q \<Longrightarrow> can_reach setData marshal s Q"
  unfolding can_reach_def by (blast intro: path_step)

lemma reach_trans:
  assumes "can_reach setData marshal s Q" and "\<And>s'. Q s' \<Longrightarrow> can_reach setData marshal s' R"
  shows "can_reach setData marshal s R"
  using assms unfolding can_reach_def by (blast intro: path_append)

section \<open>A round\<close>

text \<open>The steps of the worker, as rules for what it can reach.\<close>

lemma reach_rules:
  "sy_pc s = Clearing key keys \<Longrightarrow>
     can_reach setData marshal (s \<lparr>sy_pub := clearRetry key (sy_pub s), sy_pc := Attempting keys\<rparr>) Q \<Longrightarrow> can_reach setData marshal s Q"
  "sy_pc s = Removing key val keys \<Longrightarrow>
     can_reach setData marshal (s \<lparr>sy_pub := removeIfUnchanged key val (sy_pub s), sy_pc := Clearing key keys\<rparr>) Q \<Longrightarrow>
     can_reach setData marshal s Q"
  "sy_pc s = Sending key val raw keys \<Longrightarrow>
     can_reach setData marshal (s \<lparr>sy_pc := Removing key val keys\<rparr>) Q \<Longrightarrow> can_reach setData marshal s Q"
  "sy_pc s = Bumping key keys \<Longrightarrow>
     can_reach setData marshal (s \<lparr>sy_pub := bumpRetry now key (sy_pub s), sy_pc := Attempting keys\<rparr>) Q \<Longrightarrow>
     can_reach setData marshal s Q"
  "sy_pc s = Attempting [] \<Longrightarrow> can_reach setData marshal (s \<lparr>sy_pc := RoundDone\<rparr>) Q \<Longrightarrow> can_reach setData marshal s Q"
  "sy_pc s = Attempting (key # keys) \<Longrightarrow> pub_pending (sy_pub s) key = None \<Longrightarrow>
     can_reach setData marshal (s \<lparr>sy_pc := Clearing key keys\<rparr>) Q \<Longrightarrow> can_reach setData marshal s Q"
  "sy_pc s = Attempting (key # keys) \<Longrightarrow> pub_pending (sy_pub s) key = Some val \<Longrightarrow>
     can_reach setData marshal (s \<lparr>sy_pc := Encoding key val keys\<rparr>) Q \<Longrightarrow> can_reach setData marshal s Q"
  "sy_pc s = RoundDone \<Longrightarrow> \<not> sy_ctxDone s \<Longrightarrow> sy_attempted s \<Longrightarrow>
     can_reach setData marshal (s \<lparr>sy_pc := Scanning\<rparr>) Q \<Longrightarrow> can_reach setData marshal s Q"
  "sy_pc s = RoundDone \<Longrightarrow> \<not> sy_ctxDone s \<Longrightarrow> \<not> sy_attempted s \<Longrightarrow>
     can_reach setData marshal (s \<lparr>sy_pc := Waiting\<rparr>) Q \<Longrightarrow> can_reach setData marshal s Q"
  "sy_pc s = Waiting \<Longrightarrow> pub_wake (sy_pub s) \<Longrightarrow>
     can_reach setData marshal (s \<lparr>sy_pub := (sy_pub s) \<lparr>pub_wake := False\<rparr>, sy_pc := Scanning\<rparr>) Q \<Longrightarrow>
     can_reach setData marshal s Q"
  "sy_pc s = Waiting \<Longrightarrow> 0 < sy_wait s \<Longrightarrow>
     can_reach setData marshal (s \<lparr>sy_pc := Scanning\<rparr>) Q \<Longrightarrow> can_reach setData marshal s Q"
  by (erule reach_step [OF clear] reach_step [OF remove] reach_step [OF ack] reach_step [OF bump]
      reach_step [OF round_over] reach_step [OF read_none] reach_step [OF read_some] reach_step [OF next_round]
      reach_step [OF nothing_ready] reach_step [OF woken] reach_step [OF timer];
      simp add: currentValue_def)+

lemma reach_encoded:
  assumes "encodable setData marshal" and "sy_pc s = Encoding key val keys"
    and "\<And>raw. can_reach setData marshal (s \<lparr>sy_pc := Sending key val raw keys\<rparr>) Q"
  shows "can_reach setData marshal s Q"
proof -
  from assms(1) obtain uuid now raw where
    "buildEnvelope setData marshal uuid now (pv_serviceType val) (pk_resourceID key) (pv_status val) (pv_message val) = Inr raw"
    unfolding encodable_def by blast
  from reach_step [OF encode_ok [OF assms(2) this]] assms(3) show ?thesis by simp
qed

text \<open>The rest of a round delivers its keys and leaves the other updates alone.\<close>

lemma reach_round_over:
  assumes "encodable setData marshal"
  shows "sy_pc s = Attempting keys \<Longrightarrow> can_reach setData marshal s (\<lambda>t. sy_pc t = Attempting [] \<and>
     pub_pending (sy_pub t) = pub_pending (sy_pub s) |` (- set keys))"
proof (induction keys arbitrary: s)
  case Nil
  then show ?case by (intro reach_here) simp
next
  case (Cons key keys)
  have rest: "can_reach setData marshal t (\<lambda>u. sy_pc u = Attempting [] \<and>
      pub_pending (sy_pub u) = pub_pending (sy_pub s) |` (- set (key # keys)))"
    if "sy_pc t = Attempting keys" "pub_pending (sy_pub t) = (pub_pending (sy_pub s))(key := None)" for t
  proof -
    have "((pub_pending (sy_pub s))(key := None)) |` (- set keys) = pub_pending (sy_pub s) |` (- set (key # keys))"
      by (auto simp: restrict_map_def)
    then show ?thesis using Cons.IH [OF that(1)] unfolding that(2) by (simp only:)
  qed
  show ?case
  proof (cases "pub_pending (sy_pub s) key")
    case None
    then have same: "(pub_pending (sy_pub s))(key := None) = pub_pending (sy_pub s)" by auto
    show ?thesis
      by (rule reach_rules(6) [OF Cons.prems None], rule reach_rules(1) [where key = key and keys = keys], simp, rule rest)
        (simp_all add: same del: fun_upd_apply)
  next
    case (Some val)
    show ?thesis
      by (rule reach_rules(7) [OF Cons.prems Some], rule reach_encoded [OF assms, where key = key and val = val and keys = keys], simp,
          rule reach_rules(3) [where key = key and val = val and keys = keys], simp,
          rule reach_rules(2) [where key = key and val = val and keys = keys], simp,
          rule reach_rules(1) [where key = key and keys = keys], simp, rule rest) (simp_all add: Some)
  qed
qed

section \<open>From any state to a scan\<close>

lemma finite_pending:
  "publisher_run setData marshal p es s \<Longrightarrow> finite (dom (pub_pending p)) \<Longrightarrow> finite (dom (pub_pending (sy_pub s)))"
proof (induction rule: publisher_run.induct)
  case run_start
  then show ?case by (simp add: publisher_start_def)
next
  case (run_step es s e s')
  from run_step.hyps(2) run_step.IH [OF run_step.prems] show ?case
    by (cases rule: publisher_step.cases) (simp_all add: dom_def, auto elim: rev_finite_subset [OF finite.insertI])
qed

lemma stopped_ctx: "publisher_run setData marshal p es s \<Longrightarrow> sy_pc s = Stopped \<Longrightarrow> sy_ctxDone s"
proof (induction rule: publisher_run.induct)
  case run_start
  then show ?case by (simp add: publisher_start_def)
next
  case (run_step es s e s')
  from run_step.hyps(2) run_step.IH run_step.prems show ?case by (cases rule: publisher_step.cases) simp_all
qed

text \<open>Every state of an open context can get to the end of its round, a scan or a sleep.\<close>

lemma reach_between:
  assumes "encodable setData marshal" and "sy_pc s \<noteq> Stopped"
  shows "can_reach setData marshal s (\<lambda>t. sy_pc t \<in> {Attempting [], RoundDone, Waiting, Scanning})"
proof -
  let ?Q = "\<lambda>t. sy_pc t \<in> {Attempting [], RoundDone, Waiting, Scanning}"
  have att: "can_reach setData marshal t ?Q" if "sy_pc t = Attempting keys" for t keys
    by (rule reach_trans [OF reach_round_over [OF assms(1) that]]) (rule reach_here, simp)
  have clr: "can_reach setData marshal t ?Q" if "sy_pc t = Clearing key keys" for t key keys
    by (rule reach_rules(1) [OF that]) (rule att, simp)
  have rem: "can_reach setData marshal t ?Q" if "sy_pc t = Removing key val keys" for t key val keys
    by (rule reach_rules(2) [OF that]) (rule clr, simp)
  have snd: "can_reach setData marshal t ?Q" if "sy_pc t = Sending key val raw keys" for t key val raw keys
    by (rule reach_rules(3) [OF that]) (rule rem, simp)
  have enc: "can_reach setData marshal t ?Q" if "sy_pc t = Encoding key val keys" for t key val keys
    by (rule reach_encoded [OF assms(1) that]) (rule snd, simp)
  have bmp: "can_reach setData marshal t ?Q" if "sy_pc t = Bumping key keys" for t key keys
    by (rule reach_rules(4) [OF that, where now = 0]) (rule att, simp)
  show ?thesis using assms(2) att clr rem snd enc bmp reach_here [of ?Q s] by (cases "sy_pc s") simp_all
qed

text \<open>
  From there it gets to a scan, unless nothing is pending: it sleeps without a wake signal or a timer
  only then.
\<close>

lemma reach_scan:
  assumes "encodable setData marshal" and "publisher_run setData marshal p es s" and "\<not> sy_ctxDone s"
  shows "can_reach setData marshal s (\<lambda>t. sy_pc t = Scanning \<or> pub_pending (sy_pub t) = Map.empty)"
proof -
  let ?Q = "\<lambda>t. sy_pc t = Scanning \<or> pub_pending (sy_pub t) = Map.empty"
  have wait: "can_reach setData marshal t ?Q" if run: "publisher_run setData marshal p fs t" and pc: "sy_pc t = Waiting" for fs t
  proof -
    consider (woken) "pub_wake (sy_pub t)" | (timer) "0 < sy_wait t" | (idle) "\<not> pub_wake (sy_pub t)" "sy_wait t \<le> 0" by linarith
    then show ?thesis
    proof cases
      case woken
      show ?thesis by (rule reach_rules(10) [OF pc woken]) (rule reach_here, simp)
    next
      case timer
      show ?thesis by (rule reach_rules(11) [OF pc timer]) (rule reach_here, simp)
    next
      case idle
      from publisher_run_sleep [OF run] pc have "asleep_ok fs t" by (auto simp: sleep_inv_def)
      with idle have "pub_pending (sy_pub t) = Map.empty" by (fastforce simp: asleep_ok_def)
      then show ?thesis by (intro reach_here) simp
    qed
  qed
  have over: "can_reach setData marshal t ?Q"
    if run: "publisher_run setData marshal p fs t" and pc: "sy_pc t = RoundDone" and ctx: "\<not> sy_ctxDone t" for fs t
  proof (cases "sy_attempted t")
    case True
    show ?thesis by (rule reach_rules(8) [OF pc ctx True]) (rule reach_here, simp)
  next
    case False
    show ?thesis
      by (rule reach_step [OF nothing_ready [OF pc ctx False]], simp, rule wait [OF run_step [OF run nothing_ready [OF pc ctx False]]]) simp
  qed
  have done_round: "can_reach setData marshal t ?Q"
    if run: "publisher_run setData marshal p fs t" and pc: "sy_pc t = Attempting []" and ctx: "\<not> sy_ctxDone t" for fs t
    by (rule reach_step [OF round_over [OF pc]], simp, rule over [OF run_step [OF run round_over [OF pc]]]) (simp_all add: ctx)
  have "sy_pc s \<noteq> Stopped" using stopped_ctx [OF assms(2)] assms(3) by blast
  from reach_between [OF assms(1) this] obtain fs t where path: "worker_path setData marshal s fs t"
    and pc: "sy_pc t \<in> {Attempting [], RoundDone, Waiting, Scanning}" unfolding can_reach_def by blast
  have run: "publisher_run setData marshal p (es @ fs) t" by (rule path_run [OF path assms(2)])
  have ctx: "\<not> sy_ctxDone t" using path_ctx [OF path] assms(3) by simp
  from pc have "can_reach setData marshal t ?Q"
    using wait [OF run] over [OF run _ ctx] done_round [OF run _ ctx] reach_here [of ?Q t] by auto
  with path show ?thesis unfolding can_reach_def by (blast intro: path_append)
qed

text \<open>A scan late enough finds every pending key ready.\<close>

lemma late_scan:
  assumes "finite (dom m)"
  obtains now where "\<And>key. key \<in> dom m \<Longrightarrow> cooling now retry key = None"
proof -
  let ?T = "(\<lambda>key. case retry key of None \<Rightarrow> 0 | Some rs \<Rightarrow> rs_nextAttempt rs) ` dom m"
  have "cooling (Max (insert 0 ?T)) retry key = None" if "key \<in> dom m" for key
  proof (cases "retry key")
    case None
    then show ?thesis by (simp add: cooling_def)
  next
    case (Some rs)
    with that have "rs_nextAttempt rs \<in> ?T" by (force intro: image_eqI [of _ _ key])
    with assms have "rs_nextAttempt rs \<le> Max (insert 0 ?T)" by (intro Max_ge) simp_all
    then have "time_Sub (rs_nextAttempt rs) (Max (insert 0 ?T)) \<le> 0" by (simp add: time_Sub_def minDuration_def)
    with Some show ?thesis by (simp add: cooling_def Let_def)
  qed
  then show thesis by (rule that)
qed

lemma reach_drained:
  assumes "encodable setData marshal" and "sy_pc s = Scanning" and "finite (dom (pub_pending (sy_pub s)))"
  shows "can_reach setData marshal s (\<lambda>t. pub_pending (sy_pub t) = Map.empty)"
proof -
  obtain now where now: "\<And>key. key \<in> dom (pub_pending (sy_pub s)) \<Longrightarrow> cooling now (pub_retry (sy_pub s)) key = None"
    using late_scan [OF assms(3)] by blast
  obtain keys where keys: "distinct keys" "set keys = dom (pub_pending (sy_pub s))"
    using finite_distinct_list [OF assms(3)] by blast
  obtain ready wait where scan: "scanRound now keys (sy_pub s) = (ready, wait)" by force
  have ready: "ready = keys" using scanRound_ready [of now keys "sy_pub s"] scan now keys(2) by (simp add: filter_id_conv)
  let ?t = "s \<lparr>sy_pc := Attempting ready, sy_attempted := (ready \<noteq> []), sy_wait := wait\<rparr>"
  have step: "publisher_step setData marshal s (Scanned now keys) ?t"
    by (rule publisher_step.scan [OF assms(2) _ scan]) (use keys in \<open>simp add: map_iteration_def\<close>)
  have "pub_pending (sy_pub ?t) |` (- set ready) = Map.empty"
    using keys(2) by (auto simp: ready restrict_map_def domIff)
  then show ?thesis
    by (intro reach_step [OF step] reach_trans [OF reach_round_over [OF assms(1), of ?t ready]] reach_here) simp_all
qed

lemma worker_drains:
  assumes "publisher_run setData marshal p es s" and "\<not> sy_ctxDone s" and "encodable setData marshal"
    and "finite (dom (pub_pending p))"
  shows "can_reach setData marshal s (\<lambda>t. pub_pending (sy_pub t) = Map.empty)"
proof -
  let ?Q = "\<lambda>t. pub_pending (sy_pub t) = Map.empty"
  from reach_scan [OF assms(3,1,2)] obtain fs t where path: "worker_path setData marshal s fs t"
    and t: "sy_pc t = Scanning \<or> ?Q t" unfolding can_reach_def by blast
  have fin: "finite (dom (pub_pending (sy_pub t)))" by (rule finite_pending [OF path_run [OF path assms(1)] assms(4)])
  from t have "can_reach setData marshal t ?Q" using reach_drained [OF assms(3) _ fin] reach_here [of ?Q t] by blast
  with path show ?thesis unfolding can_reach_def by (blast intro: path_append)
qed

section \<open>Properties\<close>

text \<open>
  C16. Everything published can be delivered: from every state the worker can be in while its context
  is open, after whatever failures, waits and wake-ups, some continuation in which nothing new is
  published, no message is refused and no envelope fails leaves nothing pending.
\<close>

theorem pending_updates_can_be_delivered:
  assumes "publisher_run setData marshal (newPublisher opts) es s" and "\<not> sy_ctxDone s" and "encodable setData marshal"
  shows "\<exists>fs s'. publisher_run setData marshal (newPublisher opts) (es @ fs) s' \<and> list_all willing fs \<and>
    pub_pending (sy_pub s') = Map.empty"
proof -
  have "finite (dom (pub_pending (newPublisher opts)))" by (simp add: newPublisher_def Let_def)
  from worker_drains [OF assms this] obtain fs s' where path: "worker_path setData marshal s fs s'"
    and s': "pub_pending (sy_pub s') = Map.empty" unfolding can_reach_def by blast
  from path_run [OF path assms(1)] path_willing [OF path] s' show ?thesis by blast
qed

theorem pending_updates_can_be_delivered_witness:
  "\<exists>fs s'. publisher_run demo_data demo_marshal (newPublisher []) ((demo_refused @ demo_slept) @ fs) s' \<and>
    pub_pending (sy_pub demo_asleep) demo_key = Some (demo_value ''RUNNING'') \<and> pub_pending (sy_pub s') demo_key = None"
proof -
  have enc: "encodable demo_data demo_marshal" by (simp add: encodable_def buildEnvelope_def demo_data_def demo_marshal_def)
  have "\<not> sy_ctxDone demo_asleep" by (simp add: demo_asleep_def)
  from pending_updates_can_be_delivered [OF demo_asleep_run this enc] obtain fs s' where
    "publisher_run demo_data demo_marshal (newPublisher []) ((demo_refused @ demo_slept) @ fs) s'"
    "pub_pending (sy_pub s') = Map.empty" by blast
  then show ?thesis by (intro exI [of _ fs] exI [of _ s']) (simp add: demo_asleep_def demo_pending)
qed

end
