(* ===== verification/Pipeline_Progress.thy ===== *)
theory Pipeline_Progress
  imports Status_Pipeline Delivery_Progress
begin

text \<open>
  Progress of the whole status path: from every state the poller, the publisher and its worker can be
  in, while the context is open, one more undisturbed cycle brings JetStream up to date with OSAC.
\<close>

section \<open>Undisturbed paths\<close>

text \<open>OSAC does not change, listings and messages succeed.\<close>

fun calm :: "pipeline_event \<Rightarrow> bool" where
  "calm (OsacChanged w) \<longleftrightarrow> False"
| "calm (ClustersFailed err) \<longleftrightarrow> False"
| "calm (VMsFailed err) \<longleftrightarrow> False"
| "calm (PublisherMoved e) \<longleftrightarrow> is_publish e \<or> willing e"
| "calm _ \<longleftrightarrow> True"

inductive calm_path ::
  "(string \<Rightarrow> StatusPayload \<Rightarrow> string res) \<Rightarrow> (Event \<Rightarrow> string res) \<Rightarrow> pipeline \<Rightarrow> pipeline_event list \<Rightarrow> pipeline \<Rightarrow> bool"
  for setData marshal where
  calm_nil: "calm_path setData marshal P [] P"
| calm_step: "calm_path setData marshal P es P1 \<Longrightarrow> pipeline_step setData marshal P1 e P2 \<Longrightarrow> calm e \<Longrightarrow>
    calm_path setData marshal P (es @ [e]) P2"

definition always_encodes :: "(string \<Rightarrow> StatusPayload \<Rightarrow> string res) \<Rightarrow> (Event \<Rightarrow> string res) \<Rightarrow> bool" where
  "always_encodes setData marshal \<longleftrightarrow>
     (\<forall>uuid now st i status message. \<exists>raw. buildEnvelope setData marshal uuid now st i status message = Inr raw)"

lemma calm_run:
  "calm_path setData marshal P fs P' \<Longrightarrow> pipeline_run setData marshal P0 es P \<Longrightarrow> pipeline_run setData marshal P0 (es @ fs) P'"
proof (induction rule: calm_path.induct)
  case (calm_step P fs P1 e P2)
  from pipeline_next [OF calm_step.IH [OF calm_step.prems] calm_step.hyps(2)] show ?case by simp
qed simp

lemma calm_append:
  "calm_path setData marshal P1 fs P2 \<Longrightarrow> calm_path setData marshal P es P1 \<Longrightarrow> calm_path setData marshal P (es @ fs) P2"
proof (induction rule: calm_path.induct)
  case (calm_step P1 fs P2 e P3)
  from calm_path.calm_step [OF calm_step.IH [OF calm_step.prems] calm_step.hyps(2,3)] show ?case by simp
qed simp

lemma calm_single: "pipeline_step setData marshal P e P' \<Longrightarrow> calm e \<Longrightarrow> calm_path setData marshal P [e] P'"
  using calm_step [OF calm_nil] by fastforce

lemma calm_events: "calm_path setData marshal P es P' \<Longrightarrow> list_all calm es"
  by (induction rule: calm_path.induct) simp_all

lemma calm_ctx: "calm_path setData marshal P es P' \<Longrightarrow> sy_ctxDone (pp_pub P') = sy_ctxDone (pp_pub P)"
proof (induction rule: calm_path.induct)
  case (calm_step P es P1 e P2)
  have pub: "sy_ctxDone s' = sy_ctxDone s" if "publisher_step setData marshal s e' s'" "is_publish e' \<or> willing e'" for s e' s'
    using that by (cases rule: publisher_step.cases) simp_all
  from calm_step.hyps(2) calm_step.IH show ?case
    by (cases rule: pipeline_step.cases) (use calm_step.hyps(3) pub in auto)
qed simp

text \<open>Calls of \<open>Publish\<close> can be made at any time; they are all the calls there are.\<close>

lemma run_calls:
  assumes "pipeline_run setData marshal (pipeline_start opts clusterName vmName cfg w) es P" and "osac_inv w" and "int32_many w"
  shows "list_all is_publish (pp_calls P)"
  using assms(1)
proof (induction rule: pipeline_run.induct)
  case pipeline_begin
  show ?case by (simp add: pipeline_start_def)
next
  case (pipeline_next es P e P')
  note inv = pipeline_run_inv(1) [OF assms(2,3) pipeline_next.hyps(1)]
  have sent: "list_all is_publish (send_all record_call st us [])" for st us
    by (simp add: send_all_record list_all_iff split_def)
  from pipeline_next.hyps(2) show ?case
  proof cases
    case (clusters_listed resync ids p w calls)
    from trans [OF clusters_polled(1) [OF inv clusters_listed(6), symmetric] clusters_listed(7)] sent
    show ?thesis unfolding clusters_listed(2) by auto
  next
    case (vms_listed resync ids p w calls)
    from trans [OF vms_polled(1) [OF inv vms_listed(6), symmetric] vms_listed(7)] sent
    show ?thesis unfolding vms_listed(2) by auto
  next
    case (clusters_failed resync ids err p w calls)
    from trans [OF cluster_poll.poll_failed [OF failing_listings(1), symmetric] clusters_failed(5)] clusters_failed(2)
    show ?thesis by simp
  next
    case (vms_failed resync ids err p w calls)
    from trans [OF vm_poll.poll_failed [OF failing_listings(2), symmetric] vms_failed(5)] vms_failed(2)
    show ?thesis by simp
  qed (use pipeline_next.IH in simp_all)
qed

lemma run_finite:
  assumes "pipeline_run setData marshal (pipeline_start opts clusterName vmName cfg w) es P" and "osac_inv w" and "int32_many w"
  shows "finite (dom (plr_clusterCache (pp_poller P))) \<and> finite (dom (plr_vmCache (pp_poller P)))"
  using assms(1)
proof (induction rule: pipeline_run.induct)
  case pipeline_begin
  show ?case by (simp add: pipeline_start_def poll_New_def Let_def)
next
  case (pipeline_next es P e P')
  note inv = pipeline_run_inv(1) [OF assms(2,3) pipeline_next.hyps(1)]
  from pipeline_next.hyps(2) show ?case
  proof cases
    case (clusters_listed resync ids p w calls)
    from trans [OF clusters_polled(1) [OF inv clusters_listed(6), symmetric] clusters_listed(7)] pipeline_next.IH
    show ?thesis unfolding clusters_listed(2) by (auto simp: finite_dom_map_of)
  next
    case (vms_listed resync ids p w calls)
    from trans [OF vms_polled(1) [OF inv vms_listed(6), symmetric] vms_listed(7)] pipeline_next.IH
    show ?thesis unfolding vms_listed(2) by (auto simp: finite_dom_map_of)
  next
    case (clusters_failed resync ids err p w calls)
    from trans [OF cluster_poll.poll_failed [OF failing_listings(1), symmetric] clusters_failed(5)] clusters_failed(2) pipeline_next.IH
    show ?thesis by auto
  next
    case (vms_failed resync ids err p w calls)
    from trans [OF vm_poll.poll_failed [OF failing_listings(2), symmetric] vms_failed(5)] vms_failed(2) pipeline_next.IH
    show ?thesis by auto
  qed (use pipeline_next.IH in simp_all)
qed

section \<open>One more cycle\<close>

lemma calm_calls:
  "pp_calls P = calls \<Longrightarrow> list_all is_publish calls \<Longrightarrow>
   \<exists>es P'. calm_path setData marshal P es P' \<and> pp_calls P' = [] \<and> pp_poller P' = pp_poller P \<and> pp_osac P' = pp_osac P \<and>
     pp_phase P' = pp_phase P \<and> listed_clusters es = None \<and> listed_vms es = None"
proof (induction calls arbitrary: P)
  case Nil
  then show ?case by (intro exI [of _ "[]"] exI [of _ P]) (simp add: calm_nil)
next
  case (Cons e calls)
  then obtain st i status m where e: "e = Published st i status m" by (cases e) auto
  let ?P = "P \<lparr>pp_pub := (pp_pub P) \<lparr>sy_pub := Publish st i status m (sy_pub (pp_pub P))\<rparr>, pp_calls := calls\<rparr>"
  have step: "pipeline_step setData marshal P (PublisherMoved e) ?P"
    using Cons.prems(1) unfolding e by (rule publish_called) (rule publish)
  from Cons.IH [of ?P] Cons.prems(2) obtain es P' where path: "calm_path setData marshal ?P es P'" and P': "pp_calls P' = []"
    "pp_poller P' = pp_poller P" "pp_osac P' = pp_osac P" "pp_phase P' = pp_phase P" "listed_clusters es = None" "listed_vms es = None"
    by auto
  have "calm_path setData marshal P ([PublisherMoved e] @ es) P'"
    by (rule calm_append [OF path calm_single [OF step]]) (simp add: e)
  with P' show ?case
    by (intro exI [of _ "[PublisherMoved e] @ es"] exI [of _ P']) (simp add: listed_clusters_def listed_vms_def)
qed

lemma calm_worker:
  "worker_path setData marshal s fs s' \<Longrightarrow> pp_pub P = s \<Longrightarrow>
   calm_path setData marshal P (map PublisherMoved fs) (P \<lparr>pp_pub := s'\<rparr>)"
proof (induction arbitrary: P rule: worker_path.induct)
  case (path_nil s)
  then have "P \<lparr>pp_pub := s\<rparr> = P" by simp
  then show ?case by (simp add: calm_nil)
next
  case (path_step s e s1 fs s2)
  have "\<not> is_publish e" using path_step.hyps(2) by (cases e) simp_all
  then have "pipeline_step setData marshal P (PublisherMoved e) (P \<lparr>pp_pub := s1\<rparr>)"
    using path_step.hyps(1) path_step.prems by (intro worker_moved) simp_all
  then have "calm_path setData marshal P ([PublisherMoved e] @ map PublisherMoved fs) (P \<lparr>pp_pub := s1\<rparr> \<lparr>pp_pub := s2\<rparr>)"
    using path_step.IH [of "P \<lparr>pp_pub := s1\<rparr>"] path_step.hyps(2) by (intro calm_append calm_single) simp_all
  then show ?case by simp
qed

lemma listing_ids:
  assumes "osac_inv w0" and "int32_many w0" and "pipeline_run setData marshal (pipeline_start opts clusterName vmName cfg w0) es P"
  obtains cids vids where "distinct cids" "set cids = dom (plr_clusterCache (pp_poller P)) \<union> dom (st_items (os_clusters (pp_osac P)))"
    "distinct vids" "set vids = dom (plr_vmCache (pp_poller P)) \<union> dom (st_items (os_instances (pp_osac P)))"
proof -
  have "osac_inv (pp_osac P)" using pipeline_run_inv(1) [OF assms] by (simp add: pipeline_inv_def)
  from mock_found(5,6) [OF this] have "finite (dom (st_items (os_clusters (pp_osac P))))" "finite (dom (st_items (os_instances (pp_osac P))))"
    by (metis List.finite_set finite_imageI)+
  with run_finite [OF assms(3,1,2)] obtain cids vids where
    "distinct cids \<and> set cids = dom (plr_clusterCache (pp_poller P)) \<union> dom (st_items (os_clusters (pp_osac P)))"
    "distinct vids \<and> set vids = dom (plr_vmCache (pp_poller P)) \<union> dom (st_items (os_instances (pp_osac P)))"
    by (meson finite_UnI finite_distinct_list)
  with that show thesis by blast
qed

lemma calm_drain:
  assumes "osac_inv w0" and "int32_many w0" and "pipeline_run setData marshal (pipeline_start opts clusterName vmName cfg w0) es P"
  obtains fs P' where "calm_path setData marshal P fs P'" "pp_calls P' = []" "pp_osac P' = pp_osac P" "pp_phase P' = pp_phase P"
    "listed_clusters fs = None" "listed_vms fs = None"
  using calm_calls [OF refl run_calls [OF assms(3,1,2)], of setData marshal] by blast

lemma calm_clusters:
  assumes "osac_inv w0" and "int32_many w0" and "pipeline_run setData marshal (pipeline_start opts clusterName vmName cfg w0) es P"
    and "pp_phase P = ListingClusters resync" and "pp_calls P = []"
  obtains ids P' where "calm_path setData marshal P [ClustersListed ids (pp_osac P)] P'" "pp_osac P' = pp_osac P" "pp_phase P' = ListingVMs resync"
proof -
  obtain ids vids where ids: "distinct ids" "set ids = dom (plr_clusterCache (pp_poller P)) \<union> dom (st_items (os_clusters (pp_osac P)))"
    "distinct vids" "set vids = dom (plr_vmCache (pp_poller P)) \<union> dom (st_items (os_instances (pp_osac P)))"
    by (rule listing_ids [OF assms(1-3)])
  note step = clusters_listed [OF assms(4,5) ids(1,2) clusters_polled(1) [OF pipeline_run_inv(1) [OF assms(1-3)] ids(2)], of setData marshal]
  have "calm (ClustersListed ids (pp_osac P))" by simp
  from that [OF calm_single [OF step this]] show thesis by simp
qed

lemma calm_vms:
  assumes "osac_inv w0" and "int32_many w0" and "pipeline_run setData marshal (pipeline_start opts clusterName vmName cfg w0) es P"
    and "pp_phase P = ListingVMs resync" and "pp_calls P = []"
  obtains ids P' where "calm_path setData marshal P [VMsListed ids (pp_osac P)] P'" "pp_osac P' = pp_osac P" "pp_phase P' = BetweenCycles"
proof -
  obtain cids ids where cids: "distinct cids" "set cids = dom (plr_clusterCache (pp_poller P)) \<union> dom (st_items (os_clusters (pp_osac P)))"
    and ids: "distinct ids" "set ids = dom (plr_vmCache (pp_poller P)) \<union> dom (st_items (os_instances (pp_osac P)))"
    by (rule listing_ids [OF assms(1-3)])
  note step = vms_listed [OF assms(4,5) ids vms_polled(1) [OF pipeline_run_inv(1) [OF assms(1-3)] ids(2)], of setData marshal]
  have "calm (VMsListed ids (pp_osac P))" by simp
  from that [OF calm_single [OF step this]] show thesis by simp
qed

text \<open>
  From any state the poller can finish its cycle, run another and make all its calls. The events are
  kept apart where the listings are.
\<close>

lemma calm_between:
  assumes "osac_inv w0" and "int32_many w0" and "pipeline_run setData marshal (pipeline_start opts clusterName vmName cfg w0) es P"
  obtains fs P' where "calm_path setData marshal P fs P'" "pp_calls P' = []" "pp_osac P' = pp_osac P" "pp_phase P' = BetweenCycles"
proof -
  note run = calm_run [OF _ assms(3)] and finish = that
  have vms: thesis if path: "calm_path setData marshal P fs Q" and Q: "pp_calls Q = []" "pp_osac Q = pp_osac P" "pp_phase Q = ListingVMs r"
    for fs Q r
  proof -
    obtain ids Q1 where 1: "calm_path setData marshal Q [VMsListed ids (pp_osac Q)] Q1" "pp_osac Q1 = pp_osac Q" "pp_phase Q1 = BetweenCycles"
      using calm_vms [OF assms(1,2) run [OF path] Q(3,1)] by blast
    note path1 = calm_append [OF 1(1) path]
    obtain gs Q2 where 2: "calm_path setData marshal Q1 gs Q2" "pp_calls Q2 = []" "pp_osac Q2 = pp_osac Q1" "pp_phase Q2 = pp_phase Q1"
      using calm_drain [OF assms(1,2) run [OF path1]] by blast
    from finish [OF calm_append [OF 2(1) path1] 2(2)] 1 2 Q show thesis by simp
  qed
  obtain fs Q where q: "calm_path setData marshal P fs Q" "pp_calls Q = []" "pp_osac Q = pp_osac P" "pp_phase Q = pp_phase P"
    using calm_drain [OF assms] by blast
  show thesis
  proof (cases "pp_phase Q")
    case BetweenCycles
    with that [OF q(1,2)] q show thesis by simp
  next
    case (ListingVMs r)
    with vms [OF q(1,2,3)] show thesis by simp
  next
    case (ListingClusters r)
    obtain ids Q1 where 1: "calm_path setData marshal Q [ClustersListed ids (pp_osac Q)] Q1" "pp_osac Q1 = pp_osac Q" "pp_phase Q1 = ListingVMs r"
      using calm_clusters [OF assms(1,2) run [OF q(1)] ListingClusters q(2)] by blast
    note path1 = calm_append [OF 1(1) q(1)]
    obtain gs Q2 where 2: "calm_path setData marshal Q1 gs Q2" "pp_calls Q2 = []" "pp_osac Q2 = pp_osac Q1" "pp_phase Q2 = pp_phase Q1"
      using calm_drain [OF assms(1,2) run [OF path1]] by blast
    from vms [OF calm_append [OF 2(1) path1] 2(2)] 1 2 q show thesis by simp
  qed
qed

lemma listed_append:
  "listed_clusters (es @ fs) = (case listed_clusters fs of None \<Rightarrow> listed_clusters es | Some w \<Rightarrow> Some w)"
  "listed_vms (es @ fs) = (case listed_vms fs of None \<Rightarrow> listed_vms es | Some w \<Rightarrow> Some w)"
  by (induction fs rule: rev_induct) (auto simp: append_assoc [symmetric] simp del: append_assoc split: pipeline_event.split)

lemma listed_Cons:
  "listed_clusters (e # es) = (case listed_clusters es of
     None \<Rightarrow> (case e of ClustersListed ids w \<Rightarrow> Some w | _ \<Rightarrow> None) | Some w \<Rightarrow> Some w)"
  "listed_vms (e # es) = (case listed_vms es of
     None \<Rightarrow> (case e of VMsListed ids w \<Rightarrow> Some w | _ \<Rightarrow> None) | Some w \<Rightarrow> Some w)"
  using listed_append [of "[e]" es] listed_snoc(1,2) [where es = "[]" and e = e]
  by (cases e; cases "listed_clusters es"; cases "listed_vms es"; simp)+

lemma listed_moves [simp]: "listed_clusters (map PublisherMoved fs) = None" "listed_vms (map PublisherMoved fs) = None"
  by (induction fs rule: rev_induct) simp_all

lemma encoded_always: "publisher_run setData marshal p es s \<Longrightarrow> always_encodes setData marshal \<Longrightarrow> encoded_all k es"
proof (induction rule: publisher_run.induct)
  case (run_step es s e s')
  have "\<not> encode_failure k e"
    using run_step.hyps(2)
  proof cases
    case (encode_fail key val keys uuid now err)
    with run_step.prems show ?thesis unfolding always_encodes_def by (metis sum.distinct(1))
  qed simp_all
  with run_step show ?case by simp
qed simp

lemma always_encodable: "always_encodes setData marshal \<Longrightarrow> encodable setData marshal"
  unfolding always_encodes_def encodable_def by blast

text \<open>A whole cycle, and then the worker's deliveries.\<close>

lemma calm_cycle:
  assumes "osac_inv w0" and "int32_many w0" and "pipeline_run setData marshal (pipeline_start opts clusterName vmName cfg w0) es P"
  obtains fs P' where "calm_path setData marshal P fs P'" "pp_calls P' = []" "pp_osac P' = pp_osac P"
    "listed_clusters fs = Some (pp_osac P)" "listed_vms fs = Some (pp_osac P)"
proof -
  note run = calm_run [OF _ assms(3)]
  obtain fs1 P1 where 1: "calm_path setData marshal P fs1 P1" "pp_calls P1 = []" "pp_osac P1 = pp_osac P" "pp_phase P1 = BetweenCycles"
    by (rule calm_between [OF assms])
  have "calm CycleStarted" by simp
  note path2 = calm_append [OF calm_single [OF cycle_started [OF 1(4,2)] this] 1(1)]
  obtain ids P3 where 3: "calm_path setData marshal (P1 \<lparr>pp_phase := ListingClusters (plr_cycle (pp_poller P1) mod plr_resyncEvery (pp_poller P1) = 0)\<rparr>)
      [ClustersListed ids (pp_osac P)] P3" "pp_osac P3 = pp_osac P"
      "pp_phase P3 = ListingVMs (plr_cycle (pp_poller P1) mod plr_resyncEvery (pp_poller P1) = 0)"
    using calm_clusters [OF assms(1,2) run [OF path2]] 1(2,3) by auto
  note path3 = calm_append [OF 3(1) path2]
  obtain fs4 P4 where 4: "calm_path setData marshal P3 fs4 P4" "pp_calls P4 = []" "pp_osac P4 = pp_osac P3" "pp_phase P4 = pp_phase P3"
    "listed_clusters fs4 = None" "listed_vms fs4 = None"
    by (rule calm_drain [OF assms(1,2) run [OF path3]])
  note path4 = calm_append [OF 4(1) path3]
  obtain vids P5 where 5: "calm_path setData marshal P4 [VMsListed vids (pp_osac P)] P5" "pp_osac P5 = pp_osac P"
    using calm_vms [OF assms(1,2) run [OF path4] trans [OF 4(4) 3(3)] 4(2), unfolded 4(3) 3(2)] by metis
  note path5 = calm_append [OF 5(1) path4]
  obtain fs6 P6 where 6: "calm_path setData marshal P5 fs6 P6" "pp_calls P6 = []" "pp_osac P6 = pp_osac P5" "pp_phase P6 = pp_phase P5"
    "listed_clusters fs6 = None" "listed_vms fs6 = None"
    by (rule calm_drain [OF assms(1,2) run [OF path5]])
  from calm_append [OF 6(1) path5] 6(2) show thesis
    by (rule that) (simp_all add: 6(3,5,6) 5(2) 4(5,6) listed_append listed_Cons)
qed

section \<open>Properties\<close>

text \<open>
  C3. Recovery: from every state of the poller, the publisher and the worker that a run can reach
  while the context is open, whatever was missed, refused or deleted before, some continuation in
  which OSAC stays as it is, the listings succeed and JetStream accepts makes the last acknowledged
  status of every cluster and compute instance the one OSAC has, and that of every other identifier
  the deletion, if anything was ever acknowledged for it.
\<close>

theorem status_bus_can_catch_up:
  assumes "osac_inv w0" and "int32_many w0" and "always_encodes setData marshal"
    and "pipeline_run setData marshal (pipeline_start opts clusterName vmName cfg w0) es P"
    and "\<not> sy_ctxDone (pp_pub P)"
  shows "\<exists>fs P'. pipeline_run setData marshal (pipeline_start opts clusterName vmName cfg w0) (es @ fs) P' \<and>
    list_all calm fs \<and> pp_osac P' = pp_osac P \<and>
    (\<forall>i. let st = plr_clusterServiceType (pp_poller P'); acked = acked_for (status_key st i) (moves (es @ fs)) in
       case st_items (os_clusters (pp_osac P)) i of
         Some c \<Rightarrow> acked \<noteq> [] \<and> last acked = queued st (cluster_report c)
       | None \<Rightarrow> acked = [] \<or> last acked = queued st cluster_gone) \<and>
    (\<forall>i. let st = plr_vmServiceType (pp_poller P'); acked = acked_for (status_key st i) (moves (es @ fs)) in
       case st_items (os_instances (pp_osac P)) i of
         Some c \<Rightarrow> acked \<noteq> [] \<and> last acked = queued st (vm_report c)
       | None \<Rightarrow> acked = [] \<or> last acked = queued st vm_gone)"
proof -
  obtain fs1 P1 where 1: "calm_path setData marshal P fs1 P1" "pp_calls P1 = []" "pp_osac P1 = pp_osac P"
    "listed_clusters fs1 = Some (pp_osac P)" "listed_vms fs1 = Some (pp_osac P)"
    by (rule calm_cycle [OF assms(1,2,4)])
  note run1 = calm_run [OF 1(1) assms(4)]
  have new: "finite (dom (pub_pending (newPublisher opts)))" by (simp add: newPublisher_def Let_def)
  have start: "pp_pub (pipeline_start opts clusterName vmName cfg w0) = publisher_start (newPublisher opts)"
    by (simp add: pipeline_start_def)
  obtain gs s where gs: "worker_path setData marshal (pp_pub P1) gs s" "pub_pending (sy_pub s) = Map.empty"
    using worker_drains [OF pipeline_publisher [OF run1 start] _ always_encodable [OF assms(3)] new] calm_ctx [OF 1(1)] assms(5)
    unfolding can_reach_def by blast
  let ?P = "P1 \<lparr>pp_pub := s\<rparr>" and ?fs = "fs1 @ map PublisherMoved gs"
  have path: "calm_path setData marshal P ?fs ?P" by (rule calm_append [OF calm_worker [OF gs(1) refl] 1(1)])
  note run = calm_run [OF path assms(4)]
  have pub: "publisher_run setData marshal (newPublisher opts) (moves (es @ ?fs)) s"
    using pipeline_publisher [OF run start] by simp
  have listed: "listed_clusters (es @ ?fs) = Some (pp_osac P)" "listed_vms (es @ ?fs) = Some (pp_osac P)"
    using 1(4,5) by (simp_all add: listed_append)
  note inv = pipeline_run_inv(1) [OF assms(1,2) run, unfolded pipeline_inv_def listed option.case]
  have calls: "pp_calls ?P = []" using 1(2) by simp
  have "synced (plr_clusterServiceType (pp_poller ?P)) cluster_gone (plr_clusterCache (pp_poller ?P)) (moves (es @ ?fs))"
    "synced (plr_vmServiceType (pp_poller ?P)) vm_gone (plr_vmCache (pp_poller ?P)) (moves (es @ ?fs))"
    using inv unfolding calls append_Nil2 by blast+
  note stands = this [THEN delivered_stands [OF pub _ _ encoded_always [OF pub assms(3)]], unfolded gs(2), OF refl]
  have "plr_clusterCache (pp_poller ?P) = (\<lambda>i. map_option cluster_report (st_items (os_clusters (pp_osac P)) i))"
    "plr_vmCache (pp_poller ?P) = (\<lambda>i. map_option vm_report (st_items (os_instances (pp_osac P)) i))"
    using inv by blast+
  note stands = stands(1) [unfolded this(1)] stands(2) [unfolded this(2)]
  have osac: "pp_osac ?P = pp_osac P" using 1(3) by simp
  show ?thesis
  proof (intro exI [of _ ?fs] exI [of _ ?P] conjI run osac calm_events [OF path] allI, goal_cases)
    case (1 i)
    from stands(1) [of i] show ?case by (auto simp: stands_def Let_def split: option.split)
  next
    case (2 i)
    from stands(2) [of i] show ?case by (auto simp: stands_def Let_def split: option.split)
  qed
qed

theorem status_bus_can_catch_up_witness:
  "\<exists>fs. acked_for (status_key demo_service ''c1'') (moves [OsacChanged demo_osac]) = [] \<and>
    last (acked_for (status_key demo_service ''c1'') (moves ([OsacChanged demo_osac] @ fs))) = queued demo_service demo_report"
proof -
  have inv: "osac_inv demo_osac"
    unfolding demo_osac_def by (rule Clusters_Create_inv [OF osac_inv_new [OF inj_nat_digits]])
  have enc: "always_encodes demo_data demo_marshal" by (simp add: always_encodes_def buildEnvelope_def demo_data_def demo_marshal_def)
  let ?P0 = "pipeline_start [] ''c'' ''v'' demo_settings demo_osac"
  have run: "pipeline_run demo_data demo_marshal ?P0 [OsacChanged demo_osac] (?P0 \<lparr>pp_osac := demo_osac\<rparr>)"
    using pipeline_next [OF pipeline_begin osac_changed [OF inv demo_osac_items(3)]] by simp
  have ctx: "\<not> sy_ctxDone (pp_pub (?P0 \<lparr>pp_osac := demo_osac\<rparr>))" by (simp add: pipeline_start_def publisher_start_def)
  from status_bus_can_catch_up [OF inv demo_osac_items(3) enc run ctx] obtain fs P' where
    run': "pipeline_run demo_data demo_marshal ?P0 ([OsacChanged demo_osac] @ fs) P'" and
    ack: "let st = plr_clusterServiceType (pp_poller P'); acked = acked_for (status_key st ''c1'') (moves ([OsacChanged demo_osac] @ fs)) in
       case st_items (os_clusters (pp_osac (?P0 \<lparr>pp_osac := demo_osac\<rparr>))) ''c1'' of
         Some c \<Rightarrow> acked \<noteq> [] \<and> last acked = queued st (cluster_report c)
       | None \<Rightarrow> acked = [] \<or> last acked = queued st cluster_gone" by blast
  have "plr_clusterServiceType (pp_poller P') = demo_service"
    unfolding pipeline_run_inv(3) [OF inv demo_osac_items(3) run']
    by (simp add: pipeline_start_def poll_New_def Let_def demo_service_def providerSourcePrefix_def)
  with ack show ?thesis by (intro exI [of _ fs]) (simp add: demo_osac_items demo_report_def Let_def)
qed

end
