(* ===== verification/Api_Server.thy ===== *)
theory Api_Server
  imports Grpc_Error Config
begin

text \<open>
  \<open>internal/apiserver/server.go\<close>: the middleware around the API handlers and the life of the HTTP
  server. A handler is a function over the operations of a \<open>ResponseWriter\<close> and the writer's
  state, that may panic; the middleware of the code are functions on handlers, and the writer that
  records the status is a state around another writer's state. \<open>Run\<close> is a step relation of the
  goroutine that waits for readiness, with the server it started and the context as its
  environment.

  Routing, parsing and the generated strict adapter are outside: they are the handler. The address
  and the durations that occur in the messages of \<open>Run\<close> and its probe are left out of them.
\<close>

section \<open>Writers and handlers\<close>

record request =
  rq_Method :: string
  rq_Path :: string
  rq_URI :: string
  rq_Deadline :: "int option"

datatype panic = ErrAbortHandler | PanicValue

record 'w writer_ops =
  wo_SetContentType :: "string \<Rightarrow> 'w \<Rightarrow> 'w"
  wo_WriteHeader :: "int \<Rightarrow> 'w \<Rightarrow> 'w"
  wo_Write :: "string \<Rightarrow> 'w \<Rightarrow> 'w"

datatype log_entry = PanicLogged | HeadersAlreadySent | RequestLogged string string int

type_synonym 'w handler = "'w writer_ops \<Rightarrow> request \<Rightarrow> 'w \<Rightarrow> panic option \<times> log_entry list \<times> 'w"

text \<open>
  The writer of \<open>net/http\<close>: the first final status counts, a write without one sends 200, and
  headers set after that have no effect.
\<close>

record net_writer =
  nw_status :: "int option"
  nw_contentType :: string
  nw_body :: string

definition net_ops :: "net_writer writer_ops" where
  "net_ops =
     \<lparr>wo_SetContentType = (\<lambda>v w. if nw_status w = None then w \<lparr>nw_contentType := v\<rparr> else w),
      wo_WriteHeader = (\<lambda>code w.
        if nw_status w = None \<and> (code < 100 \<or> 200 \<le> code \<or> code = 101) then w \<lparr>nw_status := Some code\<rparr> else w),
      wo_Write = (\<lambda>b w.
        let w1 = (if nw_status w = None then w \<lparr>nw_status := Some 200\<rparr> else w)
        in w1 \<lparr>nw_body := nw_body w1 @ b\<rparr>)\<rparr>"

definition net_fresh :: net_writer where
  "net_fresh = \<lparr>nw_status = None, nw_contentType = '''', nw_body = ''''\<rparr>"

record 'w statusRecordingResponseWriter =
  srw_inner :: 'w
  srw_wroteHeader :: bool
  srw_statusCode :: int

definition srw_new :: "'w \<Rightarrow> 'w statusRecordingResponseWriter" where
  "srw_new w = \<lparr>srw_inner = w, srw_wroteHeader = False, srw_statusCode = 200\<rparr>"

definition srw_ops :: "'w writer_ops \<Rightarrow> 'w statusRecordingResponseWriter writer_ops" where
  "srw_ops ops =
     \<lparr>wo_SetContentType = (\<lambda>v s. s \<lparr>srw_inner := wo_SetContentType ops v (srw_inner s)\<rparr>),
      wo_WriteHeader = (\<lambda>code s.
        s \<lparr>srw_inner := wo_WriteHeader ops code (srw_inner s), srw_wroteHeader := True, srw_statusCode := code\<rparr>),
      wo_Write = (\<lambda>b s.
        s \<lparr>srw_inner := wo_Write ops b (srw_inner s), srw_wroteHeader := True,
           srw_statusCode := (if \<not> srw_wroteHeader s then 200 else srw_statusCode s)\<rparr>)\<rparr>"

text \<open>\<open>httperror.WriteResponse\<close> on a writer; \<open>encode\<close> is the JSON text of a problem.\<close>

definition send_problem :: "(api_Error \<Rightarrow> string) \<Rightarrow> 'w writer_ops \<Rightarrow> http_error \<Rightarrow> 'w \<Rightarrow> 'w" where
  "send_problem encode ops e w =
     wo_Write ops (encode (he_Body e)) (wo_WriteHeader ops (he_Status e) (wo_SetContentType ops (he_ContentType e) w))"

text \<open>\<open>nil\<close> for a nil request, which the server never passes.\<close>

definition requestInstance :: "request option \<Rightarrow> string option" where
  "requestInstance r = (case r of None \<Rightarrow> None | Some r \<Rightarrow> Ptr (rq_URI r))"

lemma requestInstance_Some [simp]: "requestInstance (Some r) = Some (rq_URI r)"
  by (simp add: requestInstance_def)

definition internal_problem :: "request \<Rightarrow> http_error" where
  "internal_problem r =
     WriteResponse StatusInternalServerError ErrorTypeINTERNAL InternalTitle InternalDetail (requestInstance (Some r))"

definition newBadRequestHandler :: "(api_Error \<Rightarrow> string) \<Rightarrow> (go_error \<Rightarrow> string) \<Rightarrow> 'w writer_ops \<Rightarrow> request \<Rightarrow> go_error \<Rightarrow> 'w \<Rightarrow> 'w" where
  "newBadRequestHandler encode err_text ops r err w =
     send_problem encode ops
       (WriteResponse StatusBadRequest ErrorTypeINVALIDARGUMENT ''Bad Request'' (err_text err) (requestInstance (Some r))) w"

definition NewRequestErrorHandler :: "(api_Error \<Rightarrow> string) \<Rightarrow> (go_error \<Rightarrow> string) \<Rightarrow> 'w writer_ops \<Rightarrow> request \<Rightarrow> go_error \<Rightarrow> 'w \<Rightarrow> 'w" where
  "NewRequestErrorHandler = newBadRequestHandler"

definition NewResponseErrorHandler :: "(api_Error \<Rightarrow> string) \<Rightarrow> 'w writer_ops \<Rightarrow> request \<Rightarrow> go_error \<Rightarrow> 'w \<Rightarrow> 'w" where
  "NewResponseErrorHandler encode ops r err w = send_problem encode ops (internal_problem r) w"

section \<open>The middleware\<close>

definition recoveryMiddleware ::
  "(api_Error \<Rightarrow> string) \<Rightarrow> 'w statusRecordingResponseWriter handler \<Rightarrow> 'w handler" where
  "recoveryMiddleware encode handler ops r w =
     (case handler (srw_ops ops) r (srw_new w) of (p, logs, sw) \<Rightarrow>
        case p of
          None \<Rightarrow> (None, logs, srw_inner sw)
        | Some ErrAbortHandler \<Rightarrow> (Some ErrAbortHandler, logs, srw_inner sw)
        | Some PanicValue \<Rightarrow>
            if srw_wroteHeader sw then (None, logs @ [PanicLogged, HeadersAlreadySent], srw_inner sw)
            else (None, logs @ [PanicLogged], send_problem encode ops (internal_problem r) (srw_inner sw)))"

definition requestTimeoutMiddleware :: "int \<Rightarrow> int \<Rightarrow> 'w handler \<Rightarrow> 'w handler" where
  "requestTimeoutMiddleware timeout now handler ops r w =
     (if timeout \<le> 0 then handler ops r w
      else handler ops (r \<lparr>rq_Deadline := Some (case rq_Deadline r of
             None \<Rightarrow> now + timeout | Some d \<Rightarrow> min d (now + timeout))\<rparr>) w)"

definition requestLoggingMiddleware :: "'w statusRecordingResponseWriter handler \<Rightarrow> 'w handler" where
  "requestLoggingMiddleware handler ops r w =
     (case handler (srw_ops ops) r (srw_new w) of (p, logs, sw) \<Rightarrow>
        case p of
          None \<Rightarrow> (None, logs @ [RequestLogged (rq_Method r) (rq_Path r) (srw_statusCode sw)], srw_inner sw)
        | Some v \<Rightarrow> (Some v, logs, srw_inner sw))"

text \<open>The stack \<open>New\<close> builds: the first middleware registered is the outermost.\<close>

definition server_handler ::
  "(api_Error \<Rightarrow> string) \<Rightarrow> Config \<Rightarrow> int \<Rightarrow>
   net_writer statusRecordingResponseWriter statusRecordingResponseWriter handler \<Rightarrow> net_writer handler" where
  "server_handler encode cfg now handler =
     recoveryMiddleware encode (requestLoggingMiddleware
       (requestTimeoutMiddleware (srv_RequestTimeout (cfg_Server cfg)) now handler))"

section \<open>The server\<close>

definition readinessProbeTimeout :: int where "readinessProbeTimeout = 5 * second"
definition readinessProbeInterval :: int where "readinessProbeInterval = 50 * millisecond"
definition healthPath :: string where "healthPath = ''/api/v1alpha1/clusters/health''"

record Server =
  sv_cfg :: Config
  sv_readinessTimeout :: int
  sv_readinessInterval :: int
  sv_onReady :: bool

type_synonym ServerOption = "Server \<Rightarrow> Server"

definition WithReadinessTiming :: "int \<Rightarrow> int \<Rightarrow> ServerOption" where
  "WithReadinessTiming timeout interval s = s \<lparr>sv_readinessTimeout := timeout, sv_readinessInterval := interval\<rparr>"

definition server_New :: "Config \<Rightarrow> ServerOption list \<Rightarrow> Server" where
  "server_New cfg opts =
     fold (\<lambda>opt s. opt s) opts
       \<lparr>sv_cfg = cfg, sv_readinessTimeout = readinessProbeTimeout, sv_readinessInterval = readinessProbeInterval,
        sv_onReady = False\<rparr>"

definition WithOnReady :: "Server \<Rightarrow> Server" where
  "WithOnReady s = s \<lparr>sv_onReady := True\<rparr>"

text \<open>
  \<open>Run\<close>: about to probe, in the \<open>select\<close> of \<open>waitForReady\<close>, with the error a probing window
  ended in, in the \<open>select\<close> between two windows, about to call \<open>onReady\<close>, in the last
  \<open>select\<close>, shutting down, returned.
\<close>

datatype server_pc =
    Probing | ProbeSelect | WindowOver go_error | BetweenWindows | CallingOnReady | AwaitingEnd
  | ShuttingDown | Run_returned "go_error option"

text \<open>
  The environment: the context ends, the listener goroutine fails. The rest is what the calls of
  the loop answer and which timer fires.
\<close>

datatype server_event =
    ContextEnds | ServeFails go_error
  | ProbeInvalid go_error | ProbeAnswered | ProbeRefused | ProbeTick | DeadlineFired | SawContext
  | WindowEnds | IntervalPassed | OnReadyDone | OnReadyPanics | SawServeError
  | ShutdownDone | ShutdownFailed go_error

record server_run =
  sr_pc :: server_pc
  sr_ctxDone :: bool
  sr_serveErr :: "go_error option"
  sr_readyCalls :: nat

definition server_start :: "Server \<Rightarrow> server_run" where
  "server_start s =
     \<lparr>sr_pc = (if sv_onReady s then Probing else AwaitingEnd), sr_ctxDone = False, sr_serveErr = None, sr_readyCalls = 0\<rparr>"

inductive server_step :: "server_run \<Rightarrow> server_event \<Rightarrow> server_run \<Rightarrow> bool" where
  context_ends: "server_step s ContextEnds (s \<lparr>sr_ctxDone := True\<rparr>)"
| serve_fails: "sr_serveErr s = None \<Longrightarrow> server_step s (ServeFails e) (s \<lparr>sr_serveErr := Some e\<rparr>)"
| probe_invalid: "sr_pc s = Probing \<Longrightarrow> server_step s (ProbeInvalid e)
     (s \<lparr>sr_pc := WindowOver (WrapError [Lit ''creating readiness probe request''] e)\<rparr>)"
| probe_answered: "sr_pc s = Probing \<Longrightarrow> server_step s ProbeAnswered (s \<lparr>sr_pc := CallingOnReady\<rparr>)"
| probe_refused: "sr_pc s = Probing \<Longrightarrow> server_step s ProbeRefused (s \<lparr>sr_pc := ProbeSelect\<rparr>)"
| probe_context: "sr_pc s = ProbeSelect \<Longrightarrow> sr_ctxDone s \<Longrightarrow>
     server_step s SawContext (s \<lparr>sr_pc := WindowOver ContextCanceled\<rparr>)"
| probe_deadline: "sr_pc s = ProbeSelect \<Longrightarrow> server_step s DeadlineFired
     (s \<lparr>sr_pc := WindowOver (PlainError [Lit ''server readiness probe timed out''])\<rparr>)"
| probe_tick: "sr_pc s = ProbeSelect \<Longrightarrow> server_step s ProbeTick (s \<lparr>sr_pc := Probing\<rparr>)"
| give_up: "sr_pc s = WindowOver e \<Longrightarrow> sr_ctxDone s \<Longrightarrow> server_step s WindowEnds (s \<lparr>sr_pc := AwaitingEnd\<rparr>)"
| retry: "sr_pc s = WindowOver e \<Longrightarrow> \<not> sr_ctxDone s \<Longrightarrow> server_step s WindowEnds (s \<lparr>sr_pc := BetweenWindows\<rparr>)"
| pause_context: "sr_pc s = BetweenWindows \<Longrightarrow> sr_ctxDone s \<Longrightarrow> server_step s SawContext (s \<lparr>sr_pc := AwaitingEnd\<rparr>)"
| pause_over: "sr_pc s = BetweenWindows \<Longrightarrow> server_step s IntervalPassed (s \<lparr>sr_pc := Probing\<rparr>)"
| on_ready: "sr_pc s = CallingOnReady \<Longrightarrow> server_step s OnReadyDone
     (s \<lparr>sr_pc := AwaitingEnd, sr_readyCalls := Suc (sr_readyCalls s)\<rparr>)"
| on_ready_panics: "sr_pc s = CallingOnReady \<Longrightarrow> server_step s OnReadyPanics
     (s \<lparr>sr_pc := AwaitingEnd, sr_readyCalls := Suc (sr_readyCalls s)\<rparr>)"
| end_context: "sr_pc s = AwaitingEnd \<Longrightarrow> sr_ctxDone s \<Longrightarrow> server_step s SawContext (s \<lparr>sr_pc := ShuttingDown\<rparr>)"
| end_serve: "sr_pc s = AwaitingEnd \<Longrightarrow> sr_serveErr s = Some e \<Longrightarrow>
     server_step s SawServeError (s \<lparr>sr_pc := Run_returned (Some (WrapError [Lit ''serving on ''] e))\<rparr>)"
| shutdown_ok: "sr_pc s = ShuttingDown \<Longrightarrow> server_step s ShutdownDone (s \<lparr>sr_pc := Run_returned None\<rparr>)"
| shutdown_failed: "sr_pc s = ShuttingDown \<Longrightarrow>
     server_step s (ShutdownFailed e) (s \<lparr>sr_pc := Run_returned (Some (WrapError [Lit ''shutting down server''] e))\<rparr>)"

code_pred server_step .

inductive_cases server_stepE: "server_step s e s'"

inductive server_trace :: "server_run \<Rightarrow> server_event list \<Rightarrow> server_run \<Rightarrow> bool" for s0 where
  trace_start: "server_trace s0 [] s0"
| trace_step: "server_trace s0 es s \<Longrightarrow> server_step s e s' \<Longrightarrow> server_trace s0 (es @ [e]) s'"

section \<open>Lemmas: the middleware\<close>

text \<open>What a handler does to its writer, as a list of calls.\<close>

datatype writer_call = SetContentType string | WriteHeader int | Write string

fun do_call :: "'w writer_ops \<Rightarrow> writer_call \<Rightarrow> 'w \<Rightarrow> 'w" where
  "do_call ops (SetContentType v) w = wo_SetContentType ops v w"
| "do_call ops (WriteHeader code) w = wo_WriteHeader ops code w"
| "do_call ops (Write b) w = wo_Write ops b w"

definition do_calls :: "'w writer_ops \<Rightarrow> writer_call list \<Rightarrow> 'w \<Rightarrow> 'w" where
  "do_calls ops cs w = fold (do_call ops) cs w"

fun starts_response :: "writer_call \<Rightarrow> bool" where
  "starts_response (SetContentType v) \<longleftrightarrow> False"
| "starts_response _ \<longleftrightarrow> True"

definition started :: "writer_call list \<Rightarrow> bool" where
  "started cs \<longleftrightarrow> list_ex starts_response cs"

text \<open>The handler that makes these calls and then returns or panics.\<close>

definition scripted :: "writer_call list \<Rightarrow> panic option \<Rightarrow> 'w handler" where
  "scripted cs p ops r w = (p, [], do_calls ops cs w)"

text \<open>The status the recording writer ends with.\<close>

fun recorded :: "bool \<times> int \<Rightarrow> writer_call \<Rightarrow> bool \<times> int" where
  "recorded (wrote, code) (SetContentType v) = (wrote, code)"
| "recorded (wrote, code) (WriteHeader c) = (True, c)"
| "recorded (wrote, code) (Write b) = (True, if \<not> wrote then 200 else code)"

lemma do_calls_Cons [simp]: "do_calls ops (c # cs) w = do_calls ops cs (do_call ops c w)"
  and do_calls_Nil [simp]: "do_calls ops [] w = w"
  by (simp_all add: do_calls_def)

lemma srw_call:
  "srw_inner (do_call (srw_ops ops) c s) = do_call ops c (srw_inner s)"
  "(srw_wroteHeader (do_call (srw_ops ops) c s), srw_statusCode (do_call (srw_ops ops) c s)) =
     recorded (srw_wroteHeader s, srw_statusCode s) c"
  by (cases c; simp add: srw_ops_def)+

lemma srw_calls:
  "srw_inner (do_calls (srw_ops ops) cs s) = do_calls ops cs (srw_inner s)"
  "(srw_wroteHeader (do_calls (srw_ops ops) cs s), srw_statusCode (do_calls (srw_ops ops) cs s)) =
     foldl recorded (srw_wroteHeader s, srw_statusCode s) cs"
  by (induction cs arbitrary: s) (simp_all add: srw_call)

lemma recorded_started: "fst (foldl recorded (b, n) cs) \<longleftrightarrow> b \<or> started cs"
proof (induction cs arbitrary: b n)
  case Nil
  then show ?case by (simp add: started_def)
next
  case (Cons c cs)
  then show ?case by (cases c) (auto simp: started_def)
qed

lemma srw_calls_wrote: "srw_wroteHeader (do_calls (srw_ops ops) cs (srw_new w)) \<longleftrightarrow> started cs"
  using arg_cong [OF srw_calls(2) [of ops cs "srw_new w"], of fst] by (simp add: srw_new_def recorded_started)

lemma net_unstarted:
  "\<not> started cs \<Longrightarrow> nw_status w = None \<Longrightarrow>
   nw_status (do_calls net_ops cs w) = None \<and> nw_body (do_calls net_ops cs w) = nw_body w"
proof (induction cs arbitrary: w)
  case Nil
  then show ?case by simp
next
  case (Cons c cs)
  then show ?case by (cases c) (simp_all add: started_def net_ops_def)
qed

lemma send_problem_net:
  assumes "nw_status w = None" and "nw_body w = ''''" and "200 \<le> he_Status e"
  shows "send_problem encode net_ops e w =
    \<lparr>nw_status = Some (he_Status e), nw_contentType = he_ContentType e, nw_body = encode (he_Body e)\<rparr>"
  using assms by (cases w) (simp add: send_problem_def net_ops_def)

lemma stack_result:
  "server_handler encode cfg now (scripted cs p) ops r w =
     (case p of
        None \<Rightarrow> (None, [RequestLogged (rq_Method r) (rq_Path r) (snd (foldl recorded (False, 200) cs))], do_calls ops cs w)
      | Some ErrAbortHandler \<Rightarrow> (Some ErrAbortHandler, [], do_calls ops cs w)
      | Some PanicValue \<Rightarrow>
          if started cs then (None, [PanicLogged, HeadersAlreadySent], do_calls ops cs w)
          else (None, [PanicLogged], send_problem encode ops (internal_problem r) (do_calls ops cs w)))"
proof -
  let ?o = "srw_ops ops" and ?w = "srw_new w"
  have inner: "srw_inner (do_calls (srw_ops ?o) cs (srw_new ?w)) = do_calls ?o cs ?w" "srw_inner (do_calls ?o cs ?w) = do_calls ops cs w"
    by (simp_all add: srw_calls(1)) (simp_all add: srw_new_def)
  have code: "srw_statusCode (do_calls (srw_ops ?o) cs (srw_new ?w)) = snd (foldl recorded (False, 200) cs)"
    using arg_cong [OF srw_calls(2) [of ?o cs "srw_new ?w"], of snd] by (simp add: srw_new_def)
  have timeout: "requestTimeoutMiddleware t now (scripted cs p) = (scripted cs p :: 'b handler)" for t
    by (simp add: fun_eq_iff requestTimeoutMiddleware_def scripted_def)
  have logging: "requestLoggingMiddleware (scripted cs p) ?o r ?w =
      (p, case p of None \<Rightarrow> [RequestLogged (rq_Method r) (rq_Path r) (snd (foldl recorded (False, 200) cs))] | Some v \<Rightarrow> [],
       do_calls ?o cs ?w)"
    by (simp add: requestLoggingMiddleware_def scripted_def inner code split: option.split)
  show ?thesis
    by (simp add: server_handler_def recoveryMiddleware_def timeout logging inner srw_calls_wrote
        split: option.split panic.split)
qed

section \<open>Lemmas: the server\<close>

definition server_inv :: "server_event list \<Rightarrow> server_run \<Rightarrow> bool" where
  "server_inv es s \<longleftrightarrow>
     (sr_readyCalls s = 0 \<or> sr_readyCalls s = 1 \<and>
        sr_pc s \<notin> {Probing, ProbeSelect, BetweenWindows, CallingOnReady} \<union> range WindowOver) \<and>
     (0 < sr_readyCalls s \<or> sr_pc s = CallingOnReady \<longrightarrow> ProbeAnswered \<in> set es) \<and>
     (sr_ctxDone s \<longrightarrow> ContextEnds \<in> set es) \<and>
     (sr_pc s = ShuttingDown \<or> sr_pc s = Run_returned None \<longrightarrow> sr_ctxDone s)"

lemma server_step_inv: "server_step s e s' \<Longrightarrow> server_inv es s \<Longrightarrow> server_inv (es @ [e]) s'"
  by (erule server_step.cases) (auto simp: server_inv_def)

lemma server_trace_inv: "server_trace (server_start sv) es s \<Longrightarrow> server_inv es s"
proof (induction rule: server_trace.induct)
  case trace_start
  then show ?case by (simp add: server_inv_def server_start_def)
next
  case trace_step
  then show ?case by (blast intro: server_step_inv)
qed

fun waiting_ready :: "server_pc \<Rightarrow> bool" where
  "waiting_ready Probing = True"
| "waiting_ready ProbeSelect = True"
| "waiting_ready (WindowOver e) = True"
| "waiting_ready BetweenWindows = True"
| "waiting_ready _ = False"

lemma server_step_waiting:
  "server_step s e s' \<Longrightarrow> waiting_ready (sr_pc s) \<Longrightarrow> \<not> sr_ctxDone s \<Longrightarrow> e \<noteq> ProbeAnswered \<Longrightarrow> e \<noteq> ContextEnds \<Longrightarrow>
   waiting_ready (sr_pc s') \<and> \<not> sr_ctxDone s'"
  by (erule server_step.cases) auto

section \<open>Properties\<close>

text \<open>
  C32. Every request is answered whatever its handler does. A handler that panics before it has
  answered gives the client a 500 problem response with no detail of the panic; one that panics
  later, or does not panic, leaves exactly what it wrote; only \<open>http.ErrAbortHandler\<close> goes
  through. A request that did not panic is logged once; a panicking one is never logged as a
  request.
\<close>

theorem every_request_answered:
  shows "case server_handler encode cfg now (scripted cs p) net_ops r net_fresh of (q, logs, w) \<Rightarrow>
    q = (if p = Some ErrAbortHandler then Some ErrAbortHandler else None) \<and>
    w = (if p = Some PanicValue \<and> \<not> started cs
         then \<lparr>nw_status = Some 500, nw_contentType = ''application/problem+json'',
               nw_body = encode \<lparr>err_Detail = Some ''an unexpected error occurred'', err_Instance = Some (rq_URI r),
                 err_Status = Some 500, err_Title = ''Internal Server Error'', err_Type = ErrorTypeINTERNAL\<rparr>\<rparr>
         else do_calls net_ops cs net_fresh) \<and>
    filter (\<lambda>l. case l of RequestLogged m u c \<Rightarrow> True | _ \<Rightarrow> False) logs =
      (if p = None then [RequestLogged (rq_Method r) (rq_Path r) (snd (foldl recorded (False, 200) cs))] else [])"
proof -
  have "send_problem encode net_ops (internal_problem r) (do_calls net_ops cs net_fresh) =
      \<lparr>nw_status = Some 500, nw_contentType = ''application/problem+json'',
       nw_body = encode \<lparr>err_Detail = Some ''an unexpected error occurred'', err_Instance = Some (rq_URI r),
         err_Status = Some 500, err_Title = ''Internal Server Error'', err_Type = ErrorTypeINTERNAL\<rparr>\<rparr>" if "\<not> started cs"
    using net_unstarted [OF that, of net_fresh]
    by (subst send_problem_net)
      (simp_all add: net_fresh_def internal_problem_def WriteResponse_def InternalDetail_def InternalTitle_def wrap32_def)
  then show ?thesis unfolding stack_result by (auto split: option.split panic.split)
qed

text \<open>
  The registration callback runs at most once, and only after the server has answered a
  request to its own health endpoint; and \<open>Run\<close> returns without an error only after the context
  has ended and the server was shut down.
\<close>

lemma ready_at_most_once:
  assumes "server_trace (server_start sv) es s"
  shows "sr_readyCalls s \<le> 1 \<and> (sr_readyCalls s = 1 \<longrightarrow> ProbeAnswered \<in> set es) \<and>
    (sr_pc s = Run_returned None \<longrightarrow> ContextEnds \<in> set es)"
  using server_trace_inv [OF assms] by (auto simp: server_inv_def)

theorem ready_at_most_once_witness:
  "sr_readyCalls ((server_start (WithOnReady (server_New default_settings []))) \<lparr>sr_pc := AwaitingEnd, sr_readyCalls := Suc 0\<rparr>) \<le> 1 \<and>
   ProbeAnswered \<in> set [ProbeAnswered, OnReadyDone]"
proof -
  let ?s = "server_start (WithOnReady (server_New default_settings []))"
  have p: "sr_pc ?s = Probing" "sr_readyCalls ?s = 0" by (simp_all add: server_start_def WithOnReady_def)
  have "server_trace ?s ([] @ [ProbeAnswered]) (?s \<lparr>sr_pc := CallingOnReady\<rparr>)"
    by (rule trace_step [OF trace_start]) (rule probe_answered, rule p)
  then have "server_trace ?s ([ProbeAnswered] @ [OnReadyDone])
      (?s \<lparr>sr_pc := CallingOnReady, sr_pc := AwaitingEnd, sr_readyCalls := Suc (sr_readyCalls (?s \<lparr>sr_pc := CallingOnReady\<rparr>))\<rparr>)"
    by (intro trace_step) (simp, rule on_ready, simp)
  from ready_at_most_once [OF this] show ?thesis by (simp add: p)
qed

text \<open>
  C33. A server that fails to serve while it waits for readiness is not noticed: as long as no
  probe is answered and the context does not end, \<open>Run\<close> goes on probing and does not return, even
  when the listener has already failed.
\<close>

theorem serve_error_unnoticed_while_probing:
  assumes "server_trace s0 es s" and "waiting_ready (sr_pc s0)" and "\<not> sr_ctxDone s0"
    and "ProbeAnswered \<notin> set es" and "ContextEnds \<notin> set es"
  shows "waiting_ready (sr_pc s)"
proof -
  from assms have "waiting_ready (sr_pc s) \<and> \<not> sr_ctxDone s"
  proof (induction rule: server_trace.induct)
    case (trace_step es s e s')
    then show ?case by (auto dest: server_step_waiting)
  qed simp
  then show ?thesis by simp
qed

theorem serve_error_unnoticed_while_probing_witness:
  "waiting_ready (sr_pc ((server_start (WithOnReady (server_New default_settings []))) \<lparr>sr_serveErr := Some ContextCanceled\<rparr>))"
proof (rule serve_error_unnoticed_while_probing)
  let ?s = "server_start (WithOnReady (server_New default_settings []))"
  show "server_trace ?s ([] @ [ServeFails ContextCanceled]) (?s \<lparr>sr_serveErr := Some ContextCanceled\<rparr>)"
    by (rule trace_step [OF trace_start]) (rule serve_fails, simp add: server_start_def)
  show "waiting_ready (sr_pc ?s)" "\<not> sr_ctxDone ?s" by (simp_all add: server_start_def WithOnReady_def)
qed simp_all

end
