(* ===== verification/Osac_Bootstrap.thy ===== *)
theory Osac_Bootstrap
  imports Config Go_Strings Osac_Types
begin

text \<open>
  \<open>internal/osac/bootstrap.go\<close>: the connection to OSAC. The OIDC token endpoint is discovered
  once; the refresh loop keeps a token cached; the cached token is what a call carries and what
  the health check reports.

  HTTP, JSON and the OAuth library are the record \<open>OidcClient\<close>: whether a URL makes a request,
  the status and body a request is answered with, the \<open>token_endpoint\<close> of a discovery document,
  and \<open>Token()\<close> of the client-credentials source for a token endpoint. The file system, the
  certificate parser and the gRPC dialer are arguments. The refresh loop is a step relation: what the environment does to the loop is an
  event, and between two events the loop runs to its next call.
\<close>

record Token =
  tok_AccessToken :: string
  tok_Expiry :: int

record 'w OidcClient =
  oidc_newRequest :: "string \<Rightarrow> unit res"
  oidc_do :: "string \<Rightarrow> ('w, int \<times> string) call"
  oidc_decode :: "string \<Rightarrow> string res"
  oidc_grant :: "string \<Rightarrow> ('w, Token) call"

section \<open>Discovery\<close>

definition oidcDiscoveryTimeout :: int where
  "oidcDiscoveryTimeout = 10 * second"

definition oidcWellKnownEndpoints :: "string list" where
  "oidcWellKnownEndpoints = [''oauth-authorization-server'', ''openid-configuration'']"

definition StatusOK :: int where [simp]: "StatusOK = 200"

definition fetchWellKnownTokenEndpoint ::
  "'w OidcClient \<Rightarrow> string \<Rightarrow> string \<Rightarrow> ('w, string) call" where
  "fetchWellKnownTokenEndpoint oc issuerURL wellKnown w =
     (let discoveryURL = issuerURL @ ''/.well-known/'' @ wellKnown in
      case oidc_newRequest oc discoveryURL of
        Inl err \<Rightarrow> (Inl (WrapError [Lit ''building discovery request for '', Lit discoveryURL] err), w)
      | Inr _ \<Rightarrow>
     (case oidc_do oc discoveryURL w of
        (Inl err, w1) \<Rightarrow>
          (Inl (WrapError [Lit ''fetching discovery document from '', Lit discoveryURL] err), w1)
      | (Inr (statusCode, body), w1) \<Rightarrow>
          if statusCode \<noteq> StatusOK then
            (Inl (PlainError [Lit ''discovery document at '', Lit discoveryURL,
               Lit '' returned status '', Num statusCode]), w1)
          else
            (case oidc_decode oc body of
               Inl err \<Rightarrow>
                 (Inl (WrapError [Lit ''decoding discovery document from '', Lit discoveryURL] err), w1)
             | Inr tokenEndpoint \<Rightarrow>
                 if tokenEndpoint = '''' then
                   (Inl (PlainError [Lit ''discovery document at '', Lit discoveryURL,
                      Lit '' has no token_endpoint'']), w1)
                 else (Inr tokenEndpoint, w1))))"

text \<open>The loop over the well-known documents, collecting the errors.\<close>

fun tryEndpoints ::
  "(string \<Rightarrow> ('w, string) call) \<Rightarrow> string list \<Rightarrow> go_error list \<Rightarrow> 'w \<Rightarrow> (go_error list + string) \<times> 'w" where
  "tryEndpoints fetch [] errs w = (Inl errs, w)"
| "tryEndpoints fetch (wellKnown # rest) errs w =
     (case fetch wellKnown w of
        (Inr tokenEndpoint, w1) \<Rightarrow> (Inr tokenEndpoint, w1)
      | (Inl err, w1) \<Rightarrow> tryEndpoints fetch rest (errs @ [err]) w1)"

definition discoverTokenEndpoint ::
  "'w OidcClient \<Rightarrow> string \<Rightarrow> ('w, string) call" where
  "discoverTokenEndpoint oc issuer w =
     (let issuerURL = TrimSuffix issuer ''/'' in
      case tryEndpoints (fetchWellKnownTokenEndpoint oc issuerURL) oidcWellKnownEndpoints [] w of
        (Inr tokenEndpoint, w1) \<Rightarrow> (Inr tokenEndpoint, w1)
      | (Inl errs, w1) \<Rightarrow>
          (Inl (WrapError [Lit ''discovering OIDC/OAuth token endpoint for issuer '', Lit issuerURL,
             Lit '' (tried ['', Lit (Join oidcWellKnownEndpoints '' ''), Lit ''])'']
             (JoinError errs)), w1))"

text \<open>The token source: \<open>dts_inner\<close> is the token endpoint of the delegate, once there is one.\<close>

record discoveringTokenSource =
  dts_issuerURL :: string
  dts_inner :: "string option"

definition DiscoveringToken ::
  "'w OidcClient \<Rightarrow>
   discoveringTokenSource \<Rightarrow> 'w \<Rightarrow> Token res \<times> discoveringTokenSource \<times> 'w" where
  "DiscoveringToken oc d w =
     (case dts_inner d of
        Some tokenURL \<Rightarrow> (case oidc_grant oc tokenURL w of (r, w1) \<Rightarrow> (r, d, w1))
      | None \<Rightarrow>
          (case discoverTokenEndpoint oc (dts_issuerURL d) w of
             (Inl err, w1) \<Rightarrow>
               (Inl (WrapError [Lit ''discovering OIDC token endpoint for issuer '', Lit (dts_issuerURL d)] err), d, w1)
           | (Inr tokenURL, w1) \<Rightarrow>
               (case oidc_grant oc tokenURL w1 of (r, w2) \<Rightarrow> (r, d \<lparr>dts_inner := Some tokenURL\<rparr>, w2))))"

section \<open>The cached token\<close>

definition refreshMargin :: int where
  "refreshMargin = 30 * second"

record Bootstrap =
  bs_initialBackoff :: int
  bs_maxBackoff :: int
  bs_token :: string
  bs_expiresAt :: int
  bs_haveToken :: bool

type_synonym BootstrapOption = "Bootstrap \<Rightarrow> Bootstrap"

definition WithInitialBackoff :: "int \<Rightarrow> BootstrapOption" where
  "WithInitialBackoff d b = b \<lparr>bs_initialBackoff := d\<rparr>"

definition WithMaxBackoff :: "int \<Rightarrow> BootstrapOption" where
  "WithMaxBackoff d b = b \<lparr>bs_maxBackoff := d\<rparr>"

definition newBootstrap :: "BootstrapOption list \<Rightarrow> Bootstrap" where
  "newBootstrap opts = fold (\<lambda>opt b. opt b) opts
     \<lparr>bs_initialBackoff = 1 * second, bs_maxBackoff = 60 * second, bs_token = '''',
      bs_expiresAt = zeroTime, bs_haveToken = False\<rparr>"

definition setToken :: "string \<Rightarrow> int \<Rightarrow> Bootstrap \<Rightarrow> Bootstrap" where
  "setToken token expiresAt b =
     b \<lparr>bs_token := token, bs_expiresAt := expiresAt, bs_haveToken := True\<rparr>"

record TokenStatus =
  ts_Valid :: bool
  ts_ExpiresAt :: int

definition Bootstrap_TokenStatus :: "int \<Rightarrow> Bootstrap \<Rightarrow> TokenStatus" where
  "Bootstrap_TokenStatus now b =
     (if \<not> bs_haveToken b then \<lparr>ts_Valid = False, ts_ExpiresAt = zeroTime\<rparr>
      else \<lparr>ts_Valid = (now < bs_expiresAt b), ts_ExpiresAt = bs_expiresAt b\<rparr>)"

definition GetRequestMetadata :: "Bootstrap \<Rightarrow> (string \<rightharpoonup> string)" where
  "GetRequestMetadata b =
     (if \<not> bs_haveToken b then Map.empty else [''authorization'' \<mapsto> ''Bearer '' @ bs_token b])"

definition RequireTransportSecurity :: bool where
  "RequireTransportSecurity = True"

record ProbeResult =
  pr_Connected :: bool
  pr_Err :: "go_error option"

text \<open>\<open>cap_get\<close> is \<open>capClient.Get\<close> under the probe's time limit.\<close>

definition Probe :: "(int \<Rightarrow> ('w, 'r) call) \<Rightarrow> OSACConfig \<Rightarrow> 'w \<Rightarrow> ProbeResult \<times> 'w" where
  "Probe cap_get cfg w =
     (case cap_get (oc_ProbeTimeout cfg) w of
        (Inl err, w1) \<Rightarrow> (\<lparr>pr_Connected = False, pr_Err = Some err\<rparr>, w1)
      | (Inr _, w1) \<Rightarrow> (\<lparr>pr_Connected = True, pr_Err = None\<rparr>, w1))"

section \<open>Transport\<close>

text \<open>
  \<open>RootCAs\<close> is nil (the system roots) or a pool, here the list of its certificates;
  \<open>pem_certs\<close> are the certificates \<open>AppendCertsFromPEM\<close> finds in a file, none when it fails.
\<close>

record 'cert tls_Config =
  tls_MinVersion :: int
  tls_RootCAs :: "'cert list option"

definition VersionTLS12 :: int where
  "VersionTLS12 = 771"

definition loadCACertPool ::
  "(string \<Rightarrow> string res) \<Rightarrow> (string \<Rightarrow> 'cert list) \<Rightarrow> string \<Rightarrow> 'cert list res" where
  "loadCACertPool readFile pem_certs certFile =
     (case readFile certFile of
        Inl err \<Rightarrow> Inl (WrapError [Lit ''reading TLS CA file '', Lit certFile] err)
      | Inr pem \<Rightarrow>
          if pem_certs pem = [] then Inl (PlainError [Lit ''no certificates found in '', Lit certFile])
          else Inr (pem_certs pem))"

definition transportCredentials ::
  "(string \<Rightarrow> string res) \<Rightarrow> (string \<Rightarrow> 'cert list) \<Rightarrow> OSACConfig \<Rightarrow> 'cert tls_Config res" where
  "transportCredentials readFile pem_certs cfg =
     (if oc_TLSCertFile cfg \<noteq> '''' then
        (case loadCACertPool readFile pem_certs (oc_TLSCertFile cfg) of
           Inl err \<Rightarrow> Inl err
         | Inr pool \<Rightarrow> Inr \<lparr>tls_MinVersion = VersionTLS12, tls_RootCAs = Some pool\<rparr>)
      else Inr \<lparr>tls_MinVersion = VersionTLS12, tls_RootCAs = None\<rparr>)"

text \<open>
  \<open>dialOptions\<close> adds the bearer credentials to the transport ones; \<open>newClient\<close> is
  \<open>grpc.NewClient\<close>.
\<close>

record 'cert DialOptions =
  do_transport :: "'cert tls_Config"
  do_perRPC_secure :: bool

definition dialOptions ::
  "(string \<Rightarrow> string res) \<Rightarrow> (string \<Rightarrow> 'cert list) \<Rightarrow> OSACConfig \<Rightarrow> 'cert DialOptions res" where
  "dialOptions readFile pem_certs cfg =
     (case transportCredentials readFile pem_certs cfg of
        Inl err \<Rightarrow> Inl err
      | Inr creds \<Rightarrow> Inr \<lparr>do_transport = creds, do_perRPC_secure = RequireTransportSecurity\<rparr>)"

definition Bootstrap_New ::
  "(string \<Rightarrow> string res) \<Rightarrow> (string \<Rightarrow> 'cert list) \<Rightarrow> (string \<Rightarrow> 'cert DialOptions \<Rightarrow> 'conn res) \<Rightarrow>
   OSACConfig \<Rightarrow> BootstrapOption list \<Rightarrow> (Bootstrap \<times> discoveringTokenSource \<times> 'conn) res" where
  "Bootstrap_New readFile pem_certs newClient cfg opts =
     (let ts = \<lparr>dts_issuerURL = oc_OIDCIssuerURL cfg, dts_inner = None\<rparr>; b = newBootstrap opts in
      case dialOptions readFile pem_certs cfg of
        Inl err \<Rightarrow> Inl (WrapError [Lit ''building gRPC dial options''] err)
      | Inr dialOpts \<Rightarrow>
          (case newClient (oc_FulfillmentAddress cfg) dialOpts of
             Inl err \<Rightarrow> Inl (WrapError [Lit ''creating gRPC client for '', Lit (oc_FulfillmentAddress cfg)] err)
           | Inr conn \<Rightarrow> Inr (b, ts, conn)))"

section \<open>The refresh loop\<close>

definition bootstrap_next_backoff :: "int \<Rightarrow> int \<Rightarrow> int" where
  "bootstrap_next_backoff maxBackoff backoff =
     (let b = wrap64 (backoff * 2) in if b > maxBackoff then maxBackoff else b)"

text \<open>How long to sleep after a token: until a margin before it expires, never negative.\<close>

definition refresh_wait :: "int \<Rightarrow> int \<Rightarrow> int" where
  "refresh_wait now expiry =
     (let wait = wrap64 (time_Sub expiry now - refreshMargin) in if wait < 0 then 0 else wait)"

text \<open>
  Where the loop is: in \<open>Token()\<close>, asleep after a failure, asleep after a success, or returned.
\<close>

datatype refresh_pc = Fetching | RetrySleep int | RenewSleep int | Returned

record refresh_state =
  rl_boot :: Bootstrap
  rl_backoff :: int
  rl_pc :: refresh_pc

text \<open>
  The events: \<open>Token()\<close> returned at a time, a timer fired, the context ended.
\<close>

datatype refresh_event = Fetched int "Token res" | TimerFired | ContextDone

definition refresh_start :: "Bootstrap \<Rightarrow> refresh_state" where
  "refresh_start b = \<lparr>rl_boot = b, rl_backoff = bs_initialBackoff b, rl_pc = Fetching\<rparr>"

inductive refresh_step :: "refresh_state \<Rightarrow> refresh_event \<Rightarrow> refresh_state \<Rightarrow> bool" where
  fetch_failed: "rl_pc s = Fetching \<Longrightarrow>
     refresh_step s (Fetched now (Inl err)) (s \<lparr>rl_pc := RetrySleep (rl_backoff s)\<rparr>)"
| fetch_ok: "rl_pc s = Fetching \<Longrightarrow>
     refresh_step s (Fetched now (Inr tok))
       (s \<lparr>rl_boot := setToken (tok_AccessToken tok) (tok_Expiry tok) (rl_boot s),
          rl_backoff := bs_initialBackoff (rl_boot s),
          rl_pc := RenewSleep (refresh_wait now (tok_Expiry tok))\<rparr>)"
| retry_wake: "rl_pc s = RetrySleep d \<Longrightarrow>
     refresh_step s TimerFired
       (s \<lparr>rl_backoff := bootstrap_next_backoff (bs_maxBackoff (rl_boot s)) (rl_backoff s), rl_pc := Fetching\<rparr>)"
| renew_wake: "rl_pc s = RenewSleep d \<Longrightarrow> refresh_step s TimerFired (s \<lparr>rl_pc := Fetching\<rparr>)"
| retry_done: "rl_pc s = RetrySleep d \<Longrightarrow> refresh_step s ContextDone (s \<lparr>rl_pc := Returned\<rparr>)"
| renew_done: "rl_pc s = RenewSleep d \<Longrightarrow> refresh_step s ContextDone (s \<lparr>rl_pc := Returned\<rparr>)"

code_pred refresh_step .

inductive_cases refresh_stepE: "refresh_step s e s'"
inductive_cases fetchedE: "refresh_step s (Fetched now r) s'"
inductive_simps refresh_returned: "refresh_step s e s'"

inductive refresh_run :: "Bootstrap \<Rightarrow> refresh_event list \<Rightarrow> refresh_state \<Rightarrow> bool" for b where
  run_start: "refresh_run b [] (refresh_start b)"
| run_step: "refresh_run b es s \<Longrightarrow> refresh_step s e s' \<Longrightarrow> refresh_run b (es @ [e]) s'"

section \<open>Lemmas: the loop\<close>

lemma bootstrap_doubling: "cap < 2 ^ 62 \<Longrightarrow> doubling (bootstrap_next_backoff cap) cap"
  using wrapped_doubling [of cap] by (simp add: bootstrap_next_backoff_def [abs_def] Let_def)

interpretation bootstrap_backoff: doubling "bootstrap_next_backoff (bs_maxBackoff (newBootstrap []))"
  "bs_maxBackoff (newBootstrap [])"
  by (rule bootstrap_doubling) (simp add: newBootstrap_def second_def)

text \<open>The token of the last successful fetch.\<close>

fun granted :: "refresh_event \<Rightarrow> Token option" where
  "granted (Fetched now (Inr tok)) = Some tok"
| "granted _ = None"

definition last_grant :: "refresh_event list \<Rightarrow> Token option" where
  "last_grant es = foldl (\<lambda>acc e. case granted e of None \<Rightarrow> acc | Some t \<Rightarrow> Some t) None es"

lemma last_grant_snoc: "last_grant (es @ [e]) = (case granted e of None \<Rightarrow> last_grant es | Some t \<Rightarrow> Some t)"
  by (simp add: last_grant_def split: option.split)

lemma setToken_sel [simp]:
  "bs_token (setToken t x b) = t" "bs_expiresAt (setToken t x b) = x" "bs_haveToken (setToken t x b)"
  "bs_initialBackoff (setToken t x b) = bs_initialBackoff b" "bs_maxBackoff (setToken t x b) = bs_maxBackoff b"
  by (simp_all add: setToken_def)

definition cached :: "Bootstrap \<Rightarrow> Token option" where
  "cached b = (if bs_haveToken b then Some \<lparr>tok_AccessToken = bs_token b, tok_Expiry = bs_expiresAt b\<rparr> else None)"

lemma refresh_step_cached:
  "refresh_step s e s' \<Longrightarrow> cached (rl_boot s') = (case granted e of None \<Rightarrow> cached (rl_boot s) | Some t \<Rightarrow> Some t)"
  by (erule refresh_step.cases) (auto simp: cached_def)

lemma refresh_run_cached:
  "refresh_run b es s \<Longrightarrow> \<not> bs_haveToken b \<Longrightarrow> cached (rl_boot s) = last_grant es"
proof (induction rule: refresh_run.induct)
  case run_start
  then show ?case by (simp add: refresh_start_def cached_def last_grant_def)
next
  case (run_step es s e s')
  then show ?case using refresh_step_cached [OF run_step.hyps(2)] by (simp add: last_grant_snoc split: option.split)
qed

lemma refresh_run_settings:
  "refresh_run b es s \<Longrightarrow> bs_initialBackoff (rl_boot s) = bs_initialBackoff b \<and> bs_maxBackoff (rl_boot s) = bs_maxBackoff b"
  by (induction rule: refresh_run.induct) (auto simp: refresh_start_def elim!: refresh_step.cases)

lemma refresh_run_backoff:
  assumes "refresh_run b es s" and "0 < bs_initialBackoff b" "bs_initialBackoff b \<le> bs_maxBackoff b" "bs_maxBackoff b < 2 ^ 62"
  shows "bs_initialBackoff b \<le> rl_backoff s \<and> rl_backoff s \<le> bs_maxBackoff b \<and>
    (\<forall>d. rl_pc s = RetrySleep d \<longrightarrow> d = rl_backoff s) \<and> (\<forall>d. rl_pc s = RenewSleep d \<longrightarrow> 0 \<le> d)"
  using assms(1)
proof induction
  case run_start
  then show ?case using assms by (simp add: refresh_start_def)
next
  case (run_step es s e s')
  note set = refresh_run_settings [OF run_step.hyps(1)]
  from run_step(2) show ?case
  proof cases
    case (retry_wake d)
    from doubling.next_bounds [OF bootstrap_doubling [OF assms(4)], of "rl_backoff s"] run_step.IH assms set
    show ?thesis by (simp add: retry_wake)
  qed (use run_step.IH set assms in \<open>auto simp: refresh_wait_def Let_def\<close>)
qed

definition failures :: "(int \<times> go_error) list \<Rightarrow> refresh_event list" where
  "failures fs = concat (map (\<lambda>(now, e). [Fetched now (Inl e), TimerFired]) fs)"

lemma refresh_run_snocE:
  assumes "refresh_run b (es @ [e]) s'"
  obtains s where "refresh_run b es s" "refresh_step s e s'"
  using assms by cases auto

lemma failures_snoc: "failures (fs @ [(now, e)]) = (failures fs @ [Fetched now (Inl e)]) @ [TimerFired]"
  by (simp add: failures_def)

lemma refresh_failures:
  assumes "refresh_run b (failures fs) s"
  shows "rl_pc s = Fetching \<and> rl_backoff s = (bootstrap_next_backoff (bs_maxBackoff b) ^^ length fs) (bs_initialBackoff b)"
  using assms
proof (induction fs arbitrary: s rule: rev_induct)
  case Nil
  then show ?case by (cases) (auto simp: failures_def refresh_start_def)
next
  case (snoc f fs)
  obtain now e where f: "f = (now, e)" by force
  from snoc.prems obtain s2 where s2: "refresh_run b (failures fs @ [Fetched now (Inl e)]) s2" "refresh_step s2 TimerFired s"
    unfolding f failures_snoc by (rule refresh_run_snocE)
  from s2(1) obtain s1 where s1: "refresh_run b (failures fs) s1" "refresh_step s1 (Fetched now (Inl e)) s2"
    by (rule refresh_run_snocE)
  note ih = snoc.IH [OF s1(1)] and set = refresh_run_settings [OF s1(1)]
  from s1(2) have "s2 = s1 \<lparr>rl_pc := RetrySleep (rl_backoff s1)\<rparr>" by (auto elim: refresh_step.cases)
  with s2(2) ih set show ?case by (auto elim!: refresh_step.cases)
qed

section \<open>Properties\<close>

text \<open>
  C18. Whatever happens to the refresh loop, once a token has been granted the provider always
  has one: the cached token is the last one granted, calls carry exactly that token as their
  bearer credential and carry none before, and the reported validity is whether it has expired.
  A failed fetch never discards a token.
\<close>

theorem cached_token_is_last_grant:
  assumes "refresh_run b es s" and "\<not> bs_haveToken b"
  shows "case last_grant es of
      None \<Rightarrow> GetRequestMetadata (rl_boot s) = Map.empty \<and> \<not> ts_Valid (Bootstrap_TokenStatus now (rl_boot s))
    | Some tok \<Rightarrow> GetRequestMetadata (rl_boot s) = [''authorization'' \<mapsto> ''Bearer '' @ tok_AccessToken tok] \<and>
        Bootstrap_TokenStatus now (rl_boot s) = \<lparr>ts_Valid = (now < tok_Expiry tok), ts_ExpiresAt = tok_Expiry tok\<rparr>"
  using refresh_run_cached [OF assms, symmetric]
  by (cases "bs_haveToken (rl_boot s)") (simp_all add: cached_def GetRequestMetadata_def Bootstrap_TokenStatus_def)

lemma example_refresh_run:
  "refresh_run (newBootstrap []) [Fetched 0 (Inr \<lparr>tok_AccessToken = ''t'', tok_Expiry = 300 * second\<rparr>), TimerFired,
     Fetched (270 * second) (Inl (PlainError []))]
   \<lparr>rl_boot = setToken ''t'' (300 * second) (newBootstrap []), rl_backoff = second, rl_pc = RetrySleep second\<rparr>"
proof -
  let ?b = "newBootstrap []" and ?tok = "\<lparr>tok_AccessToken = ''t'', tok_Expiry = 300 * second\<rparr>"
  let ?s1 = "(refresh_start ?b) \<lparr>rl_boot := setToken ''t'' (300 * second) ?b, rl_backoff := bs_initialBackoff ?b,
    rl_pc := RenewSleep (refresh_wait 0 (300 * second))\<rparr>"
  have "refresh_run ?b ([] @ [Fetched 0 (Inr ?tok)]) ?s1"
    using fetch_ok [of "refresh_start ?b" 0 ?tok] by (intro run_step [OF run_start]) (simp add: refresh_start_def)
  then have "refresh_run ?b ([Fetched 0 (Inr ?tok)] @ [TimerFired]) (?s1 \<lparr>rl_pc := Fetching\<rparr>)"
    by (intro run_step [OF _ renew_wake]) simp_all
  then have "refresh_run ?b ([Fetched 0 (Inr ?tok), TimerFired] @ [Fetched (270 * second) (Inl (PlainError []))])
      (?s1 \<lparr>rl_pc := Fetching, rl_pc := RetrySleep (bs_initialBackoff ?b)\<rparr>)"
    using fetch_failed [of "?s1 \<lparr>rl_pc := Fetching\<rparr>"] by (intro run_step) simp_all
  then show ?thesis by (simp add: refresh_start_def newBootstrap_def)
qed

theorem cached_token_is_last_grant_witness:
  "GetRequestMetadata (setToken ''t'' (300 * second) (newBootstrap [])) = [''authorization'' \<mapsto> ''Bearer '' @ ''t''] \<and>
   Bootstrap_TokenStatus 5 (setToken ''t'' (300 * second) (newBootstrap [])) =
     \<lparr>ts_Valid = (5 < 300 * second), ts_ExpiresAt = 300 * second\<rparr>"
proof -
  have "\<not> bs_haveToken (newBootstrap [])" by (simp add: newBootstrap_def)
  from cached_token_is_last_grant [OF example_refresh_run this, of 5] show ?thesis
    by (simp add: last_grant_def)
qed

text \<open>
  The delay before a retry grows exponentially and stays bounded: after \<open>n\<close> failures in a
  row the loop waits the initial delay times \<open>2 ^ n\<close>, never more than the configured maximum, for
  every pair of settings up to half the \<open>int64\<close> range; no multiplication overflows.
\<close>

lemma refresh_backoff_exponential:
  assumes "0 < bs_initialBackoff b" and "bs_initialBackoff b \<le> bs_maxBackoff b" and "bs_maxBackoff b < 2 ^ 62"
    and "refresh_run b (failures fs @ [Fetched now (Inl e)]) s"
  shows "rl_pc s = RetrySleep (min (2 ^ length fs * bs_initialBackoff b) (bs_maxBackoff b))"
proof -
  from assms(4) obtain s1 where s1: "refresh_run b (failures fs) s1" "refresh_step s1 (Fetched now (Inl e)) s"
    by (rule refresh_run_snocE)
  note f = refresh_failures [OF s1(1)]
  from s1(2) have "rl_pc s = RetrySleep (rl_backoff s1)" by (auto elim: refresh_step.cases)
  with f doubling.iterate [OF bootstrap_doubling [OF assms(3)] assms(1,2)] show ?thesis by simp
qed

theorem refresh_backoff_exponential_witness:
  "rl_pc ((refresh_start (newBootstrap [])) \<lparr>rl_pc := RetrySleep second\<rparr>) =
     RetrySleep (min (2 ^ length ([] :: (int \<times> go_error) list) * bs_initialBackoff (newBootstrap [])) (bs_maxBackoff (newBootstrap [])))"
proof (rule refresh_backoff_exponential)
  let ?b = "newBootstrap []"
  show "0 < bs_initialBackoff ?b" "bs_initialBackoff ?b \<le> bs_maxBackoff ?b" "bs_maxBackoff ?b < 2 ^ 62"
    by (simp_all add: newBootstrap_def second_def)
  have "refresh_step (refresh_start ?b) (Fetched 0 (Inl (PlainError []))) ((refresh_start ?b) \<lparr>rl_pc := RetrySleep second\<rparr>)"
    using fetch_failed [of "refresh_start ?b" 0 "PlainError []"] by (simp add: refresh_start_def newBootstrap_def)
  from run_step [OF run_start this]
  show "refresh_run ?b (failures [] @ [Fetched 0 (Inl (PlainError []))]) ((refresh_start ?b) \<lparr>rl_pc := RetrySleep second\<rparr>)"
    by (simp add: failures_def)
qed

text \<open>
  C31. When the next fetch happens: for a token that expires within the range of a duration, 30
  seconds before it expires, and at once when that moment has passed, so a source that keeps
  answering the same token in that window is asked again without any wait. A token without an
  expiry is reported as invalid although it never expires, and the wait computed for it wraps
  around to a positive one of centuries.
\<close>

theorem refresh_wait_table:
  assumes "0 \<le> now" and a: "\<bar>expiry - now\<bar> < 2 ^ 62"
  shows "refresh_wait now expiry = max 0 (expiry - now - 30 * second) \<and>
    refresh_wait now zeroTime = 2 ^ 63 - 30 * second \<and>
    \<not> ts_Valid (Bootstrap_TokenStatus now (setToken tok zeroTime b))"
proof (intro conjI)
  from a have "time_Sub expiry now = expiry - now" by (auto simp: time_Sub_def minDuration_def maxDuration_def)
  moreover from a have "is_int64 (expiry - now - 30 * second)" by (auto simp: is_int64_def second_def)
  ultimately show "refresh_wait now expiry = max 0 (expiry - now - 30 * second)"
    by (auto simp: refresh_wait_def Let_def refreshMargin_def)
next
  have "time_Sub zeroTime now = minDuration"
    using assms by (simp add: time_Sub_def minDuration_def maxDuration_def zeroTime_def second_def)
  then show "refresh_wait now zeroTime = 2 ^ 63 - 30 * second"
    by (simp add: refresh_wait_def refreshMargin_def minDuration_def second_def wrap64_def)
next
  show "\<not> ts_Valid (Bootstrap_TokenStatus now (setToken tok zeroTime b))"
    using assms by (simp add: Bootstrap_TokenStatus_def zeroTime_def second_def)
qed

theorem refresh_wait_table_witness:
  "refresh_wait 0 (100 * second) = max 0 (100 * second - 0 - 30 * second) \<and>
    refresh_wait 0 zeroTime = 2 ^ 63 - 30 * second \<and>
    \<not> ts_Valid (Bootstrap_TokenStatus 0 (setToken ''t'' zeroTime (newBootstrap [])))"
  by (rule refresh_wait_table) (simp_all add: second_def)

text \<open>
  Discovery tries the OAuth document and falls back to the OpenID one only when the first
  fails; it fails only when both do. A token endpoint it answers is not empty, and once a token
  source has one it never discovers again, while a failed discovery leaves it to be retried.
\<close>

lemma discovery_order:
  shows "(case fetchWellKnownTokenEndpoint oc (TrimSuffix issuer ''/'') ''oauth-authorization-server'' w of
      (Inr u, w1) \<Rightarrow> discoverTokenEndpoint oc issuer w = (Inr u, w1) \<and> u \<noteq> ''''
    | (Inl e1, w1) \<Rightarrow>
        (case fetchWellKnownTokenEndpoint oc (TrimSuffix issuer ''/'') ''openid-configuration'' w1 of
           (Inr u, w2) \<Rightarrow> discoverTokenEndpoint oc issuer w = (Inr u, w2) \<and> u \<noteq> ''''
         | (Inl e2, w2) \<Rightarrow> \<exists>m. discoverTokenEndpoint oc issuer w = (Inl (WrapError m (JoinError [e1, e2])), w2))) \<and>
    (case discoverTokenEndpoint oc (dts_issuerURL d) w of
       (Inl e, w1) \<Rightarrow>
         (\<exists>m. DiscoveringToken oc (d \<lparr>dts_inner := None\<rparr>) w = (Inl (WrapError m e), d \<lparr>dts_inner := None\<rparr>, w1))
     | (Inr u, w1) \<Rightarrow>
         DiscoveringToken oc (d \<lparr>dts_inner := None\<rparr>) w = (fst (oidc_grant oc u w1), d \<lparr>dts_inner := Some u\<rparr>, snd (oidc_grant oc u w1))) \<and>
    DiscoveringToken oc (d \<lparr>dts_inner := Some u\<rparr>) w =
      (fst (oidc_grant oc u w), d \<lparr>dts_inner := Some u\<rparr>, snd (oidc_grant oc u w))"
proof -
  have ne: "fetchWellKnownTokenEndpoint oc i k w = (Inr u, w1) \<Longrightarrow> u \<noteq> ''''" for i k w u w1
    by (auto simp: fetchWellKnownTokenEndpoint_def Let_def split: prod.splits sum.splits if_splits)
  show ?thesis
    using ne by (auto simp: discoverTokenEndpoint_def oidcWellKnownEndpoints_def DiscoveringToken_def
        split: prod.split sum.split)
qed

end
