(* ===== verification/Health.thy ===== *)
theory Health
  imports Osac_Bootstrap Api_Types Vm_Disk
begin

text \<open>
  \<open>internal/health/health.go\<close>: the two health endpoints. The record \<open>OSACStatus\<close> is the
  interface of the same name; \<open>bootstrap_status\<close> is how \<open>*osac.Bootstrap\<close> satisfies it. The
  uptime goes through a \<open>float64\<close>, computed with the rounding of \<open>Vm_Disk\<close>.
\<close>

definition resourceType :: string where
  "resourceType = ''osac-service-provider.dcm.io/health''"

record 'w OSACStatus =
  os_TokenStatus :: "'w \<Rightarrow> TokenStatus \<times> 'w"
  os_Probe :: "'w \<Rightarrow> ProbeResult \<times> 'w"

record 'w Handler =
  hd_osacStatus :: "'w OSACStatus"
  hd_startTime :: int
  hd_version :: string

definition NewHandler :: "'w OSACStatus \<Rightarrow> int \<Rightarrow> string \<Rightarrow> 'w Handler" where
  "NewHandler osacStatus startTime version =
     \<lparr>hd_osacStatus = osacStatus, hd_startTime = startTime, hd_version = version\<rparr>"

definition unhealthyDetail :: "bool \<Rightarrow> bool \<Rightarrow> string" where
  "unhealthyDetail tokenValid connected =
     Join ((if \<not> tokenValid then [''OIDC token invalid''] else []) @
           (if \<not> connected then [''OSAC fulfillment service unreachable''] else [])) ''; ''"

text \<open>
  \<open>int(d.Seconds())\<close>: the seconds and the nanoseconds as \<open>float64\<close>, their sum, truncated. The
  conversion of the seconds is exact, every duration having fewer than \<open>2 ^ 53\<close> of them.
\<close>

definition truncated_seconds :: "nat \<Rightarrow> int" where
  "truncated_seconds d =
     (let s = nat second in
      int (round64 ((d div s) * one_unit + round64 ((d mod s) * one_unit) s) 1 div one_unit))"

definition int_Seconds :: "int \<Rightarrow> int" where
  "int_Seconds d = (if d < 0 then - truncated_seconds (nat (- d)) else truncated_seconds (nat d))"

definition checkHealth :: "int \<Rightarrow> 'w Handler \<Rightarrow> 'w \<Rightarrow> api_Health \<times> 'w" where
  "checkHealth now h w =
     (case os_TokenStatus (hd_osacStatus h) w of (tokenStatus, w1) \<Rightarrow>
      case os_Probe (hd_osacStatus h) w1 of (probe, w2) \<Rightarrow>
      let (status, detail) =
            (if \<not> ts_Valid tokenStatus \<or> \<not> pr_Connected probe
             then (Unhealthy, Ptr (unhealthyDetail (ts_Valid tokenStatus) (pr_Connected probe)))
             else (Healthy, None)) in
      (\<lparr>hl_Detail = detail, hl_Path = Ptr ''health'', hl_Status = status, hl_Type = Ptr resourceType,
        hl_Uptime = Ptr (int_Seconds (time_Sub now (hd_startTime h))), hl_Version = Ptr (hd_version h)\<rparr>, w2))"

definition GetClustersHealth :: "int \<Rightarrow> 'w Handler \<Rightarrow> 'w \<Rightarrow> api_Health \<times> 'w" where
  "GetClustersHealth now h w = (case checkHealth now h w of (resp, w1) \<Rightarrow> (resp, w1))"

definition GetVMsHealth :: "int \<Rightarrow> 'w Handler \<Rightarrow> 'w \<Rightarrow> api_Health \<times> 'w" where
  "GetVMsHealth now h w = (case checkHealth now h w of (resp, w1) \<Rightarrow> (resp, w1))"

text \<open>The bootstrap as the interface: the token of the refresh loop and the capabilities probe.\<close>

definition bootstrap_status :: "int \<Rightarrow> (int \<Rightarrow> ('w, unit) call) \<Rightarrow> OSACConfig \<Rightarrow> Bootstrap \<Rightarrow> 'w OSACStatus" where
  "bootstrap_status now cap_get cfg b =
     \<lparr>os_TokenStatus = (\<lambda>w. (Bootstrap_TokenStatus now b, w)), os_Probe = Probe cap_get cfg\<rparr>"

section \<open>Lemmas\<close>

lemma truncated_seconds_whole:
  assumes "n < 2 ^ 53"
  shows "truncated_seconds (n * nat second) = int n"
proof -
  have s: "0 < nat second" by (simp add: second_def)
  then have q: "n * nat second div nat second = n" "n * nat second mod nat second = 0" by simp_all
  have z: "round64 (0 * one_unit) (nat second) = 0" by (simp add: round64_def round_half_even_def)
  have "round64 (n * one_unit) 1 = n * one_unit"
    using round64_exact [OF assms, of 0 1074] by (simp only: one_unit_def power_0 add_0)
  moreover have "n * one_unit div one_unit = n"
    by (rule nonzero_mult_div_cancel_right) (simp add: one_unit_def)
  ultimately show ?thesis by (simp only: truncated_seconds_def Let_def q z add_0_right)
qed

lemma TokenStatus_cached:
  "ts_Valid (Bootstrap_TokenStatus now b) = (case cached b of None \<Rightarrow> False | Some tok \<Rightarrow> now < tok_Expiry tok)"
  by (simp add: Bootstrap_TokenStatus_def cached_def)

text \<open>A token that has not expired.\<close>

definition token_live :: "int \<Rightarrow> Token option \<Rightarrow> bool" where
  "token_live now t = (case t of None \<Rightarrow> False | Some tok \<Rightarrow> now < tok_Expiry tok)"

section \<open>Properties\<close>

text \<open>
  C37. Health after any history of the refresh loop: both endpoints answer the same; they answer
  healthy exactly when the last token granted has not expired and the probe reached OSAC, and
  otherwise a detail that names each of the two causes that holds. The uptime is the time since
  the start, exact on whole seconds.
\<close>

theorem health_condition:
  assumes "refresh_run b es s" and "\<not> bs_haveToken b" and "n < 2 ^ 53"
    and "time_Sub now start = int n * second"
  shows "let h = NewHandler (bootstrap_status now cap_get cfg (rl_boot s)) start version;
             live = token_live now (last_grant es);
             connected = (case fst (cap_get (oc_ProbeTimeout cfg) w) of Inl _ \<Rightarrow> False | Inr _ \<Rightarrow> True) in
    GetClustersHealth now h w = GetVMsHealth now h w \<and>
    hl_Status (fst (GetClustersHealth now h w)) = (if live \<and> connected then Healthy else Unhealthy) \<and>
    hl_Detail (fst (GetClustersHealth now h w)) =
      (if live then if connected then None else Some ''OSAC fulfillment service unreachable''
       else if connected then Some ''OIDC token invalid''
       else Some ''OIDC token invalid; OSAC fulfillment service unreachable'') \<and>
    hl_Uptime (fst (GetClustersHealth now h w)) = Some (int n)"
proof -
  define live where "live = token_live now (last_grant es)"
  have v: "ts_Valid (Bootstrap_TokenStatus now (rl_boot s)) = live"
    using refresh_run_cached [OF assms(1,2)] by (simp add: TokenStatus_cached live_def token_live_def)
  have up: "int_Seconds (int n * second) = int n"
    using truncated_seconds_whole [OF assms(3)]
    by (simp add: int_Seconds_def nat_mult_distrib second_def)
  obtain r w1 where r: "cap_get (oc_ProbeTimeout cfg) w = (r, w1)" by force
  show ?thesis unfolding live_def [symmetric] Let_def
    by (cases live; cases r)
      (simp_all add: GetClustersHealth_def GetVMsHealth_def checkHealth_def NewHandler_def bootstrap_status_def v r
        Probe_def unhealthyDetail_def up assms(4))
qed

theorem health_condition_witness:
  "let h = NewHandler (bootstrap_status (90 * second) (\<lambda>_ w. (Inr (), w))
               \<lparr>oc_FulfillmentAddress = '''', oc_OIDCIssuerURL = '''', oc_OIDCClientID = '''', oc_OIDCClientSecret = '''',
                oc_TLSCertFile = '''', oc_ProbeTimeout = 0\<rparr> (newBootstrap [])) 0 ''v1'' in
   hl_Status (fst (GetClustersHealth (90 * second) h ())) = Unhealthy \<and>
   hl_Detail (fst (GetClustersHealth (90 * second) h ())) = Some ''OIDC token invalid'' \<and>
   hl_Uptime (fst (GetClustersHealth (90 * second) h ())) = Some 90"
proof -
  have t: "time_Sub (90 * second) 0 = int 90 * second" by (simp add: time_Sub_def minDuration_def maxDuration_def second_def)
  have "\<not> bs_haveToken (newBootstrap [])" by (simp add: newBootstrap_def)
  note h = health_condition [OF run_start this _ t, where cap_get = "\<lambda>_ w. (Inr (), w)" and
      cfg = "\<lparr>oc_FulfillmentAddress = [], oc_OIDCIssuerURL = [], oc_OIDCClientID = [], oc_OIDCClientSecret = [],
             oc_TLSCertFile = [], oc_ProbeTimeout = 0\<rparr>" and version = "''v1''" and w = "()"]
  have n: "(90 :: nat) < 2 ^ 53" by simp
  show ?thesis using h [OF n, unfolded Let_def, THEN conjunct2]
    by (simp add: refresh_start_def last_grant_def token_live_def Let_def)
qed

end
