(* ===== verification/Registration.thy ===== *)
theory Registration
  imports Config Version_Matrix
begin

text \<open>
  \<open>internal/registration\<close>: registering the two service types with the environment agent, again
  and again. The agent's generated client is the argument \<open>create_provider\<close>, the status code of
  a registration request or a transport error. The loop of a service type is a step relation:
  \<open>register\<close> returns, a timer fires or the context ends, and between two events the loop runs to
  its next call.
\<close>

definition schemaVersion :: string where "schemaVersion = ''v1alpha1''"
definition httpTimeout :: int where "httpTimeout = 30 * second"
definition clusterServiceType :: string where "clusterServiceType = ''cluster''"
definition vmServiceType :: string where "vmServiceType = ''vm''"
definition clusterEndpointSuffix :: string where "clusterEndpointSuffix = ''/api/v1alpha1/clusters''"
definition vmEndpointSuffix :: string where "vmEndpointSuffix = ''/api/v1alpha1/vms''"

record Registrar =
  rg_cfg :: Config
  rg_matrix :: Matrix
  rg_initialBackoff :: int
  rg_maxBackoff :: int
  rg_reRegistrationInterval :: int

type_synonym RegistrarOption = "Registrar \<Rightarrow> Registrar"

definition rg_WithInitialBackoff :: "int \<Rightarrow> RegistrarOption" where
  "rg_WithInitialBackoff d r = r \<lparr>rg_initialBackoff := d\<rparr>"

definition rg_WithMaxBackoff :: "int \<Rightarrow> RegistrarOption" where
  "rg_WithMaxBackoff d r = r \<lparr>rg_maxBackoff := d\<rparr>"

definition WithReRegistrationInterval :: "int \<Rightarrow> RegistrarOption" where
  "WithReRegistrationInterval d r = r \<lparr>rg_reRegistrationInterval := d\<rparr>"

text \<open>\<open>new_client\<close> is the error, if any, of constructing the agent's client.\<close>

definition NewRegistrar ::
  "(string \<Rightarrow> unit res) \<Rightarrow> Config \<Rightarrow> Matrix \<Rightarrow> RegistrarOption list \<Rightarrow> Registrar res" where
  "NewRegistrar new_client cfg matrix opts =
     (let r = fold (\<lambda>opt r. opt r) opts
        \<lparr>rg_cfg = cfg, rg_matrix = matrix, rg_initialBackoff = 1 * second, rg_maxBackoff = 60 * second,
         rg_reRegistrationInterval = 60 * second\<rparr>
      in case new_client (dcm_RegistrationURL (cfg_DCM cfg)) of
           Inl err \<Rightarrow> Inl (WrapError [Lit ''creating environment-agent client''] err)
         | Inr _ \<Rightarrow> Inr r)"

section \<open>The payloads\<close>

record Provider =
  pv_Name :: string
  pv_ServiceType :: string
  pv_Endpoint :: string
  pv_SchemaVersion :: string
  pv_Metadata :: "(string \<rightharpoonup> string list) option"

definition registerOnce ::
  "(Provider \<Rightarrow> ('w, int) call) \<Rightarrow> string \<Rightarrow> string \<Rightarrow> string \<Rightarrow> (string \<times> string list) list \<Rightarrow> ('w, int) call" where
  "registerOnce create_provider name serviceType endpoint metadata w =
     (let provider = \<lparr>pv_Name = name, pv_ServiceType = serviceType, pv_Endpoint = endpoint,
            pv_SchemaVersion = schemaVersion,
            pv_Metadata = (if length metadata > 0 then Some (map_of metadata) else None)\<rparr>
      in case create_provider provider w of
           (Inl err, w1) \<Rightarrow> (Inl (WrapError [Lit ''sending registration request for '', Quoted name] err), w1)
         | (Inr statusCode, w1) \<Rightarrow> (Inr statusCode, w1))"

definition registerCluster :: "(Provider \<Rightarrow> ('w, int) call) \<Rightarrow> Registrar \<Rightarrow> ('w, int) call" where
  "registerCluster create_provider r =
     registerOnce create_provider (prov_ClusterName (cfg_Provider (rg_cfg r))) clusterServiceType
       (prov_Endpoint (cfg_Provider (rg_cfg r)) @ clusterEndpointSuffix)
       [(''supported_platforms'', [''baremetal'']),
        (''supported_provisioning_types'', [''hypershift'']),
        (''kubernetes_supported_versions'', SupportedVersions (rg_matrix r))]"

definition registerVM :: "(Provider \<Rightarrow> ('w, int) call) \<Rightarrow> Registrar \<Rightarrow> ('w, int) call" where
  "registerVM create_provider r =
     registerOnce create_provider (prov_VMName (cfg_Provider (rg_cfg r))) vmServiceType
       (prov_Endpoint (cfg_Provider (rg_cfg r)) @ vmEndpointSuffix) []"

section \<open>The loop\<close>

definition registrar_next_backoff :: "int \<Rightarrow> int \<Rightarrow> int" where
  "registrar_next_backoff maxBackoff backoff =
     (let b = wrap64 (backoff * 2) in if b > maxBackoff then maxBackoff else b)"

datatype outcome = Registered | Conflict | GiveUp | Retry

text \<open>The \<open>switch\<close> of the loop.\<close>

definition classify_registration :: "int res \<Rightarrow> outcome" where
  "classify_registration r =
     (case r of
        Inr statusCode \<Rightarrow>
          if statusCode = 200 \<or> statusCode = 201 then Registered
          else if statusCode = 409 then Conflict
          else if statusCode \<ge> 400 \<and> statusCode < 500 then GiveUp
          else Retry
      | Inl err \<Rightarrow> Retry)"

datatype registrar_pc = Registering | CadenceSleep int | BackoffSleep int | Finished

record registrar_state =
  rs_backoff :: int
  rs_pc :: registrar_pc

datatype registrar_event = RegisterReturned "int res" | Woke | Cancelled

definition registrar_start :: "Registrar \<Rightarrow> registrar_state" where
  "registrar_start r = \<lparr>rs_backoff = rg_initialBackoff r, rs_pc = Registering\<rparr>"

definition after_register :: "Registrar \<Rightarrow> int res \<Rightarrow> registrar_state \<Rightarrow> registrar_state" where
  "after_register r res s =
     (case classify_registration res of
        Registered \<Rightarrow> \<lparr>rs_backoff = rg_initialBackoff r, rs_pc = CadenceSleep (rg_reRegistrationInterval r)\<rparr>
      | Conflict \<Rightarrow> s \<lparr>rs_pc := CadenceSleep (rg_reRegistrationInterval r)\<rparr>
      | GiveUp \<Rightarrow> s \<lparr>rs_pc := Finished\<rparr>
      | Retry \<Rightarrow> s \<lparr>rs_pc := BackoffSleep (rs_backoff s)\<rparr>)"

inductive run_step :: "Registrar \<Rightarrow> registrar_state \<Rightarrow> registrar_event \<Rightarrow> registrar_state \<Rightarrow> bool" for r where
  registered: "rs_pc s = Registering \<Longrightarrow> run_step r s (RegisterReturned res) (after_register r res s)"
| cadence_wake: "rs_pc s = CadenceSleep d \<Longrightarrow> run_step r s Woke (s \<lparr>rs_pc := Registering\<rparr>)"
| backoff_wake: "rs_pc s = BackoffSleep d \<Longrightarrow> run_step r s Woke
     (s \<lparr>rs_backoff := registrar_next_backoff (rg_maxBackoff r) (rs_backoff s), rs_pc := Registering\<rparr>)"
| cadence_done: "rs_pc s = CadenceSleep d \<Longrightarrow> run_step r s Cancelled (s \<lparr>rs_pc := Finished\<rparr>)"
| backoff_done: "rs_pc s = BackoffSleep d \<Longrightarrow> run_step r s Cancelled (s \<lparr>rs_pc := Finished\<rparr>)"

code_pred run_step .

inductive_cases run_stepE: "run_step r s e s'"
inductive_cases run_registeredE: "run_step r s (RegisterReturned res) s'"
inductive_cases run_wokeE: "run_step r s Woke s'"
inductive_cases run_cancelledE: "run_step r s Cancelled s'"

inductive registrar_run :: "Registrar \<Rightarrow> registrar_event list \<Rightarrow> registrar_state \<Rightarrow> bool" for r where
  start: "registrar_run r [] (registrar_start r)"
| step: "registrar_run r es s \<Longrightarrow> run_step r s e s' \<Longrightarrow> registrar_run r (es @ [e]) s'"

text \<open>
  \<open>Start\<close>: two loops, one per service type, that share nothing but the registrar, started once
  (\<open>ra_started\<close> is \<open>startOnce\<close>); \<open>Done\<close> is closed when both have returned.
\<close>

record registrar_app =
  ra_started :: bool
  ra_cluster :: registrar_state
  ra_vm :: registrar_state

definition Registrar_Start :: "Registrar \<Rightarrow> registrar_app \<Rightarrow> registrar_app" where
  "Registrar_Start r a =
     (if ra_started a then a
      else \<lparr>ra_started = True, ra_cluster = registrar_start r, ra_vm = registrar_start r\<rparr>)"

definition Registrar_Done :: "registrar_app \<Rightarrow> bool" where
  "Registrar_Done a \<longleftrightarrow> ra_started a \<and> rs_pc (ra_cluster a) = Finished \<and> rs_pc (ra_vm a) = Finished"

section \<open>Lemmas\<close>

lemma registrar_doubling: "cap < 2 ^ 62 \<Longrightarrow> doubling (registrar_next_backoff cap) cap"
  using wrapped_doubling [of cap] by (simp add: registrar_next_backoff_def [abs_def] Let_def)

interpretation registrar_backoff: doubling "registrar_next_backoff (60 * second)" "60 * second"
  by (rule registrar_doubling) (simp add: second_def)

lemma registrar_run_backoff:
  assumes "registrar_run r es s" and "0 < rg_initialBackoff r" "rg_initialBackoff r \<le> rg_maxBackoff r" "rg_maxBackoff r < 2 ^ 62"
  shows "rg_initialBackoff r \<le> rs_backoff s \<and> rs_backoff s \<le> rg_maxBackoff r"
  using assms(1)
proof induction
  case start
  then show ?case using assms by (simp add: registrar_start_def)
next
  case (step es s e s')
  from step(2) show ?case
  proof cases
    case (backoff_wake d)
    from doubling.next_bounds [OF registrar_doubling [OF assms(4)], of "rs_backoff s"] step.IH assms
    show ?thesis by (simp add: backoff_wake)
  qed (use step.IH assms in \<open>auto simp: after_register_def split: outcome.split\<close>)
qed

lemma registrar_finished:
  assumes "registrar_run r es s" and "rs_pc s = Finished"
  shows "\<exists>es' e. es = es' @ [e] \<and> (e = Cancelled \<or> (\<exists>res. e = RegisterReturned res \<and> classify_registration res = GiveUp))"
  using assms(1)
proof cases
  case start
  with assms(2) show ?thesis by (simp add: registrar_start_def)
next
  case (step es' s0 e)
  from step(3) assms(2) show ?thesis
    unfolding step(1) by cases (auto simp: after_register_def split: outcome.splits)
qed

lemma registrar_sleep:
  assumes "registrar_run r es s"
  shows "(\<forall>d. rs_pc s = CadenceSleep d \<longrightarrow> d = rg_reRegistrationInterval r) \<and> (\<forall>d. rs_pc s = BackoffSleep d \<longrightarrow> d = rs_backoff s)"
  using assms by induction (auto simp: registrar_start_def after_register_def elim!: run_stepE split: outcome.splits)

lemma classify_GiveUp: "classify_registration res = GiveUp \<longleftrightarrow> (\<exists>st. res = Inr st \<and> 400 \<le> st \<and> st < 500 \<and> st \<noteq> 409)"
proof (cases res)
  case (Inr st)
  have "st = 200 \<or> st = 201 \<Longrightarrow> \<not> 400 \<le> st" by auto
  with Inr show ?thesis by (simp add: classify_registration_def)
qed (simp add: classify_registration_def)

section \<open>Properties\<close>


definition example_registrar :: Registrar where
  "example_registrar = \<lparr>rg_cfg = default_settings, rg_matrix = DefaultMatrix, rg_initialBackoff = second,
     rg_maxBackoff = 60 * second, rg_reRegistrationInterval = 60 * second\<rparr>"


text \<open>
  What is registered: the two service types under their configured names and under endpoints
  of this provider, the cluster with the versions of the matrix, sorted, and nothing else, so
  the advertised versions are exactly those a create accepts.
\<close>

lemma registration_payload:
  shows "registerCluster (\<lambda>p w. (Inr 201, Some p)) r w0 = (Inr 201, Some
      \<lparr>pv_Name = prov_ClusterName (cfg_Provider (rg_cfg r)), pv_ServiceType = ''cluster'',
       pv_Endpoint = prov_Endpoint (cfg_Provider (rg_cfg r)) @ ''/api/v1alpha1/clusters'',
       pv_SchemaVersion = ''v1alpha1'',
       pv_Metadata = Some (map_of [(''supported_platforms'', [''baremetal'']),
         (''supported_provisioning_types'', [''hypershift'']),
         (''kubernetes_supported_versions'', SupportedVersions (rg_matrix r))])\<rparr>) \<and>
    registerVM (\<lambda>p w. (Inr 201, Some p)) r w0 = (Inr 201, Some
      \<lparr>pv_Name = prov_VMName (cfg_Provider (rg_cfg r)), pv_ServiceType = ''vm'',
       pv_Endpoint = prov_Endpoint (cfg_Provider (rg_cfg r)) @ ''/api/v1alpha1/vms'',
       pv_SchemaVersion = ''v1alpha1'', pv_Metadata = None\<rparr>) \<and>
    sorted (SupportedVersions (rg_matrix r)) \<and>
    (\<forall>v. v \<in> set (SupportedVersions (rg_matrix r)) \<longleftrightarrow> Matrix_Lookup (rg_matrix r) v \<noteq> None)"
proof (intro conjI)
  show "\<forall>v. v \<in> set (SupportedVersions (rg_matrix r)) \<longleftrightarrow> Matrix_Lookup (rg_matrix r) v \<noteq> None"
    using Matrix_Lookup_SupportedVersions by blast
  show "sorted (SupportedVersions (rg_matrix r))" by (simp add: SupportedVersions_def)
qed (simp_all only: registerCluster_def registerVM_def registerOnce_def Let_def clusterServiceType_def
    vmServiceType_def clusterEndpointSuffix_def vmEndpointSuffix_def schemaVersion_def
    prod.case sum.case list.size zero_less_Suc add_0 add_Suc_right less_irrefl if_True if_False
    plus_nat.simps One_nat_def)

end
