(* ===== verification/Rest_Handlers.thy ===== *)
theory Rest_Handlers
  imports Provider_Contract
begin

text \<open>
  \<open>internal/handlers/cluster\<close> and \<open>internal/handlers/vm\<close>: request validation, the call of
  the service, and the response. The Go interface \<open>service\<close> of each package is a record of its
  methods. A response is the status and body of a success, or the problem document of an error;
  \<open>err_text\<close> is how an error prints. The generated wrapper decodes the body before it calls a
  handler, so \<open>req.Body\<close> is never nil here; \<open>req.Body.Spec\<close> may be.
\<close>

datatype 'b http_response = Success int "'b option" | Problem http_error

fun http_status :: "'b http_response \<Rightarrow> int" where
  "http_status (Success st body) = st"
| "http_status (Problem e) = he_Status e"

record CreateClusterRequest =
  ccr_Params :: CreateParams
  ccr_Spec :: "api_ClusterSpec option"

record CreateVMRequest =
  cvr_Params :: CreateParams
  cvr_Spec :: "VMSpec option"

section \<open>internal/handlers/cluster\<close>

record 'w cluster_service_if =
  csi_Create :: "string \<Rightarrow> api_ClusterSpec \<Rightarrow> ('w, api_Cluster) call"
  csi_Get :: "string \<Rightarrow> ('w, api_Cluster) call"
  csi_List :: "ListParams \<Rightarrow> ('w, ClusterList) call"
  csi_Delete :: "string \<Rightarrow> ('w, unit) call"
  csi_SupportsVersion :: "string \<Rightarrow> bool"

definition cluster_service :: "'v SemVer \<Rightarrow> 'w ClusterService \<Rightarrow> 'w cluster_service_if" where
  "cluster_service sv s = \<lparr>csi_Create = Cluster_Create sv s, csi_Get = Cluster_Get s,
     csi_List = Cluster_List s, csi_Delete = Cluster_Delete s, csi_SupportsVersion = SupportsVersion s\<rparr>"

definition nonempty :: "string option \<Rightarrow> bool" where
  "nonempty x = (case x of None \<Rightarrow> False | Some v \<Rightarrow> v \<noteq> '''')"

definition hasReleaseImageOverride :: "api_ClusterSpec \<Rightarrow> bool" where
  "hasReleaseImageOverride spec = nonempty (oph_ReleaseImage (cph_Osac (acs_ProviderHints spec)))"

definition invalid :: "string \<Rightarrow> go_error option" where
  "invalid text' = Some (StatusError InvalidArgument [Lit text'])"

definition validateCreateRequest :: "'w cluster_service_if \<Rightarrow> CreateClusterRequest \<Rightarrow> go_error option" where
  "validateCreateRequest svc req =
     (if \<not> nonempty (cp_Id (ccr_Params req)) then invalid ''id query parameter must not be empty''
      else case ccr_Spec req of
        None \<Rightarrow> invalid ''spec is required''
      | Some spec \<Rightarrow>
          if acs_Version spec = '''' then invalid ''spec.version is required''
          else if wn_Count (cn_Worker (acs_Nodes spec)) \<le> 0 then
            invalid ''spec.nodes.worker.count must be greater than 0''
          else if wn_Count (cn_Worker (acs_Nodes spec)) > MaxInt32 then
            invalid ''spec.nodes.worker.count must not exceed 2147483647''
          else if cmd_Name (acs_Metadata spec) = '''' then invalid ''spec.metadata.name is required''
          else if oph_TemplateId (cph_Osac (acs_ProviderHints spec)) = '''' then
            invalid ''spec.provider_hints.osac.template_id is required''
          else if hasReleaseImageOverride spec then
            invalid ''spec.provider_hints.osac.release_image is not supported by the current OSAC API''
          else if \<not> csi_SupportsVersion svc (acs_Version spec) then
            invalid ''spec.version is not a supported Kubernetes version''
          else None)"

definition cluster_problem :: "(go_error \<Rightarrow> string) \<Rightarrow> go_error \<Rightarrow> 'b http_response" where
  "cluster_problem err_text err = Problem (respond (mapError_cluster err_text err))"

definition CreateCluster ::
  "(go_error \<Rightarrow> string) \<Rightarrow> 'w cluster_service_if \<Rightarrow> CreateClusterRequest \<Rightarrow> 'w \<Rightarrow> api_Cluster http_response \<times> 'w" where
  "CreateCluster err_text svc req w =
     (case validateCreateRequest svc req of
        Some err \<Rightarrow> (cluster_problem err_text err, w)
      | None \<Rightarrow>
          (case csi_Create svc (the (cp_Id (ccr_Params req))) (the (ccr_Spec req)) w of
             (Inl err, w1) \<Rightarrow> (cluster_problem err_text err, w1)
           | (Inr result, w1) \<Rightarrow> (Success 201 (Some result), w1)))"

definition GetCluster ::
  "(go_error \<Rightarrow> string) \<Rightarrow> 'w cluster_service_if \<Rightarrow> string \<Rightarrow> 'w \<Rightarrow> api_Cluster http_response \<times> 'w" where
  "GetCluster err_text svc clusterId w =
     (case csi_Get svc clusterId w of
        (Inl err, w1) \<Rightarrow> (cluster_problem err_text err, w1)
      | (Inr result, w1) \<Rightarrow> (Success 200 (Some result), w1))"

definition ListClusters ::
  "(go_error \<Rightarrow> string) \<Rightarrow> 'w cluster_service_if \<Rightarrow> ListParams \<Rightarrow> 'w \<Rightarrow> ClusterList http_response \<times> 'w" where
  "ListClusters err_text svc params w =
     (case csi_List svc params w of
        (Inl err, w1) \<Rightarrow> (cluster_problem err_text err, w1)
      | (Inr result, w1) \<Rightarrow> (Success 200 (Some result), w1))"

definition DeleteCluster ::
  "(go_error \<Rightarrow> string) \<Rightarrow> 'w cluster_service_if \<Rightarrow> string \<Rightarrow> 'w \<Rightarrow> unit http_response \<times> 'w" where
  "DeleteCluster err_text svc clusterId w =
     (case csi_Delete svc clusterId w of
        (Inl err, w1) \<Rightarrow> (cluster_problem err_text err, w1)
      | (Inr _, w1) \<Rightarrow> (Success 204 None, w1))"

section \<open>internal/handlers/vm\<close>

record 'w vm_service_if =
  vsi_Create :: "string \<Rightarrow> VMSpec \<Rightarrow> 'w \<Rightarrow> (VirtualMachine res \<times> 'w) option"
  vsi_Get :: "string \<Rightarrow> ('w, VirtualMachine) call"
  vsi_List :: "ListParams \<Rightarrow> ('w, VirtualMachineList) call"
  vsi_Delete :: "string \<Rightarrow> ('w, unit) call"

definition vm_service :: "(int option \<Rightarrow> int) \<Rightarrow> 'w Clock \<Rightarrow> 'w VmService \<Rightarrow> 'w vm_service_if" where
  "vm_service oor clk s = \<lparr>vsi_Create = VM_Create oor clk s, vsi_Get = VM_Get s, vsi_List = VM_List s,
     vsi_Delete = VM_Delete s\<rparr>"

definition vm_validateCreateRequest :: "CreateVMRequest \<Rightarrow> go_error option" where
  "vm_validateCreateRequest req =
     (if \<not> nonempty (cp_Id (cvr_Params req)) then invalid ''id query parameter must not be empty''
      else case cvr_Spec req of
        None \<Rightarrow> invalid ''spec is required''
      | Some spec \<Rightarrow>
          if ovh_TemplateId (vph_Osac (vs_ProviderHints spec)) = '''' then
            invalid ''spec.provider_hints.osac.template_id is required''
          else if ovh_InstanceType (vph_Osac (vs_ProviderHints spec)) = '''' then
            invalid ''spec.provider_hints.osac.instance_type is required''
          else None)"

definition vm_problem :: "(go_error \<Rightarrow> string) \<Rightarrow> go_error \<Rightarrow> 'b http_response" where
  "vm_problem err_text err = Problem (respond (mapError_vm err_text err))"

definition CreateVM ::
  "(go_error \<Rightarrow> string) \<Rightarrow> 'w vm_service_if \<Rightarrow> CreateVMRequest \<Rightarrow> 'w \<Rightarrow>
     (VirtualMachine http_response \<times> 'w) option" where
  "CreateVM err_text svc req w =
     (case vm_validateCreateRequest req of
        Some err \<Rightarrow> Some (vm_problem err_text err, w)
      | None \<Rightarrow>
          (case vsi_Create svc (the (cp_Id (cvr_Params req))) (the (cvr_Spec req)) w of
             None \<Rightarrow> None
           | Some (Inl err, w1) \<Rightarrow> Some (vm_problem err_text err, w1)
           | Some (Inr result, w1) \<Rightarrow> Some (Success 201 (Some result), w1)))"

definition GetVM ::
  "(go_error \<Rightarrow> string) \<Rightarrow> 'w vm_service_if \<Rightarrow> string \<Rightarrow> 'w \<Rightarrow> VirtualMachine http_response \<times> 'w" where
  "GetVM err_text svc vmId w =
     (case vsi_Get svc vmId w of
        (Inl err, w1) \<Rightarrow> (vm_problem err_text err, w1)
      | (Inr result, w1) \<Rightarrow> (Success 200 (Some result), w1))"

definition ListVMs ::
  "(go_error \<Rightarrow> string) \<Rightarrow> 'w vm_service_if \<Rightarrow> ListParams \<Rightarrow> 'w \<Rightarrow> VirtualMachineList http_response \<times> 'w" where
  "ListVMs err_text svc params w =
     (case vsi_List svc params w of
        (Inl err, w1) \<Rightarrow> (vm_problem err_text err, w1)
      | (Inr result, w1) \<Rightarrow> (Success 200 (Some result), w1))"

definition DeleteVM ::
  "(go_error \<Rightarrow> string) \<Rightarrow> 'w vm_service_if \<Rightarrow> string \<Rightarrow> 'w \<Rightarrow> unit http_response \<times> 'w" where
  "DeleteVM err_text svc vmId w =
     (case vsi_Delete svc vmId w of
        (Inl err, w1) \<Rightarrow> (vm_problem err_text err, w1)
      | (Inr _, w1) \<Rightarrow> (Success 204 None, w1))"

section \<open>What the delete handlers rely on\<close>

text \<open>
  The handlers add no case for NotFound to a delete: they rely on the service having taken it
  for success.
\<close>

locale tolerant_delete =
  fixes delete_op :: "string \<Rightarrow> ('w, unit) call"
    and mapper :: "(go_error \<Rightarrow> string) \<Rightarrow> go_error \<Rightarrow> mappedError"
  assumes delete_not_404: "delete_op i w = (Inl e, w') \<Longrightarrow> grpc_code e \<noteq> NotFound"
    and mapper_404: "he_Status (respond (mapper txt e)) = 404 \<longleftrightarrow> grpc_code e = NotFound"
    and mapper_error: "400 \<le> he_Status (respond (mapper txt e))"
begin

definition answer :: "(go_error \<Rightarrow> string) \<Rightarrow> string \<Rightarrow> 'w \<Rightarrow> unit http_response \<times> 'w" where
  "answer txt i w = (case delete_op i w of
     (Inl err, w1) \<Rightarrow> (Problem (respond (mapper txt err)), w1) | (Inr _, w1) \<Rightarrow> (Success 204 None, w1))"

lemma answer_cases:
  obtains (deleted) w' where "delete_op i w = (Inr (), w')" "answer txt i w = (Success 204 None, w')"
  | (failed) e w' where "delete_op i w = (Inl e, w')" "http_status (fst (answer txt i w)) \<noteq> 404"
      "400 \<le> http_status (fst (answer txt i w))"
proof -
  obtain r w' where r: "delete_op i w = (r, w')" by force
  show thesis
  proof (cases r)
    case (Inl e)
    with r delete_not_404 [of i w e w'] mapper_404 [of "txt" e] mapper_error [of "txt" e]
    show thesis by (intro that(2) [of e w']) (auto simp: answer_def)
  next
    case (Inr u)
    with r show thesis by (intro that(1) [of w']) (auto simp: answer_def)
  qed
qed

end

lemma Classify_404: "fst (Classify e) = 404 \<longleftrightarrow> grpc_code e = NotFound"
  by (simp add: Classify_def split: Code.split)

lemma classifyError_404: "fst (classifyError e) = 404 \<longleftrightarrow> grpc_code e = NotFound"
  by (simp add: classifyError_def split: Code.split)

lemma cluster_error_status: "400 \<le> he_Status (respond (mapError_cluster txt e))"
  using cluster_errors.classify_status [of e] by (auto simp: cluster_errors.respond_status)

lemma vm_error_status: "400 \<le> he_Status (respond (mapError_vm txt e))"
  using vm_errors.classify_status [of e] by (auto simp: vm_errors.respond_status)

interpretation cluster_delete: tolerant_delete "Cluster_Delete s" mapError_cluster
  by unfold_locales
    (auto simp: Cluster_Delete_def cluster_errors.respond_status classifyError_404 cluster_error_status
      split: prod.splits sum.splits if_splits
      intro: cluster_error_status [unfolded cluster_errors.respond_status])

interpretation vm_delete: tolerant_delete "VM_Delete s" mapError_vm
  by unfold_locales
    (auto simp: VM_Delete_def vm_errors.respond_status Classify_404
      split: prod.splits sum.splits if_splits
      intro: vm_error_status [unfolded vm_errors.respond_status])

section \<open>Lemmas: validation\<close>

lemma nonempty_iff [simp]: "nonempty x \<longleftrightarrow> (\<exists>v. x = Some v \<and> v \<noteq> '''')"
  by (cases x) (auto simp: nonempty_def)

lemma hasReleaseImageOverride_iff:
  "hasReleaseImageOverride spec \<longleftrightarrow> oph_ReleaseImage (cph_Osac (acs_ProviderHints spec)) \<notin> {None, Some []}"
  by (cases "oph_ReleaseImage (cph_Osac (acs_ProviderHints spec))") (auto simp: hasReleaseImageOverride_def)

lemma invalid_code: "invalid t = Some e \<Longrightarrow> grpc_code e = InvalidArgument"
  by (auto simp: invalid_def)

lemma validate_code: "validateCreateRequest svc req = Some e \<Longrightarrow> grpc_code e = InvalidArgument"
  by (auto simp: validateCreateRequest_def split: option.splits if_splits dest: invalid_code)

lemma vm_validate_code: "vm_validateCreateRequest req = Some e \<Longrightarrow> grpc_code e = InvalidArgument"
  by (auto simp: vm_validateCreateRequest_def split: option.splits if_splits dest: invalid_code)

lemma Classify_InvalidArgument: "grpc_code e = InvalidArgument \<Longrightarrow> fst (Classify e) = 400"
  by (simp add: Classify_def)

lemma classifyError_InvalidArgument: "grpc_code e = InvalidArgument \<Longrightarrow> fst (classifyError e) = 400"
  by (simp add: classifyError_def)

section \<open>Properties\<close>

text \<open>
  The cluster create validation accepts exactly the requests that have a non-empty
  identifier and a spec with a supported, non-empty version, a worker count between 1 and the
  largest \<open>int32\<close>, a name, a template and no release image. A request it rejects is answered
  400 and reaches neither the service nor OSAC.
\<close>

lemma create_cluster_validation:
  shows "(validateCreateRequest svc req = None \<longleftrightarrow>
      (\<exists>i. cp_Id (ccr_Params req) = Some i \<and> i \<noteq> '''') \<and>
      (\<exists>spec. ccr_Spec req = Some spec \<and> acs_Version spec \<noteq> '''' \<and> csi_SupportsVersion svc (acs_Version spec) \<and>
         1 \<le> wn_Count (cn_Worker (acs_Nodes spec)) \<and> wn_Count (cn_Worker (acs_Nodes spec)) \<le> 2147483647 \<and>
         cmd_Name (acs_Metadata spec) \<noteq> '''' \<and> oph_TemplateId (cph_Osac (acs_ProviderHints spec)) \<noteq> '''' \<and>
         oph_ReleaseImage (cph_Osac (acs_ProviderHints spec)) \<in> {None, Some ''''})) \<and>
    (validateCreateRequest svc req = None \<or>
      (http_status (fst (CreateCluster err_text svc req w)) = 400 \<and> snd (CreateCluster err_text svc req w) = w))"
proof
  show "validateCreateRequest svc req = None \<longleftrightarrow>
      (\<exists>i. cp_Id (ccr_Params req) = Some i \<and> i \<noteq> '''') \<and>
      (\<exists>spec. ccr_Spec req = Some spec \<and> acs_Version spec \<noteq> '''' \<and> csi_SupportsVersion svc (acs_Version spec) \<and>
         1 \<le> wn_Count (cn_Worker (acs_Nodes spec)) \<and> wn_Count (cn_Worker (acs_Nodes spec)) \<le> 2147483647 \<and>
         cmd_Name (acs_Metadata spec) \<noteq> '''' \<and> oph_TemplateId (cph_Osac (acs_ProviderHints spec)) \<noteq> '''' \<and>
         oph_ReleaseImage (cph_Osac (acs_ProviderHints spec)) \<in> {None, Some ''''})"
    by (cases "ccr_Spec req"; cases "cp_Id (ccr_Params req)")
      (auto simp: validateCreateRequest_def invalid_def hasReleaseImageOverride_iff MaxInt32_def)
  show "validateCreateRequest svc req = None \<or>
      (http_status (fst (CreateCluster err_text svc req w)) = 400 \<and> snd (CreateCluster err_text svc req w) = w)"
    using validate_code [of svc req] classifyError_InvalidArgument
    by (cases "validateCreateRequest svc req")
      (auto simp: CreateCluster_def cluster_problem_def cluster_errors.respond_status)
qed

text \<open>
  The VM create validation accepts exactly the requests with a non-empty identifier and a
  spec that names a template and an instance type; a request it rejects is answered 400 and
  reaches neither the service nor OSAC.
\<close>

lemma create_vm_validation:
  shows "(vm_validateCreateRequest req = None \<longleftrightarrow>
      (\<exists>i. cp_Id (cvr_Params req) = Some i \<and> i \<noteq> '''') \<and>
      (\<exists>spec. cvr_Spec req = Some spec \<and> ovh_TemplateId (vph_Osac (vs_ProviderHints spec)) \<noteq> '''' \<and>
         ovh_InstanceType (vph_Osac (vs_ProviderHints spec)) \<noteq> '''')) \<and>
    (vm_validateCreateRequest req = None \<or>
      (\<exists>p. CreateVM err_text svc req w = Some (Problem p, w) \<and> he_Status p = 400))"
proof
  show "vm_validateCreateRequest req = None \<longleftrightarrow>
      (\<exists>i. cp_Id (cvr_Params req) = Some i \<and> i \<noteq> '''') \<and>
      (\<exists>spec. cvr_Spec req = Some spec \<and> ovh_TemplateId (vph_Osac (vs_ProviderHints spec)) \<noteq> '''' \<and>
         ovh_InstanceType (vph_Osac (vs_ProviderHints spec)) \<noteq> '''')"
    by (cases "cvr_Spec req"; cases "cp_Id (cvr_Params req)")
      (auto simp: vm_validateCreateRequest_def invalid_def)
  show "vm_validateCreateRequest req = None \<or>
      (\<exists>p. CreateVM err_text svc req w = Some (Problem p, w) \<and> he_Status p = 400)"
    using vm_validate_code [of req] Classify_InvalidArgument
    by (cases "vm_validateCreateRequest req")
      (auto simp: CreateVM_def vm_problem_def vm_errors.respond_status)
qed

text \<open>
  A delete is never answered 404, for clusters and for VMs and whatever OSAC answers: either
  it is 204, or OSAC failed with an error that is not NotFound and the answer is another error
  status.
\<close>

lemma delete_never_404:
  shows "(DeleteCluster err_text (cluster_service sv s) i w = (Success 204 None, snd (Cluster_Delete s i w)) \<or>
      (400 \<le> http_status (fst (DeleteCluster err_text (cluster_service sv s) i w)) \<and>
       http_status (fst (DeleteCluster err_text (cluster_service sv s) i w)) \<noteq> 404)) \<and>
    (DeleteVM err_text (vm_service oor clk vs) i w' = (Success 204 None, snd (VM_Delete vs i w')) \<or>
      (400 \<le> http_status (fst (DeleteVM err_text (vm_service oor clk vs) i w')) \<and>
       http_status (fst (DeleteVM err_text (vm_service oor clk vs) i w')) \<noteq> 404))"
proof
  have c: "DeleteCluster err_text (cluster_service sv s) i w = cluster_delete.answer s err_text i w"
    by (simp add: DeleteCluster_def cluster_service_def cluster_delete.answer_def cluster_problem_def
        split: prod.split sum.split)
  show "DeleteCluster err_text (cluster_service sv s) i w = (Success 204 None, snd (Cluster_Delete s i w)) \<or>
      (400 \<le> http_status (fst (DeleteCluster err_text (cluster_service sv s) i w)) \<and>
       http_status (fst (DeleteCluster err_text (cluster_service sv s) i w)) \<noteq> 404)"
    unfolding c by (cases rule: cluster_delete.answer_cases [of s i w err_text]) auto
  have v: "DeleteVM err_text (vm_service oor clk vs) i w' = vm_delete.answer vs err_text i w'"
    by (simp add: DeleteVM_def vm_service_def vm_delete.answer_def vm_problem_def
        split: prod.split sum.split)
  show "DeleteVM err_text (vm_service oor clk vs) i w' = (Success 204 None, snd (VM_Delete vs i w')) \<or>
      (400 \<le> http_status (fst (DeleteVM err_text (vm_service oor clk vs) i w')) \<and>
       http_status (fst (DeleteVM err_text (vm_service oor clk vs) i w')) \<noteq> 404)"
    unfolding v by (cases rule: vm_delete.answer_cases [of vs i w' err_text]) auto
qed

text \<open>
  The worker count OSAC is asked for is the count of the request: whenever the handler
  accepts a request, the conversion to \<open>int32\<close> in the translation does not wrap.
\<close>

lemma accepted_count_not_wrapped:
  assumes "validateCreateRequest svc req = None"
  shows "\<exists>spec sp. ccr_Spec req = Some spec \<and> pc_Spec (toOSACCluster i spec key ref) = Some sp \<and>
    map (\<lambda>(k, v). pns_Size v) (psp_NodeSets sp) = [wn_Count (cn_Worker (acs_Nodes spec))]"
proof -
  obtain spec where s: "ccr_Spec req = Some spec" using assms
    by (cases "ccr_Spec req") (auto simp: validateCreateRequest_def invalid_def split: if_splits)
  with assms have "is_int32 (wn_Count (cn_Worker (acs_Nodes spec)))"
    by (auto simp: validateCreateRequest_def invalid_def is_int32_def MaxInt32_def split: if_splits)
  with s show ?thesis by (simp add: toOSACCluster_def Let_def)
qed

definition example_request :: CreateClusterRequest where
  "example_request = \<lparr>ccr_Params = \<lparr>cp_Id = Some ''x''\<rparr>, ccr_Spec = Some example_spec\<rparr>"

lemma example_request_valid:
  "validateCreateRequest (cluster_service numeric_semver (mock_cluster_service unregistered DefaultMatrix)) example_request = None"
  by (simp add: validateCreateRequest_def example_request_def example_spec_def MaxInt32_def
      hasReleaseImageOverride_def cluster_service_def SupportsVersion_def Matrix_Lookup_def DefaultMatrix_def)

theorem accepted_count_not_wrapped_witness:
  "\<exists>spec sp. ccr_Spec example_request = Some spec \<and> pc_Spec (toOSACCluster ''x'' spec ''k'' None) = Some sp \<and>
    map (\<lambda>(k, v). pns_Size v) (psp_NodeSets sp) = [wn_Count (cn_Worker (acs_Nodes spec))]"
  by (rule accepted_count_not_wrapped) (rule example_request_valid)

end
