(* ===== verification/Service_Main.thy ===== *)
theory Service_Main
  imports Api_Server Health Registration Status_Poll Rest_Handlers Grpc_Stubs
begin

text \<open>
  \<open>cmd/osac-service-provider/main.go\<close>: how the parts are put together. \<open>main_run\<close> is \<open>run\<close> up to
  the call of \<open>srv.Run\<close>: it answers the error it stops with or the assembled parts, together with
  the goroutines it has started by then and the \<open>Close\<close> calls it has deferred. The library calls
  it makes (reading the environment and files, listening, dialling) are the fields of \<open>Host\<close>.
\<close>

record ('w, 'ln, 'cert, 'conn, 'nc, 'js) Host =
  h_environment :: "Config res"
  h_readFile :: "string \<Rightarrow> string res"
  h_unmarshal :: "string \<Rightarrow> Matrix res"
  h_listen :: "string \<Rightarrow> 'ln res"
  h_pem_certs :: "string \<Rightarrow> 'cert list"
  h_newClient :: "string \<Rightarrow> 'cert DialOptions \<Rightarrow> 'conn res"
  h_agentClient :: "string \<Rightarrow> unit res"
  h_natsConnect :: "string \<Rightarrow> 'nc res"
  h_jetstream :: "'nc \<Rightarrow> 'js res"
  h_invoke :: "'conn \<Rightarrow> 'w ClientConn"
  h_startTime :: int

section \<open>The API handler\<close>

text \<open>The three handlers as one; each operation is forwarded to the handler that has it.\<close>

record 'w apiHandler =
  ah_Handler :: "'w Handler"
  ah_cluster :: "'w cluster_service_if"
  ah_vm :: "'w vm_service_if"

definition api_ListClusters where "api_ListClusters err_text h = ListClusters err_text (ah_cluster h)"
definition api_CreateCluster where "api_CreateCluster err_text h = CreateCluster err_text (ah_cluster h)"
definition api_GetCluster where "api_GetCluster err_text h = GetCluster err_text (ah_cluster h)"
definition api_DeleteCluster where "api_DeleteCluster err_text h = DeleteCluster err_text (ah_cluster h)"
definition api_ListVMs where "api_ListVMs err_text h = ListVMs err_text (ah_vm h)"
definition api_CreateVM where "api_CreateVM err_text h = CreateVM err_text (ah_vm h)"
definition api_GetVM where "api_GetVM err_text h = GetVM err_text (ah_vm h)"
definition api_DeleteVM where "api_DeleteVM err_text h = DeleteVM err_text (ah_vm h)"

section \<open>run\<close>

datatype goroutine = TokenRefresh | DeliveryWorker | PollLoop
datatype closable = Listener | OsacConnection | NatsConnection

record ('w, 'ln, 'conn, 'js) wiring =
  wi_listener :: 'ln
  wi_conn :: 'conn
  wi_tokenSource :: discoveringTokenSource
  wi_bootstrap :: Bootstrap
  wi_registrar :: Registrar
  wi_publisher :: "'js \<times> Publisher"
  wi_poller :: "'w Poller"
  wi_clusterService :: "'w ClusterService"
  wi_vmService :: "'w VmService"
  wi_healthStart :: int
  wi_server :: Server

definition main_run ::
  "('w, 'ln, 'cert, 'conn, 'nc, 'js) Host \<Rightarrow> ('w, 'ln, 'conn, 'js) wiring res \<times> goroutine list \<times> closable list"
where
  "main_run host =
     (case Config_Load (h_environment host) of
        Inl err \<Rightarrow> (Inl (WrapError [Lit ''initializing''] err), [], [])
      | Inr cfg \<Rightarrow>
     (case Matrix_Load (h_readFile host) (h_unmarshal host) (vmx_Path (cfg_VersionMatrix cfg)) of
        Inl err \<Rightarrow> (Inl (WrapError [Lit ''loading version matrix''] err), [], [])
      | Inr matrix \<Rightarrow>
     (case h_listen host (srv_Address (cfg_Server cfg)) of
        Inl err \<Rightarrow> (Inl (WrapError [Lit ''listening on '', Lit (srv_Address (cfg_Server cfg))] err), [], [])
      | Inr ln \<Rightarrow>
     (case Bootstrap_New (h_readFile host) (h_pem_certs host) (h_newClient host) (cfg_OSAC cfg) [] of
        Inl err \<Rightarrow> (Inl (WrapError [Lit ''creating OSAC client bootstrap''] err), [], [Listener])
      | Inr (bootstrap, tokenSource, conn) \<Rightarrow>
     (case NewRegistrar (h_agentClient host) cfg matrix [] of
        Inl err \<Rightarrow> (Inl (WrapError [Lit ''creating registrar''] err), [TokenRefresh], [Listener, OsacConnection])
      | Inr registrar \<Rightarrow>
     (case NewPublisher (h_natsConnect host) (h_jetstream host) (dcm_NATSURL (cfg_DCM cfg)) [] of
        Inl err \<Rightarrow> (Inl (WrapError [Lit ''creating status publisher''] err), [TokenRefresh], [Listener, OsacConnection])
      | Inr publisher \<Rightarrow>
          let cc = h_invoke host conn;
              poller = poll_New (ResourceClient.truncate (NewClustersClient cc))
                (ResourceClient.truncate (NewComputeInstancesClient cc)) (prov_ClusterName (cfg_Provider cfg))
                (prov_VMName (cfg_Provider cfg)) (cfg_Status cfg);
              clusterSvc = cluster_New (ResourceClient.truncate (NewClustersClient cc))
                (ResourceClient.truncate (NewSecretsClient cc)) (ResourceClient.truncate (NewClusterTemplatesClient cc))
                (ResourceClient.truncate (NewClusterVersionsClient cc)) matrix;
              vmSvc = vm_New (ResourceClient.truncate (NewComputeInstancesClient cc))
                (ResourceClient.truncate (NewSubnetsClient cc)) (ResourceClient.truncate (NewVirtualNetworksClient cc)) [];
              srv = WithOnReady (server_New cfg [])
          in (Inr \<lparr>wi_listener = ln, wi_conn = conn, wi_tokenSource = tokenSource, wi_bootstrap = bootstrap,
                wi_registrar = registrar, wi_publisher = publisher, wi_poller = poller,
                wi_clusterService = clusterSvc, wi_vmService = vmSvc, wi_healthStart = h_startTime host,
                wi_server = srv\<rparr>,
              [TokenRefresh, DeliveryWorker, PollLoop], [Listener, OsacConnection, NatsConnection])))))))"

definition closing_order :: "closable list \<Rightarrow> closable list" where
  "closing_order deferred = rev deferred"

definition mainRun :: "go_error option \<Rightarrow> int" where
  "mainRun err = (case err of Some e \<Rightarrow> 1 | None \<Rightarrow> 0)"

section \<open>Lemmas\<close>

text \<open>
  The registered name, the source of the status events and the matrix that decides which versions
  are advertised and accepted come from one configuration.
\<close>

lemma main_run_consistent:
  assumes "main_run host = (Inr w, gs, cs)"
  obtains cfg where "h_environment host = Inr cfg"
    "st_Source (plr_clusterServiceType (wi_poller w)) = ''dcm/providers/'' @ prov_ClusterName (cfg_Provider (rg_cfg (wi_registrar w)))"
    "st_Source (plr_vmServiceType (wi_poller w)) = ''dcm/providers/'' @ prov_VMName (cfg_Provider (rg_cfg (wi_registrar w)))"
    "svc_matrix (wi_clusterService w) = rg_matrix (wi_registrar w)" "rg_cfg (wi_registrar w) = cfg"
    "gs = [TokenRefresh, DeliveryWorker, PollLoop]" "closing_order cs = [NatsConnection, OsacConnection, Listener]"
proof -
  from assms obtain cfg where "h_environment host = Inr cfg"
    by (auto simp: main_run_def Config_Load_def split: sum.splits)
  with assms that show ?thesis
    by (auto simp: main_run_def Config_Load_def NewRegistrar_def cluster_New_def poll_New_def providerSourcePrefix_def closing_order_def Let_def
        split: sum.splits prod.splits)
qed

text \<open>A start that fails leaves nothing open that it does not close, and delivers and polls nothing.\<close>

lemma main_run_failed:
  assumes "main_run host = (Inl err, gs, cs)"
  shows "set gs \<subseteq> {TokenRefresh}" "Listener \<notin> set cs \<Longrightarrow> gs = []" "NatsConnection \<notin> set cs"
  using assms by (auto simp: main_run_def Let_def split: sum.splits prod.splits)

end
