(* ===== verification/Net_Url.thy ===== *)
theory Net_Url
  imports Go_Strings "HOL-Library.List_Lexorder" "HOL-Library.Char_ord"
begin

text \<open>
  The parts of Go's \<open>net/url\<close> that the generated client and server rest on: percent encoding in
  its path, path segment and query modes, the two forms \<open>Path\<close> and \<open>RawPath\<close> of a URL's path,
  resolving a relative reference, and query strings. A URL is its origin (scheme and authority,
  as text), its path and its query; fragments, user information and opaque URLs do not occur. How
  a string divides into origin and the rest is the argument \<open>origin\<close> of \<open>url_Parse\<close>.
\<close>

section \<open>Splitting\<close>

text \<open>\<open>strings.Split\<close> at a one-byte separator.\<close>

fun Split :: "char \<Rightarrow> string \<Rightarrow> string list" where
  "Split sep [] = [[]]"
| "Split sep (c # cs) =
     (if c = sep then [] # Split sep cs
      else case Split sep cs of [] \<Rightarrow> [[c]] | p # ps \<Rightarrow> (c # p) # ps)"

text \<open>\<open>strings.Cut\<close>, without the flag whether the separator was found.\<close>

definition Cut :: "char \<Rightarrow> string \<Rightarrow> string \<times> string" where
  "Cut sep s = (takeWhile (\<lambda>c. c \<noteq> sep) s, drop 1 (dropWhile (\<lambda>c. c \<noteq> sep) s))"

lemma Split_nonempty [simp]: "Split sep s \<noteq> []"
  by (induction s) (auto split: list.split)

lemma Split_none: "sep \<notin> set s \<Longrightarrow> Split sep s = [s]"
  by (induction s) (auto split: list.split)

lemma Split_append: "sep \<notin> set s \<Longrightarrow> Split sep (s @ sep # t) = s # Split sep t"
  by (induction s) (auto split: list.split)

lemma Split_no_sep: "p \<in> set (Split sep s) \<Longrightarrow> sep \<notin> set p"
  by (induction s arbitrary: p) (auto split: list.splits if_splits)

lemma Join_Split: "Join (Split sep s) [sep] = s"
proof (induction s)
  case Nil
  then show ?case by simp
next
  case (Cons c cs)
  then show ?case by (cases "Split sep cs"; cases "tl (Split sep cs)") auto
qed

lemma Cut_append: "sep \<notin> set s \<Longrightarrow> Cut sep (s @ sep # t) = (s, t)"
  by (induction s) (auto simp: Cut_def)

lemma Cut_none: "sep \<notin> set s \<Longrightarrow> Cut sep s = (s, [])"
  by (induction s) (auto simp: Cut_def)

section \<open>Percent encoding\<close>

datatype encoding = encodePath | encodePathSegment | encodeQueryComponent

definition is_alnum :: "char \<Rightarrow> bool" where
  "is_alnum c \<longleftrightarrow> (let n = of_char c :: nat in
     97 \<le> n \<and> n \<le> 122 \<or> 65 \<le> n \<and> n \<le> 90 \<or> 48 \<le> n \<and> n \<le> 57)"

definition shouldEscape :: "char \<Rightarrow> encoding \<Rightarrow> bool" where
  "shouldEscape c mode \<longleftrightarrow>
     \<not> is_alnum c \<and> c \<notin> set ''-_.~'' \<and>
     (c \<in> set ''$&+,/:;=?@'' \<longrightarrow>
        (case mode of
           encodePath \<Rightarrow> c = CHR ''?''
         | encodePathSegment \<Rightarrow> c \<in> set ''/;,?''
         | encodeQueryComponent \<Rightarrow> True))"

text \<open>\<open>upperhex[d]\<close>.\<close>

definition hex_char :: "nat \<Rightarrow> char" where
  "hex_char d = char_of (if d < 10 then 48 + d else 55 + d)"

definition escape :: "encoding \<Rightarrow> string \<Rightarrow> string" where
  "escape mode s = concat (map (\<lambda>c.
     if c = CHR '' '' \<and> mode = encodeQueryComponent then ''+''
     else if shouldEscape c mode then
       [CHR ''%'', hex_char (of_char c div 16), hex_char (of_char c mod 16)]
     else [c]) s)"

definition unhex :: "char \<Rightarrow> nat option" where
  "unhex c = (let n = of_char c :: nat in
     if 48 \<le> n \<and> n \<le> 57 then Some (n - 48)
     else if 97 \<le> n \<and> n \<le> 102 then Some (n - 87)
     else if 65 \<le> n \<and> n \<le> 70 then Some (n - 55)
     else None)"

fun unescape :: "encoding \<Rightarrow> string \<Rightarrow> string res" where
  "unescape mode [] = Inr []"
| "unescape mode (c # cs) =
     (if c = CHR ''%'' then
        (case cs of
           a # b # rest \<Rightarrow>
             (case (unhex a, unhex b) of
                (Some x, Some y) \<Rightarrow> map_sum id ((#) (char_of (16 * x + y))) (unescape mode rest)
              | _ \<Rightarrow> Inl (PlainError [Lit ''invalid URL escape '', Quoted [c, a, b]]))
         | _ \<Rightarrow> Inl (PlainError [Lit ''invalid URL escape '', Quoted (c # cs)]))
      else map_sum id ((#) (if c = CHR ''+'' \<and> mode = encodeQueryComponent then CHR '' '' else c))
             (unescape mode cs))"

definition PathEscape :: "string \<Rightarrow> string" where "PathEscape = escape encodePathSegment"
definition PathUnescape :: "string \<Rightarrow> string res" where "PathUnescape = unescape encodePathSegment"
definition QueryEscape :: "string \<Rightarrow> string" where "QueryEscape = escape encodeQueryComponent"
definition QueryUnescape :: "string \<Rightarrow> string res" where "QueryUnescape = unescape encodeQueryComponent"

section \<open>URLs\<close>

record URL =
  u_Origin :: string
  u_Path :: string
  u_RawPath :: string
  u_RawQuery :: string

text \<open>\<open>setPath\<close> keeps the raw form only when it is not the canonical one.\<close>

definition setPath :: "string \<Rightarrow> URL \<Rightarrow> URL res" where
  "setPath p u =
     (case unescape encodePath p of
        Inl err \<Rightarrow> Inl err
      | Inr path \<Rightarrow> Inr (u \<lparr>u_Path := path, u_RawPath := (if p = escape encodePath path then '''' else p)\<rparr>))"

definition valid_char :: "char \<Rightarrow> bool" where
  "valid_char c \<longleftrightarrow> c \<in> set ''!$&()*+,;=:@[]%'' \<or> c = CHR 0x27 \<or> \<not> shouldEscape c encodePath"

definition validEncoded :: "string \<Rightarrow> bool" where
  "validEncoded s \<longleftrightarrow> list_all valid_char s"

definition EscapedPath :: "URL \<Rightarrow> string" where
  "EscapedPath u =
     (if u_RawPath u \<noteq> '''' \<and> validEncoded (u_RawPath u) \<and> unescape encodePath (u_RawPath u) = Inr (u_Path u)
      then u_RawPath u
      else if u_Path u = ''*'' then ''*''
      else escape encodePath (u_Path u))"

text \<open>The loop of \<open>resolvePath\<close>: what is written after the leading slash, and whether nothing is.\<close>

definition path_elem :: "string \<Rightarrow> string \<times> bool \<Rightarrow> string \<times> bool" where
  "path_elem elem = (\<lambda>(dst, first).
     if elem = ''.'' then (dst, False)
     else if elem = ''..'' then
       (if CHR ''/'' \<in> set dst then (rev (drop 1 (dropWhile (\<lambda>c. c \<noteq> CHR ''/'') (rev dst))), first)
        else ('''', True))
     else (dst @ (if first then '''' else ''/'') @ elem, False))"

definition resolvePath :: "string \<Rightarrow> string \<Rightarrow> string" where
  "resolvePath base ref =
     (let full = (if ref = '''' then base
          else if hd ref \<noteq> CHR ''/'' then
            rev (dropWhile (\<lambda>c. c \<noteq> CHR ''/'') (rev base)) @ ref
          else ref)
      in if full = '''' then ''''
         else
           let elems = Split (CHR ''/'') full;
               dst = fst (fold path_elem elems ('''', True));
               r = CHR ''/'' # dst @ (if last elems \<in> {''.'', ''..''} then ''/'' else '''')
           in if HasPrefix r ''//'' then tl r else r)"

text \<open>A reference without scheme and authority, as the client's operation paths are.\<close>

definition parse_reference :: "string \<Rightarrow> URL res" where
  "parse_reference s =
     (let path = fst (Cut (CHR ''?'') s); query = snd (Cut (CHR ''?'') s)
      in setPath path \<lparr>u_Origin = '''', u_Path = '''', u_RawPath = '''', u_RawQuery = query\<rparr>)"

text \<open>\<open>u.Parse(ref)\<close> for a reference with a path.\<close>

definition url_ParseRef :: "URL \<Rightarrow> string \<Rightarrow> URL res" where
  "url_ParseRef u s =
     (case parse_reference s of
        Inl err \<Rightarrow> Inl err
      | Inr ref \<Rightarrow> setPath (resolvePath (EscapedPath u) (EscapedPath ref)) (ref \<lparr>u_Origin := u_Origin u\<rparr>))"

definition url_Parse :: "(string \<Rightarrow> (string \<times> string) res) \<Rightarrow> string \<Rightarrow> URL res" where
  "url_Parse origin s =
     (case origin s of
        Inl err \<Rightarrow> Inl err
      | Inr (o', rest) \<Rightarrow>
          (case parse_reference rest of Inl err \<Rightarrow> Inl err | Inr u \<Rightarrow> Inr (u \<lparr>u_Origin := o'\<rparr>)))"

definition RequestURI :: "URL \<Rightarrow> string" where
  "RequestURI u =
     (let p = EscapedPath u in (if p = '''' then ''/'' else p) @
        (if u_RawQuery u \<noteq> '''' then CHR ''?'' # u_RawQuery u else ''''))"

text \<open>\<open>u.String()\<close>.\<close>

definition url_String :: "URL \<Rightarrow> string" where
  "url_String u =
     (let p = EscapedPath u
      in u_Origin u @ (if p \<noteq> '''' \<and> hd p \<noteq> CHR ''/'' \<and> u_Origin u \<noteq> '''' then ''/'' else '''') @ p @
         (if u_RawQuery u \<noteq> '''' then CHR ''?'' # u_RawQuery u else ''''))"

section \<open>Query strings\<close>

text \<open>
  \<open>url.Values\<close> as the list of its pairs in the order they were added; the values of a key are those
  of its pairs. \<open>u.Query()\<close> drops what it cannot parse. \<open>Encode\<close> sorts by key.
\<close>

type_synonym Values = "(string \<times> string) list"

definition values_of :: "string \<Rightarrow> Values \<Rightarrow> string list" where
  "values_of k vs = map snd (filter (\<lambda>p. fst p = k) vs)"

definition query_pair :: "string \<Rightarrow> Values" where
  "query_pair part =
     (if part = '''' \<or> CHR '';'' \<in> set part then []
      else case (QueryUnescape (fst (Cut (CHR ''='') part)), QueryUnescape (snd (Cut (CHR ''='') part))) of
        (Inr k, Inr v) \<Rightarrow> [(k, v)]
      | _ \<Rightarrow> [])"

definition Query :: "URL \<Rightarrow> Values" where
  "Query u = concat (map query_pair (Split (CHR ''&'') (u_RawQuery u)))"

definition Values_Encode :: "Values \<Rightarrow> string" where
  "Values_Encode vs = Join (map (\<lambda>(k, v). QueryEscape k @ ''='' @ QueryEscape v) (sort_key fst vs)) ''&''"

section \<open>Lemmas: percent encoding\<close>

lemma unhex_hex_char [simp]: "d < 16 \<Longrightarrow> unhex (hex_char d) = Some d"
  by (simp add: unhex_def hex_char_def Let_def)

lemma shouldEscape_special [simp]:
  "shouldEscape (CHR ''%'') mode" "shouldEscape (CHR '' '') mode" "shouldEscape (CHR ''#'') mode"
  "shouldEscape (CHR ''?'') mode" "shouldEscape (CHR ''+'') encodeQueryComponent"
  "shouldEscape (CHR ''/'') encodePathSegment" "shouldEscape (CHR '';'') encodeQueryComponent"
  "shouldEscape (CHR ''&'') encodeQueryComponent" "shouldEscape (CHR ''='') encodeQueryComponent"
  by (simp_all add: shouldEscape_def is_alnum_def Let_def split: encoding.split)

lemma escape_simps [simp]:
  "escape mode [] = []"
  "escape mode (c # s) =
     (if c = CHR '' '' \<and> mode = encodeQueryComponent then ''+''
      else if shouldEscape c mode then [CHR ''%'', hex_char (of_char c div 16), hex_char (of_char c mod 16)]
      else [c]) @ escape mode s"
  "escape mode (s @ t) = escape mode s @ escape mode t"
  by (simp_all add: escape_def)

lemma of_char_less: "(of_char c :: nat) < 256"
  by simp

lemma unescape_escape_append: "unescape mode (escape mode s @ t) = map_sum id ((@) s) (unescape mode t)"
proof (induction s)
  case Nil
  then show ?case by (cases "unescape mode t") simp_all
next
  case (Cons c s)
  have "(of_char c :: nat) div 16 < 16" using of_char_less [of c] by linarith
  with Cons show ?case
    by (cases "unescape mode t") auto
qed

lemma unescape_escape [simp]: "unescape mode (escape mode s) = Inr s"
  using unescape_escape_append [of mode s "[]"] by simp

lemma unescape_path_modes:
  "mode \<noteq> encodeQueryComponent \<Longrightarrow> unescape mode s = unescape encodePath s"
  by (induction mode s rule: unescape.induct) (auto split: list.split option.split)

lemma unescape_PathEscape_append:
  "unescape encodePath (PathEscape s @ t) = map_sum id ((@) s) (unescape encodePath t)"
  using unescape_escape_append [of encodePathSegment s t] by (simp add: PathEscape_def unescape_path_modes [of encodePathSegment])

lemma PathUnescape_PathEscape [simp]: "PathUnescape (PathEscape s) = Inr s"
  by (simp add: PathUnescape_def PathEscape_def)

lemma QueryUnescape_QueryEscape [simp]: "QueryUnescape (QueryEscape s) = Inr s"
  by (simp add: QueryUnescape_def QueryEscape_def)

text \<open>The bytes an escaped string is made of.\<close>

lemma hex_char_alnum: "d < 16 \<Longrightarrow> is_alnum (hex_char d)"
  by (simp add: is_alnum_def hex_char_def Let_def)

lemma alnum_plain: "is_alnum c \<Longrightarrow> \<not> shouldEscape c mode"
  by (simp add: shouldEscape_def)

lemma escape_chars:
  "c \<in> set (escape mode s) \<Longrightarrow> c = CHR ''%'' \<or> c = CHR ''+'' \<and> mode = encodeQueryComponent \<or> \<not> shouldEscape c mode"
proof (induction s)
  case Nil
  then show ?case by simp
next
  case (Cons x s)
  have "(of_char x :: nat) div 16 < 16" using of_char_less [of x] by linarith
  then have "\<not> shouldEscape (hex_char (of_char x div 16)) mode" "\<not> shouldEscape (hex_char (of_char x mod 16)) mode"
    by (simp_all add: alnum_plain hex_char_alnum)
  with Cons show ?case by (auto split: if_splits)
qed

lemma PathEscape_no_slash [simp]: "CHR ''/'' \<notin> set (PathEscape s)"
  using escape_chars [of "CHR ''/''" encodePathSegment s] by (auto simp: PathEscape_def)

lemma PathEscape_no_query [simp]: "CHR ''?'' \<notin> set (PathEscape s)"
  using escape_chars [of "CHR ''?''" encodePathSegment s] by (auto simp: PathEscape_def)

lemma QueryEscape_no_special:
  "CHR ''&'' \<notin> set (QueryEscape s)" "CHR ''='' \<notin> set (QueryEscape s)" "CHR '';'' \<notin> set (QueryEscape s)"
  using escape_chars [of "CHR ''&''" encodeQueryComponent s] escape_chars [of "CHR ''=''" encodeQueryComponent s]
    escape_chars [of "CHR '';''" encodeQueryComponent s]
  by (auto simp: QueryEscape_def)

lemma segment_plain: "\<not> shouldEscape c encodePathSegment \<Longrightarrow> \<not> shouldEscape c encodePath"
  by (auto simp: shouldEscape_def split: if_splits)

lemma validEncoded_append [simp]: "validEncoded (s @ t) \<longleftrightarrow> validEncoded s \<and> validEncoded t"
  by (simp add: validEncoded_def)

lemma valid_char_escaped: "c = CHR ''%'' \<or> \<not> shouldEscape c encodePath \<Longrightarrow> valid_char c"
  by (auto simp: valid_char_def)

lemma validEncoded_PathEscape [simp]: "validEncoded (PathEscape s)"
proof -
  have "c = CHR ''%'' \<or> \<not> shouldEscape c encodePath" if "c \<in> set (PathEscape s)" for c
    using escape_chars [of c encodePathSegment s] segment_plain [of c] that by (auto simp: PathEscape_def)
  then show ?thesis by (auto simp: validEncoded_def list_all_iff intro: valid_char_escaped)
qed

lemma PathEscape_dots:
  "PathEscape s = ''.'' \<longleftrightarrow> s = ''.''" "PathEscape s = ''..'' \<longleftrightarrow> s = ''..''"
  "PathEscape s = '''' \<longleftrightarrow> s = ''''" "PathEscape s = ''health'' \<longleftrightarrow> s = ''health''"
proof -
  have *: "PathEscape s = t \<Longrightarrow> PathEscape t = t \<Longrightarrow> s = t" for t
    by (metis PathUnescape_PathEscape Inr_inject)
  have e: "PathEscape ''.'' = ''.''" "PathEscape ''..'' = ''..''" "PathEscape '''' = ''''" "PathEscape ''health'' = ''health''"
    by (simp_all add: PathEscape_def shouldEscape_def is_alnum_def Let_def)
  show "PathEscape s = ''.'' \<longleftrightarrow> s = ''.''" "PathEscape s = ''..'' \<longleftrightarrow> s = ''..''"
    "PathEscape s = '''' \<longleftrightarrow> s = ''''" "PathEscape s = ''health'' \<longleftrightarrow> s = ''health''"
    using * e by metis+
qed

section \<open>Lemmas: paths\<close>

lemma setPath_fields:
  "setPath p u = Inr u' \<Longrightarrow> u_Origin u' = u_Origin u \<and> u_RawQuery u' = u_RawQuery u \<and> unescape encodePath p = Inr (u_Path u') \<and>
     u_RawPath u' = (if p = escape encodePath (u_Path u') then '''' else p)"
  by (auto simp: setPath_def split: sum.splits)

lemma EscapedPath_setPath:
  assumes "setPath p u = Inr u'" and "validEncoded p" and "u_Path u' \<noteq> ''*''"
  shows "EscapedPath u' = p"
  using setPath_fields [OF assms(1)] assms(2,3) by (auto simp: EscapedPath_def)

section \<open>Lemmas: resolving against the root\<close>

lemma fold_path_elem:
  assumes "\<forall>p \<in> set ps. p \<noteq> ''.'' \<and> p \<noteq> ''..''"
  shows "fold path_elem ps (dst, False) = (dst @ concat (map (\<lambda>p. CHR ''/'' # p) ps), False)"
  using assms by (induction ps arbitrary: dst) (auto simp: path_elem_def)

lemma concat_Join: "ps \<noteq> [] \<Longrightarrow> concat (map (\<lambda>p. CHR ''/'' # p) ps) = CHR ''/'' # Join ps ''/''"
  by (induction ps rule: induct_list012) simp_all

text \<open>A path without dot segments, under the root.\<close>

definition plain_path :: "string \<Rightarrow> bool" where
  "plain_path s \<longleftrightarrow> (\<forall>p \<in> set (Split (CHR ''/'') s). p \<noteq> ''.'' \<and> p \<noteq> ''..'')"

lemma resolvePath_root: "plain_path s \<Longrightarrow> resolvePath ''/'' (''./'' @ s) = CHR ''/'' # s"
proof -
  assume p: "plain_path s"
  let ?ps = "Split (CHR ''/'') s"
  have s: "Split (CHR ''/'') (''/./'' @ s) = [] # ''.'' # ?ps" by (simp add: Split_append)
  have f: "fold path_elem ([] # ''.'' # ?ps) ([], True) = (CHR ''/'' # s, False)"
    using fold_path_elem [of ?ps "[]"] concat_Join [of ?ps] p
    by (simp add: plain_path_def Join_Split) (simp add: path_elem_def)
  have l: "last ([] # ''.'' # ?ps) \<notin> {''.'', ''..''}"
    using p last_in_set [of ?ps] by (auto simp: plain_path_def)
  show ?thesis
    unfolding resolvePath_def Let_def using s f l by (simp add: HasPrefix_def)
qed

lemma plain_path_segment:
  "CHR ''/'' \<notin> set t \<Longrightarrow> plain_path (s @ CHR ''/'' # t) \<longleftrightarrow> plain_path s \<and> t \<noteq> ''.'' \<and> t \<noteq> ''..''"
proof -
  assume t: "CHR ''/'' \<notin> set t"
  have "Split (CHR ''/'') (s @ CHR ''/'' # t) = Split (CHR ''/'') s @ [t]"
    using Split_none [OF t] by (induction s) (auto split: list.split)
  then show ?thesis by (auto simp: plain_path_def)
qed

text \<open>A URL with this escaped path.\<close>

definition located :: "string \<Rightarrow> string \<Rightarrow> string \<Rightarrow> string \<Rightarrow> URL" where
  "located o' p path q =
     \<lparr>u_Origin = o', u_Path = path, u_RawPath = (if p = escape encodePath path then '''' else p), u_RawQuery = q\<rparr>"

lemma setPath_located: "unescape encodePath p = Inr path \<Longrightarrow> setPath p u = Inr (located (u_Origin u) p path (u_RawQuery u))"
  by (cases u) (simp add: setPath_def located_def)

lemma EscapedPath_located:
  "unescape encodePath p = Inr path \<Longrightarrow> validEncoded p \<Longrightarrow> path \<noteq> ''*'' \<Longrightarrow> EscapedPath (located o' p path q) = p"
  by (auto simp: EscapedPath_def located_def)

lemma parse_reference_located:
  assumes "unescape encodePath p = Inr path" and "CHR ''?'' \<notin> set p"
  shows "parse_reference p = Inr (located '''' p path '''')"
    and "parse_reference (p @ CHR ''?'' # q) = Inr (located '''' p path q)"
  using assms by (simp_all add: parse_reference_def Cut_none Cut_append setPath_located)

lemma unescape_slash: "unescape encodePath s = Inr path \<Longrightarrow> unescape encodePath (CHR ''/'' # s) = Inr (CHR ''/'' # path)"
  by simp

lemma ParseRef_root:
  assumes "unescape encodePath s = Inr path" and "validEncoded s" and "CHR ''?'' \<notin> set s" and "plain_path s"
    and "EscapedPath u = ''/''"
  shows "url_ParseRef u (''./'' @ s) = Inr (located (u_Origin u) (CHR ''/'' # s) (CHR ''/'' # path) '''')"
proof -
  have un: "unescape encodePath (''./'' @ s) = Inr (''./'' @ path)" using assms(1) by simp
  have v: "validEncoded (''./'' @ s)"
    using assms(2) by (simp add: validEncoded_def valid_char_def shouldEscape_def is_alnum_def)
  have r: "parse_reference (''./'' @ s) = Inr (located '''' (''./'' @ s) (''./'' @ path) '''')"
    using parse_reference_located(1) [OF un] assms(3) by simp
  have e: "EscapedPath (located '''' (''./'' @ s) (''./'' @ path) '''') = ''./'' @ s"
    by (rule EscapedPath_located [OF un v]) simp
  have "setPath (CHR ''/'' # s) u' = Inr (located (u_Origin u') (CHR ''/'' # s) (CHR ''/'' # path) (u_RawQuery u'))" for u'
    by (rule setPath_located [OF unescape_slash [OF assms(1)]])
  with r e show ?thesis
    by (simp add: url_ParseRef_def assms(5) resolvePath_root [OF assms(4), simplified]) (simp add: located_def)
qed

section \<open>Lemmas: requests over the wire\<close>

lemma unescape_append:
  "unescape mode s = Inr x \<Longrightarrow> unescape mode (s @ t) = map_sum id ((@) x) (unescape mode t)"
proof (induction mode s arbitrary: x rule: unescape.induct)
  case (1 mode)
  then show ?case by (cases "unescape mode t") auto
next
  case (2 mode c cs)
  show ?case
  proof (cases "c = CHR ''%''")
    case True
    with 2(3) obtain a b rest p q where cs: "cs = a # b # rest" "unhex a = Some p" "unhex b = Some q"
      by (auto split: list.splits option.splits)
    with True 2(3) obtain y where y: "unescape mode rest = Inr y" "x = char_of (16 * p + q) # y"
      by (cases "unescape mode rest") auto
    with 2(1) [OF True cs(1) refl refl cs(2,3)] True cs show ?thesis
      by (cases "unescape mode t") simp_all
  next
    case False
    with 2(3) obtain y where "unescape mode cs = Inr y" "x = (if c = CHR ''+'' \<and> mode = encodeQueryComponent then CHR '' '' else c) # y"
      by (cases "unescape mode cs") auto
    with 2(2) [OF False] False show ?thesis by (cases "unescape mode t") simp_all
  qed
qed

lemma escape_keeps: "c \<in> set s \<Longrightarrow> \<not> shouldEscape c mode \<Longrightarrow> c \<in> set (escape mode s)"
  by (induction s) auto

lemma canonical_no_slash:
  assumes "PathEscape s = escape encodePath s"
  shows "CHR ''/'' \<notin> set s"
proof
  assume "CHR ''/'' \<in> set s"
  moreover have "\<not> shouldEscape (CHR ''/'') encodePath" by (simp add: shouldEscape_def is_alnum_def)
  ultimately have "CHR ''/'' \<in> set (PathEscape s)" using escape_keeps assms by metis
  then show False by simp
qed

text \<open>The server's address is its root, and strings under its origin split there.\<close>

definition at_root :: "(string \<Rightarrow> (string \<times> string) res) \<Rightarrow> string \<Rightarrow> bool" where
  "at_root origin server \<longleftrightarrow>
     (\<exists>base. url_Parse origin server = Inr base \<and> EscapedPath base = ''/'' \<and>
        (\<forall>t. origin (u_Origin base @ CHR ''/'' # t) = Inr (u_Origin base, CHR ''/'' # t)))"

text \<open>An operation path the client may send: its escaped form and the path it stands for.\<close>

definition sendable :: "string \<Rightarrow> string \<Rightarrow> bool" where
  "sendable s path \<longleftrightarrow> unescape encodePath s = Inr path \<and> validEncoded s \<and> CHR ''?'' \<notin> set s \<and> plain_path s"

lemma url_String_located:
  assumes "sendable s path"
  shows "url_String (located o' (CHR ''/'' # s) (CHR ''/'' # path) q) =
    o' @ CHR ''/'' # s @ (if q \<noteq> '''' then CHR ''?'' # q else '''')"
    and "RequestURI (located o' (CHR ''/'' # s) (CHR ''/'' # path) q) =
    CHR ''/'' # s @ (if q \<noteq> '''' then CHR ''?'' # q else '''')"
proof -
  have "validEncoded (CHR ''/'' # s)"
    using assms by (simp add: sendable_def validEncoded_def valid_char_def shouldEscape_def is_alnum_def)
  then have e: "EscapedPath (located o' (CHR ''/'' # s) (CHR ''/'' # path) q) = CHR ''/'' # s"
    using assms by (intro EscapedPath_located) (auto simp: sendable_def)
  show "url_String (located o' (CHR ''/'' # s) (CHR ''/'' # path) q) =
    o' @ CHR ''/'' # s @ (if q \<noteq> '''' then CHR ''?'' # q else '''')"
    "RequestURI (located o' (CHR ''/'' # s) (CHR ''/'' # path) q) =
    CHR ''/'' # s @ (if q \<noteq> '''' then CHR ''?'' # q else '''')"
    by (simp_all add: url_String_def RequestURI_def e Let_def) (simp_all add: located_def)
qed

lemma parse_reference_sent:
  assumes "sendable s path"
  shows "parse_reference (CHR ''/'' # s @ (if q \<noteq> '''' then CHR ''?'' # q else '''')) =
    Inr (located '''' (CHR ''/'' # s) (CHR ''/'' # path) q)"
  using parse_reference_located [of "CHR ''/'' # s" "CHR ''/'' # path"] assms
  by (auto simp: sendable_def)

lemma url_Parse_sent:
  assumes "sendable s path" and "\<And>t. origin (o' @ CHR ''/'' # t) = Inr (o', CHR ''/'' # t)"
  shows "url_Parse origin (o' @ CHR ''/'' # s @ (if q \<noteq> '''' then CHR ''?'' # q else '''')) =
    Inr (located o' (CHR ''/'' # s) (CHR ''/'' # path) q)"
  unfolding url_Parse_def by (simp only: assms(2) sum.case prod.case parse_reference_sent [OF assms(1)])
    (simp add: located_def)

section \<open>Lemmas: query strings\<close>

lemma Split_Join:
  assumes "ps \<noteq> []" and "\<forall>p \<in> set ps. sep \<notin> set p"
  shows "Split sep (Join ps [sep]) = ps"
  using assms by (induction ps rule: induct_list012) (simp_all add: Split_none Split_append)

text \<open>A styled parameter with a plain name.\<close>

definition plain_name :: "string \<Rightarrow> bool" where
  "plain_name k \<longleftrightarrow> k \<noteq> '''' \<and> list_all (\<lambda>c. is_alnum c \<or> c = CHR ''_'') k"

lemma plain_name_chars:
  assumes "plain_name k"
  shows "CHR ''='' \<notin> set k" "CHR ''&'' \<notin> set k" "CHR '';'' \<notin> set k" "QueryUnescape k = Inr k"
proof -
  show "CHR ''='' \<notin> set k" "CHR ''&'' \<notin> set k" "CHR '';'' \<notin> set k"
    using assms by (auto simp: plain_name_def list_all_iff is_alnum_def)
  have "list_all (\<lambda>c. is_alnum c \<or> c = CHR ''_'') k \<Longrightarrow> escape encodeQueryComponent k = k"
    by (induction k) (auto simp: shouldEscape_def is_alnum_def)
  then have "QueryEscape k = k" using assms by (simp add: plain_name_def QueryEscape_def)
  then show "QueryUnescape k = Inr k" using QueryUnescape_QueryEscape [of k] by simp
qed

lemma query_pair_styled:
  assumes "plain_name k"
  shows "query_pair (k @ ''='' @ QueryEscape v) = [(k, v)]" and "CHR ''&'' \<notin> set (k @ ''='' @ QueryEscape v)"
  using assms plain_name_chars [OF assms] QueryEscape_no_special [of v]
  by (auto simp: query_pair_def Cut_append plain_name_def)

lemma Query_Join:
  assumes "\<forall>p \<in> set ps. CHR ''&'' \<notin> set p" and "u_RawQuery u = Join ps ''&''"
  shows "Query u = concat (map query_pair ps)"
proof (cases "ps = []")
  case True
  with assms(2) show ?thesis by (simp add: Query_def query_pair_def)
next
  case False
  with assms show ?thesis by (simp add: Query_def Split_Join)
qed

end
