(* ===== verification/Strict_Server.thy ===== *)
theory Strict_Server
  imports Api_Server Rest_Handlers Net_Url
begin

text \<open>
  \<open>internal/api/server/server.gen.go\<close>: what the generated code does between the router and the
  handlers. Per operation: the wrapper binds path and query parameters, the strict handler decodes
  the body, calls the typed handler and writes its response object.

  A handler reads the request and writes at most once, at its end, so it is a function from the
  request and the state \<open>'w\<close> behind the handlers to the calls it makes on the \<open>ResponseWriter\<close>
  and the next state; \<open>None\<close> is a handler that never returns. The router \<open>chi\<close>, the parameter
  binding of \<open>oapi-codegen/runtime\<close>, \<open>encoding/json\<close> and what \<open>Write\<close> answers are arguments.
  The strict middleware list is left out: \<open>main.go\<close> passes none.
\<close>

section \<open>Libraries\<close>

text \<open>
  \<open>Encode\<close> of an encoder on a buffer, \<open>Decode\<close> of a decoder on a request body, and \<open>Marshal\<close> and
  \<open>Unmarshal\<close>, for the types the generated code uses them at.
\<close>

record Json =
  js_EncodeClusterList :: "ClusterList \<Rightarrow> string res"
  js_EncodeCluster :: "api_Cluster \<Rightarrow> string res"
  js_EncodeHealth :: "api_Health \<Rightarrow> string res"
  js_EncodeVirtualMachineList :: "VirtualMachineList \<Rightarrow> string res"
  js_EncodeVirtualMachine :: "VirtualMachine \<Rightarrow> string res"
  js_EncodeError :: "api_Error \<Rightarrow> string res"
  js_DecodeCluster :: "string \<Rightarrow> api_Cluster res"
  js_DecodeVirtualMachine :: "string \<Rightarrow> VirtualMachine res"
  js_MarshalCluster :: "api_Cluster \<Rightarrow> string res"
  js_MarshalVirtualMachine :: "VirtualMachine \<Rightarrow> string res"
  js_UnmarshalClusterList :: "string \<Rightarrow> ClusterList res"
  js_UnmarshalCluster :: "string \<Rightarrow> api_Cluster res"
  js_UnmarshalHealth :: "string \<Rightarrow> api_Health res"
  js_UnmarshalVirtualMachineList :: "string \<Rightarrow> VirtualMachineList res"
  js_UnmarshalVirtualMachine :: "string \<Rightarrow> VirtualMachine res"
  js_UnmarshalError :: "string \<Rightarrow> api_Error res"

text \<open>
  The runtime package: binding a query parameter of a type, binding a path parameter (its name, the
  raw text, whether it is unescaped already), whether an error is a \<open>RequiredParameterError\<close>, and
  the client's styling of a parameter.
\<close>

record Runtime =
  rt_BindQueryString :: "string \<Rightarrow> Values \<Rightarrow> string option res"
  rt_BindQueryInt32 :: "string \<Rightarrow> Values \<Rightarrow> int option res"
  rt_BindPath :: "string \<Rightarrow> string \<Rightarrow> bool \<Rightarrow> string res"
  rt_isRequired :: "go_error \<Rightarrow> bool"
  rt_StyleQueryString :: "string \<Rightarrow> string \<Rightarrow> string res"
  rt_StyleQueryInt32 :: "string \<Rightarrow> int \<Rightarrow> string res"
  rt_StylePath :: "string \<Rightarrow> string \<Rightarrow> string res"

section \<open>Requests and handlers\<close>

text \<open>\<open>ar_Params\<close> are the URL parameters that chi keeps in the request's context.\<close>

record api_request = request +
  ar_URL :: URL
  ar_Body :: string
  ar_Params :: "(string \<times> string) list"

type_synonym 'w api_handler = "api_request \<Rightarrow> 'w \<Rightarrow> (writer_call list \<times> 'w) option"

definition URLParam :: "api_request \<Rightarrow> string \<Rightarrow> string" where
  "URLParam r name = (case map_of (ar_Params r) name of None \<Rightarrow> '''' | Some v \<Rightarrow> v)"

text \<open>\<open>http.Error\<close> and \<open>httperror.WriteResponse\<close> as calls.\<close>

definition http_Error :: "string \<Rightarrow> int \<Rightarrow> writer_call list" where
  "http_Error text' code = [SetContentType ''text/plain; charset=utf-8'', WriteHeader code, Write (text' @ [CHR 0x0A])]"

definition problem_text :: "Json \<Rightarrow> api_Error \<Rightarrow> string" where
  "problem_text js e = (case js_EncodeError js e of Inl err \<Rightarrow> '''' | Inr b \<Rightarrow> b)"

definition problem_calls :: "Json \<Rightarrow> http_error \<Rightarrow> writer_call list" where
  "problem_calls js e = [SetContentType (he_ContentType e), WriteHeader (he_Status e), Write (problem_text js (he_Body e))]"

section \<open>Response objects\<close>

text \<open>
  The implementations of each response interface: the generated ones, and the \<open>mappedError\<close> of the
  handler packages, given by what its \<open>respond\<close> sends. A visitor answers the calls it makes and its
  error; \<open>wr\<close> is what \<open>Write\<close> answers.
\<close>

definition visit_json ::
  "string \<Rightarrow> int \<Rightarrow> (string \<Rightarrow> go_error option) \<Rightarrow> string res \<Rightarrow> writer_call list \<times> go_error option" where
  "visit_json contentType code wr encoded =
     (case encoded of
        Inl err \<Rightarrow> ([], Some err)
      | Inr b \<Rightarrow> ([SetContentType contentType, WriteHeader code, Write b], wr b))"

abbreviation visit_ok where "visit_ok \<equiv> visit_json ''application/json''"
abbreviation visit_problem where "visit_problem \<equiv> visit_json ''application/problem+json''"


datatype ListClustersResponseObject =
    ListClusters200JSONResponse ClusterList
  | ListClusters400ApplicationProblemPlusJSONResponse api_Error
  | ListClusters401ApplicationProblemPlusJSONResponse api_Error
  | ListClusters403ApplicationProblemPlusJSONResponse api_Error
  | ListClusters500ApplicationProblemPlusJSONResponse api_Error
  | ListClusters502ApplicationProblemPlusJSONResponse api_Error
  | ListClustersMappedError http_error

fun VisitListClustersResponse ::
  "Json \<Rightarrow> (string \<Rightarrow> go_error option) \<Rightarrow> ListClustersResponseObject \<Rightarrow> writer_call list \<times> go_error option" where
  "VisitListClustersResponse js wr (ListClusters200JSONResponse x) = visit_ok 200 wr (js_EncodeClusterList js x)"
| "VisitListClustersResponse js wr (ListClusters400ApplicationProblemPlusJSONResponse x) = visit_problem 400 wr (js_EncodeError js x)"
| "VisitListClustersResponse js wr (ListClusters401ApplicationProblemPlusJSONResponse x) = visit_problem 401 wr (js_EncodeError js x)"
| "VisitListClustersResponse js wr (ListClusters403ApplicationProblemPlusJSONResponse x) = visit_problem 403 wr (js_EncodeError js x)"
| "VisitListClustersResponse js wr (ListClusters500ApplicationProblemPlusJSONResponse x) = visit_problem 500 wr (js_EncodeError js x)"
| "VisitListClustersResponse js wr (ListClusters502ApplicationProblemPlusJSONResponse x) = visit_problem 502 wr (js_EncodeError js x)"
| "VisitListClustersResponse js wr (ListClustersMappedError e) = (problem_calls js e, None)"


datatype CreateClusterResponseObject =
    CreateCluster201JSONResponse api_Cluster
  | CreateCluster400ApplicationProblemPlusJSONResponse api_Error
  | CreateCluster401ApplicationProblemPlusJSONResponse api_Error
  | CreateCluster403ApplicationProblemPlusJSONResponse api_Error
  | CreateCluster500ApplicationProblemPlusJSONResponse api_Error
  | CreateCluster502ApplicationProblemPlusJSONResponse api_Error
  | CreateClusterMappedError http_error

fun VisitCreateClusterResponse ::
  "Json \<Rightarrow> (string \<Rightarrow> go_error option) \<Rightarrow> CreateClusterResponseObject \<Rightarrow> writer_call list \<times> go_error option" where
  "VisitCreateClusterResponse js wr (CreateCluster201JSONResponse x) = visit_ok 201 wr (js_EncodeCluster js x)"
| "VisitCreateClusterResponse js wr (CreateCluster400ApplicationProblemPlusJSONResponse x) = visit_problem 400 wr (js_EncodeError js x)"
| "VisitCreateClusterResponse js wr (CreateCluster401ApplicationProblemPlusJSONResponse x) = visit_problem 401 wr (js_EncodeError js x)"
| "VisitCreateClusterResponse js wr (CreateCluster403ApplicationProblemPlusJSONResponse x) = visit_problem 403 wr (js_EncodeError js x)"
| "VisitCreateClusterResponse js wr (CreateCluster500ApplicationProblemPlusJSONResponse x) = visit_problem 500 wr (js_EncodeError js x)"
| "VisitCreateClusterResponse js wr (CreateCluster502ApplicationProblemPlusJSONResponse x) = visit_problem 502 wr (js_EncodeError js x)"
| "VisitCreateClusterResponse js wr (CreateClusterMappedError e) = (problem_calls js e, None)"


datatype GetClustersHealthResponseObject =
    GetClustersHealth200JSONResponse api_Health
  | GetClustersHealth500ApplicationProblemPlusJSONResponse api_Error

fun VisitGetClustersHealthResponse ::
  "Json \<Rightarrow> (string \<Rightarrow> go_error option) \<Rightarrow> GetClustersHealthResponseObject \<Rightarrow> writer_call list \<times> go_error option" where
  "VisitGetClustersHealthResponse js wr (GetClustersHealth200JSONResponse x) = visit_ok 200 wr (js_EncodeHealth js x)"
| "VisitGetClustersHealthResponse js wr (GetClustersHealth500ApplicationProblemPlusJSONResponse x) = visit_problem 500 wr (js_EncodeError js x)"


datatype DeleteClusterResponseObject =
    DeleteCluster204Response
  | DeleteCluster401ApplicationProblemPlusJSONResponse api_Error
  | DeleteCluster403ApplicationProblemPlusJSONResponse api_Error
  | DeleteCluster500ApplicationProblemPlusJSONResponse api_Error
  | DeleteCluster502ApplicationProblemPlusJSONResponse api_Error
  | DeleteClusterMappedError http_error

fun VisitDeleteClusterResponse ::
  "Json \<Rightarrow> (string \<Rightarrow> go_error option) \<Rightarrow> DeleteClusterResponseObject \<Rightarrow> writer_call list \<times> go_error option" where
  "VisitDeleteClusterResponse js wr DeleteCluster204Response = ([WriteHeader 204], None)"
| "VisitDeleteClusterResponse js wr (DeleteCluster401ApplicationProblemPlusJSONResponse x) = visit_problem 401 wr (js_EncodeError js x)"
| "VisitDeleteClusterResponse js wr (DeleteCluster403ApplicationProblemPlusJSONResponse x) = visit_problem 403 wr (js_EncodeError js x)"
| "VisitDeleteClusterResponse js wr (DeleteCluster500ApplicationProblemPlusJSONResponse x) = visit_problem 500 wr (js_EncodeError js x)"
| "VisitDeleteClusterResponse js wr (DeleteCluster502ApplicationProblemPlusJSONResponse x) = visit_problem 502 wr (js_EncodeError js x)"
| "VisitDeleteClusterResponse js wr (DeleteClusterMappedError e) = (problem_calls js e, None)"


datatype GetClusterResponseObject =
    GetCluster200JSONResponse api_Cluster
  | GetCluster401ApplicationProblemPlusJSONResponse api_Error
  | GetCluster403ApplicationProblemPlusJSONResponse api_Error
  | GetCluster404ApplicationProblemPlusJSONResponse api_Error
  | GetCluster500ApplicationProblemPlusJSONResponse api_Error
  | GetCluster502ApplicationProblemPlusJSONResponse api_Error
  | GetClusterMappedError http_error

fun VisitGetClusterResponse ::
  "Json \<Rightarrow> (string \<Rightarrow> go_error option) \<Rightarrow> GetClusterResponseObject \<Rightarrow> writer_call list \<times> go_error option" where
  "VisitGetClusterResponse js wr (GetCluster200JSONResponse x) = visit_ok 200 wr (js_EncodeCluster js x)"
| "VisitGetClusterResponse js wr (GetCluster401ApplicationProblemPlusJSONResponse x) = visit_problem 401 wr (js_EncodeError js x)"
| "VisitGetClusterResponse js wr (GetCluster403ApplicationProblemPlusJSONResponse x) = visit_problem 403 wr (js_EncodeError js x)"
| "VisitGetClusterResponse js wr (GetCluster404ApplicationProblemPlusJSONResponse x) = visit_problem 404 wr (js_EncodeError js x)"
| "VisitGetClusterResponse js wr (GetCluster500ApplicationProblemPlusJSONResponse x) = visit_problem 500 wr (js_EncodeError js x)"
| "VisitGetClusterResponse js wr (GetCluster502ApplicationProblemPlusJSONResponse x) = visit_problem 502 wr (js_EncodeError js x)"
| "VisitGetClusterResponse js wr (GetClusterMappedError e) = (problem_calls js e, None)"


datatype ListVMsResponseObject =
    ListVMs200JSONResponse VirtualMachineList
  | ListVMs400ApplicationProblemPlusJSONResponse api_Error
  | ListVMs401ApplicationProblemPlusJSONResponse api_Error
  | ListVMs403ApplicationProblemPlusJSONResponse api_Error
  | ListVMs500ApplicationProblemPlusJSONResponse api_Error
  | ListVMs502ApplicationProblemPlusJSONResponse api_Error
  | ListVMsMappedError http_error

fun VisitListVMsResponse ::
  "Json \<Rightarrow> (string \<Rightarrow> go_error option) \<Rightarrow> ListVMsResponseObject \<Rightarrow> writer_call list \<times> go_error option" where
  "VisitListVMsResponse js wr (ListVMs200JSONResponse x) = visit_ok 200 wr (js_EncodeVirtualMachineList js x)"
| "VisitListVMsResponse js wr (ListVMs400ApplicationProblemPlusJSONResponse x) = visit_problem 400 wr (js_EncodeError js x)"
| "VisitListVMsResponse js wr (ListVMs401ApplicationProblemPlusJSONResponse x) = visit_problem 401 wr (js_EncodeError js x)"
| "VisitListVMsResponse js wr (ListVMs403ApplicationProblemPlusJSONResponse x) = visit_problem 403 wr (js_EncodeError js x)"
| "VisitListVMsResponse js wr (ListVMs500ApplicationProblemPlusJSONResponse x) = visit_problem 500 wr (js_EncodeError js x)"
| "VisitListVMsResponse js wr (ListVMs502ApplicationProblemPlusJSONResponse x) = visit_problem 502 wr (js_EncodeError js x)"
| "VisitListVMsResponse js wr (ListVMsMappedError e) = (problem_calls js e, None)"


datatype CreateVMResponseObject =
    CreateVM201JSONResponse VirtualMachine
  | CreateVM400ApplicationProblemPlusJSONResponse api_Error
  | CreateVM401ApplicationProblemPlusJSONResponse api_Error
  | CreateVM403ApplicationProblemPlusJSONResponse api_Error
  | CreateVM500ApplicationProblemPlusJSONResponse api_Error
  | CreateVM502ApplicationProblemPlusJSONResponse api_Error
  | CreateVMMappedError http_error

fun VisitCreateVMResponse ::
  "Json \<Rightarrow> (string \<Rightarrow> go_error option) \<Rightarrow> CreateVMResponseObject \<Rightarrow> writer_call list \<times> go_error option" where
  "VisitCreateVMResponse js wr (CreateVM201JSONResponse x) = visit_ok 201 wr (js_EncodeVirtualMachine js x)"
| "VisitCreateVMResponse js wr (CreateVM400ApplicationProblemPlusJSONResponse x) = visit_problem 400 wr (js_EncodeError js x)"
| "VisitCreateVMResponse js wr (CreateVM401ApplicationProblemPlusJSONResponse x) = visit_problem 401 wr (js_EncodeError js x)"
| "VisitCreateVMResponse js wr (CreateVM403ApplicationProblemPlusJSONResponse x) = visit_problem 403 wr (js_EncodeError js x)"
| "VisitCreateVMResponse js wr (CreateVM500ApplicationProblemPlusJSONResponse x) = visit_problem 500 wr (js_EncodeError js x)"
| "VisitCreateVMResponse js wr (CreateVM502ApplicationProblemPlusJSONResponse x) = visit_problem 502 wr (js_EncodeError js x)"
| "VisitCreateVMResponse js wr (CreateVMMappedError e) = (problem_calls js e, None)"


datatype GetVMsHealthResponseObject =
    GetVMsHealth200JSONResponse api_Health
  | GetVMsHealth500ApplicationProblemPlusJSONResponse api_Error

fun VisitGetVMsHealthResponse ::
  "Json \<Rightarrow> (string \<Rightarrow> go_error option) \<Rightarrow> GetVMsHealthResponseObject \<Rightarrow> writer_call list \<times> go_error option" where
  "VisitGetVMsHealthResponse js wr (GetVMsHealth200JSONResponse x) = visit_ok 200 wr (js_EncodeHealth js x)"
| "VisitGetVMsHealthResponse js wr (GetVMsHealth500ApplicationProblemPlusJSONResponse x) = visit_problem 500 wr (js_EncodeError js x)"


datatype DeleteVMResponseObject =
    DeleteVM204Response
  | DeleteVM401ApplicationProblemPlusJSONResponse api_Error
  | DeleteVM403ApplicationProblemPlusJSONResponse api_Error
  | DeleteVM500ApplicationProblemPlusJSONResponse api_Error
  | DeleteVM502ApplicationProblemPlusJSONResponse api_Error
  | DeleteVMMappedError http_error

fun VisitDeleteVMResponse ::
  "Json \<Rightarrow> (string \<Rightarrow> go_error option) \<Rightarrow> DeleteVMResponseObject \<Rightarrow> writer_call list \<times> go_error option" where
  "VisitDeleteVMResponse js wr DeleteVM204Response = ([WriteHeader 204], None)"
| "VisitDeleteVMResponse js wr (DeleteVM401ApplicationProblemPlusJSONResponse x) = visit_problem 401 wr (js_EncodeError js x)"
| "VisitDeleteVMResponse js wr (DeleteVM403ApplicationProblemPlusJSONResponse x) = visit_problem 403 wr (js_EncodeError js x)"
| "VisitDeleteVMResponse js wr (DeleteVM500ApplicationProblemPlusJSONResponse x) = visit_problem 500 wr (js_EncodeError js x)"
| "VisitDeleteVMResponse js wr (DeleteVM502ApplicationProblemPlusJSONResponse x) = visit_problem 502 wr (js_EncodeError js x)"
| "VisitDeleteVMResponse js wr (DeleteVMMappedError e) = (problem_calls js e, None)"


datatype GetVMResponseObject =
    GetVM200JSONResponse VirtualMachine
  | GetVM401ApplicationProblemPlusJSONResponse api_Error
  | GetVM403ApplicationProblemPlusJSONResponse api_Error
  | GetVM404ApplicationProblemPlusJSONResponse api_Error
  | GetVM500ApplicationProblemPlusJSONResponse api_Error
  | GetVM502ApplicationProblemPlusJSONResponse api_Error
  | GetVMMappedError http_error

fun VisitGetVMResponse ::
  "Json \<Rightarrow> (string \<Rightarrow> go_error option) \<Rightarrow> GetVMResponseObject \<Rightarrow> writer_call list \<times> go_error option" where
  "VisitGetVMResponse js wr (GetVM200JSONResponse x) = visit_ok 200 wr (js_EncodeVirtualMachine js x)"
| "VisitGetVMResponse js wr (GetVM401ApplicationProblemPlusJSONResponse x) = visit_problem 401 wr (js_EncodeError js x)"
| "VisitGetVMResponse js wr (GetVM403ApplicationProblemPlusJSONResponse x) = visit_problem 403 wr (js_EncodeError js x)"
| "VisitGetVMResponse js wr (GetVM404ApplicationProblemPlusJSONResponse x) = visit_problem 404 wr (js_EncodeError js x)"
| "VisitGetVMResponse js wr (GetVM500ApplicationProblemPlusJSONResponse x) = visit_problem 500 wr (js_EncodeError js x)"
| "VisitGetVMResponse js wr (GetVM502ApplicationProblemPlusJSONResponse x) = visit_problem 502 wr (js_EncodeError js x)"
| "VisitGetVMResponse js wr (GetVMMappedError e) = (problem_calls js e, None)"

section \<open>The typed handlers\<close>

record CreateClusterRequestObject =
  cco_Params :: CreateParams
  cco_Body :: "api_Cluster option"

record CreateVMRequestObject =
  cvo_Params :: CreateParams
  cvo_Body :: "VirtualMachine option"

text \<open>A handler answers a response object, which may be nil, or an error.\<close>

type_synonym ('w, 'o) typed = "'w \<Rightarrow> ('o option res \<times> 'w) option"

record 'w StrictServerInterface =
  ssi_ListClusters :: "ListParams \<Rightarrow> ('w, ListClustersResponseObject) typed"
  ssi_CreateCluster :: "CreateClusterRequestObject \<Rightarrow> ('w, CreateClusterResponseObject) typed"
  ssi_GetClustersHealth :: "('w, GetClustersHealthResponseObject) typed"
  ssi_DeleteCluster :: "string \<Rightarrow> ('w, DeleteClusterResponseObject) typed"
  ssi_GetCluster :: "string \<Rightarrow> ('w, GetClusterResponseObject) typed"
  ssi_ListVMs :: "ListParams \<Rightarrow> ('w, ListVMsResponseObject) typed"
  ssi_CreateVM :: "CreateVMRequestObject \<Rightarrow> ('w, CreateVMResponseObject) typed"
  ssi_GetVMsHealth :: "('w, GetVMsHealthResponseObject) typed"
  ssi_DeleteVM :: "string \<Rightarrow> ('w, DeleteVMResponseObject) typed"
  ssi_GetVM :: "string \<Rightarrow> ('w, GetVMResponseObject) typed"

text \<open>\<open>None\<close> in an option is a nil function, which the constructor replaces by its default.\<close>

record StrictHTTPServerOptions =
  so_RequestErrorHandlerFunc :: "(api_request \<Rightarrow> go_error \<Rightarrow> writer_call list) option"
  so_ResponseErrorHandlerFunc :: "(api_request \<Rightarrow> go_error \<Rightarrow> writer_call list) option"

record 'w strictHandler =
  sh_ssi :: "'w StrictServerInterface"
  sh_RequestError :: "api_request \<Rightarrow> go_error \<Rightarrow> writer_call list"
  sh_ResponseError :: "api_request \<Rightarrow> go_error \<Rightarrow> writer_call list"

definition NewStrictHandlerWithOptions ::
  "(go_error \<Rightarrow> string) \<Rightarrow> 'w StrictServerInterface \<Rightarrow> StrictHTTPServerOptions \<Rightarrow> 'w strictHandler" where
  "NewStrictHandlerWithOptions err_text ssi options =
     \<lparr>sh_ssi = ssi,
      sh_RequestError = (case so_RequestErrorHandlerFunc options of
         None \<Rightarrow> (\<lambda>r err. http_Error (err_text err) StatusBadRequest) | Some f \<Rightarrow> f),
      sh_ResponseError = (case so_ResponseErrorHandlerFunc options of
         None \<Rightarrow> (\<lambda>r err. http_Error (err_text err) StatusInternalServerError) | Some f \<Rightarrow> f)\<rparr>"

definition NewStrictHandler :: "(go_error \<Rightarrow> string) \<Rightarrow> 'w StrictServerInterface \<Rightarrow> 'w strictHandler" where
  "NewStrictHandler err_text ssi =
     \<lparr>sh_ssi = ssi,
      sh_RequestError = (\<lambda>r err. http_Error (err_text err) StatusBadRequest),
      sh_ResponseError = (\<lambda>r err. http_Error (err_text err) StatusInternalServerError)\<rparr>"

section \<open>The strict handlers\<close>

text \<open>The end every strict handler shares.\<close>

definition strict_respond ::
  "('o \<Rightarrow> writer_call list \<times> go_error option) \<Rightarrow> 'w strictHandler \<Rightarrow> api_request \<Rightarrow>
   ('o option res \<times> 'w) option \<Rightarrow> (writer_call list \<times> 'w) option" where
  "strict_respond visit sh r answer =
     (case answer of
        None \<Rightarrow> None
      | Some (Inl err, w) \<Rightarrow> Some (sh_ResponseError sh r err, w)
      | Some (Inr None, w) \<Rightarrow> Some ([], w)
      | Some (Inr (Some validResponse), w) \<Rightarrow>
          (case visit validResponse of
             (calls, None) \<Rightarrow> Some (calls, w)
           | (calls, Some err) \<Rightarrow> Some (calls @ sh_ResponseError sh r err, w)))"

definition strict_ListClusters ::
  "Json \<Rightarrow> (string \<Rightarrow> go_error option) \<Rightarrow> 'w strictHandler \<Rightarrow> api_request \<Rightarrow> ListParams \<Rightarrow> 'w \<Rightarrow>
     (writer_call list \<times> 'w) option" where
  "strict_ListClusters js wr sh r params w = strict_respond (VisitListClustersResponse js wr) sh r (ssi_ListClusters (sh_ssi sh) params w)"

definition strict_CreateCluster ::
  "Json \<Rightarrow> (string \<Rightarrow> go_error option) \<Rightarrow> 'w strictHandler \<Rightarrow> api_request \<Rightarrow> CreateParams \<Rightarrow> 'w \<Rightarrow>
     (writer_call list \<times> 'w) option" where
  "strict_CreateCluster js wr sh r params w =
     (case js_DecodeCluster js (ar_Body r) of
        Inl err \<Rightarrow> Some (sh_RequestError sh r (WrapError [Lit (''can'' @ [CHR 0x27] @ ''t decode JSON body'')] err), w)
      | Inr body \<Rightarrow>
          strict_respond (VisitCreateClusterResponse js wr) sh r
            (ssi_CreateCluster (sh_ssi sh) \<lparr>cco_Params = params, cco_Body = Some body\<rparr> w))"

definition strict_GetClustersHealth ::
  "Json \<Rightarrow> (string \<Rightarrow> go_error option) \<Rightarrow> 'w strictHandler \<Rightarrow> api_request \<Rightarrow> 'w \<Rightarrow>
     (writer_call list \<times> 'w) option" where
  "strict_GetClustersHealth js wr sh r w = strict_respond (VisitGetClustersHealthResponse js wr) sh r (ssi_GetClustersHealth (sh_ssi sh) w)"

definition strict_DeleteCluster ::
  "Json \<Rightarrow> (string \<Rightarrow> go_error option) \<Rightarrow> 'w strictHandler \<Rightarrow> api_request \<Rightarrow> string \<Rightarrow> 'w \<Rightarrow>
     (writer_call list \<times> 'w) option" where
  "strict_DeleteCluster js wr sh r clusterId w = strict_respond (VisitDeleteClusterResponse js wr) sh r (ssi_DeleteCluster (sh_ssi sh) clusterId w)"

definition strict_GetCluster ::
  "Json \<Rightarrow> (string \<Rightarrow> go_error option) \<Rightarrow> 'w strictHandler \<Rightarrow> api_request \<Rightarrow> string \<Rightarrow> 'w \<Rightarrow>
     (writer_call list \<times> 'w) option" where
  "strict_GetCluster js wr sh r clusterId w = strict_respond (VisitGetClusterResponse js wr) sh r (ssi_GetCluster (sh_ssi sh) clusterId w)"

definition strict_ListVMs ::
  "Json \<Rightarrow> (string \<Rightarrow> go_error option) \<Rightarrow> 'w strictHandler \<Rightarrow> api_request \<Rightarrow> ListParams \<Rightarrow> 'w \<Rightarrow>
     (writer_call list \<times> 'w) option" where
  "strict_ListVMs js wr sh r params w = strict_respond (VisitListVMsResponse js wr) sh r (ssi_ListVMs (sh_ssi sh) params w)"

definition strict_CreateVM ::
  "Json \<Rightarrow> (string \<Rightarrow> go_error option) \<Rightarrow> 'w strictHandler \<Rightarrow> api_request \<Rightarrow> CreateParams \<Rightarrow> 'w \<Rightarrow>
     (writer_call list \<times> 'w) option" where
  "strict_CreateVM js wr sh r params w =
     (case js_DecodeVirtualMachine js (ar_Body r) of
        Inl err \<Rightarrow> Some (sh_RequestError sh r (WrapError [Lit (''can'' @ [CHR 0x27] @ ''t decode JSON body'')] err), w)
      | Inr body \<Rightarrow>
          strict_respond (VisitCreateVMResponse js wr) sh r
            (ssi_CreateVM (sh_ssi sh) \<lparr>cvo_Params = params, cvo_Body = Some body\<rparr> w))"

definition strict_GetVMsHealth ::
  "Json \<Rightarrow> (string \<Rightarrow> go_error option) \<Rightarrow> 'w strictHandler \<Rightarrow> api_request \<Rightarrow> 'w \<Rightarrow>
     (writer_call list \<times> 'w) option" where
  "strict_GetVMsHealth js wr sh r w = strict_respond (VisitGetVMsHealthResponse js wr) sh r (ssi_GetVMsHealth (sh_ssi sh) w)"

definition strict_DeleteVM ::
  "Json \<Rightarrow> (string \<Rightarrow> go_error option) \<Rightarrow> 'w strictHandler \<Rightarrow> api_request \<Rightarrow> string \<Rightarrow> 'w \<Rightarrow>
     (writer_call list \<times> 'w) option" where
  "strict_DeleteVM js wr sh r vmId w = strict_respond (VisitDeleteVMResponse js wr) sh r (ssi_DeleteVM (sh_ssi sh) vmId w)"

definition strict_GetVM ::
  "Json \<Rightarrow> (string \<Rightarrow> go_error option) \<Rightarrow> 'w strictHandler \<Rightarrow> api_request \<Rightarrow> string \<Rightarrow> 'w \<Rightarrow>
     (writer_call list \<times> 'w) option" where
  "strict_GetVM js wr sh r vmId w = strict_respond (VisitGetVMResponse js wr) sh r (ssi_GetVM (sh_ssi sh) vmId w)"

section \<open>The server interface\<close>

record 'w ServerInterface =
  si_ListClusters :: "api_request \<Rightarrow> ListParams \<Rightarrow> 'w \<Rightarrow> (writer_call list \<times> 'w) option"
  si_CreateCluster :: "api_request \<Rightarrow> CreateParams \<Rightarrow> 'w \<Rightarrow> (writer_call list \<times> 'w) option"
  si_GetClustersHealth :: "api_request \<Rightarrow> 'w \<Rightarrow> (writer_call list \<times> 'w) option"
  si_DeleteCluster :: "api_request \<Rightarrow> string \<Rightarrow> 'w \<Rightarrow> (writer_call list \<times> 'w) option"
  si_GetCluster :: "api_request \<Rightarrow> string \<Rightarrow> 'w \<Rightarrow> (writer_call list \<times> 'w) option"
  si_ListVMs :: "api_request \<Rightarrow> ListParams \<Rightarrow> 'w \<Rightarrow> (writer_call list \<times> 'w) option"
  si_CreateVM :: "api_request \<Rightarrow> CreateParams \<Rightarrow> 'w \<Rightarrow> (writer_call list \<times> 'w) option"
  si_GetVMsHealth :: "api_request \<Rightarrow> 'w \<Rightarrow> (writer_call list \<times> 'w) option"
  si_DeleteVM :: "api_request \<Rightarrow> string \<Rightarrow> 'w \<Rightarrow> (writer_call list \<times> 'w) option"
  si_GetVM :: "api_request \<Rightarrow> string \<Rightarrow> 'w \<Rightarrow> (writer_call list \<times> 'w) option"

definition strict_interface :: "Json \<Rightarrow> (string \<Rightarrow> go_error option) \<Rightarrow> 'w strictHandler \<Rightarrow> 'w ServerInterface" where
  "strict_interface js wr sh =
     \<lparr>si_ListClusters = strict_ListClusters js wr sh,
      si_CreateCluster = strict_CreateCluster js wr sh,
      si_GetClustersHealth = strict_GetClustersHealth js wr sh,
      si_DeleteCluster = strict_DeleteCluster js wr sh,
      si_GetCluster = strict_GetCluster js wr sh,
      si_ListVMs = strict_ListVMs js wr sh,
      si_CreateVM = strict_CreateVM js wr sh,
      si_GetVMsHealth = strict_GetVMsHealth js wr sh,
      si_DeleteVM = strict_DeleteVM js wr sh,
      si_GetVM = strict_GetVM js wr sh\<rparr>"

definition Unimplemented_server :: "'w ServerInterface" where
  "Unimplemented_server =
     \<lparr>si_ListClusters = (\<lambda>r x w. Some ([WriteHeader 501], w)),
      si_CreateCluster = (\<lambda>r x w. Some ([WriteHeader 501], w)),
      si_GetClustersHealth = (\<lambda>r w. Some ([WriteHeader 501], w)),
      si_DeleteCluster = (\<lambda>r x w. Some ([WriteHeader 501], w)),
      si_GetCluster = (\<lambda>r x w. Some ([WriteHeader 501], w)),
      si_ListVMs = (\<lambda>r x w. Some ([WriteHeader 501], w)),
      si_CreateVM = (\<lambda>r x w. Some ([WriteHeader 501], w)),
      si_GetVMsHealth = (\<lambda>r w. Some ([WriteHeader 501], w)),
      si_DeleteVM = (\<lambda>r x w. Some ([WriteHeader 501], w)),
      si_GetVM = (\<lambda>r x w. Some ([WriteHeader 501], w))\<rparr>"

section \<open>The wrapper\<close>

type_synonym 'w MiddlewareFunc = "'w api_handler \<Rightarrow> 'w api_handler"

record 'w ServerInterfaceWrapper =
  siw_Handler :: "'w ServerInterface"
  siw_HandlerMiddlewares :: "'w MiddlewareFunc list"
  siw_ErrorHandlerFunc :: "api_request \<Rightarrow> go_error \<Rightarrow> writer_call list"

definition RequiredParamError :: "string \<Rightarrow> go_error" where
  "RequiredParamError name = PlainError [Lit ''Query argument '', Lit name, Lit '' is required, but not found'']"

definition InvalidParamFormatError :: "string \<Rightarrow> go_error \<Rightarrow> go_error" where
  "InvalidParamFormatError name err = WrapError [Lit ''Invalid format for parameter '', Lit name] err"

definition query_param_error :: "Runtime \<Rightarrow> string \<Rightarrow> go_error \<Rightarrow> go_error" where
  "query_param_error rt name err =
     (if rt_isRequired rt err then RequiredParamError name else InvalidParamFormatError name err)"

definition serve_with :: "'w ServerInterfaceWrapper \<Rightarrow> 'w api_handler \<Rightarrow> 'w api_handler" where
  "serve_with siw handler = fold (\<lambda>middleware h. middleware h) (siw_HandlerMiddlewares siw) handler"

definition siw_ListClusters :: "Runtime \<Rightarrow> 'w ServerInterfaceWrapper \<Rightarrow> 'w api_handler" where
  "siw_ListClusters rt siw r w =
     (case rt_BindQueryString rt ''page_token'' (Query (ar_URL r)) of
        Inl err \<Rightarrow> Some (siw_ErrorHandlerFunc siw r (query_param_error rt ''page_token'' err), w)
      | Inr pageToken \<Rightarrow>
     (case rt_BindQueryInt32 rt ''max_page_size'' (Query (ar_URL r)) of
        Inl err \<Rightarrow> Some (siw_ErrorHandlerFunc siw r (query_param_error rt ''max_page_size'' err), w)
      | Inr size' \<Rightarrow>
          serve_with siw (\<lambda>r. si_ListClusters (siw_Handler siw) r
            \<lparr>lp_PageToken = pageToken, lp_MaxPageSize = size'\<rparr>) r w))"

definition siw_CreateCluster :: "Runtime \<Rightarrow> 'w ServerInterfaceWrapper \<Rightarrow> 'w api_handler" where
  "siw_CreateCluster rt siw r w =
     (case rt_BindQueryString rt ''id'' (Query (ar_URL r)) of
        Inl err \<Rightarrow> Some (siw_ErrorHandlerFunc siw r (query_param_error rt ''id'' err), w)
      | Inr id' \<Rightarrow> serve_with siw (\<lambda>r. si_CreateCluster (siw_Handler siw) r \<lparr>cp_Id = id'\<rparr>) r w)"

definition siw_GetClustersHealth :: "Runtime \<Rightarrow> 'w ServerInterfaceWrapper \<Rightarrow> 'w api_handler" where
  "siw_GetClustersHealth rt siw r w = serve_with siw (\<lambda>r. si_GetClustersHealth (siw_Handler siw) r) r w"

definition siw_DeleteCluster :: "Runtime \<Rightarrow> 'w ServerInterfaceWrapper \<Rightarrow> 'w api_handler" where
  "siw_DeleteCluster rt siw r w =
     (case rt_BindPath rt ''clusterId'' (URLParam r ''clusterId'') (u_RawPath (ar_URL r) = '''') of
        Inl err \<Rightarrow> Some (siw_ErrorHandlerFunc siw r (InvalidParamFormatError ''clusterId'' err), w)
      | Inr clusterId \<Rightarrow> serve_with siw (\<lambda>r. si_DeleteCluster (siw_Handler siw) r clusterId) r w)"

definition siw_GetCluster :: "Runtime \<Rightarrow> 'w ServerInterfaceWrapper \<Rightarrow> 'w api_handler" where
  "siw_GetCluster rt siw r w =
     (case rt_BindPath rt ''clusterId'' (URLParam r ''clusterId'') (u_RawPath (ar_URL r) = '''') of
        Inl err \<Rightarrow> Some (siw_ErrorHandlerFunc siw r (InvalidParamFormatError ''clusterId'' err), w)
      | Inr clusterId \<Rightarrow> serve_with siw (\<lambda>r. si_GetCluster (siw_Handler siw) r clusterId) r w)"

definition siw_ListVMs :: "Runtime \<Rightarrow> 'w ServerInterfaceWrapper \<Rightarrow> 'w api_handler" where
  "siw_ListVMs rt siw r w =
     (case rt_BindQueryString rt ''page_token'' (Query (ar_URL r)) of
        Inl err \<Rightarrow> Some (siw_ErrorHandlerFunc siw r (query_param_error rt ''page_token'' err), w)
      | Inr pageToken \<Rightarrow>
     (case rt_BindQueryInt32 rt ''max_page_size'' (Query (ar_URL r)) of
        Inl err \<Rightarrow> Some (siw_ErrorHandlerFunc siw r (query_param_error rt ''max_page_size'' err), w)
      | Inr size' \<Rightarrow>
          serve_with siw (\<lambda>r. si_ListVMs (siw_Handler siw) r
            \<lparr>lp_PageToken = pageToken, lp_MaxPageSize = size'\<rparr>) r w))"

definition siw_CreateVM :: "Runtime \<Rightarrow> 'w ServerInterfaceWrapper \<Rightarrow> 'w api_handler" where
  "siw_CreateVM rt siw r w =
     (case rt_BindQueryString rt ''id'' (Query (ar_URL r)) of
        Inl err \<Rightarrow> Some (siw_ErrorHandlerFunc siw r (query_param_error rt ''id'' err), w)
      | Inr id' \<Rightarrow> serve_with siw (\<lambda>r. si_CreateVM (siw_Handler siw) r \<lparr>cp_Id = id'\<rparr>) r w)"

definition siw_GetVMsHealth :: "Runtime \<Rightarrow> 'w ServerInterfaceWrapper \<Rightarrow> 'w api_handler" where
  "siw_GetVMsHealth rt siw r w = serve_with siw (\<lambda>r. si_GetVMsHealth (siw_Handler siw) r) r w"

definition siw_DeleteVM :: "Runtime \<Rightarrow> 'w ServerInterfaceWrapper \<Rightarrow> 'w api_handler" where
  "siw_DeleteVM rt siw r w =
     (case rt_BindPath rt ''vmId'' (URLParam r ''vmId'') (u_RawPath (ar_URL r) = '''') of
        Inl err \<Rightarrow> Some (siw_ErrorHandlerFunc siw r (InvalidParamFormatError ''vmId'' err), w)
      | Inr vmId \<Rightarrow> serve_with siw (\<lambda>r. si_DeleteVM (siw_Handler siw) r vmId) r w)"

definition siw_GetVM :: "Runtime \<Rightarrow> 'w ServerInterfaceWrapper \<Rightarrow> 'w api_handler" where
  "siw_GetVM rt siw r w =
     (case rt_BindPath rt ''vmId'' (URLParam r ''vmId'') (u_RawPath (ar_URL r) = '''') of
        Inl err \<Rightarrow> Some (siw_ErrorHandlerFunc siw r (InvalidParamFormatError ''vmId'' err), w)
      | Inr vmId \<Rightarrow> serve_with siw (\<lambda>r. si_GetVM (siw_Handler siw) r vmId) r w)"

section \<open>Routing\<close>

text \<open>
  The routes in the order they are registered. \<open>chi\<close> answers the handler of a request and the URL
  parameters it matched, or what it sends when there is none. A base router with routes or middleware
  of its own is another \<open>chi\<close>: \<open>apiserver.New\<close> passes a fresh one with the middleware that is
  \<open>server_handler\<close> of the theory \<open>Api_Server\<close>. The error types for cookies, headers and repeated
  parameters, which the API has none of, are left out.
\<close>

type_synonym 'w route = "string \<times> string \<times> 'w api_handler"

type_synonym 'w chi = "'w route list \<Rightarrow> string \<Rightarrow> URL \<Rightarrow> writer_call list + 'w api_handler \<times> (string \<times> string) list"

record 'w ChiServerOptions =
  co_BaseURL :: string
  co_Middlewares :: "'w MiddlewareFunc list"
  co_ErrorHandlerFunc :: "(api_request \<Rightarrow> go_error \<Rightarrow> writer_call list) option"

definition api_routes :: "Runtime \<Rightarrow> string \<Rightarrow> 'w ServerInterfaceWrapper \<Rightarrow> 'w route list" where
  "api_routes rt baseURL wrapper =
     [(''GET'', baseURL @ ''/api/v1alpha1/clusters'', siw_ListClusters rt wrapper),
      (''POST'', baseURL @ ''/api/v1alpha1/clusters'', siw_CreateCluster rt wrapper),
      (''DELETE'', baseURL @ ''/api/v1alpha1/clusters/{clusterId}'', siw_DeleteCluster rt wrapper),
      (''GET'', baseURL @ ''/api/v1alpha1/clusters/{clusterId}'', siw_GetCluster rt wrapper),
      (''GET'', baseURL @ ''/api/v1alpha1/vms'', siw_ListVMs rt wrapper),
      (''POST'', baseURL @ ''/api/v1alpha1/vms'', siw_CreateVM rt wrapper),
      (''DELETE'', baseURL @ ''/api/v1alpha1/vms/{vmId}'', siw_DeleteVM rt wrapper),
      (''GET'', baseURL @ ''/api/v1alpha1/vms/{vmId}'', siw_GetVM rt wrapper),
      (''GET'', baseURL @ ''/api/v1alpha1/clusters/health'', siw_GetClustersHealth rt wrapper),
      (''GET'', baseURL @ ''/api/v1alpha1/vms/health'', siw_GetVMsHealth rt wrapper)]"

definition HandlerWithOptions ::
  "'w chi \<Rightarrow> Runtime \<Rightarrow> (go_error \<Rightarrow> string) \<Rightarrow> 'w ServerInterface \<Rightarrow> 'w ChiServerOptions \<Rightarrow> 'w api_handler" where
  "HandlerWithOptions chi rt err_text si options r w =
     (let wrapper = \<lparr>siw_Handler = si, siw_HandlerMiddlewares = co_Middlewares options,
            siw_ErrorHandlerFunc = (case co_ErrorHandlerFunc options of
               None \<Rightarrow> (\<lambda>r err. http_Error (err_text err) StatusBadRequest) | Some f \<Rightarrow> f)\<rparr>
      in case chi (api_routes rt (co_BaseURL options) wrapper) (rq_Method r) (ar_URL r) of
        Inl calls \<Rightarrow> Some (calls, w)
      | Inr (handler, params) \<Rightarrow> handler (r \<lparr>ar_Params := params\<rparr>) w)"

definition Handler_default ::
  "'w chi \<Rightarrow> Runtime \<Rightarrow> (go_error \<Rightarrow> string) \<Rightarrow> 'w ServerInterface \<Rightarrow> 'w api_handler" where
  "Handler_default chi rt err_text si =
     HandlerWithOptions chi rt err_text si \<lparr>co_BaseURL = '''', co_Middlewares = [], co_ErrorHandlerFunc = None\<rparr>"

definition HandlerFromMuxWithBaseURL ::
  "'w chi \<Rightarrow> Runtime \<Rightarrow> (go_error \<Rightarrow> string) \<Rightarrow> 'w ServerInterface \<Rightarrow> string \<Rightarrow> 'w api_handler" where
  "HandlerFromMuxWithBaseURL r rt err_text si baseURL =
     HandlerWithOptions r rt err_text si \<lparr>co_BaseURL = baseURL, co_Middlewares = [], co_ErrorHandlerFunc = None\<rparr>"

definition HandlerFromMux ::
  "'w chi \<Rightarrow> Runtime \<Rightarrow> (go_error \<Rightarrow> string) \<Rightarrow> 'w ServerInterface \<Rightarrow> 'w api_handler" where
  "HandlerFromMux r rt err_text si =
     HandlerWithOptions r rt err_text si \<lparr>co_BaseURL = '''', co_Middlewares = [], co_ErrorHandlerFunc = None\<rparr>"

end
