(* ===== verification/Api_Client.thy ===== *)
theory Api_Client
  imports Strict_Server
begin

text \<open>
  \<open>pkg/client/client.gen.go\<close>: the generated client. Building the request of each operation, sending
  it through the client's \<open>Doer\<close> after the request editors, and decoding the response by its status
  and content type. A \<open>Doer\<close> is a function of the request and the state \<open>'w\<close> behind it; \<open>None\<close> is a
  call that never returns. \<open>origin\<close> is how \<open>net/url\<close> splits scheme and authority off a URL.
\<close>

section \<open>The client\<close>

record client_request =
  cr_Method :: string
  cr_URL :: URL
  cr_ContentType :: "string option"
  cr_Body :: string

text \<open>\<open>rs_Body\<close> is what reading the body to its end answers.\<close>

record HttpResponse =
  rs_Status :: string
  rs_StatusCode :: int
  rs_ContentType :: string
  rs_Body :: "string res"

type_synonym RequestEditorFn = "client_request \<Rightarrow> client_request res"

type_synonym 'w Doer = "client_request \<Rightarrow> 'w \<Rightarrow> (HttpResponse res \<times> 'w) option"

record 'w Client =
  c_Server :: string
  c_Client :: "'w Doer option"
  c_RequestEditors :: "RequestEditorFn list"

type_synonym 'w ClientOption = "'w Client \<Rightarrow> 'w Client res"

fun apply_options :: "'w ClientOption list \<Rightarrow> 'w Client \<Rightarrow> 'w Client res" where
  "apply_options [] c = Inr c"
| "apply_options (opt # opts) c = (case opt c of Inl err \<Rightarrow> Inl err | Inr c1 \<Rightarrow> apply_options opts c1)"

text \<open>\<open>default_client\<close> is \<open>&http.Client{}\<close>.\<close>

definition NewClient :: "'w Doer \<Rightarrow> string \<Rightarrow> 'w ClientOption list \<Rightarrow> 'w Client res" where
  "NewClient default_client server opts =
     (case apply_options opts \<lparr>c_Server = server, c_Client = None, c_RequestEditors = []\<rparr> of
        Inl err \<Rightarrow> Inl err
      | Inr c \<Rightarrow>
          let c1 = (if c_Server c \<noteq> '''' \<and> last (c_Server c) = CHR ''/'' then c else c \<lparr>c_Server := c_Server c @ ''/''\<rparr>)
          in Inr (if c_Client c1 = None then c1 \<lparr>c_Client := Some default_client\<rparr> else c1))"

definition WithHTTPClient :: "'w Doer \<Rightarrow> 'w ClientOption" where
  "WithHTTPClient doer c = Inr (c \<lparr>c_Client := Some doer\<rparr>)"

definition WithRequestEditorFn :: "RequestEditorFn \<Rightarrow> 'w ClientOption" where
  "WithRequestEditorFn fn c = Inr (c \<lparr>c_RequestEditors := c_RequestEditors c @ [fn]\<rparr>)"

definition WithBaseURL :: "(string \<Rightarrow> (string \<times> string) res) \<Rightarrow> string \<Rightarrow> 'w ClientOption" where
  "WithBaseURL origin baseURL c =
     (case url_Parse origin baseURL of Inl err \<Rightarrow> Inl err | Inr newBaseURL \<Rightarrow> Inr (c \<lparr>c_Server := url_String newBaseURL\<rparr>))"

fun run_editors :: "RequestEditorFn list \<Rightarrow> client_request \<Rightarrow> client_request res" where
  "run_editors [] req = Inr req"
| "run_editors (r # rs) req = (case r req of Inl err \<Rightarrow> Inl err | Inr req1 \<Rightarrow> run_editors rs req1)"

definition applyEditors :: "'w Client \<Rightarrow> client_request \<Rightarrow> RequestEditorFn list \<Rightarrow> client_request res" where
  "applyEditors c req additionalEditors =
     (case run_editors (c_RequestEditors c) req of
        Inl err \<Rightarrow> Inl err
      | Inr req1 \<Rightarrow> run_editors additionalEditors req1)"

section \<open>Requests\<close>

text \<open>The URL of an operation: the server's, with the operation's path resolved against it.\<close>

definition operation_url :: "(string \<Rightarrow> (string \<times> string) res) \<Rightarrow> string \<Rightarrow> string \<Rightarrow> URL res" where
  "operation_url origin server operationPath =
     (case url_Parse origin server of
        Inl err \<Rightarrow> Inl err
      | Inr serverURL \<Rightarrow>
          url_ParseRef serverURL
            (if hd operationPath = CHR ''/'' then CHR ''.'' # operationPath else operationPath))"

text \<open>\<open>http.NewRequest\<close> parses the URL it is given as a string.\<close>

definition http_NewRequest ::
  "(string \<Rightarrow> (string \<times> string) res) \<Rightarrow> string \<Rightarrow> URL \<Rightarrow> string option \<Rightarrow> string \<Rightarrow> client_request res" where
  "http_NewRequest origin meth queryURL contentType body =
     (case url_Parse origin (url_String queryURL) of
        Inl err \<Rightarrow> Inl err
      | Inr u \<Rightarrow> Inr \<lparr>cr_Method = meth, cr_URL = u, cr_ContentType = contentType, cr_Body = body\<rparr>)"

text \<open>The fragments of an optional styled parameter.\<close>

definition styled :: "('a \<Rightarrow> string res) \<Rightarrow> 'a option \<Rightarrow> string list res" where
  "styled style p =
     (case p of
        None \<Rightarrow> Inr []
      | Some v \<Rightarrow> (case style v of Inl err \<Rightarrow> Inl err | Inr queryFrag \<Rightarrow> Inr (Split (CHR ''&'') queryFrag)))"

definition with_fragments :: "string list \<Rightarrow> URL \<Rightarrow> URL" where
  "with_fragments rawQueryFragments queryURL =
     (let encoded = Values_Encode (Query queryURL)
      in queryURL \<lparr>u_RawQuery := Join (rawQueryFragments @ (if encoded \<noteq> '''' then [encoded] else [])) ''&''\<rparr>)"

definition NewListClustersRequest ::
  "(string \<Rightarrow> (string \<times> string) res) \<Rightarrow> Runtime \<Rightarrow> string \<Rightarrow> ListParams option \<Rightarrow> client_request res" where
  "NewListClustersRequest origin rt server params =
     (case operation_url origin server ''/api/v1alpha1/clusters'' of
        Inl err \<Rightarrow> Inl err
      | Inr queryURL \<Rightarrow>
     (case params of
        None \<Rightarrow> http_NewRequest origin ''GET'' queryURL None ''''
      | Some ps \<Rightarrow>
     (case styled (rt_StyleQueryString rt ''page_token'') (lp_PageToken ps) of
        Inl err \<Rightarrow> Inl err
      | Inr frags1 \<Rightarrow>
     (case styled (rt_StyleQueryInt32 rt ''max_page_size'') (lp_MaxPageSize ps) of
        Inl err \<Rightarrow> Inl err
      | Inr frags2 \<Rightarrow> http_NewRequest origin ''GET'' (with_fragments (frags1 @ frags2) queryURL) None ''''))))"

definition NewCreateClusterRequestWithBody ::
  "(string \<Rightarrow> (string \<times> string) res) \<Rightarrow> Runtime \<Rightarrow> string \<Rightarrow> CreateParams option \<Rightarrow> string \<Rightarrow> string \<Rightarrow> client_request res" where
  "NewCreateClusterRequestWithBody origin rt server params contentType body =
     (case operation_url origin server ''/api/v1alpha1/clusters'' of
        Inl err \<Rightarrow> Inl err
      | Inr queryURL \<Rightarrow>
     (case params of
        None \<Rightarrow> http_NewRequest origin ''POST'' queryURL (Some contentType) body
      | Some ps \<Rightarrow>
     (case styled (rt_StyleQueryString rt ''id'') (cp_Id ps) of
        Inl err \<Rightarrow> Inl err
      | Inr frags \<Rightarrow> http_NewRequest origin ''POST'' (with_fragments frags queryURL) (Some contentType) body)))"

definition NewCreateClusterRequest ::
  "(string \<Rightarrow> (string \<times> string) res) \<Rightarrow> Runtime \<Rightarrow> Json \<Rightarrow> string \<Rightarrow> CreateParams option \<Rightarrow> api_Cluster \<Rightarrow> client_request res" where
  "NewCreateClusterRequest origin rt js server params body =
     (case js_MarshalCluster js body of
        Inl err \<Rightarrow> Inl err
      | Inr buf \<Rightarrow> NewCreateClusterRequestWithBody origin rt server params ''application/json'' buf)"

definition NewGetClustersHealthRequest :: "(string \<Rightarrow> (string \<times> string) res) \<Rightarrow> string \<Rightarrow> client_request res" where
  "NewGetClustersHealthRequest origin server =
     (case operation_url origin server ''/api/v1alpha1/clusters/health'' of
        Inl err \<Rightarrow> Inl err
      | Inr queryURL \<Rightarrow> http_NewRequest origin ''GET'' queryURL None '''')"

definition NewDeleteClusterRequest ::
  "(string \<Rightarrow> (string \<times> string) res) \<Rightarrow> Runtime \<Rightarrow> string \<Rightarrow> string \<Rightarrow> client_request res" where
  "NewDeleteClusterRequest origin rt server clusterId =
     (case rt_StylePath rt ''clusterId'' clusterId of
        Inl err \<Rightarrow> Inl err
      | Inr pathParam0 \<Rightarrow>
     (case operation_url origin server (''/api/v1alpha1/clusters/'' @ pathParam0) of
        Inl err \<Rightarrow> Inl err
      | Inr queryURL \<Rightarrow> http_NewRequest origin ''DELETE'' queryURL None ''''))"

definition NewGetClusterRequest ::
  "(string \<Rightarrow> (string \<times> string) res) \<Rightarrow> Runtime \<Rightarrow> string \<Rightarrow> string \<Rightarrow> client_request res" where
  "NewGetClusterRequest origin rt server clusterId =
     (case rt_StylePath rt ''clusterId'' clusterId of
        Inl err \<Rightarrow> Inl err
      | Inr pathParam0 \<Rightarrow>
     (case operation_url origin server (''/api/v1alpha1/clusters/'' @ pathParam0) of
        Inl err \<Rightarrow> Inl err
      | Inr queryURL \<Rightarrow> http_NewRequest origin ''GET'' queryURL None ''''))"

definition NewListVMsRequest ::
  "(string \<Rightarrow> (string \<times> string) res) \<Rightarrow> Runtime \<Rightarrow> string \<Rightarrow> ListParams option \<Rightarrow> client_request res" where
  "NewListVMsRequest origin rt server params =
     (case operation_url origin server ''/api/v1alpha1/vms'' of
        Inl err \<Rightarrow> Inl err
      | Inr queryURL \<Rightarrow>
     (case params of
        None \<Rightarrow> http_NewRequest origin ''GET'' queryURL None ''''
      | Some ps \<Rightarrow>
     (case styled (rt_StyleQueryString rt ''page_token'') (lp_PageToken ps) of
        Inl err \<Rightarrow> Inl err
      | Inr frags1 \<Rightarrow>
     (case styled (rt_StyleQueryInt32 rt ''max_page_size'') (lp_MaxPageSize ps) of
        Inl err \<Rightarrow> Inl err
      | Inr frags2 \<Rightarrow> http_NewRequest origin ''GET'' (with_fragments (frags1 @ frags2) queryURL) None ''''))))"

definition NewCreateVMRequestWithBody ::
  "(string \<Rightarrow> (string \<times> string) res) \<Rightarrow> Runtime \<Rightarrow> string \<Rightarrow> CreateParams option \<Rightarrow> string \<Rightarrow> string \<Rightarrow> client_request res" where
  "NewCreateVMRequestWithBody origin rt server params contentType body =
     (case operation_url origin server ''/api/v1alpha1/vms'' of
        Inl err \<Rightarrow> Inl err
      | Inr queryURL \<Rightarrow>
     (case params of
        None \<Rightarrow> http_NewRequest origin ''POST'' queryURL (Some contentType) body
      | Some ps \<Rightarrow>
     (case styled (rt_StyleQueryString rt ''id'') (cp_Id ps) of
        Inl err \<Rightarrow> Inl err
      | Inr frags \<Rightarrow> http_NewRequest origin ''POST'' (with_fragments frags queryURL) (Some contentType) body)))"

definition NewCreateVMRequest ::
  "(string \<Rightarrow> (string \<times> string) res) \<Rightarrow> Runtime \<Rightarrow> Json \<Rightarrow> string \<Rightarrow> CreateParams option \<Rightarrow> VirtualMachine \<Rightarrow> client_request res" where
  "NewCreateVMRequest origin rt js server params body =
     (case js_MarshalVirtualMachine js body of
        Inl err \<Rightarrow> Inl err
      | Inr buf \<Rightarrow> NewCreateVMRequestWithBody origin rt server params ''application/json'' buf)"

definition NewGetVMsHealthRequest :: "(string \<Rightarrow> (string \<times> string) res) \<Rightarrow> string \<Rightarrow> client_request res" where
  "NewGetVMsHealthRequest origin server =
     (case operation_url origin server ''/api/v1alpha1/vms/health'' of
        Inl err \<Rightarrow> Inl err
      | Inr queryURL \<Rightarrow> http_NewRequest origin ''GET'' queryURL None '''')"

definition NewDeleteVMRequest ::
  "(string \<Rightarrow> (string \<times> string) res) \<Rightarrow> Runtime \<Rightarrow> string \<Rightarrow> string \<Rightarrow> client_request res" where
  "NewDeleteVMRequest origin rt server vmId =
     (case rt_StylePath rt ''vmId'' vmId of
        Inl err \<Rightarrow> Inl err
      | Inr pathParam0 \<Rightarrow>
     (case operation_url origin server (''/api/v1alpha1/vms/'' @ pathParam0) of
        Inl err \<Rightarrow> Inl err
      | Inr queryURL \<Rightarrow> http_NewRequest origin ''DELETE'' queryURL None ''''))"

definition NewGetVMRequest ::
  "(string \<Rightarrow> (string \<times> string) res) \<Rightarrow> Runtime \<Rightarrow> string \<Rightarrow> string \<Rightarrow> client_request res" where
  "NewGetVMRequest origin rt server vmId =
     (case rt_StylePath rt ''vmId'' vmId of
        Inl err \<Rightarrow> Inl err
      | Inr pathParam0 \<Rightarrow>
     (case operation_url origin server (''/api/v1alpha1/vms/'' @ pathParam0) of
        Inl err \<Rightarrow> Inl err
      | Inr queryURL \<Rightarrow> http_NewRequest origin ''GET'' queryURL None ''''))"

section \<open>Sending\<close>

text \<open>What every client method does with its request; \<open>NewClient\<close> has set the doer.\<close>

definition send :: "'w Client \<Rightarrow> client_request res \<Rightarrow> RequestEditorFn list \<Rightarrow> 'w \<Rightarrow> (HttpResponse res \<times> 'w) option" where
  "send c built reqEditors w =
     (case built of
        Inl err \<Rightarrow> Some (Inl err, w)
      | Inr req \<Rightarrow>
     (case applyEditors c req reqEditors of
        Inl err \<Rightarrow> Some (Inl err, w)
      | Inr req1 \<Rightarrow> the (c_Client c) req1 w))"

definition client_ListClusters ::
  "(string \<Rightarrow> (string \<times> string) res) \<Rightarrow> Runtime \<Rightarrow> 'w Client \<Rightarrow> ListParams option \<Rightarrow> RequestEditorFn list \<Rightarrow> 'w \<Rightarrow>
     (HttpResponse res \<times> 'w) option" where
  "client_ListClusters origin rt c params reqEditors w = send c (NewListClustersRequest origin rt (c_Server c) params) reqEditors w"

definition client_CreateClusterWithBody ::
  "(string \<Rightarrow> (string \<times> string) res) \<Rightarrow> Runtime \<Rightarrow> 'w Client \<Rightarrow> CreateParams option \<Rightarrow> string \<Rightarrow> string \<Rightarrow> RequestEditorFn list \<Rightarrow> 'w \<Rightarrow>
     (HttpResponse res \<times> 'w) option" where
  "client_CreateClusterWithBody origin rt c params contentType body reqEditors w = send c (NewCreateClusterRequestWithBody origin rt (c_Server c) params contentType body) reqEditors w"

definition client_CreateCluster ::
  "(string \<Rightarrow> (string \<times> string) res) \<Rightarrow> Runtime \<Rightarrow> Json \<Rightarrow> 'w Client \<Rightarrow> CreateParams option \<Rightarrow> api_Cluster \<Rightarrow> RequestEditorFn list \<Rightarrow> 'w \<Rightarrow>
     (HttpResponse res \<times> 'w) option" where
  "client_CreateCluster origin rt js c params body reqEditors w = send c (NewCreateClusterRequest origin rt js (c_Server c) params body) reqEditors w"

definition client_GetClustersHealth ::
  "(string \<Rightarrow> (string \<times> string) res) \<Rightarrow> 'w Client \<Rightarrow> RequestEditorFn list \<Rightarrow> 'w \<Rightarrow>
     (HttpResponse res \<times> 'w) option" where
  "client_GetClustersHealth origin c reqEditors w = send c (NewGetClustersHealthRequest origin (c_Server c)) reqEditors w"

definition client_DeleteCluster ::
  "(string \<Rightarrow> (string \<times> string) res) \<Rightarrow> Runtime \<Rightarrow> 'w Client \<Rightarrow> string \<Rightarrow> RequestEditorFn list \<Rightarrow> 'w \<Rightarrow>
     (HttpResponse res \<times> 'w) option" where
  "client_DeleteCluster origin rt c clusterId reqEditors w = send c (NewDeleteClusterRequest origin rt (c_Server c) clusterId) reqEditors w"

definition client_GetCluster ::
  "(string \<Rightarrow> (string \<times> string) res) \<Rightarrow> Runtime \<Rightarrow> 'w Client \<Rightarrow> string \<Rightarrow> RequestEditorFn list \<Rightarrow> 'w \<Rightarrow>
     (HttpResponse res \<times> 'w) option" where
  "client_GetCluster origin rt c clusterId reqEditors w = send c (NewGetClusterRequest origin rt (c_Server c) clusterId) reqEditors w"

definition client_ListVMs ::
  "(string \<Rightarrow> (string \<times> string) res) \<Rightarrow> Runtime \<Rightarrow> 'w Client \<Rightarrow> ListParams option \<Rightarrow> RequestEditorFn list \<Rightarrow> 'w \<Rightarrow>
     (HttpResponse res \<times> 'w) option" where
  "client_ListVMs origin rt c params reqEditors w = send c (NewListVMsRequest origin rt (c_Server c) params) reqEditors w"

definition client_CreateVMWithBody ::
  "(string \<Rightarrow> (string \<times> string) res) \<Rightarrow> Runtime \<Rightarrow> 'w Client \<Rightarrow> CreateParams option \<Rightarrow> string \<Rightarrow> string \<Rightarrow> RequestEditorFn list \<Rightarrow> 'w \<Rightarrow>
     (HttpResponse res \<times> 'w) option" where
  "client_CreateVMWithBody origin rt c params contentType body reqEditors w = send c (NewCreateVMRequestWithBody origin rt (c_Server c) params contentType body) reqEditors w"

definition client_CreateVM ::
  "(string \<Rightarrow> (string \<times> string) res) \<Rightarrow> Runtime \<Rightarrow> Json \<Rightarrow> 'w Client \<Rightarrow> CreateParams option \<Rightarrow> VirtualMachine \<Rightarrow> RequestEditorFn list \<Rightarrow> 'w \<Rightarrow>
     (HttpResponse res \<times> 'w) option" where
  "client_CreateVM origin rt js c params body reqEditors w = send c (NewCreateVMRequest origin rt js (c_Server c) params body) reqEditors w"

definition client_GetVMsHealth ::
  "(string \<Rightarrow> (string \<times> string) res) \<Rightarrow> 'w Client \<Rightarrow> RequestEditorFn list \<Rightarrow> 'w \<Rightarrow>
     (HttpResponse res \<times> 'w) option" where
  "client_GetVMsHealth origin c reqEditors w = send c (NewGetVMsHealthRequest origin (c_Server c)) reqEditors w"

definition client_DeleteVM ::
  "(string \<Rightarrow> (string \<times> string) res) \<Rightarrow> Runtime \<Rightarrow> 'w Client \<Rightarrow> string \<Rightarrow> RequestEditorFn list \<Rightarrow> 'w \<Rightarrow>
     (HttpResponse res \<times> 'w) option" where
  "client_DeleteVM origin rt c vmId reqEditors w = send c (NewDeleteVMRequest origin rt (c_Server c) vmId) reqEditors w"

definition client_GetVM ::
  "(string \<Rightarrow> (string \<times> string) res) \<Rightarrow> Runtime \<Rightarrow> 'w Client \<Rightarrow> string \<Rightarrow> RequestEditorFn list \<Rightarrow> 'w \<Rightarrow>
     (HttpResponse res \<times> 'w) option" where
  "client_GetVM origin rt c vmId reqEditors w = send c (NewGetVMRequest origin rt (c_Server c) vmId) reqEditors w"

section \<open>Responses\<close>

text \<open>
  The response wrappers; the generated \<open>Get...\<close> methods are their selectors. \<open>no_response\<close> is what
  a parse starts from.
\<close>

definition response_Status :: "HttpResponse option \<Rightarrow> string" where
  "response_Status rsp = (case rsp of Some r \<Rightarrow> rs_Status r | None \<Rightarrow> '''')"

definition response_StatusCode :: "HttpResponse option \<Rightarrow> int" where
  "response_StatusCode rsp = (case rsp of Some r \<Rightarrow> rs_StatusCode r | None \<Rightarrow> 0)"

definition response_ContentType :: "HttpResponse option \<Rightarrow> string" where
  "response_ContentType rsp = (case rsp of Some r \<Rightarrow> rs_ContentType r | None \<Rightarrow> '''')"

text \<open>\<open>strings.Contains\<close>.\<close>

fun Contains :: "string \<Rightarrow> string \<Rightarrow> bool" where
  "Contains [] sub = (sub = [])"
| "Contains (c # cs) sub = (HasPrefix (c # cs) sub \<or> Contains cs sub)"

text \<open>One case of a parse: the status and a JSON content type.\<close>

definition json_case :: "HttpResponse \<Rightarrow> int \<Rightarrow> bool" where
  "json_case rsp code \<longleftrightarrow> Contains (rs_ContentType rsp) ''json'' \<and> rs_StatusCode rsp = code"

record ListClustersResponse =
  ListClusters_Body :: string
  ListClusters_HTTPResponse :: "HttpResponse option"
  ListClusters_JSON200 :: "ClusterList option"
  ListClusters_Problem400 :: "api_Error option"
  ListClusters_Problem401 :: "api_Error option"
  ListClusters_Problem403 :: "api_Error option"
  ListClusters_Problem500 :: "api_Error option"
  ListClusters_Problem502 :: "api_Error option"

definition ParseListClustersResponse :: "Json \<Rightarrow> HttpResponse \<Rightarrow> ListClustersResponse res" where
  "ParseListClustersResponse js rsp =
     (case rs_Body rsp of
        Inl err \<Rightarrow> Inl err
      | Inr bodyBytes \<Rightarrow>
          let response =
            \<lparr>ListClusters_Body = bodyBytes, ListClusters_HTTPResponse = Some rsp, ListClusters_JSON200 = None, ListClusters_Problem400 = None,
             ListClusters_Problem401 = None, ListClusters_Problem403 = None, ListClusters_Problem500 = None, ListClusters_Problem502 = None\<rparr> in
          if json_case rsp 200 then
            map_sum id (\<lambda>dest. response \<lparr>ListClusters_JSON200 := Some dest\<rparr>) (js_UnmarshalClusterList js bodyBytes)
          else if json_case rsp 400 then
            map_sum id (\<lambda>dest. response \<lparr>ListClusters_Problem400 := Some dest\<rparr>) (js_UnmarshalError js bodyBytes)
          else if json_case rsp 401 then
            map_sum id (\<lambda>dest. response \<lparr>ListClusters_Problem401 := Some dest\<rparr>) (js_UnmarshalError js bodyBytes)
          else if json_case rsp 403 then
            map_sum id (\<lambda>dest. response \<lparr>ListClusters_Problem403 := Some dest\<rparr>) (js_UnmarshalError js bodyBytes)
          else if json_case rsp 500 then
            map_sum id (\<lambda>dest. response \<lparr>ListClusters_Problem500 := Some dest\<rparr>) (js_UnmarshalError js bodyBytes)
          else if json_case rsp 502 then
            map_sum id (\<lambda>dest. response \<lparr>ListClusters_Problem502 := Some dest\<rparr>) (js_UnmarshalError js bodyBytes)
          else Inr response)"

record CreateClusterResponse =
  CreateCluster_Body :: string
  CreateCluster_HTTPResponse :: "HttpResponse option"
  CreateCluster_JSON201 :: "api_Cluster option"
  CreateCluster_Problem400 :: "api_Error option"
  CreateCluster_Problem401 :: "api_Error option"
  CreateCluster_Problem403 :: "api_Error option"
  CreateCluster_Problem500 :: "api_Error option"
  CreateCluster_Problem502 :: "api_Error option"

definition ParseCreateClusterResponse :: "Json \<Rightarrow> HttpResponse \<Rightarrow> CreateClusterResponse res" where
  "ParseCreateClusterResponse js rsp =
     (case rs_Body rsp of
        Inl err \<Rightarrow> Inl err
      | Inr bodyBytes \<Rightarrow>
          let response =
            \<lparr>CreateCluster_Body = bodyBytes, CreateCluster_HTTPResponse = Some rsp, CreateCluster_JSON201 = None,
             CreateCluster_Problem400 = None, CreateCluster_Problem401 = None, CreateCluster_Problem403 = None, CreateCluster_Problem500 = None,
             CreateCluster_Problem502 = None\<rparr> in
          if json_case rsp 201 then
            map_sum id (\<lambda>dest. response \<lparr>CreateCluster_JSON201 := Some dest\<rparr>) (js_UnmarshalCluster js bodyBytes)
          else if json_case rsp 400 then
            map_sum id (\<lambda>dest. response \<lparr>CreateCluster_Problem400 := Some dest\<rparr>) (js_UnmarshalError js bodyBytes)
          else if json_case rsp 401 then
            map_sum id (\<lambda>dest. response \<lparr>CreateCluster_Problem401 := Some dest\<rparr>) (js_UnmarshalError js bodyBytes)
          else if json_case rsp 403 then
            map_sum id (\<lambda>dest. response \<lparr>CreateCluster_Problem403 := Some dest\<rparr>) (js_UnmarshalError js bodyBytes)
          else if json_case rsp 500 then
            map_sum id (\<lambda>dest. response \<lparr>CreateCluster_Problem500 := Some dest\<rparr>) (js_UnmarshalError js bodyBytes)
          else if json_case rsp 502 then
            map_sum id (\<lambda>dest. response \<lparr>CreateCluster_Problem502 := Some dest\<rparr>) (js_UnmarshalError js bodyBytes)
          else Inr response)"

record GetClustersHealthResponse =
  GetClustersHealth_Body :: string
  GetClustersHealth_HTTPResponse :: "HttpResponse option"
  GetClustersHealth_JSON200 :: "api_Health option"
  GetClustersHealth_Problem500 :: "api_Error option"

definition ParseGetClustersHealthResponse :: "Json \<Rightarrow> HttpResponse \<Rightarrow> GetClustersHealthResponse res" where
  "ParseGetClustersHealthResponse js rsp =
     (case rs_Body rsp of
        Inl err \<Rightarrow> Inl err
      | Inr bodyBytes \<Rightarrow>
          let response =
            \<lparr>GetClustersHealth_Body = bodyBytes, GetClustersHealth_HTTPResponse = Some rsp, GetClustersHealth_JSON200 = None,
             GetClustersHealth_Problem500 = None\<rparr> in
          if json_case rsp 200 then
            map_sum id (\<lambda>dest. response \<lparr>GetClustersHealth_JSON200 := Some dest\<rparr>) (js_UnmarshalHealth js bodyBytes)
          else if json_case rsp 500 then
            map_sum id (\<lambda>dest. response \<lparr>GetClustersHealth_Problem500 := Some dest\<rparr>) (js_UnmarshalError js bodyBytes)
          else Inr response)"

record DeleteClusterResponse =
  DeleteCluster_Body :: string
  DeleteCluster_HTTPResponse :: "HttpResponse option"
  DeleteCluster_Problem401 :: "api_Error option"
  DeleteCluster_Problem403 :: "api_Error option"
  DeleteCluster_Problem500 :: "api_Error option"
  DeleteCluster_Problem502 :: "api_Error option"

definition ParseDeleteClusterResponse :: "Json \<Rightarrow> HttpResponse \<Rightarrow> DeleteClusterResponse res" where
  "ParseDeleteClusterResponse js rsp =
     (case rs_Body rsp of
        Inl err \<Rightarrow> Inl err
      | Inr bodyBytes \<Rightarrow>
          let response =
            \<lparr>DeleteCluster_Body = bodyBytes, DeleteCluster_HTTPResponse = Some rsp, DeleteCluster_Problem401 = None,
             DeleteCluster_Problem403 = None, DeleteCluster_Problem500 = None, DeleteCluster_Problem502 = None\<rparr> in
          if rs_StatusCode rsp = 204 then
            Inr response
          else if json_case rsp 401 then
            map_sum id (\<lambda>dest. response \<lparr>DeleteCluster_Problem401 := Some dest\<rparr>) (js_UnmarshalError js bodyBytes)
          else if json_case rsp 403 then
            map_sum id (\<lambda>dest. response \<lparr>DeleteCluster_Problem403 := Some dest\<rparr>) (js_UnmarshalError js bodyBytes)
          else if json_case rsp 500 then
            map_sum id (\<lambda>dest. response \<lparr>DeleteCluster_Problem500 := Some dest\<rparr>) (js_UnmarshalError js bodyBytes)
          else if json_case rsp 502 then
            map_sum id (\<lambda>dest. response \<lparr>DeleteCluster_Problem502 := Some dest\<rparr>) (js_UnmarshalError js bodyBytes)
          else Inr response)"

record GetClusterResponse =
  GetCluster_Body :: string
  GetCluster_HTTPResponse :: "HttpResponse option"
  GetCluster_JSON200 :: "api_Cluster option"
  GetCluster_Problem401 :: "api_Error option"
  GetCluster_Problem403 :: "api_Error option"
  GetCluster_Problem404 :: "api_Error option"
  GetCluster_Problem500 :: "api_Error option"
  GetCluster_Problem502 :: "api_Error option"

definition ParseGetClusterResponse :: "Json \<Rightarrow> HttpResponse \<Rightarrow> GetClusterResponse res" where
  "ParseGetClusterResponse js rsp =
     (case rs_Body rsp of
        Inl err \<Rightarrow> Inl err
      | Inr bodyBytes \<Rightarrow>
          let response =
            \<lparr>GetCluster_Body = bodyBytes, GetCluster_HTTPResponse = Some rsp, GetCluster_JSON200 = None, GetCluster_Problem401 = None,
             GetCluster_Problem403 = None, GetCluster_Problem404 = None, GetCluster_Problem500 = None, GetCluster_Problem502 = None\<rparr> in
          if json_case rsp 200 then
            map_sum id (\<lambda>dest. response \<lparr>GetCluster_JSON200 := Some dest\<rparr>) (js_UnmarshalCluster js bodyBytes)
          else if json_case rsp 401 then
            map_sum id (\<lambda>dest. response \<lparr>GetCluster_Problem401 := Some dest\<rparr>) (js_UnmarshalError js bodyBytes)
          else if json_case rsp 403 then
            map_sum id (\<lambda>dest. response \<lparr>GetCluster_Problem403 := Some dest\<rparr>) (js_UnmarshalError js bodyBytes)
          else if json_case rsp 404 then
            map_sum id (\<lambda>dest. response \<lparr>GetCluster_Problem404 := Some dest\<rparr>) (js_UnmarshalError js bodyBytes)
          else if json_case rsp 500 then
            map_sum id (\<lambda>dest. response \<lparr>GetCluster_Problem500 := Some dest\<rparr>) (js_UnmarshalError js bodyBytes)
          else if json_case rsp 502 then
            map_sum id (\<lambda>dest. response \<lparr>GetCluster_Problem502 := Some dest\<rparr>) (js_UnmarshalError js bodyBytes)
          else Inr response)"

record ListVMsResponse =
  ListVMs_Body :: string
  ListVMs_HTTPResponse :: "HttpResponse option"
  ListVMs_JSON200 :: "VirtualMachineList option"
  ListVMs_Problem400 :: "api_Error option"
  ListVMs_Problem401 :: "api_Error option"
  ListVMs_Problem403 :: "api_Error option"
  ListVMs_Problem500 :: "api_Error option"
  ListVMs_Problem502 :: "api_Error option"

definition ParseListVMsResponse :: "Json \<Rightarrow> HttpResponse \<Rightarrow> ListVMsResponse res" where
  "ParseListVMsResponse js rsp =
     (case rs_Body rsp of
        Inl err \<Rightarrow> Inl err
      | Inr bodyBytes \<Rightarrow>
          let response =
            \<lparr>ListVMs_Body = bodyBytes, ListVMs_HTTPResponse = Some rsp, ListVMs_JSON200 = None, ListVMs_Problem400 = None,
             ListVMs_Problem401 = None, ListVMs_Problem403 = None, ListVMs_Problem500 = None, ListVMs_Problem502 = None\<rparr> in
          if json_case rsp 200 then
            map_sum id (\<lambda>dest. response \<lparr>ListVMs_JSON200 := Some dest\<rparr>) (js_UnmarshalVirtualMachineList js bodyBytes)
          else if json_case rsp 400 then
            map_sum id (\<lambda>dest. response \<lparr>ListVMs_Problem400 := Some dest\<rparr>) (js_UnmarshalError js bodyBytes)
          else if json_case rsp 401 then
            map_sum id (\<lambda>dest. response \<lparr>ListVMs_Problem401 := Some dest\<rparr>) (js_UnmarshalError js bodyBytes)
          else if json_case rsp 403 then
            map_sum id (\<lambda>dest. response \<lparr>ListVMs_Problem403 := Some dest\<rparr>) (js_UnmarshalError js bodyBytes)
          else if json_case rsp 500 then
            map_sum id (\<lambda>dest. response \<lparr>ListVMs_Problem500 := Some dest\<rparr>) (js_UnmarshalError js bodyBytes)
          else if json_case rsp 502 then
            map_sum id (\<lambda>dest. response \<lparr>ListVMs_Problem502 := Some dest\<rparr>) (js_UnmarshalError js bodyBytes)
          else Inr response)"

record CreateVMResponse =
  CreateVM_Body :: string
  CreateVM_HTTPResponse :: "HttpResponse option"
  CreateVM_JSON201 :: "VirtualMachine option"
  CreateVM_Problem400 :: "api_Error option"
  CreateVM_Problem401 :: "api_Error option"
  CreateVM_Problem403 :: "api_Error option"
  CreateVM_Problem500 :: "api_Error option"
  CreateVM_Problem502 :: "api_Error option"

definition ParseCreateVMResponse :: "Json \<Rightarrow> HttpResponse \<Rightarrow> CreateVMResponse res" where
  "ParseCreateVMResponse js rsp =
     (case rs_Body rsp of
        Inl err \<Rightarrow> Inl err
      | Inr bodyBytes \<Rightarrow>
          let response =
            \<lparr>CreateVM_Body = bodyBytes, CreateVM_HTTPResponse = Some rsp, CreateVM_JSON201 = None, CreateVM_Problem400 = None,
             CreateVM_Problem401 = None, CreateVM_Problem403 = None, CreateVM_Problem500 = None, CreateVM_Problem502 = None\<rparr> in
          if json_case rsp 201 then
            map_sum id (\<lambda>dest. response \<lparr>CreateVM_JSON201 := Some dest\<rparr>) (js_UnmarshalVirtualMachine js bodyBytes)
          else if json_case rsp 400 then
            map_sum id (\<lambda>dest. response \<lparr>CreateVM_Problem400 := Some dest\<rparr>) (js_UnmarshalError js bodyBytes)
          else if json_case rsp 401 then
            map_sum id (\<lambda>dest. response \<lparr>CreateVM_Problem401 := Some dest\<rparr>) (js_UnmarshalError js bodyBytes)
          else if json_case rsp 403 then
            map_sum id (\<lambda>dest. response \<lparr>CreateVM_Problem403 := Some dest\<rparr>) (js_UnmarshalError js bodyBytes)
          else if json_case rsp 500 then
            map_sum id (\<lambda>dest. response \<lparr>CreateVM_Problem500 := Some dest\<rparr>) (js_UnmarshalError js bodyBytes)
          else if json_case rsp 502 then
            map_sum id (\<lambda>dest. response \<lparr>CreateVM_Problem502 := Some dest\<rparr>) (js_UnmarshalError js bodyBytes)
          else Inr response)"

record GetVMsHealthResponse =
  GetVMsHealth_Body :: string
  GetVMsHealth_HTTPResponse :: "HttpResponse option"
  GetVMsHealth_JSON200 :: "api_Health option"
  GetVMsHealth_Problem500 :: "api_Error option"

definition ParseGetVMsHealthResponse :: "Json \<Rightarrow> HttpResponse \<Rightarrow> GetVMsHealthResponse res" where
  "ParseGetVMsHealthResponse js rsp =
     (case rs_Body rsp of
        Inl err \<Rightarrow> Inl err
      | Inr bodyBytes \<Rightarrow>
          let response =
            \<lparr>GetVMsHealth_Body = bodyBytes, GetVMsHealth_HTTPResponse = Some rsp, GetVMsHealth_JSON200 = None, GetVMsHealth_Problem500 = None\<rparr> in
          if json_case rsp 200 then
            map_sum id (\<lambda>dest. response \<lparr>GetVMsHealth_JSON200 := Some dest\<rparr>) (js_UnmarshalHealth js bodyBytes)
          else if json_case rsp 500 then
            map_sum id (\<lambda>dest. response \<lparr>GetVMsHealth_Problem500 := Some dest\<rparr>) (js_UnmarshalError js bodyBytes)
          else Inr response)"

record DeleteVMResponse =
  DeleteVM_Body :: string
  DeleteVM_HTTPResponse :: "HttpResponse option"
  DeleteVM_Problem401 :: "api_Error option"
  DeleteVM_Problem403 :: "api_Error option"
  DeleteVM_Problem500 :: "api_Error option"
  DeleteVM_Problem502 :: "api_Error option"

definition ParseDeleteVMResponse :: "Json \<Rightarrow> HttpResponse \<Rightarrow> DeleteVMResponse res" where
  "ParseDeleteVMResponse js rsp =
     (case rs_Body rsp of
        Inl err \<Rightarrow> Inl err
      | Inr bodyBytes \<Rightarrow>
          let response =
            \<lparr>DeleteVM_Body = bodyBytes, DeleteVM_HTTPResponse = Some rsp, DeleteVM_Problem401 = None, DeleteVM_Problem403 = None,
             DeleteVM_Problem500 = None, DeleteVM_Problem502 = None\<rparr> in
          if rs_StatusCode rsp = 204 then
            Inr response
          else if json_case rsp 401 then
            map_sum id (\<lambda>dest. response \<lparr>DeleteVM_Problem401 := Some dest\<rparr>) (js_UnmarshalError js bodyBytes)
          else if json_case rsp 403 then
            map_sum id (\<lambda>dest. response \<lparr>DeleteVM_Problem403 := Some dest\<rparr>) (js_UnmarshalError js bodyBytes)
          else if json_case rsp 500 then
            map_sum id (\<lambda>dest. response \<lparr>DeleteVM_Problem500 := Some dest\<rparr>) (js_UnmarshalError js bodyBytes)
          else if json_case rsp 502 then
            map_sum id (\<lambda>dest. response \<lparr>DeleteVM_Problem502 := Some dest\<rparr>) (js_UnmarshalError js bodyBytes)
          else Inr response)"

record GetVMResponse =
  GetVM_Body :: string
  GetVM_HTTPResponse :: "HttpResponse option"
  GetVM_JSON200 :: "VirtualMachine option"
  GetVM_Problem401 :: "api_Error option"
  GetVM_Problem403 :: "api_Error option"
  GetVM_Problem404 :: "api_Error option"
  GetVM_Problem500 :: "api_Error option"
  GetVM_Problem502 :: "api_Error option"

definition ParseGetVMResponse :: "Json \<Rightarrow> HttpResponse \<Rightarrow> GetVMResponse res" where
  "ParseGetVMResponse js rsp =
     (case rs_Body rsp of
        Inl err \<Rightarrow> Inl err
      | Inr bodyBytes \<Rightarrow>
          let response =
            \<lparr>GetVM_Body = bodyBytes, GetVM_HTTPResponse = Some rsp, GetVM_JSON200 = None, GetVM_Problem401 = None, GetVM_Problem403 = None,
             GetVM_Problem404 = None, GetVM_Problem500 = None, GetVM_Problem502 = None\<rparr> in
          if json_case rsp 200 then
            map_sum id (\<lambda>dest. response \<lparr>GetVM_JSON200 := Some dest\<rparr>) (js_UnmarshalVirtualMachine js bodyBytes)
          else if json_case rsp 401 then
            map_sum id (\<lambda>dest. response \<lparr>GetVM_Problem401 := Some dest\<rparr>) (js_UnmarshalError js bodyBytes)
          else if json_case rsp 403 then
            map_sum id (\<lambda>dest. response \<lparr>GetVM_Problem403 := Some dest\<rparr>) (js_UnmarshalError js bodyBytes)
          else if json_case rsp 404 then
            map_sum id (\<lambda>dest. response \<lparr>GetVM_Problem404 := Some dest\<rparr>) (js_UnmarshalError js bodyBytes)
          else if json_case rsp 500 then
            map_sum id (\<lambda>dest. response \<lparr>GetVM_Problem500 := Some dest\<rparr>) (js_UnmarshalError js bodyBytes)
          else if json_case rsp 502 then
            map_sum id (\<lambda>dest. response \<lparr>GetVM_Problem502 := Some dest\<rparr>) (js_UnmarshalError js bodyBytes)
          else Inr response)"

section \<open>The client with responses\<close>

text \<open>\<open>NewClientWithResponses\<close> wraps \<open>NewClient\<close>; the two have the same model.\<close>

definition NewClientWithResponses :: "'w Doer \<Rightarrow> string \<Rightarrow> 'w ClientOption list \<Rightarrow> 'w Client res" where
  "NewClientWithResponses default_client server opts = NewClient default_client server opts"

definition parsed :: "(HttpResponse \<Rightarrow> 'r res) \<Rightarrow> (HttpResponse res \<times> 'w) option \<Rightarrow> ('r res \<times> 'w) option" where
  "parsed parse answer =
     (case answer of
        None \<Rightarrow> None
      | Some (Inl err, w) \<Rightarrow> Some (Inl err, w)
      | Some (Inr rsp, w) \<Rightarrow> Some (parse rsp, w))"

definition ListClustersWithResponse ::
  "(string \<Rightarrow> (string \<times> string) res) \<Rightarrow> Json \<Rightarrow> Runtime \<Rightarrow> 'w Client \<Rightarrow> ListParams option \<Rightarrow> RequestEditorFn list \<Rightarrow> 'w \<Rightarrow>
     (ListClustersResponse res \<times> 'w) option" where
  "ListClustersWithResponse origin js rt c params reqEditors w =
     parsed (ParseListClustersResponse js) (client_ListClusters origin rt c params reqEditors w)"

definition CreateClusterWithBodyWithResponse ::
  "(string \<Rightarrow> (string \<times> string) res) \<Rightarrow> Json \<Rightarrow> Runtime \<Rightarrow> 'w Client \<Rightarrow> CreateParams option \<Rightarrow> string \<Rightarrow> string \<Rightarrow> RequestEditorFn list \<Rightarrow> 'w \<Rightarrow>
     (CreateClusterResponse res \<times> 'w) option" where
  "CreateClusterWithBodyWithResponse origin js rt c params contentType body reqEditors w =
     parsed (ParseCreateClusterResponse js) (client_CreateClusterWithBody origin rt c params contentType body reqEditors w)"

definition CreateClusterWithResponse ::
  "(string \<Rightarrow> (string \<times> string) res) \<Rightarrow> Runtime \<Rightarrow> Json \<Rightarrow> 'w Client \<Rightarrow> CreateParams option \<Rightarrow> api_Cluster \<Rightarrow> RequestEditorFn list \<Rightarrow> 'w \<Rightarrow>
     (CreateClusterResponse res \<times> 'w) option" where
  "CreateClusterWithResponse origin rt js c params body reqEditors w =
     parsed (ParseCreateClusterResponse js) (client_CreateCluster origin rt js c params body reqEditors w)"

definition GetClustersHealthWithResponse ::
  "(string \<Rightarrow> (string \<times> string) res) \<Rightarrow> Json \<Rightarrow> 'w Client \<Rightarrow> RequestEditorFn list \<Rightarrow> 'w \<Rightarrow>
     (GetClustersHealthResponse res \<times> 'w) option" where
  "GetClustersHealthWithResponse origin js c reqEditors w =
     parsed (ParseGetClustersHealthResponse js) (client_GetClustersHealth origin c reqEditors w)"

definition DeleteClusterWithResponse ::
  "(string \<Rightarrow> (string \<times> string) res) \<Rightarrow> Json \<Rightarrow> Runtime \<Rightarrow> 'w Client \<Rightarrow> string \<Rightarrow> RequestEditorFn list \<Rightarrow> 'w \<Rightarrow>
     (DeleteClusterResponse res \<times> 'w) option" where
  "DeleteClusterWithResponse origin js rt c clusterId reqEditors w =
     parsed (ParseDeleteClusterResponse js) (client_DeleteCluster origin rt c clusterId reqEditors w)"

definition GetClusterWithResponse ::
  "(string \<Rightarrow> (string \<times> string) res) \<Rightarrow> Json \<Rightarrow> Runtime \<Rightarrow> 'w Client \<Rightarrow> string \<Rightarrow> RequestEditorFn list \<Rightarrow> 'w \<Rightarrow>
     (GetClusterResponse res \<times> 'w) option" where
  "GetClusterWithResponse origin js rt c clusterId reqEditors w =
     parsed (ParseGetClusterResponse js) (client_GetCluster origin rt c clusterId reqEditors w)"

definition ListVMsWithResponse ::
  "(string \<Rightarrow> (string \<times> string) res) \<Rightarrow> Json \<Rightarrow> Runtime \<Rightarrow> 'w Client \<Rightarrow> ListParams option \<Rightarrow> RequestEditorFn list \<Rightarrow> 'w \<Rightarrow>
     (ListVMsResponse res \<times> 'w) option" where
  "ListVMsWithResponse origin js rt c params reqEditors w =
     parsed (ParseListVMsResponse js) (client_ListVMs origin rt c params reqEditors w)"

definition CreateVMWithBodyWithResponse ::
  "(string \<Rightarrow> (string \<times> string) res) \<Rightarrow> Json \<Rightarrow> Runtime \<Rightarrow> 'w Client \<Rightarrow> CreateParams option \<Rightarrow> string \<Rightarrow> string \<Rightarrow> RequestEditorFn list \<Rightarrow> 'w \<Rightarrow>
     (CreateVMResponse res \<times> 'w) option" where
  "CreateVMWithBodyWithResponse origin js rt c params contentType body reqEditors w =
     parsed (ParseCreateVMResponse js) (client_CreateVMWithBody origin rt c params contentType body reqEditors w)"

definition CreateVMWithResponse ::
  "(string \<Rightarrow> (string \<times> string) res) \<Rightarrow> Runtime \<Rightarrow> Json \<Rightarrow> 'w Client \<Rightarrow> CreateParams option \<Rightarrow> VirtualMachine \<Rightarrow> RequestEditorFn list \<Rightarrow> 'w \<Rightarrow>
     (CreateVMResponse res \<times> 'w) option" where
  "CreateVMWithResponse origin rt js c params body reqEditors w =
     parsed (ParseCreateVMResponse js) (client_CreateVM origin rt js c params body reqEditors w)"

definition GetVMsHealthWithResponse ::
  "(string \<Rightarrow> (string \<times> string) res) \<Rightarrow> Json \<Rightarrow> 'w Client \<Rightarrow> RequestEditorFn list \<Rightarrow> 'w \<Rightarrow>
     (GetVMsHealthResponse res \<times> 'w) option" where
  "GetVMsHealthWithResponse origin js c reqEditors w =
     parsed (ParseGetVMsHealthResponse js) (client_GetVMsHealth origin c reqEditors w)"

definition DeleteVMWithResponse ::
  "(string \<Rightarrow> (string \<times> string) res) \<Rightarrow> Json \<Rightarrow> Runtime \<Rightarrow> 'w Client \<Rightarrow> string \<Rightarrow> RequestEditorFn list \<Rightarrow> 'w \<Rightarrow>
     (DeleteVMResponse res \<times> 'w) option" where
  "DeleteVMWithResponse origin js rt c vmId reqEditors w =
     parsed (ParseDeleteVMResponse js) (client_DeleteVM origin rt c vmId reqEditors w)"

definition GetVMWithResponse ::
  "(string \<Rightarrow> (string \<times> string) res) \<Rightarrow> Json \<Rightarrow> Runtime \<Rightarrow> 'w Client \<Rightarrow> string \<Rightarrow> RequestEditorFn list \<Rightarrow> 'w \<Rightarrow>
     (GetVMResponse res \<times> 'w) option" where
  "GetVMWithResponse origin js rt c vmId reqEditors w =
     parsed (ParseGetVMResponse js) (client_GetVM origin rt c vmId reqEditors w)"

section \<open>The client interfaces\<close>

record 'w ClientInterface =
  ci_ListClusters :: "ListParams option \<Rightarrow> RequestEditorFn list \<Rightarrow> 'w \<Rightarrow> (HttpResponse res \<times> 'w) option"
  ci_CreateClusterWithBody :: "CreateParams option \<Rightarrow> string \<Rightarrow> string \<Rightarrow> RequestEditorFn list \<Rightarrow> 'w \<Rightarrow> (HttpResponse res \<times> 'w) option"
  ci_CreateCluster :: "CreateParams option \<Rightarrow> api_Cluster \<Rightarrow> RequestEditorFn list \<Rightarrow> 'w \<Rightarrow> (HttpResponse res \<times> 'w) option"
  ci_GetClustersHealth :: "RequestEditorFn list \<Rightarrow> 'w \<Rightarrow> (HttpResponse res \<times> 'w) option"
  ci_DeleteCluster :: "string \<Rightarrow> RequestEditorFn list \<Rightarrow> 'w \<Rightarrow> (HttpResponse res \<times> 'w) option"
  ci_GetCluster :: "string \<Rightarrow> RequestEditorFn list \<Rightarrow> 'w \<Rightarrow> (HttpResponse res \<times> 'w) option"
  ci_ListVMs :: "ListParams option \<Rightarrow> RequestEditorFn list \<Rightarrow> 'w \<Rightarrow> (HttpResponse res \<times> 'w) option"
  ci_CreateVMWithBody :: "CreateParams option \<Rightarrow> string \<Rightarrow> string \<Rightarrow> RequestEditorFn list \<Rightarrow> 'w \<Rightarrow> (HttpResponse res \<times> 'w) option"
  ci_CreateVM :: "CreateParams option \<Rightarrow> VirtualMachine \<Rightarrow> RequestEditorFn list \<Rightarrow> 'w \<Rightarrow> (HttpResponse res \<times> 'w) option"
  ci_GetVMsHealth :: "RequestEditorFn list \<Rightarrow> 'w \<Rightarrow> (HttpResponse res \<times> 'w) option"
  ci_DeleteVM :: "string \<Rightarrow> RequestEditorFn list \<Rightarrow> 'w \<Rightarrow> (HttpResponse res \<times> 'w) option"
  ci_GetVM :: "string \<Rightarrow> RequestEditorFn list \<Rightarrow> 'w \<Rightarrow> (HttpResponse res \<times> 'w) option"

definition Client_interface ::
  "(string \<Rightarrow> (string \<times> string) res) \<Rightarrow> Runtime \<Rightarrow> Json \<Rightarrow> 'w Client \<Rightarrow> 'w ClientInterface" where
  "Client_interface origin rt js c =
     \<lparr>ci_ListClusters = client_ListClusters origin rt c,
      ci_CreateClusterWithBody = client_CreateClusterWithBody origin rt c,
      ci_CreateCluster = client_CreateCluster origin rt js c,
      ci_GetClustersHealth = client_GetClustersHealth origin c,
      ci_DeleteCluster = client_DeleteCluster origin rt c,
      ci_GetCluster = client_GetCluster origin rt c,
      ci_ListVMs = client_ListVMs origin rt c,
      ci_CreateVMWithBody = client_CreateVMWithBody origin rt c,
      ci_CreateVM = client_CreateVM origin rt js c,
      ci_GetVMsHealth = client_GetVMsHealth origin c,
      ci_DeleteVM = client_DeleteVM origin rt c,
      ci_GetVM = client_GetVM origin rt c\<rparr>"

record 'w ClientWithResponsesInterface =
  cwi_ListClusters :: "ListParams option \<Rightarrow> RequestEditorFn list \<Rightarrow> 'w \<Rightarrow> (ListClustersResponse res \<times> 'w) option"
  cwi_CreateClusterWithBody :: "CreateParams option \<Rightarrow> string \<Rightarrow> string \<Rightarrow> RequestEditorFn list \<Rightarrow> 'w \<Rightarrow> (CreateClusterResponse res \<times> 'w) option"
  cwi_CreateCluster :: "CreateParams option \<Rightarrow> api_Cluster \<Rightarrow> RequestEditorFn list \<Rightarrow> 'w \<Rightarrow> (CreateClusterResponse res \<times> 'w) option"
  cwi_GetClustersHealth :: "RequestEditorFn list \<Rightarrow> 'w \<Rightarrow> (GetClustersHealthResponse res \<times> 'w) option"
  cwi_DeleteCluster :: "string \<Rightarrow> RequestEditorFn list \<Rightarrow> 'w \<Rightarrow> (DeleteClusterResponse res \<times> 'w) option"
  cwi_GetCluster :: "string \<Rightarrow> RequestEditorFn list \<Rightarrow> 'w \<Rightarrow> (GetClusterResponse res \<times> 'w) option"
  cwi_ListVMs :: "ListParams option \<Rightarrow> RequestEditorFn list \<Rightarrow> 'w \<Rightarrow> (ListVMsResponse res \<times> 'w) option"
  cwi_CreateVMWithBody :: "CreateParams option \<Rightarrow> string \<Rightarrow> string \<Rightarrow> RequestEditorFn list \<Rightarrow> 'w \<Rightarrow> (CreateVMResponse res \<times> 'w) option"
  cwi_CreateVM :: "CreateParams option \<Rightarrow> VirtualMachine \<Rightarrow> RequestEditorFn list \<Rightarrow> 'w \<Rightarrow> (CreateVMResponse res \<times> 'w) option"
  cwi_GetVMsHealth :: "RequestEditorFn list \<Rightarrow> 'w \<Rightarrow> (GetVMsHealthResponse res \<times> 'w) option"
  cwi_DeleteVM :: "string \<Rightarrow> RequestEditorFn list \<Rightarrow> 'w \<Rightarrow> (DeleteVMResponse res \<times> 'w) option"
  cwi_GetVM :: "string \<Rightarrow> RequestEditorFn list \<Rightarrow> 'w \<Rightarrow> (GetVMResponse res \<times> 'w) option"

definition ClientWithResponses_interface ::
  "(string \<Rightarrow> (string \<times> string) res) \<Rightarrow> Runtime \<Rightarrow> Json \<Rightarrow> 'w Client \<Rightarrow> 'w ClientWithResponsesInterface" where
  "ClientWithResponses_interface origin rt js c =
     \<lparr>cwi_ListClusters = ListClustersWithResponse origin js rt c,
      cwi_CreateClusterWithBody = CreateClusterWithBodyWithResponse origin js rt c,
      cwi_CreateCluster = CreateClusterWithResponse origin rt js c,
      cwi_GetClustersHealth = GetClustersHealthWithResponse origin js c,
      cwi_DeleteCluster = DeleteClusterWithResponse origin js rt c,
      cwi_GetCluster = GetClusterWithResponse origin js rt c,
      cwi_ListVMs = ListVMsWithResponse origin js rt c,
      cwi_CreateVMWithBody = CreateVMWithBodyWithResponse origin js rt c,
      cwi_CreateVM = CreateVMWithResponse origin rt js c,
      cwi_GetVMsHealth = GetVMsHealthWithResponse origin js c,
      cwi_DeleteVM = DeleteVMWithResponse origin js rt c,
      cwi_GetVM = GetVMWithResponse origin js rt c\<rparr>"

end
