(* ===== verification/Api_Stack.thy ===== *)
theory Api_Stack
  imports Service_Main Api_Client
begin

text \<open>
  The HTTP stack put together, from the generated client to the services: the typed handlers of
  \<open>main.go\<close> behind the strict adapter, the router and the middleware of \<open>internal/apiserver\<close>, and a
  \<open>Doer\<close> that hands the client's requests to them. What \<open>chi\<close> and \<open>oapi-codegen/runtime\<close> are
  relied on for is \<open>chi_documented\<close> and \<open>runtime_documented\<close>.
\<close>

section \<open>The typed handlers\<close>

text \<open>A response of the handler packages as a response object.\<close>

definition object_of :: "(int \<Rightarrow> 'b option \<Rightarrow> 'o option) \<Rightarrow> (http_error \<Rightarrow> 'o) \<Rightarrow> 'b http_response \<Rightarrow> 'o option" where
  "object_of ok mapped resp = (case resp of Success st body \<Rightarrow> ok st body | Problem e \<Rightarrow> Some (mapped e))"

definition typed_answer :: "('r \<Rightarrow> 'o option) \<Rightarrow> ('r \<times> 'w) \<Rightarrow> ('o option res \<times> 'w) option" where
  "typed_answer f a = Some (Inr (f (fst a)), snd a)"

definition apiHandler_strict ::
  "(go_error \<Rightarrow> string) \<Rightarrow> int \<Rightarrow> 'w apiHandler \<Rightarrow> 'w StrictServerInterface" where
  "apiHandler_strict err_text now h =
     \<lparr>ssi_ListClusters = (\<lambda>params w.
        typed_answer (object_of (\<lambda>st. map_option ListClusters200JSONResponse) ListClustersMappedError)
          (api_ListClusters err_text h params w)),
      ssi_CreateCluster = (\<lambda>req w.
        typed_answer (object_of (\<lambda>st. map_option CreateCluster201JSONResponse) CreateClusterMappedError)
          (api_CreateCluster err_text h
             \<lparr>ccr_Params = cco_Params req, ccr_Spec = Option.bind (cco_Body req) ac_Spec\<rparr> w)),
      ssi_GetClustersHealth = (\<lambda>w.
        typed_answer (\<lambda>resp. Some (GetClustersHealth200JSONResponse resp)) (GetClustersHealth now (ah_Handler h) w)),
      ssi_DeleteCluster = (\<lambda>clusterId w.
        typed_answer (object_of (\<lambda>st body. Some DeleteCluster204Response) DeleteClusterMappedError)
          (api_DeleteCluster err_text h clusterId w)),
      ssi_GetCluster = (\<lambda>clusterId w.
        typed_answer (object_of (\<lambda>st. map_option GetCluster200JSONResponse) GetClusterMappedError)
          (api_GetCluster err_text h clusterId w)),
      ssi_ListVMs = (\<lambda>params w.
        typed_answer (object_of (\<lambda>st. map_option ListVMs200JSONResponse) ListVMsMappedError)
          (api_ListVMs err_text h params w)),
      ssi_CreateVM = (\<lambda>req w.
        Option.bind (api_CreateVM err_text h
             \<lparr>cvr_Params = cvo_Params req, cvr_Spec = Option.bind (cvo_Body req) vm_Spec\<rparr> w)
          (typed_answer (object_of (\<lambda>st. map_option CreateVM201JSONResponse) CreateVMMappedError))),
      ssi_GetVMsHealth = (\<lambda>w.
        typed_answer (\<lambda>resp. Some (GetVMsHealth200JSONResponse resp)) (GetVMsHealth now (ah_Handler h) w)),
      ssi_DeleteVM = (\<lambda>vmId w.
        typed_answer (object_of (\<lambda>st body. Some DeleteVM204Response) DeleteVMMappedError)
          (api_DeleteVM err_text h vmId w)),
      ssi_GetVM = (\<lambda>vmId w.
        typed_answer (object_of (\<lambda>st. map_option GetVM200JSONResponse) GetVMMappedError)
          (api_GetVM err_text h vmId w))\<rparr>"

section \<open>The server\<close>

text \<open>\<open>NewRequestErrorHandler\<close> and \<open>NewResponseErrorHandler\<close>, as the calls they make.\<close>

definition bad_request_calls :: "Json \<Rightarrow> (go_error \<Rightarrow> string) \<Rightarrow> api_request \<Rightarrow> go_error \<Rightarrow> writer_call list" where
  "bad_request_calls js err_text r err =
     problem_calls js (WriteResponse StatusBadRequest ErrorTypeINVALIDARGUMENT ''Bad Request'' (err_text err) (Ptr (rq_URI r)))"

definition response_error_calls :: "Json \<Rightarrow> api_request \<Rightarrow> go_error \<Rightarrow> writer_call list" where
  "response_error_calls js r err = problem_calls js (internal_problem (request.truncate r))"

lemma do_problem_calls: "do_calls ops (problem_calls js e) w = send_problem (problem_text js) ops e w"
  by (simp add: problem_calls_def send_problem_def)

lemma error_handlers:
  "do_calls ops (bad_request_calls js err_text r err) w =
     NewRequestErrorHandler (problem_text js) err_text ops (request.truncate r) err w"
  "do_calls ops (response_error_calls js r err) w =
     NewResponseErrorHandler (problem_text js) ops (request.truncate r) err w"
  by (simp_all add: bad_request_calls_def response_error_calls_def do_problem_calls NewRequestErrorHandler_def newBadRequestHandler_def
      NewResponseErrorHandler_def request.truncate_def)

definition strictAdapter ::
  "Json \<Rightarrow> (string \<Rightarrow> go_error option) \<Rightarrow> (go_error \<Rightarrow> string) \<Rightarrow> 'w StrictServerInterface \<Rightarrow> 'w ServerInterface" where
  "strictAdapter js wr err_text handler =
     strict_interface js wr (NewStrictHandlerWithOptions err_text handler
       \<lparr>so_RequestErrorHandlerFunc = Some (bad_request_calls js err_text),
        so_ResponseErrorHandlerFunc = Some (response_error_calls js)\<rparr>)"

definition httpHandler ::
  "'w chi \<Rightarrow> Runtime \<Rightarrow> Json \<Rightarrow> (go_error \<Rightarrow> string) \<Rightarrow> 'w ServerInterface \<Rightarrow> 'w api_handler" where
  "httpHandler chi rt js err_text handler =
     HandlerWithOptions chi rt err_text handler
       \<lparr>co_BaseURL = '''', co_Middlewares = [], co_ErrorHandlerFunc = Some (bad_request_calls js err_text)\<rparr>"

text \<open>A request as the server reads it off the wire.\<close>

definition received :: "client_request \<Rightarrow> api_request res" where
  "received req =
     (case parse_reference (RequestURI (cr_URL req)) of
        Inl err \<Rightarrow> Inl err
      | Inr u \<Rightarrow> Inr \<lparr>rq_Method = cr_Method req, rq_Path = u_Path u, rq_URI = RequestURI u, rq_Deadline = None,
          ar_URL = u, ar_Body = cr_Body req, ar_Params = []\<rparr>)"

text \<open>
  The \<open>Doer\<close> that is the server: the handler's calls go through the middleware to the writer of
  \<open>net/http\<close>, which sends 200 when nothing was written. A request line the server cannot parse does
  not reach a handler.
\<close>

definition response_of :: "net_writer \<Rightarrow> HttpResponse" where
  "response_of nw =
     (let code = (case nw_status nw of None \<Rightarrow> 200 | Some c \<Rightarrow> c)
      in \<lparr>rs_Status = Itoa code, rs_StatusCode = code, rs_ContentType = nw_contentType nw, rs_Body = Inr (nw_body nw)\<rparr>)"

definition http_exchange :: "Json \<Rightarrow> Config \<Rightarrow> int \<Rightarrow> 'w api_handler \<Rightarrow> 'w Doer" where
  "http_exchange js cfg now handler req w =
     (case received req of
        Inl err \<Rightarrow> Some (Inl err, w)
      | Inr r \<Rightarrow>
     (case handler r w of
        None \<Rightarrow> None
      | Some (calls, w1) \<Rightarrow>
          (case server_handler (problem_text js) cfg now (scripted calls None) net_ops (request.truncate r) net_fresh of
             (panicked, logs, nw) \<Rightarrow> Some (Inr (response_of nw), w1))))"

lemma http_exchange_handler:
  assumes "received req = Inr r" and "handler r w = Some (calls, w1)"
  shows "http_exchange js cfg now handler req w = Some (Inr (response_of (do_calls net_ops calls net_fresh)), w1)"
  using assms by (simp add: http_exchange_def stack_result)

text \<open>What the client reads of the two ways a handler answers.\<close>

lemma response_of_json:
  assumes "200 \<le> code"
  shows "response_of (do_calls net_ops [SetContentType ct, WriteHeader code, Write b] net_fresh) =
    \<lparr>rs_Status = Itoa code, rs_StatusCode = code, rs_ContentType = ct, rs_Body = Inr b\<rparr>"
  using assms by (simp add: response_of_def net_ops_def net_fresh_def)

lemma response_of_header:
  assumes "200 \<le> code"
  shows "response_of (do_calls net_ops [WriteHeader code] net_fresh) =
    \<lparr>rs_Status = Itoa code, rs_StatusCode = code, rs_ContentType = '''', rs_Body = Inr ''''\<rparr>"
  using assms by (simp add: response_of_def net_ops_def net_fresh_def)

section \<open>What the libraries are relied on for\<close>

text \<open>
  A pattern is a literal path, or a literal followed by one placeholder, which matches a non-empty
  rest without a slash. chi looks at the raw path when there is one.
\<close>

definition routing_path :: "URL \<Rightarrow> string" where
  "routing_path u = (if u_RawPath u \<noteq> '''' then u_RawPath u else u_Path u)"

definition match_pattern :: "string \<Rightarrow> string \<Rightarrow> (string \<times> string) list option" where
  "match_pattern pat path =
     (if CHR ''{'' \<in> set pat then
        let pre = takeWhile (\<lambda>c. c \<noteq> CHR ''{'') pat;
            name = takeWhile (\<lambda>c. c \<noteq> CHR ''}'') (drop (Suc (length pre)) pat);
            v = drop (length pre) path
        in if HasPrefix path pre \<and> v \<noteq> '''' \<and> CHR ''/'' \<notin> set v then Some [(name, v)] else None
      else if pat = path then Some [] else None)"

text \<open>
  A registered literal wins; a pattern with a placeholder is chosen when no other registered pattern
  matches the path, under whatever method.
\<close>

definition chi_documented :: "'w chi \<Rightarrow> bool" where
  "chi_documented chi \<longleftrightarrow>
     (\<forall>routes m u pat h ps.
        distinct (map (\<lambda>(m, p, h). (m, p)) routes) \<and> (m, pat, h) \<in> set routes \<and>
        match_pattern pat (routing_path u) = Some ps \<and>
        (ps = [] \<or> (\<forall>(m', p', h') \<in> set routes. p' = pat \<or> match_pattern p' (routing_path u) = None)) \<longrightarrow>
        chi routes m u = Inr (h, ps))"

text \<open>
  Styling: \<open>form\<close> query parameters and \<open>simple\<close> path parameters, percent-encoded. Binding: absent
  and single query values, and path parameters that are unescaped already or not.
\<close>

definition runtime_documented :: "Runtime \<Rightarrow> bool" where
  "runtime_documented rt \<longleftrightarrow>
     (\<forall>name v. v \<noteq> '''' \<longrightarrow>
        rt_StyleQueryString rt name v = Inr (name @ ''='' @ QueryEscape v) \<and>
        rt_StylePath rt name v = Inr (PathEscape v) \<and>
        rt_BindPath rt name v True = Inr v \<and>
        (\<forall>x. PathUnescape v = Inr x \<longrightarrow> rt_BindPath rt name v False = Inr x)) \<and>
     (\<forall>name n. rt_StyleQueryInt32 rt name n = Inr (name @ ''='' @ QueryEscape (Itoa n))) \<and>
     (\<forall>name vs. values_of name vs = [] \<longrightarrow>
        rt_BindQueryString rt name vs = Inr None \<and> rt_BindQueryInt32 rt name vs = Inr None) \<and>
     (\<forall>name vs v. values_of name vs = [v] \<and> v \<noteq> '''' \<longrightarrow> rt_BindQueryString rt name vs = Inr (Some v)) \<and>
     (\<forall>name vs n. values_of name vs = [Itoa n] \<and> is_int32 n \<longrightarrow> rt_BindQueryInt32 rt name vs = Inr (Some n))"

lemma runtime_documentedD:
  assumes "runtime_documented rt"
  shows "v \<noteq> '''' \<Longrightarrow> rt_StyleQueryString rt k v = Inr (k @ ''='' @ QueryEscape v)"
    and "v \<noteq> '''' \<Longrightarrow> rt_StylePath rt k v = Inr (PathEscape v)"
    and "rt_StyleQueryInt32 rt k n = Inr (k @ ''='' @ QueryEscape (Itoa n))"
    and "values_of k vs = [] \<Longrightarrow> rt_BindQueryString rt k vs = Inr None"
    and "values_of k vs = [] \<Longrightarrow> rt_BindQueryInt32 rt k vs = Inr None"
    and "values_of k vs = [v] \<Longrightarrow> v \<noteq> '''' \<Longrightarrow> rt_BindQueryString rt k vs = Inr (Some v)"
    and "values_of k vs = [Itoa n] \<Longrightarrow> is_int32 n \<Longrightarrow> rt_BindQueryInt32 rt k vs = Inr (Some n)"
  using assms unfolding runtime_documented_def by blast+

lemma chi_static:
  assumes "chi_documented chi" and "distinct (map (\<lambda>(m, p, h). (m, p)) routes)" and "(m, pat, h) \<in> set routes"
    and "match_pattern pat (routing_path u) = Some []"
  shows "chi routes m u = Inr (h, [])"
  using assms unfolding chi_documented_def by blast

lemma chi_placeholder:
  assumes "chi_documented chi" and "distinct (map (\<lambda>(m, p, h). (m, p)) routes)" and "(m, pat, h) \<in> set routes"
    and "match_pattern pat (routing_path u) = Some ps"
    and "\<forall>(m', p', h') \<in> set routes. p' = pat \<or> match_pattern p' (routing_path u) = None"
  shows "chi routes m u = Inr (h, ps)"
  using assms unfolding chi_documented_def by blast

lemma routes_distinct: "distinct (map (\<lambda>(m, p, h). (m, p)) (api_routes rt '''' wrapper))"
  by (simp add: api_routes_def)

section \<open>Requests of the client at the server\<close>

lemma sendable_literal:
  "sendable ''api/v1alpha1/clusters'' ''api/v1alpha1/clusters''"
  "sendable ''api/v1alpha1/vms'' ''api/v1alpha1/vms''"
  "sendable ''api/v1alpha1/clusters/health'' ''api/v1alpha1/clusters/health''"
  "sendable ''api/v1alpha1/vms/health'' ''api/v1alpha1/vms/health''"
  by (simp_all add: sendable_def validEncoded_def valid_char_def shouldEscape_def is_alnum_def plain_path_def)

lemma sendable_segment:
  assumes "sendable s path" and "i \<notin> {''.'', ''..''}"
  shows "sendable (s @ CHR ''/'' # PathEscape i) (path @ CHR ''/'' # i)"
proof -
  have u: "unescape encodePath (CHR ''/'' # PathEscape i) = Inr (CHR ''/'' # i)"
    using unescape_PathEscape_append [of i "[]"] by simp
  have "validEncoded (CHR ''/'' # PathEscape i)"
    using validEncoded_PathEscape [of i] by (simp add: validEncoded_def valid_char_def shouldEscape_def is_alnum_def)
  moreover have "plain_path (s @ CHR ''/'' # PathEscape i)"
    using assms plain_path_segment [OF PathEscape_no_slash, of s i] PathEscape_dots [of i] by (simp add: sendable_def)
  moreover have "unescape encodePath (s @ CHR ''/'' # PathEscape i) = Inr (path @ CHR ''/'' # i)"
    using unescape_append [of encodePath s path "CHR ''/'' # PathEscape i"] assms(1) u by (simp add: sendable_def)
  ultimately show ?thesis using assms(1) by (simp add: sendable_def)
qed

text \<open>The URL of an operation of a server at its root, with a query, and what the server makes of it.\<close>

definition operation_at :: "string \<Rightarrow> string \<Rightarrow> string \<Rightarrow> URL" where
  "operation_at s path q = located '''' (CHR ''/'' # s) (CHR ''/'' # path) q"

lemma operation_url_root:
  assumes "url_Parse origin server = Inr base" and "EscapedPath base = ''/''" and "sendable s path"
  shows "operation_url origin server (CHR ''/'' # s) =
    Inr (located (u_Origin base) (CHR ''/'' # s) (CHR ''/'' # path) '''')"
  using assms ParseRef_root [of s path base] by (simp add: operation_url_def sendable_def)

text \<open>A request the client builds with this URL arrives as one with the same path and query.\<close>

definition request_at :: "string \<Rightarrow> string \<Rightarrow> URL \<Rightarrow> api_request" where
  "request_at meth body u =
     \<lparr>rq_Method = meth, rq_Path = u_Path u, rq_URI = RequestURI u, rq_Deadline = None,
      ar_URL = u, ar_Body = body, ar_Params = []\<rparr>"

lemma sent_received:
  assumes "sendable s path" and "\<forall>t. origin (o' @ CHR ''/'' # t) = Inr (o', CHR ''/'' # t)"
  shows "\<exists>req. http_NewRequest origin meth (located o' (CHR ''/'' # s) (CHR ''/'' # path) q) ct body = Inr req \<and>
    received req = Inr (request_at meth body (operation_at s path q))"
proof -
  let ?u = "located o' (CHR ''/'' # s) (CHR ''/'' # path) q"
  have "url_Parse origin (url_String ?u) = Inr ?u"
    unfolding url_String_located(1) [OF assms(1)] by (rule url_Parse_sent [OF assms(1)]) (use assms(2) in blast)
  moreover have "parse_reference (RequestURI ?u) = Inr (operation_at s path q)"
    unfolding url_String_located(2) [OF assms(1)] operation_at_def by (rule parse_reference_sent [OF assms(1)])
  ultimately show ?thesis by (simp add: http_NewRequest_def received_def request_at_def)
qed

text \<open>\<open>built\<close> arrives at the handler \<open>h\<close> of the server as the request \<open>r\<close>.\<close>

definition arrives :: "client_request res \<Rightarrow> api_request \<Rightarrow> bool" where
  "arrives built r \<longleftrightarrow> (\<exists>req. built = Inr req \<and> received req = Inr r)"

lemma at_rootE:
  assumes "at_root origin server"
  obtains base where "url_Parse origin server = Inr base" "EscapedPath base = ''/''"
    "\<forall>t. origin (u_Origin base @ CHR ''/'' # t) = Inr (u_Origin base, CHR ''/'' # t)"
  using assms unfolding at_root_def by blast

text \<open>A request on the path of a resource.\<close>

definition resource_request :: "string \<Rightarrow> string \<Rightarrow> string \<Rightarrow> api_request" where
  "resource_request meth coll i = request_at meth '''' (operation_at (coll @ PathEscape i) (coll @ i) '''')"

lemma path_request_arrives:
  assumes "at_root origin server" and "runtime_documented rt" and "i \<notin> {'''', ''.'', ''..''}"
  shows "arrives (NewGetClusterRequest origin rt server i)
      (resource_request ''GET'' ''api/v1alpha1/clusters/'' i)"
    and "arrives (NewDeleteClusterRequest origin rt server i)
      (resource_request ''DELETE'' ''api/v1alpha1/clusters/'' i)"
    and "arrives (NewGetVMRequest origin rt server i)
      (resource_request ''GET'' ''api/v1alpha1/vms/'' i)"
    and "arrives (NewDeleteVMRequest origin rt server i)
      (resource_request ''DELETE'' ''api/v1alpha1/vms/'' i)"
proof -
  from assms(1) obtain base where base: "url_Parse origin server = Inr base" "EscapedPath base = ''/''"
    "\<forall>t. origin (u_Origin base @ CHR ''/'' # t) = Inr (u_Origin base, CHR ''/'' # t)" by (rule at_rootE)
  have style: "rt_StylePath rt name i = Inr (PathEscape i)" for name
    using assms(2,3) by (simp add: runtime_documented_def)
  have c: "sendable (''api/v1alpha1/clusters/'' @ PathEscape i) (''api/v1alpha1/clusters/'' @ i)"
    and v: "sendable (''api/v1alpha1/vms/'' @ PathEscape i) (''api/v1alpha1/vms/'' @ i)"
    using sendable_segment [OF sendable_literal(1), of i] sendable_segment [OF sendable_literal(2), of i] assms(3) by simp_all
  note sent = sent_received [OF c base(3)] sent_received [OF v base(3)]
  note url = operation_url_root [OF base(1,2) c] operation_url_root [OF base(1,2) v]
  show "arrives (NewGetClusterRequest origin rt server i)
      (resource_request ''GET'' ''api/v1alpha1/clusters/'' i)"
    "arrives (NewDeleteClusterRequest origin rt server i)
      (resource_request ''DELETE'' ''api/v1alpha1/clusters/'' i)"
    "arrives (NewGetVMRequest origin rt server i)
      (resource_request ''GET'' ''api/v1alpha1/vms/'' i)"
    "arrives (NewDeleteVMRequest origin rt server i)
      (resource_request ''DELETE'' ''api/v1alpha1/vms/'' i)"
    using sent url
    by (simp_all add: arrives_def resource_request_def NewGetClusterRequest_def NewDeleteClusterRequest_def NewGetVMRequest_def
        NewDeleteVMRequest_def style)
qed

text \<open>Requests on a collection, with the styled query parameters.\<close>

definition form_pairs :: "(string \<times> string) list \<Rightarrow> string" where
  "form_pairs ps = Join (map (\<lambda>(k, v). k @ ''='' @ QueryEscape v) ps) ''&''"

definition list_pairs :: "ListParams \<Rightarrow> (string \<times> string) list" where
  "list_pairs ps =
     (case lp_PageToken ps of None \<Rightarrow> [] | Some v \<Rightarrow> [(''page_token'', v)]) @
     (case lp_MaxPageSize ps of None \<Rightarrow> [] | Some n \<Rightarrow> [(''max_page_size'', Itoa n)])"

definition create_pairs :: "CreateParams \<Rightarrow> (string \<times> string) list" where
  "create_pairs ps = (case cp_Id ps of None \<Rightarrow> [] | Some v \<Rightarrow> [(''id'', v)])"

definition collection_request :: "string \<Rightarrow> string \<Rightarrow> string \<Rightarrow> (string \<times> string) list \<Rightarrow> api_request" where
  "collection_request meth coll body ps = request_at meth body (operation_at coll coll (form_pairs ps))"

lemma with_fragments_located: "with_fragments frags (located o' s path '''') = located o' s path (Join frags ''&'')"
  by (simp add: with_fragments_def located_def Query_def query_pair_def Values_Encode_def)

lemma Query_form_pairs:
  assumes "list_all (\<lambda>(k, v). plain_name k) ps"
  shows "Query (operation_at s path (form_pairs ps)) = ps"
proof -
  let ?f = "\<lambda>(k, v). k @ ''='' @ QueryEscape v"
  have "\<forall>p \<in> set (map ?f ps). CHR ''&'' \<notin> set p"
    using assms query_pair_styled(2) by (fastforce simp: list_all_iff)
  then have "Query (operation_at s path (form_pairs ps)) = concat (map query_pair (map ?f ps))"
    by (rule Query_Join) (simp add: operation_at_def located_def form_pairs_def)
  also have "\<dots> = ps" using assms by (induction ps) (auto simp: query_pair_styled(1) [simplified])
  finally show ?thesis .
qed

lemma plain_names [simp]: "plain_name ''page_token''" "plain_name ''max_page_size''" "plain_name ''id''"
  by (simp_all add: plain_name_def is_alnum_def)

lemma pairs_plain:
  "list_all (\<lambda>(k, v). plain_name k) (list_pairs lp)" "list_all (\<lambda>(k, v). plain_name k) (create_pairs cp)"
  by (simp_all add: list_pairs_def create_pairs_def split: option.split)

text \<open>Parameters that styling and binding carry: no empty strings, and an \<open>int32\<close>.\<close>

definition carried_list :: "ListParams \<Rightarrow> bool" where
  "carried_list ps \<longleftrightarrow> lp_PageToken ps \<noteq> Some '''' \<and> (case lp_MaxPageSize ps of None \<Rightarrow> True | Some n \<Rightarrow> is_int32 n)"

definition carried_create :: "CreateParams \<Rightarrow> bool" where
  "carried_create ps \<longleftrightarrow> cp_Id ps \<noteq> Some ''''"

lemma styled_value:
  assumes "runtime_documented rt" and "plain_name k" and "v \<noteq> Some ''''"
  shows "styled (rt_StyleQueryString rt k) v = Inr (case v of None \<Rightarrow> [] | Some x \<Rightarrow> [k @ ''='' @ QueryEscape x])"
    and "styled (rt_StyleQueryInt32 rt k) n = Inr (case n of None \<Rightarrow> [] | Some x \<Rightarrow> [k @ ''='' @ QueryEscape (Itoa x)])"
  using assms(3) query_pair_styled(2) [OF assms(2)]
  by (cases v; cases n; simp add: styled_def runtime_documentedD [OF assms(1)] Split_none del: append.simps set_append)+

lemma list_request_arrives:
  assumes "at_root origin server" and "runtime_documented rt" and "carried_list ps"
  shows "arrives (NewListClustersRequest origin rt server (Some ps))
      (collection_request ''GET'' ''api/v1alpha1/clusters'' '''' (list_pairs ps))"
    and "arrives (NewListVMsRequest origin rt server (Some ps))
      (collection_request ''GET'' ''api/v1alpha1/vms'' '''' (list_pairs ps))"
proof -
  from assms(1) obtain base where base: "url_Parse origin server = Inr base" "EscapedPath base = ''/''"
    "\<forall>t. origin (u_Origin base @ CHR ''/'' # t) = Inr (u_Origin base, CHR ''/'' # t)" by (rule at_rootE)
  note url = operation_url_root [OF base(1,2) sendable_literal(1)] operation_url_root [OF base(1,2) sendable_literal(2)]
  note sent = sent_received [OF sendable_literal(1) base(3)] sent_received [OF sendable_literal(2) base(3)]
  have frags: "Join ((case lp_PageToken ps of None \<Rightarrow> [] | Some x \<Rightarrow> [''page_token'' @ ''='' @ QueryEscape x]) @
      (case lp_MaxPageSize ps of None \<Rightarrow> [] | Some x \<Rightarrow> [''max_page_size'' @ ''='' @ QueryEscape (Itoa x)])) ''&''
      = form_pairs (list_pairs ps)"
    by (simp add: form_pairs_def list_pairs_def split: option.split)
  have st: "styled (rt_StyleQueryString rt ''page_token'') (lp_PageToken ps) =
      Inr (case lp_PageToken ps of None \<Rightarrow> [] | Some x \<Rightarrow> [''page_token'' @ ''='' @ QueryEscape x])"
    "styled (rt_StyleQueryInt32 rt ''max_page_size'') (lp_MaxPageSize ps) =
      Inr (case lp_MaxPageSize ps of None \<Rightarrow> [] | Some x \<Rightarrow> [''max_page_size'' @ ''='' @ QueryEscape (Itoa x)])"
    using styled_value [OF assms(2) plain_names(1), of "lp_PageToken ps"] styled_value(2) [OF assms(2) plain_names(2), of None]
      assms(3) by (simp_all add: carried_list_def del: append.simps)
  show "arrives (NewListClustersRequest origin rt server (Some ps))
      (collection_request ''GET'' ''api/v1alpha1/clusters'' '''' (list_pairs ps))"
    using sent(1) [of "''GET''" "form_pairs (list_pairs ps)" None "''''"]
    by (simp add: arrives_def NewListClustersRequest_def url st with_fragments_located frags collection_request_def
        del: append.simps)
  show "arrives (NewListVMsRequest origin rt server (Some ps))
      (collection_request ''GET'' ''api/v1alpha1/vms'' '''' (list_pairs ps))"
    using sent(2) [of "''GET''" "form_pairs (list_pairs ps)" None "''''"]
    by (simp add: arrives_def NewListVMsRequest_def url st with_fragments_located frags collection_request_def
        del: append.simps)
qed

lemma create_request_arrives:
  assumes "at_root origin server" and "runtime_documented rt" and "carried_create ps"
  shows "arrives (NewCreateClusterRequestWithBody origin rt server (Some ps) ct body)
      (collection_request ''POST'' ''api/v1alpha1/clusters'' body (create_pairs ps))"
    and "arrives (NewCreateVMRequestWithBody origin rt server (Some ps) ct body)
      (collection_request ''POST'' ''api/v1alpha1/vms'' body (create_pairs ps))"
proof -
  from assms(1) obtain base where base: "url_Parse origin server = Inr base" "EscapedPath base = ''/''"
    "\<forall>t. origin (u_Origin base @ CHR ''/'' # t) = Inr (u_Origin base, CHR ''/'' # t)" by (rule at_rootE)
  note url = operation_url_root [OF base(1,2) sendable_literal(1)] operation_url_root [OF base(1,2) sendable_literal(2)]
  note sent = sent_received [OF sendable_literal(1) base(3)] sent_received [OF sendable_literal(2) base(3)]
  have frags: "Join (case cp_Id ps of None \<Rightarrow> [] | Some x \<Rightarrow> [''id'' @ ''='' @ QueryEscape x]) ''&'' = form_pairs (create_pairs ps)"
    by (simp add: form_pairs_def create_pairs_def split: option.split)
  have st: "styled (rt_StyleQueryString rt ''id'') (cp_Id ps) =
      Inr (case cp_Id ps of None \<Rightarrow> [] | Some x \<Rightarrow> [''id'' @ ''='' @ QueryEscape x])"
    using styled_value(1) [OF assms(2) plain_names(3), of "cp_Id ps"] assms(3) by (simp add: carried_create_def del: append.simps)
  show "arrives (NewCreateClusterRequestWithBody origin rt server (Some ps) ct body)
      (collection_request ''POST'' ''api/v1alpha1/clusters'' body (create_pairs ps))"
    using sent(1) [of "''POST''" "form_pairs (create_pairs ps)" "Some ct" body]
    by (simp add: arrives_def NewCreateClusterRequestWithBody_def url st with_fragments_located frags collection_request_def
        del: append.simps)
  show "arrives (NewCreateVMRequestWithBody origin rt server (Some ps) ct body)
      (collection_request ''POST'' ''api/v1alpha1/vms'' body (create_pairs ps))"
    using sent(2) [of "''POST''" "form_pairs (create_pairs ps)" "Some ct" body]
    by (simp add: arrives_def NewCreateVMRequestWithBody_def url st with_fragments_located frags collection_request_def
        del: append.simps)
qed

section \<open>Dispatch\<close>

text \<open>The identifier as chi captures it: decoded, or still escaped when the URL has a raw path.\<close>

lemma captured:
  assumes "i \<noteq> ''''" and "escape encodePath s = s" and "runtime_documented rt"
  obtains v where "routing_path (operation_at (s @ PathEscape i) (s @ i) '''') = CHR ''/'' # s @ v"
    "v \<noteq> ''''" "CHR ''/'' \<notin> set v" "v = ''health'' \<longleftrightarrow> i = ''health''"
    "rt_BindPath rt name v (u_RawPath (operation_at (s @ PathEscape i) (s @ i) '''') = '''') = Inr i"
proof (cases "PathEscape i = escape encodePath i")
  case True
  have sl: "\<not> shouldEscape (CHR ''/'') encodePath" by (simp add: shouldEscape_def is_alnum_def)
  with True assms(2) have "u_RawPath (operation_at (s @ PathEscape i) (s @ i) '''') = ''''"
    by (simp add: operation_at_def located_def)
  with assms(1,3) canonical_no_slash [OF True] show ?thesis
    by (intro that [of i]) (auto simp: routing_path_def runtime_documented_def, simp_all add: operation_at_def located_def)
next
  case False
  have sl: "\<not> shouldEscape (CHR ''/'') encodePath" by (simp add: shouldEscape_def is_alnum_def)
  with False assms(2) have "u_RawPath (operation_at (s @ PathEscape i) (s @ i) '''') = CHR ''/'' # s @ PathEscape i"
    by (simp add: operation_at_def located_def)
  with assms(1,3) show ?thesis
    by (intro that [of "PathEscape i"]) (auto simp: routing_path_def runtime_documented_def PathEscape_dots)
qed

lemma canonical_prefixes:
  "escape encodePath ''api/v1alpha1/clusters/'' = ''api/v1alpha1/clusters/''"
  "escape encodePath ''api/v1alpha1/vms/'' = ''api/v1alpha1/vms/''"
  by (simp_all add: shouldEscape_def is_alnum_def)

text \<open>The patterns on a path below one of the two collections.\<close>

lemma match_below:
  assumes "v \<noteq> ''''" and "CHR ''/'' \<notin> set v"
  shows "match_pattern ''/api/v1alpha1/clusters/{clusterId}'' (''/api/v1alpha1/clusters/'' @ v) = Some [(''clusterId'', v)]"
    and "match_pattern ''/api/v1alpha1/vms/{vmId}'' (''/api/v1alpha1/vms/'' @ v) = Some [(''vmId'', v)]"
    and "match_pattern ''/api/v1alpha1/vms/{vmId}'' (''/api/v1alpha1/clusters/'' @ v) = None"
    and "match_pattern ''/api/v1alpha1/clusters/{clusterId}'' (''/api/v1alpha1/vms/'' @ v) = None"
    and "match_pattern ''/api/v1alpha1/clusters'' (''/api/v1alpha1/clusters/'' @ v) = None"
    and "match_pattern ''/api/v1alpha1/clusters'' (''/api/v1alpha1/vms/'' @ v) = None"
    and "match_pattern ''/api/v1alpha1/vms'' (''/api/v1alpha1/clusters/'' @ v) = None"
    and "match_pattern ''/api/v1alpha1/vms'' (''/api/v1alpha1/vms/'' @ v) = None"
    and "match_pattern ''/api/v1alpha1/clusters/health'' (''/api/v1alpha1/clusters/'' @ v) = (if v = ''health'' then Some [] else None)"
    and "match_pattern ''/api/v1alpha1/clusters/health'' (''/api/v1alpha1/vms/'' @ v) = None"
    and "match_pattern ''/api/v1alpha1/vms/health'' (''/api/v1alpha1/clusters/'' @ v) = None"
    and "match_pattern ''/api/v1alpha1/vms/health'' (''/api/v1alpha1/vms/'' @ v) = (if v = ''health'' then Some [] else None)"
  using assms by (simp_all add: match_pattern_def HasPrefix_def Let_def)

text \<open>With no middleware the wrapper calls the handler.\<close>

lemma serve_with_none [simp]: "siw_HandlerMiddlewares siw = [] \<Longrightarrow> serve_with siw h = h"
  by (simp add: serve_with_def)

lemma URLParam_head [simp]: "URLParam (r \<lparr>ar_Params := [(k, v)]\<rparr>) k = v"
  by (simp add: URLParam_def)

text \<open>The wrapper behind \<open>httpHandler\<close>, and a request that reaches it.\<close>

definition server_wrapper :: "Json \<Rightarrow> (go_error \<Rightarrow> string) \<Rightarrow> 'w ServerInterface \<Rightarrow> 'w ServerInterfaceWrapper" where
  "server_wrapper js err_text si =
     \<lparr>siw_Handler = si, siw_HandlerMiddlewares = [], siw_ErrorHandlerFunc = bad_request_calls js err_text\<rparr>"

lemma server_wrapper_simps [simp]:
  "siw_Handler (server_wrapper js err_text si) = si"
  "siw_HandlerMiddlewares (server_wrapper js err_text si) = []"
  "siw_ErrorHandlerFunc (server_wrapper js err_text si) = bad_request_calls js err_text"
  by (simp_all add: server_wrapper_def)

lemma httpHandler_route:
  assumes "chi (api_routes rt '''' (server_wrapper js err_text si)) (rq_Method r) (ar_URL r) = Inr (h, ps)"
  shows "httpHandler chi rt js err_text si r w = h (r \<lparr>ar_Params := ps\<rparr>) w"
  using assms by (simp add: httpHandler_def HandlerWithOptions_def Let_def server_wrapper_def)

lemma request_at_simps [simp]:
  "rq_Method (request_at meth body u) = meth"
  "ar_URL (request_at meth body u) = u"
  "ar_Body (request_at meth body u) = body"
  by (simp_all add: request_at_def)

lemma api_routes_root:
  "api_routes rt '''' wrapper =
     [(''GET'', ''/api/v1alpha1/clusters'', siw_ListClusters rt wrapper),
      (''POST'', ''/api/v1alpha1/clusters'', siw_CreateCluster rt wrapper),
      (''DELETE'', ''/api/v1alpha1/clusters/{clusterId}'', siw_DeleteCluster rt wrapper),
      (''GET'', ''/api/v1alpha1/clusters/{clusterId}'', siw_GetCluster rt wrapper),
      (''GET'', ''/api/v1alpha1/vms'', siw_ListVMs rt wrapper),
      (''POST'', ''/api/v1alpha1/vms'', siw_CreateVM rt wrapper),
      (''DELETE'', ''/api/v1alpha1/vms/{vmId}'', siw_DeleteVM rt wrapper),
      (''GET'', ''/api/v1alpha1/vms/{vmId}'', siw_GetVM rt wrapper),
      (''GET'', ''/api/v1alpha1/clusters/health'', siw_GetClustersHealth rt wrapper),
      (''GET'', ''/api/v1alpha1/vms/health'', siw_GetVMsHealth rt wrapper)]"
  by (simp add: api_routes_def)

lemma routed_below:
  assumes "chi_documented chi" and "v \<noteq> ''''" and "CHR ''/'' \<notin> set v" and "v \<noteq> ''health''"
  shows "routing_path u = ''/api/v1alpha1/clusters/'' @ v \<Longrightarrow> m \<in> {''GET'', ''DELETE''} \<Longrightarrow>
      chi (api_routes rt '''' siw) m u =
        Inr (if m = ''GET'' then siw_GetCluster rt siw else siw_DeleteCluster rt siw, [(''clusterId'', v)])"
    and "routing_path u = ''/api/v1alpha1/vms/'' @ v \<Longrightarrow> m \<in> {''GET'', ''DELETE''} \<Longrightarrow>
      chi (api_routes rt '''' siw) m u =
        Inr (if m = ''GET'' then siw_GetVM rt siw else siw_DeleteVM rt siw, [(''vmId'', v)])"
proof -
  note below = match_below [OF assms(2,3)]
  show "chi (api_routes rt '''' siw) m u =
      Inr (if m = ''GET'' then siw_GetCluster rt siw else siw_DeleteCluster rt siw, [(''clusterId'', v)])"
    if path: "routing_path u = ''/api/v1alpha1/clusters/'' @ v" and m: "m \<in> {''GET'', ''DELETE''}"
    by (rule chi_placeholder [OF assms(1) routes_distinct, where pat = "''/api/v1alpha1/clusters/{clusterId}''"],
        unfold path) (use m assms(4) in \<open>auto simp: api_routes_root below simp del: append.simps\<close>)
  show "chi (api_routes rt '''' siw) m u =
      Inr (if m = ''GET'' then siw_GetVM rt siw else siw_DeleteVM rt siw, [(''vmId'', v)])"
    if path: "routing_path u = ''/api/v1alpha1/vms/'' @ v" and m: "m \<in> {''GET'', ''DELETE''}"
    by (rule chi_placeholder [OF assms(1) routes_distinct, where pat = "''/api/v1alpha1/vms/{vmId}''"],
        unfold path) (use m assms(4) in \<open>auto simp: api_routes_root below simp del: append.simps\<close>)
qed

text \<open>A resource's path reaches the resource's operation with its identifier.\<close>

lemma path_dispatch:
  assumes chi: "chi_documented chi" and rt: "runtime_documented rt" and i: "i \<notin> {'''', ''.'', ''..'', ''health''}"
  shows "\<exists>r. httpHandler chi rt js err_text si (resource_request ''GET'' ''api/v1alpha1/clusters/'' i) w = si_GetCluster si r i w"
    and "\<exists>r. httpHandler chi rt js err_text si (resource_request ''DELETE'' ''api/v1alpha1/clusters/'' i) w = si_DeleteCluster si r i w"
    and "\<exists>r. httpHandler chi rt js err_text si (resource_request ''GET'' ''api/v1alpha1/vms/'' i) w = si_GetVM si r i w"
    and "\<exists>r. httpHandler chi rt js err_text si (resource_request ''DELETE'' ''api/v1alpha1/vms/'' i) w = si_DeleteVM si r i w"
proof -
  let ?u = "\<lambda>coll. operation_at (coll @ PathEscape i) (coll @ i) ''''"
  have i0: "i \<noteq> ''''" and ih: "i \<noteq> ''health''" using i by simp_all
  obtain c where c: "routing_path (?u ''api/v1alpha1/clusters/'') = CHR ''/'' # ''api/v1alpha1/clusters/'' @ c" "c \<noteq> ''''"
    "CHR ''/'' \<notin> set c" "c = ''health'' \<longleftrightarrow> i = ''health''"
    "rt_BindPath rt ''clusterId'' c (u_RawPath (?u ''api/v1alpha1/clusters/'') = '''') = Inr i"
    by (rule captured [OF i0 canonical_prefixes(1) rt, where name = "''clusterId''"])
  obtain v where v: "routing_path (?u ''api/v1alpha1/vms/'') = CHR ''/'' # ''api/v1alpha1/vms/'' @ v" "v \<noteq> ''''"
    "CHR ''/'' \<notin> set v" "v = ''health'' \<longleftrightarrow> i = ''health''"
    "rt_BindPath rt ''vmId'' v (u_RawPath (?u ''api/v1alpha1/vms/'') = '''') = Inr i"
    by (rule captured [OF i0 canonical_prefixes(2) rt, where name = "''vmId''"])
  have ch: "c \<noteq> ''health''" and vh: "v \<noteq> ''health''" using c(4) v(4) ih by simp_all
  have cr: "routing_path (?u ''api/v1alpha1/clusters/'') = ''/api/v1alpha1/clusters/'' @ c" using c(1) by simp
  have vr: "routing_path (?u ''api/v1alpha1/vms/'') = ''/api/v1alpha1/vms/'' @ v" using v(1) by simp
  note route = trans [OF httpHandler_route [where chi = chi and rt = rt and js = js and err_text = err_text and si = si]]
  note rc = routed_below(1) [OF chi c(2,3) ch cr] and rv = routed_below(2) [OF chi v(2,3) vh vr]
  show "\<exists>r. httpHandler chi rt js err_text si (resource_request ''GET'' ''api/v1alpha1/clusters/'' i) w = si_GetCluster si r i w"
    unfolding resource_request_def
    by (rule exI, rule route, simp only: request_at_simps, rule rc) (simp_all add: siw_GetCluster_def c(5) del: append.simps)
  show "\<exists>r. httpHandler chi rt js err_text si (resource_request ''DELETE'' ''api/v1alpha1/clusters/'' i) w = si_DeleteCluster si r i w"
    unfolding resource_request_def
    by (rule exI, rule route, simp only: request_at_simps, rule rc) (simp_all add: siw_DeleteCluster_def c(5) del: append.simps)
  show "\<exists>r. httpHandler chi rt js err_text si (resource_request ''GET'' ''api/v1alpha1/vms/'' i) w = si_GetVM si r i w"
    unfolding resource_request_def
    by (rule exI, rule route, simp only: request_at_simps, rule rv) (simp_all add: siw_GetVM_def v(5) del: append.simps)
  show "\<exists>r. httpHandler chi rt js err_text si (resource_request ''DELETE'' ''api/v1alpha1/vms/'' i) w = si_DeleteVM si r i w"
    unfolding resource_request_def
    by (rule exI, rule route, simp only: request_at_simps, rule rv) (simp_all add: siw_DeleteVM_def v(5) del: append.simps)
qed

lemma routing_path_literal:
  "routing_path (operation_at ''api/v1alpha1/clusters'' ''api/v1alpha1/clusters'' q) = ''/api/v1alpha1/clusters''"
  "routing_path (operation_at ''api/v1alpha1/vms'' ''api/v1alpha1/vms'' q) = ''/api/v1alpha1/vms''"
  "routing_path (operation_at ''api/v1alpha1/clusters/health'' ''api/v1alpha1/clusters/health'' q) = ''/api/v1alpha1/clusters/health''"
  "routing_path (operation_at ''api/v1alpha1/vms/health'' ''api/v1alpha1/vms/health'' q) = ''/api/v1alpha1/vms/health''"
  by (simp_all add: operation_at_def located_def routing_path_def shouldEscape_def is_alnum_def)

lemma routed_literal:
  assumes "chi_documented chi"
  shows "routing_path u = ''/api/v1alpha1/clusters'' \<Longrightarrow> chi (api_routes rt '''' siw) ''GET'' u = Inr (siw_ListClusters rt siw, [])"
    and "routing_path u = ''/api/v1alpha1/clusters'' \<Longrightarrow> chi (api_routes rt '''' siw) ''POST'' u = Inr (siw_CreateCluster rt siw, [])"
    and "routing_path u = ''/api/v1alpha1/vms'' \<Longrightarrow> chi (api_routes rt '''' siw) ''GET'' u = Inr (siw_ListVMs rt siw, [])"
    and "routing_path u = ''/api/v1alpha1/vms'' \<Longrightarrow> chi (api_routes rt '''' siw) ''POST'' u = Inr (siw_CreateVM rt siw, [])"
    and "routing_path u = ''/api/v1alpha1/clusters/health'' \<Longrightarrow>
      chi (api_routes rt '''' siw) ''GET'' u = Inr (siw_GetClustersHealth rt siw, [])"
    and "routing_path u = ''/api/v1alpha1/vms/health'' \<Longrightarrow>
      chi (api_routes rt '''' siw) ''GET'' u = Inr (siw_GetVMsHealth rt siw, [])"
  by (rule chi_static [OF assms routes_distinct, where pat = "''/api/v1alpha1/clusters''"]
      chi_static [OF assms routes_distinct, where pat = "''/api/v1alpha1/vms''"]
      chi_static [OF assms routes_distinct, where pat = "''/api/v1alpha1/clusters/health''"]
      chi_static [OF assms routes_distinct, where pat = "''/api/v1alpha1/vms/health''"];
      simp add: api_routes_root match_pattern_def; fail)+

text \<open>The parameters as the wrapper binds them.\<close>

lemma bind_list:
  assumes "runtime_documented rt" and "carried_list ps"
  shows "rt_BindQueryString rt ''page_token'' (list_pairs ps) = Inr (lp_PageToken ps)"
    and "rt_BindQueryInt32 rt ''max_page_size'' (list_pairs ps) = Inr (lp_MaxPageSize ps)"
proof -
  have "values_of ''page_token'' (list_pairs ps) = (case lp_PageToken ps of None \<Rightarrow> [] | Some v \<Rightarrow> [v])"
    and "values_of ''max_page_size'' (list_pairs ps) = (case lp_MaxPageSize ps of None \<Rightarrow> [] | Some n \<Rightarrow> [Itoa n])"
    by (simp_all add: values_of_def list_pairs_def split: option.split)
  then show "rt_BindQueryString rt ''page_token'' (list_pairs ps) = Inr (lp_PageToken ps)"
    and "rt_BindQueryInt32 rt ''max_page_size'' (list_pairs ps) = Inr (lp_MaxPageSize ps)"
    using assms(2) by (cases "lp_PageToken ps"; cases "lp_MaxPageSize ps";
        simp add: runtime_documentedD [OF assms(1)] carried_list_def)+
qed

lemma bind_create:
  assumes "runtime_documented rt" and "carried_create ps"
  shows "rt_BindQueryString rt ''id'' (create_pairs ps) = Inr (cp_Id ps)"
proof -
  have "values_of ''id'' (create_pairs ps) = (case cp_Id ps of None \<Rightarrow> [] | Some v \<Rightarrow> [v])"
    by (simp add: values_of_def create_pairs_def split: option.split)
  then show ?thesis
    using assms(2) by (cases "cp_Id ps"; simp add: runtime_documentedD [OF assms(1)] carried_create_def)
qed

lemma params_eta:
  "\<lparr>lp_PageToken = lp_PageToken ps, lp_MaxPageSize = lp_MaxPageSize ps\<rparr> = ps" "\<lparr>cp_Id = cp_Id cp\<rparr> = cp"
  by simp_all

lemma list_dispatch:
  assumes chi: "chi_documented chi" and rt: "runtime_documented rt" and ps: "carried_list ps"
  shows "\<exists>r. httpHandler chi rt js err_text si (collection_request ''GET'' ''api/v1alpha1/clusters'' '''' (list_pairs ps)) w
      = si_ListClusters si r ps w"
    and "\<exists>r. httpHandler chi rt js err_text si (collection_request ''GET'' ''api/v1alpha1/vms'' '''' (list_pairs ps)) w
      = si_ListVMs si r ps w"
proof -
  note route = trans [OF httpHandler_route [where chi = chi and rt = rt and js = js and err_text = err_text and si = si]]
  note bound = Query_form_pairs [OF pairs_plain(1)] bind_list [OF rt ps]
  show "\<exists>r. httpHandler chi rt js err_text si (collection_request ''GET'' ''api/v1alpha1/clusters'' '''' (list_pairs ps)) w
      = si_ListClusters si r ps w"
    unfolding collection_request_def
    by (rule exI, rule route, simp only: request_at_simps, rule routed_literal(1) [OF chi routing_path_literal(1)])
      (simp add: siw_ListClusters_def bound params_eta)
  show "\<exists>r. httpHandler chi rt js err_text si (collection_request ''GET'' ''api/v1alpha1/vms'' '''' (list_pairs ps)) w
      = si_ListVMs si r ps w"
    unfolding collection_request_def
    by (rule exI, rule route, simp only: request_at_simps, rule routed_literal(3) [OF chi routing_path_literal(2)])
      (simp add: siw_ListVMs_def bound params_eta)
qed

lemma create_dispatch:
  assumes chi: "chi_documented chi" and rt: "runtime_documented rt" and ps: "carried_create ps"
  shows "\<exists>r. ar_Body r = body \<and> rq_URI r = rq_URI (collection_request ''POST'' ''api/v1alpha1/clusters'' body (create_pairs ps)) \<and>
      httpHandler chi rt js err_text si (collection_request ''POST'' ''api/v1alpha1/clusters'' body (create_pairs ps)) w
      = si_CreateCluster si r ps w"
    and "\<exists>r. ar_Body r = body \<and> rq_URI r = rq_URI (collection_request ''POST'' ''api/v1alpha1/vms'' body (create_pairs ps)) \<and>
      httpHandler chi rt js err_text si (collection_request ''POST'' ''api/v1alpha1/vms'' body (create_pairs ps)) w
      = si_CreateVM si r ps w"
proof -
  note route = trans [OF httpHandler_route [where chi = chi and rt = rt and js = js and err_text = err_text and si = si]]
  note bound = Query_form_pairs [OF pairs_plain(2)] bind_create [OF rt ps]
  let ?r = "\<lambda>coll. (request_at ''POST'' body (operation_at coll coll (form_pairs (create_pairs ps)))) \<lparr>ar_Params := []\<rparr>"
  show "\<exists>r. ar_Body r = body \<and> rq_URI r = rq_URI (collection_request ''POST'' ''api/v1alpha1/clusters'' body (create_pairs ps)) \<and>
      httpHandler chi rt js err_text si (collection_request ''POST'' ''api/v1alpha1/clusters'' body (create_pairs ps)) w
      = si_CreateCluster si r ps w"
    unfolding collection_request_def
    by (rule exI [where x = "?r ''api/v1alpha1/clusters''"], intro conjI route, simp, simp, simp only: request_at_simps,
        rule routed_literal(2) [OF chi routing_path_literal(1)]) (simp add: siw_CreateCluster_def bound params_eta)
  show "\<exists>r. ar_Body r = body \<and> rq_URI r = rq_URI (collection_request ''POST'' ''api/v1alpha1/vms'' body (create_pairs ps)) \<and>
      httpHandler chi rt js err_text si (collection_request ''POST'' ''api/v1alpha1/vms'' body (create_pairs ps)) w
      = si_CreateVM si r ps w"
    unfolding collection_request_def
    by (rule exI [where x = "?r ''api/v1alpha1/vms''"], intro conjI route, simp, simp, simp only: request_at_simps,
        rule routed_literal(4) [OF chi routing_path_literal(2)]) (simp add: siw_CreateVM_def bound params_eta)
qed

end
