(* ===== verification/Api_Exchange.thy ===== *)
theory Api_Exchange
  imports Api_Stack
begin

text \<open>
  A call of the generated client answered by the generated server: what the client's caller reads is
  the answer of the handler packages. The client's \<open>Doer\<close> is the server itself
  (\<open>http_exchange\<close>), and writing to it does not fail.
\<close>

section \<open>Client and server\<close>

definition api_server ::
  "'w chi \<Rightarrow> Runtime \<Rightarrow> Json \<Rightarrow> (go_error \<Rightarrow> string) \<Rightarrow> int \<Rightarrow> 'w apiHandler \<Rightarrow> 'w api_handler" where
  "api_server chi rt js err_text now h =
     httpHandler chi rt js err_text (strictAdapter js (\<lambda>b. None) err_text (apiHandler_strict err_text now h))"

text \<open>A client without request editors, of a server at the root of its origin.\<close>

definition serves :: "(string \<Rightarrow> (string \<times> string) res) \<Rightarrow> 'w Doer \<Rightarrow> 'w Client \<Rightarrow> bool" where
  "serves origin doer c \<longleftrightarrow> at_root origin (c_Server c) \<and> c_Client c = Some doer \<and> c_RequestEditors c = []"

lemma serves_NewClient:
  assumes "NewClientWithResponses default_client server [WithHTTPClient doer] = Inr c" and "at_root origin (c_Server c)"
  shows "serves origin doer c"
  using assms by (auto simp: serves_def NewClientWithResponses_def NewClient_def WithHTTPClient_def Let_def)

lemma send_served:
  assumes "serves origin (http_exchange js cfg now handler) c" and "arrives built r" and "handler r w = Some (calls, w1)"
  shows "send c built [] w = Some (Inr (response_of (do_calls net_ops calls net_fresh)), w1)"
  using assms by (auto simp: serves_def arrives_def send_def applyEditors_def http_exchange_handler)

section \<open>The answers of the handlers\<close>

text \<open>A handler package answers its success status with a document, or a problem document.\<close>

definition handler_answer :: "int \<Rightarrow> 'b http_response \<Rightarrow> bool" where
  "handler_answer st resp \<longleftrightarrow>
     (case resp of
        Success st' body \<Rightarrow> st' = st \<and> (body = None \<longleftrightarrow> st = 204)
      | Problem e \<Rightarrow> he_Status e \<in> {400, 401, 403, 404, 409, 500, 502} \<and> he_ContentType e = ''application/problem+json'')"

lemma problem_answer:
  "handler_answer st (cluster_problem err_text err)" "handler_answer st (vm_problem err_text err)"
proof -
  have "he_ContentType (respond e) = ''application/problem+json''" for e by (simp add: respond_def WriteResponse_def)
  then show "handler_answer st (cluster_problem err_text err)" "handler_answer st (vm_problem err_text err)"
    unfolding handler_answer_def cluster_problem_def vm_problem_def http_response.case
      cluster_errors.respond_status vm_errors.respond_status
    by (simp_all only: cluster_errors.classify_status vm_errors.classify_status simp_thms)
qed

lemma success_answer [simp]:
  "st \<noteq> 204 \<Longrightarrow> handler_answer st (Success st (Some v))" "handler_answer 204 (Success 204 None)"
  by (simp_all add: handler_answer_def)

lemma handler_answers:
  "handler_answer 200 (fst (api_GetCluster err_text h i w))"
  "handler_answer 204 (fst (api_DeleteCluster err_text h i w))"
  "handler_answer 200 (fst (api_ListClusters err_text h ps w))"
  "handler_answer 201 (fst (api_CreateCluster err_text h req w))"
  "handler_answer 200 (fst (api_GetVM err_text h i w))"
  "handler_answer 204 (fst (api_DeleteVM err_text h i w))"
  "handler_answer 200 (fst (api_ListVMs err_text h ps w))"
  by (auto simp: api_GetCluster_def GetCluster_def api_DeleteCluster_def DeleteCluster_def api_ListClusters_def ListClusters_def
      api_CreateCluster_def CreateCluster_def api_GetVM_def GetVM_def api_DeleteVM_def DeleteVM_def api_ListVMs_def ListVMs_def
      problem_answer split: prod.split sum.split option.split)

lemma handler_answer_CreateVM: "api_CreateVM err_text h req w = Some a \<Longrightarrow> handler_answer 201 (fst a)"
  by (auto simp: api_CreateVM_def CreateVM_def problem_answer split: option.splits prod.splits sum.splits)

section \<open>On the wire and back\<close>

text \<open>The values that survive encoding and decoding, and the HTTP response of an answer.\<close>

definition carries :: "('a \<Rightarrow> string res) \<Rightarrow> (string \<Rightarrow> 'b res) \<Rightarrow> 'a \<Rightarrow> 'b \<Rightarrow> bool" where
  "carries enc dec v v' \<longleftrightarrow> (case enc v of Inl err \<Rightarrow> False | Inr b \<Rightarrow> dec b = Inr v')"

definition carries_answer :: "Json \<Rightarrow> ('b \<Rightarrow> string res) \<Rightarrow> (string \<Rightarrow> 'b res) \<Rightarrow> 'b http_response \<Rightarrow> bool" where
  "carries_answer js enc dec resp \<longleftrightarrow>
     (case resp of
        Success st body \<Rightarrow> (case body of None \<Rightarrow> True | Some v \<Rightarrow> carries enc dec v v)
      | Problem e \<Rightarrow> carries (js_EncodeError js) (js_UnmarshalError js) (he_Body e) (he_Body e))"

definition on_wire :: "Json \<Rightarrow> ('b \<Rightarrow> string res) \<Rightarrow> 'b http_response \<Rightarrow> HttpResponse" where
  "on_wire js enc resp =
     (case resp of
        Success st (Some v) \<Rightarrow>
          \<lparr>rs_Status = Itoa st, rs_StatusCode = st, rs_ContentType = ''application/json'',
           rs_Body = Inr (case enc v of Inl err \<Rightarrow> '''' | Inr b \<Rightarrow> b)\<rparr>
      | Success st None \<Rightarrow> \<lparr>rs_Status = Itoa st, rs_StatusCode = st, rs_ContentType = '''', rs_Body = Inr ''''\<rparr>
      | Problem e \<Rightarrow>
          \<lparr>rs_Status = Itoa (he_Status e), rs_StatusCode = he_Status e, rs_ContentType = he_ContentType e,
           rs_Body = Inr (problem_text js (he_Body e))\<rparr>)"

lemma answer_on_wire:
  assumes "handler_answer st resp" and "carries_answer js enc dec resp" and "st \<in> {200, 201}"
    and "\<And>v. visit (ok v) = visit_ok st (\<lambda>b. None) (enc v)" and "\<And>e. visit (mapped e) = (problem_calls js e, None)"
  shows "\<exists>calls. strict_respond visit sh r (typed_answer (object_of (\<lambda>s. map_option ok) mapped) (resp, w)) = Some (calls, w) \<and>
    response_of (do_calls net_ops calls net_fresh) = on_wire js enc resp"
proof (cases resp)
  case (Success s body)
  with assms(1,3) obtain v where "s = st" "body = Some v" by (auto simp: handler_answer_def)
  moreover from this Success assms(2) obtain b where "enc v = Inr b"
    by (auto simp: carries_answer_def carries_def split: sum.splits)
  ultimately show ?thesis
    using Success assms(3) response_of_json [of st]
    by (auto simp: typed_answer_def object_of_def strict_respond_def assms(4) visit_json_def on_wire_def)
next
  case (Problem e)
  with assms(1) have "200 \<le> he_Status e" by (auto simp: handler_answer_def)
  with Problem show ?thesis
    using response_of_json [of "he_Status e"]
    by (auto simp: typed_answer_def object_of_def strict_respond_def assms(5) problem_calls_def on_wire_def)
qed

lemma delete_on_wire:
  assumes "handler_answer 204 (resp :: unit http_response)" and "visit deleted = ([WriteHeader 204], None)" and "\<And>e. visit (mapped e) = (problem_calls js e, None)"
  shows "\<exists>calls. strict_respond visit sh r (typed_answer (object_of (\<lambda>s b. Some deleted) mapped) (resp, w)) = Some (calls, w) \<and>
    response_of (do_calls net_ops calls net_fresh) = on_wire js enc resp"
proof (cases resp)
  case (Success s body)
  with assms(1) have "s = 204" "body = None" by (simp_all add: handler_answer_def)
  with Success show ?thesis
    using response_of_header [of 204]
    by (auto simp: typed_answer_def object_of_def strict_respond_def assms(2) on_wire_def)
next
  case (Problem e)
  with assms(1) have "200 \<le> he_Status e" by (auto simp: handler_answer_def)
  with Problem show ?thesis
    using response_of_json [of "he_Status e"]
    by (auto simp: typed_answer_def object_of_def strict_respond_def assms(3) problem_calls_def on_wire_def)
qed

section \<open>What the caller reads\<close>

text \<open>
  The answer \<open>resp\<close> as the fields of a client response show it: the status, the document of a
  success, and the problem document in the field of its status, when the API document declares it.
\<close>

definition tells :: "'b http_response \<Rightarrow> HttpResponse option \<Rightarrow> 'b option \<Rightarrow> (int \<times> api_Error option) list \<Rightarrow> bool" where
  "tells resp http document problems \<longleftrightarrow>
     (case resp of
        Success st body \<Rightarrow> response_StatusCode http = st \<and> document = body \<and> list_all (\<lambda>(code, p). p = None) problems
      | Problem e \<Rightarrow> response_StatusCode http = he_Status e \<and> document = None \<and>
          list_all (\<lambda>(code, p). p = (if code = he_Status e then Some (he_Body e) else None)) problems)"

lemma json_contents [simp]:
  "Contains ''application/json'' ''json''" "Contains ''application/problem+json'' ''json''" "\<not> Contains '''' ''json''"
  by (simp_all add: HasPrefix_def)

lemma carries_problem: "carries (js_EncodeError js) (js_UnmarshalError js) e e \<Longrightarrow> js_UnmarshalError js (problem_text js e) = Inr e"
  by (auto simp: carries_def problem_text_def split: sum.splits)

text \<open>The three shapes of an answer on the wire.\<close>

lemma wire_cases:
  assumes "handler_answer st resp" and "carries_answer js enc dec resp"
  obtains (document) v b where "resp = Success st (Some v)" "st \<noteq> 204" "dec b = Inr v" "on_wire js enc resp =
      \<lparr>rs_Status = Itoa st, rs_StatusCode = st, rs_ContentType = ''application/json'', rs_Body = Inr b\<rparr>"
  | (nothing) "resp = Success 204 None" "st = 204" "on_wire js enc resp =
      \<lparr>rs_Status = Itoa 204, rs_StatusCode = 204, rs_ContentType = '''', rs_Body = Inr ''''\<rparr>"
  | (problem) e b where "resp = Problem e" "he_Status e \<in> {400, 401, 403, 404, 409, 500, 502}"
      "js_UnmarshalError js b = Inr (he_Body e)" "on_wire js enc resp =
      \<lparr>rs_Status = Itoa (he_Status e), rs_StatusCode = he_Status e, rs_ContentType = ''application/problem+json'', rs_Body = Inr b\<rparr>"
proof (cases resp)
  case (Success s body)
  show thesis
  proof (cases body)
    case None
    with Success assms(1) show thesis by (intro that(2)) (simp_all add: handler_answer_def on_wire_def)
  next
    case (Some v)
    with Success assms obtain b where "enc v = Inr b" "dec b = Inr v"
      by (auto simp: carries_answer_def carries_def split: sum.splits)
    with Success Some assms(1) show thesis
      by (intro that(1) [of v b]) (simp_all add: handler_answer_def on_wire_def)
  qed
next
  case (Problem e)
  with assms show thesis
    by (intro that(3) [of e "problem_text js (he_Body e)"])
      (simp_all add: handler_answer_def carries_answer_def on_wire_def carries_problem)
qed

lemma parse_GetCluster:
  assumes "handler_answer 200 resp" and "carries_answer js (js_EncodeCluster js) (js_UnmarshalCluster js) resp"
  shows "\<exists>rsp. ParseGetClusterResponse js (on_wire js (js_EncodeCluster js) resp) = Inr rsp \<and>
    tells resp (GetCluster_HTTPResponse rsp) (GetCluster_JSON200 rsp)
      [(401, GetCluster_Problem401 rsp), (403, GetCluster_Problem403 rsp), (404, GetCluster_Problem404 rsp), (500, GetCluster_Problem500 rsp), (502, GetCluster_Problem502 rsp)]"
  by (cases rule: wire_cases [OF assms])
    (auto simp: ParseGetClusterResponse_def tells_def json_case_def response_StatusCode_def simp del: Contains.simps)

lemma parse_ListClusters:
  assumes "handler_answer 200 resp" and "carries_answer js (js_EncodeClusterList js) (js_UnmarshalClusterList js) resp"
  shows "\<exists>rsp. ParseListClustersResponse js (on_wire js (js_EncodeClusterList js) resp) = Inr rsp \<and>
    tells resp (ListClusters_HTTPResponse rsp) (ListClusters_JSON200 rsp)
      [(400, ListClusters_Problem400 rsp), (401, ListClusters_Problem401 rsp), (403, ListClusters_Problem403 rsp), (500, ListClusters_Problem500 rsp), (502, ListClusters_Problem502 rsp)]"
  by (cases rule: wire_cases [OF assms])
    (auto simp: ParseListClustersResponse_def tells_def json_case_def response_StatusCode_def simp del: Contains.simps)

lemma parse_CreateCluster:
  assumes "handler_answer 201 resp" and "carries_answer js (js_EncodeCluster js) (js_UnmarshalCluster js) resp"
  shows "\<exists>rsp. ParseCreateClusterResponse js (on_wire js (js_EncodeCluster js) resp) = Inr rsp \<and>
    tells resp (CreateCluster_HTTPResponse rsp) (CreateCluster_JSON201 rsp)
      [(400, CreateCluster_Problem400 rsp), (401, CreateCluster_Problem401 rsp), (403, CreateCluster_Problem403 rsp), (500, CreateCluster_Problem500 rsp), (502, CreateCluster_Problem502 rsp)]"
  by (cases rule: wire_cases [OF assms])
    (auto simp: ParseCreateClusterResponse_def tells_def json_case_def response_StatusCode_def simp del: Contains.simps)

lemma parse_DeleteCluster:
  assumes "handler_answer 204 resp" and "carries_answer js enc dec resp"
  shows "\<exists>rsp. ParseDeleteClusterResponse js (on_wire js enc resp) = Inr rsp \<and>
    tells resp (DeleteCluster_HTTPResponse rsp) None
      [(401, DeleteCluster_Problem401 rsp), (403, DeleteCluster_Problem403 rsp), (500, DeleteCluster_Problem500 rsp), (502, DeleteCluster_Problem502 rsp)]"
  by (cases rule: wire_cases [OF assms])
    (auto simp: ParseDeleteClusterResponse_def tells_def json_case_def response_StatusCode_def simp del: Contains.simps)

lemma parse_GetVM:
  assumes "handler_answer 200 resp" and "carries_answer js (js_EncodeVirtualMachine js) (js_UnmarshalVirtualMachine js) resp"
  shows "\<exists>rsp. ParseGetVMResponse js (on_wire js (js_EncodeVirtualMachine js) resp) = Inr rsp \<and>
    tells resp (GetVM_HTTPResponse rsp) (GetVM_JSON200 rsp)
      [(401, GetVM_Problem401 rsp), (403, GetVM_Problem403 rsp), (404, GetVM_Problem404 rsp), (500, GetVM_Problem500 rsp), (502, GetVM_Problem502 rsp)]"
  by (cases rule: wire_cases [OF assms])
    (auto simp: ParseGetVMResponse_def tells_def json_case_def response_StatusCode_def simp del: Contains.simps)

lemma parse_ListVMs:
  assumes "handler_answer 200 resp" and "carries_answer js (js_EncodeVirtualMachineList js) (js_UnmarshalVirtualMachineList js) resp"
  shows "\<exists>rsp. ParseListVMsResponse js (on_wire js (js_EncodeVirtualMachineList js) resp) = Inr rsp \<and>
    tells resp (ListVMs_HTTPResponse rsp) (ListVMs_JSON200 rsp)
      [(400, ListVMs_Problem400 rsp), (401, ListVMs_Problem401 rsp), (403, ListVMs_Problem403 rsp), (500, ListVMs_Problem500 rsp), (502, ListVMs_Problem502 rsp)]"
  by (cases rule: wire_cases [OF assms])
    (auto simp: ParseListVMsResponse_def tells_def json_case_def response_StatusCode_def simp del: Contains.simps)

lemma parse_CreateVM:
  assumes "handler_answer 201 resp" and "carries_answer js (js_EncodeVirtualMachine js) (js_UnmarshalVirtualMachine js) resp"
  shows "\<exists>rsp. ParseCreateVMResponse js (on_wire js (js_EncodeVirtualMachine js) resp) = Inr rsp \<and>
    tells resp (CreateVM_HTTPResponse rsp) (CreateVM_JSON201 rsp)
      [(400, CreateVM_Problem400 rsp), (401, CreateVM_Problem401 rsp), (403, CreateVM_Problem403 rsp), (500, CreateVM_Problem500 rsp), (502, CreateVM_Problem502 rsp)]"
  by (cases rule: wire_cases [OF assms])
    (auto simp: ParseCreateVMResponse_def tells_def json_case_def response_StatusCode_def simp del: Contains.simps)

lemma parse_DeleteVM:
  assumes "handler_answer 204 resp" and "carries_answer js enc dec resp"
  shows "\<exists>rsp. ParseDeleteVMResponse js (on_wire js enc resp) = Inr rsp \<and>
    tells resp (DeleteVM_HTTPResponse rsp) None
      [(401, DeleteVM_Problem401 rsp), (403, DeleteVM_Problem403 rsp), (500, DeleteVM_Problem500 rsp), (502, DeleteVM_Problem502 rsp)]"
  by (cases rule: wire_cases [OF assms])
    (auto simp: ParseDeleteVMResponse_def tells_def json_case_def response_StatusCode_def simp del: Contains.simps)

section \<open>A call of the client\<close>

lemma adapter_ops:
  "si_ListClusters (strict_interface js wr sh) = strict_ListClusters js wr sh"
  "si_CreateCluster (strict_interface js wr sh) = strict_CreateCluster js wr sh"
  "si_DeleteCluster (strict_interface js wr sh) = strict_DeleteCluster js wr sh"
  "si_GetCluster (strict_interface js wr sh) = strict_GetCluster js wr sh"
  "si_ListVMs (strict_interface js wr sh) = strict_ListVMs js wr sh"
  "si_CreateVM (strict_interface js wr sh) = strict_CreateVM js wr sh"
  "si_DeleteVM (strict_interface js wr sh) = strict_DeleteVM js wr sh"
  "si_GetVM (strict_interface js wr sh) = strict_GetVM js wr sh"
  by (simp_all add: strict_interface_def)

lemma exchange:
  assumes "serves origin (http_exchange js cfg t handler) c" and "arrives built r" and "handler r w = Some (calls, w1)"
    and "\<exists>x. parse (response_of (do_calls net_ops calls net_fresh)) = Inr x \<and> P x"
  shows "\<exists>x. parsed parse (send c built [] w) = Some (Inr x, w1) \<and> P x"
  using send_served [OF assms(1-3)] assms(4) by (auto simp: parsed_def)

lemma exchange_GetCluster:
  assumes "chi_documented chi" and "runtime_documented rt"
    and "serves origin (http_exchange js cfg t (api_server chi rt js err_text now h)) c"
    and "i \<notin> {'''', ''.'', ''..'', ''health''}"
    and "api_GetCluster err_text h i w = (resp, w1)"
    and "carries_answer js (js_EncodeCluster js) (js_UnmarshalCluster js) resp"
  shows "\<exists>rsp. GetClusterWithResponse origin js rt c i [] w = Some (Inr rsp, w1) \<and>
    tells resp (GetCluster_HTTPResponse rsp) (GetCluster_JSON200 rsp)
      [(401, GetCluster_Problem401 rsp), (403, GetCluster_Problem403 rsp), (404, GetCluster_Problem404 rsp), (500, GetCluster_Problem500 rsp), (502, GetCluster_Problem502 rsp)]"
proof -
  have ans: "handler_answer 200 resp" using handler_answers(1) [of err_text h i w] assms(5) by simp
  have root: "at_root origin (c_Server c)" using assms(3) by (simp add: serves_def)
  obtain r where r: "api_server chi rt js err_text now h (resource_request ''GET'' ''api/v1alpha1/clusters/'' i) w =
      si_GetCluster (strictAdapter js (\<lambda>b. None) err_text (apiHandler_strict err_text now h)) r i w"
    unfolding api_server_def using path_dispatch(1) [OF assms(1,2,4), where js = js and err_text = err_text and w = w
      and si = "strictAdapter js (\<lambda>b. None) err_text (apiHandler_strict err_text now h)"] by blast
  obtain calls where calls: "api_server chi rt js err_text now h (resource_request ''GET'' ''api/v1alpha1/clusters/'' i) w = Some (calls, w1)"
    "response_of (do_calls net_ops calls net_fresh) = on_wire js (js_EncodeCluster js) resp"
    using answer_on_wire [OF ans assms(6), where visit = "VisitGetClusterResponse js (\<lambda>b. None)" and mapped = GetClusterMappedError and w = w1
       and ok = GetCluster200JSONResponse]
    unfolding r strictAdapter_def adapter_ops strict_GetCluster_def
    by (auto simp: NewStrictHandlerWithOptions_def apiHandler_strict_def assms(5))
  show ?thesis
    unfolding GetClusterWithResponse_def client_GetCluster_def
    by (rule exchange, rule assms(3), rule path_request_arrives(1) [OF root assms(2)], use assms(4) in simp, rule calls(1), unfold calls(2), rule parse_GetCluster [OF ans assms(6)])
qed

lemma exchange_ListClusters:
  assumes "chi_documented chi" and "runtime_documented rt"
    and "serves origin (http_exchange js cfg t (api_server chi rt js err_text now h)) c"
    and "carried_list ps"
    and "api_ListClusters err_text h ps w = (resp, w1)"
    and "carries_answer js (js_EncodeClusterList js) (js_UnmarshalClusterList js) resp"
  shows "\<exists>rsp. ListClustersWithResponse origin js rt c (Some ps) [] w = Some (Inr rsp, w1) \<and>
    tells resp (ListClusters_HTTPResponse rsp) (ListClusters_JSON200 rsp)
      [(400, ListClusters_Problem400 rsp), (401, ListClusters_Problem401 rsp), (403, ListClusters_Problem403 rsp), (500, ListClusters_Problem500 rsp), (502, ListClusters_Problem502 rsp)]"
proof -
  have ans: "handler_answer 200 resp" using handler_answers(3) [of err_text h ps w] assms(5) by simp
  have root: "at_root origin (c_Server c)" using assms(3) by (simp add: serves_def)
  obtain r where r: "api_server chi rt js err_text now h (collection_request ''GET'' ''api/v1alpha1/clusters'' '''' (list_pairs ps)) w =
      si_ListClusters (strictAdapter js (\<lambda>b. None) err_text (apiHandler_strict err_text now h)) r ps w"
    unfolding api_server_def using list_dispatch(1) [OF assms(1,2,4), where js = js and err_text = err_text and w = w
      and si = "strictAdapter js (\<lambda>b. None) err_text (apiHandler_strict err_text now h)"] by blast
  obtain calls where calls: "api_server chi rt js err_text now h (collection_request ''GET'' ''api/v1alpha1/clusters'' '''' (list_pairs ps)) w = Some (calls, w1)"
    "response_of (do_calls net_ops calls net_fresh) = on_wire js (js_EncodeClusterList js) resp"
    using answer_on_wire [OF ans assms(6), where visit = "VisitListClustersResponse js (\<lambda>b. None)" and mapped = ListClustersMappedError and w = w1
       and ok = ListClusters200JSONResponse]
    unfolding r strictAdapter_def adapter_ops strict_ListClusters_def
    by (auto simp: NewStrictHandlerWithOptions_def apiHandler_strict_def assms(5))
  show ?thesis
    unfolding ListClustersWithResponse_def client_ListClusters_def
    by (rule exchange, rule assms(3), rule list_request_arrives(1) [OF root assms(2,4)], rule calls(1), unfold calls(2), rule parse_ListClusters [OF ans assms(6)])
qed

lemma exchange_CreateCluster:
  assumes "chi_documented chi" and "runtime_documented rt"
    and "serves origin (http_exchange js cfg t (api_server chi rt js err_text now h)) c"
    and "carried_create ps"
    and "carries (js_MarshalCluster js) (js_DecodeCluster js) body body'"
    and "api_CreateCluster err_text h \<lparr>ccr_Params = ps, ccr_Spec = ac_Spec body'\<rparr> w = (resp, w1)"
    and "carries_answer js (js_EncodeCluster js) (js_UnmarshalCluster js) resp"
  shows "\<exists>rsp. CreateClusterWithResponse origin rt js c (Some ps) body [] w = Some (Inr rsp, w1) \<and>
    tells resp (CreateCluster_HTTPResponse rsp) (CreateCluster_JSON201 rsp)
      [(400, CreateCluster_Problem400 rsp), (401, CreateCluster_Problem401 rsp), (403, CreateCluster_Problem403 rsp), (500, CreateCluster_Problem500 rsp), (502, CreateCluster_Problem502 rsp)]"
proof -
  have ans: "handler_answer 201 resp" using handler_answers(4) [of err_text h "\<lparr>ccr_Params = ps, ccr_Spec = ac_Spec body'\<rparr>" w] assms(6) by simp
  have root: "at_root origin (c_Server c)" using assms(3) by (simp add: serves_def)
  obtain b where b: "js_MarshalCluster js body = Inr b" "js_DecodeCluster js b = Inr body'"
    using assms(5) by (auto simp: carries_def split: sum.splits)
  obtain r where r: "ar_Body r = b" "api_server chi rt js err_text now h (collection_request ''POST'' ''api/v1alpha1/clusters'' b (create_pairs ps)) w =
      si_CreateCluster (strictAdapter js (\<lambda>b. None) err_text (apiHandler_strict err_text now h)) r ps w"
    unfolding api_server_def using create_dispatch(1) [OF assms(1,2,4), where body = b and js = js and err_text = err_text and w = w
      and si = "strictAdapter js (\<lambda>b. None) err_text (apiHandler_strict err_text now h)"] by blast
  obtain calls where calls: "api_server chi rt js err_text now h (collection_request ''POST'' ''api/v1alpha1/clusters'' b (create_pairs ps)) w = Some (calls, w1)"
    "response_of (do_calls net_ops calls net_fresh) = on_wire js (js_EncodeCluster js) resp"
    using answer_on_wire [OF ans assms(7), where visit = "VisitCreateClusterResponse js (\<lambda>b. None)" and mapped = CreateClusterMappedError and w = w1
       and ok = CreateCluster201JSONResponse]
    unfolding r(2) strictAdapter_def adapter_ops strict_CreateCluster_def
    by (auto simp: NewStrictHandlerWithOptions_def apiHandler_strict_def assms(6) r(1) b(2))
  show ?thesis
    unfolding CreateClusterWithResponse_def client_CreateCluster_def NewCreateClusterRequest_def b sum.case
    by (rule exchange, rule assms(3), rule create_request_arrives(1) [OF root assms(2,4)], rule calls(1), unfold calls(2), rule parse_CreateCluster [OF ans assms(7)])
qed

lemma exchange_DeleteCluster:
  assumes "chi_documented chi" and "runtime_documented rt"
    and "serves origin (http_exchange js cfg t (api_server chi rt js err_text now h)) c"
    and "i \<notin> {'''', ''.'', ''..'', ''health''}"
    and "api_DeleteCluster err_text h i w = (resp, w1)"
    and "carries_answer js (\<lambda>u. Inr '''') (\<lambda>b. Inr ()) resp"
  shows "\<exists>rsp. DeleteClusterWithResponse origin js rt c i [] w = Some (Inr rsp, w1) \<and>
    tells resp (DeleteCluster_HTTPResponse rsp) None
      [(401, DeleteCluster_Problem401 rsp), (403, DeleteCluster_Problem403 rsp), (500, DeleteCluster_Problem500 rsp), (502, DeleteCluster_Problem502 rsp)]"
proof -
  have ans: "handler_answer 204 resp" using handler_answers(2) [of err_text h i w] assms(5) by simp
  have root: "at_root origin (c_Server c)" using assms(3) by (simp add: serves_def)
  obtain r where r: "api_server chi rt js err_text now h (resource_request ''DELETE'' ''api/v1alpha1/clusters/'' i) w =
      si_DeleteCluster (strictAdapter js (\<lambda>b. None) err_text (apiHandler_strict err_text now h)) r i w"
    unfolding api_server_def using path_dispatch(2) [OF assms(1,2,4), where js = js and err_text = err_text and w = w
      and si = "strictAdapter js (\<lambda>b. None) err_text (apiHandler_strict err_text now h)"] by blast
  obtain calls where calls: "api_server chi rt js err_text now h (resource_request ''DELETE'' ''api/v1alpha1/clusters/'' i) w = Some (calls, w1)"
    "response_of (do_calls net_ops calls net_fresh) = on_wire js (\<lambda>u. Inr '''') resp"
    using delete_on_wire [OF ans, where visit = "VisitDeleteClusterResponse js (\<lambda>b. None)" and mapped = DeleteClusterMappedError and w = w1
       and deleted = DeleteCluster204Response
       and enc = "\<lambda>u. Inr ''''" and js = js]
    unfolding r strictAdapter_def adapter_ops strict_DeleteCluster_def
    by (auto simp: NewStrictHandlerWithOptions_def apiHandler_strict_def assms(5))
  show ?thesis
    unfolding DeleteClusterWithResponse_def client_DeleteCluster_def
    by (rule exchange, rule assms(3), rule path_request_arrives(2) [OF root assms(2)], use assms(4) in simp, rule calls(1), unfold calls(2), rule parse_DeleteCluster [OF ans assms(6)])
qed

lemma exchange_GetVM:
  assumes "chi_documented chi" and "runtime_documented rt"
    and "serves origin (http_exchange js cfg t (api_server chi rt js err_text now h)) c"
    and "i \<notin> {'''', ''.'', ''..'', ''health''}"
    and "api_GetVM err_text h i w = (resp, w1)"
    and "carries_answer js (js_EncodeVirtualMachine js) (js_UnmarshalVirtualMachine js) resp"
  shows "\<exists>rsp. GetVMWithResponse origin js rt c i [] w = Some (Inr rsp, w1) \<and>
    tells resp (GetVM_HTTPResponse rsp) (GetVM_JSON200 rsp)
      [(401, GetVM_Problem401 rsp), (403, GetVM_Problem403 rsp), (404, GetVM_Problem404 rsp), (500, GetVM_Problem500 rsp), (502, GetVM_Problem502 rsp)]"
proof -
  have ans: "handler_answer 200 resp" using handler_answers(5) [of err_text h i w] assms(5) by simp
  have root: "at_root origin (c_Server c)" using assms(3) by (simp add: serves_def)
  obtain r where r: "api_server chi rt js err_text now h (resource_request ''GET'' ''api/v1alpha1/vms/'' i) w =
      si_GetVM (strictAdapter js (\<lambda>b. None) err_text (apiHandler_strict err_text now h)) r i w"
    unfolding api_server_def using path_dispatch(3) [OF assms(1,2,4), where js = js and err_text = err_text and w = w
      and si = "strictAdapter js (\<lambda>b. None) err_text (apiHandler_strict err_text now h)"] by blast
  obtain calls where calls: "api_server chi rt js err_text now h (resource_request ''GET'' ''api/v1alpha1/vms/'' i) w = Some (calls, w1)"
    "response_of (do_calls net_ops calls net_fresh) = on_wire js (js_EncodeVirtualMachine js) resp"
    using answer_on_wire [OF ans assms(6), where visit = "VisitGetVMResponse js (\<lambda>b. None)" and mapped = GetVMMappedError and w = w1
       and ok = GetVM200JSONResponse]
    unfolding r strictAdapter_def adapter_ops strict_GetVM_def
    by (auto simp: NewStrictHandlerWithOptions_def apiHandler_strict_def assms(5))
  show ?thesis
    unfolding GetVMWithResponse_def client_GetVM_def
    by (rule exchange, rule assms(3), rule path_request_arrives(3) [OF root assms(2)], use assms(4) in simp, rule calls(1), unfold calls(2), rule parse_GetVM [OF ans assms(6)])
qed

lemma exchange_ListVMs:
  assumes "chi_documented chi" and "runtime_documented rt"
    and "serves origin (http_exchange js cfg t (api_server chi rt js err_text now h)) c"
    and "carried_list ps"
    and "api_ListVMs err_text h ps w = (resp, w1)"
    and "carries_answer js (js_EncodeVirtualMachineList js) (js_UnmarshalVirtualMachineList js) resp"
  shows "\<exists>rsp. ListVMsWithResponse origin js rt c (Some ps) [] w = Some (Inr rsp, w1) \<and>
    tells resp (ListVMs_HTTPResponse rsp) (ListVMs_JSON200 rsp)
      [(400, ListVMs_Problem400 rsp), (401, ListVMs_Problem401 rsp), (403, ListVMs_Problem403 rsp), (500, ListVMs_Problem500 rsp), (502, ListVMs_Problem502 rsp)]"
proof -
  have ans: "handler_answer 200 resp" using handler_answers(7) [of err_text h ps w] assms(5) by simp
  have root: "at_root origin (c_Server c)" using assms(3) by (simp add: serves_def)
  obtain r where r: "api_server chi rt js err_text now h (collection_request ''GET'' ''api/v1alpha1/vms'' '''' (list_pairs ps)) w =
      si_ListVMs (strictAdapter js (\<lambda>b. None) err_text (apiHandler_strict err_text now h)) r ps w"
    unfolding api_server_def using list_dispatch(2) [OF assms(1,2,4), where js = js and err_text = err_text and w = w
      and si = "strictAdapter js (\<lambda>b. None) err_text (apiHandler_strict err_text now h)"] by blast
  obtain calls where calls: "api_server chi rt js err_text now h (collection_request ''GET'' ''api/v1alpha1/vms'' '''' (list_pairs ps)) w = Some (calls, w1)"
    "response_of (do_calls net_ops calls net_fresh) = on_wire js (js_EncodeVirtualMachineList js) resp"
    using answer_on_wire [OF ans assms(6), where visit = "VisitListVMsResponse js (\<lambda>b. None)" and mapped = ListVMsMappedError and w = w1
       and ok = ListVMs200JSONResponse]
    unfolding r strictAdapter_def adapter_ops strict_ListVMs_def
    by (auto simp: NewStrictHandlerWithOptions_def apiHandler_strict_def assms(5))
  show ?thesis
    unfolding ListVMsWithResponse_def client_ListVMs_def
    by (rule exchange, rule assms(3), rule list_request_arrives(2) [OF root assms(2,4)], rule calls(1), unfold calls(2), rule parse_ListVMs [OF ans assms(6)])
qed

lemma exchange_CreateVM:
  assumes "chi_documented chi" and "runtime_documented rt"
    and "serves origin (http_exchange js cfg t (api_server chi rt js err_text now h)) c"
    and "carried_create ps"
    and "carries (js_MarshalVirtualMachine js) (js_DecodeVirtualMachine js) body body'"
    and "api_CreateVM err_text h \<lparr>cvr_Params = ps, cvr_Spec = vm_Spec body'\<rparr> w = Some (resp, w1)"
    and "carries_answer js (js_EncodeVirtualMachine js) (js_UnmarshalVirtualMachine js) resp"
  shows "\<exists>rsp. CreateVMWithResponse origin rt js c (Some ps) body [] w = Some (Inr rsp, w1) \<and>
    tells resp (CreateVM_HTTPResponse rsp) (CreateVM_JSON201 rsp)
      [(400, CreateVM_Problem400 rsp), (401, CreateVM_Problem401 rsp), (403, CreateVM_Problem403 rsp), (500, CreateVM_Problem500 rsp), (502, CreateVM_Problem502 rsp)]"
proof -
  have ans: "handler_answer 201 resp" using handler_answer_CreateVM [OF assms(6)] by simp
  have root: "at_root origin (c_Server c)" using assms(3) by (simp add: serves_def)
  obtain b where b: "js_MarshalVirtualMachine js body = Inr b" "js_DecodeVirtualMachine js b = Inr body'"
    using assms(5) by (auto simp: carries_def split: sum.splits)
  obtain r where r: "ar_Body r = b" "api_server chi rt js err_text now h (collection_request ''POST'' ''api/v1alpha1/vms'' b (create_pairs ps)) w =
      si_CreateVM (strictAdapter js (\<lambda>b. None) err_text (apiHandler_strict err_text now h)) r ps w"
    unfolding api_server_def using create_dispatch(2) [OF assms(1,2,4), where body = b and js = js and err_text = err_text and w = w
      and si = "strictAdapter js (\<lambda>b. None) err_text (apiHandler_strict err_text now h)"] by blast
  obtain calls where calls: "api_server chi rt js err_text now h (collection_request ''POST'' ''api/v1alpha1/vms'' b (create_pairs ps)) w = Some (calls, w1)"
    "response_of (do_calls net_ops calls net_fresh) = on_wire js (js_EncodeVirtualMachine js) resp"
    using answer_on_wire [OF ans assms(7), where visit = "VisitCreateVMResponse js (\<lambda>b. None)" and mapped = CreateVMMappedError and w = w1
       and ok = CreateVM201JSONResponse]
    unfolding r(2) strictAdapter_def adapter_ops strict_CreateVM_def
    by (auto simp: NewStrictHandlerWithOptions_def apiHandler_strict_def assms(6) r(1) b(2))
  show ?thesis
    unfolding CreateVMWithResponse_def client_CreateVM_def NewCreateVMRequest_def b sum.case
    by (rule exchange, rule assms(3), rule create_request_arrives(2) [OF root assms(2,4)], rule calls(1), unfold calls(2), rule parse_CreateVM [OF ans assms(7)])
qed

lemma exchange_DeleteVM:
  assumes "chi_documented chi" and "runtime_documented rt"
    and "serves origin (http_exchange js cfg t (api_server chi rt js err_text now h)) c"
    and "i \<notin> {'''', ''.'', ''..'', ''health''}"
    and "api_DeleteVM err_text h i w = (resp, w1)"
    and "carries_answer js (\<lambda>u. Inr '''') (\<lambda>b. Inr ()) resp"
  shows "\<exists>rsp. DeleteVMWithResponse origin js rt c i [] w = Some (Inr rsp, w1) \<and>
    tells resp (DeleteVM_HTTPResponse rsp) None
      [(401, DeleteVM_Problem401 rsp), (403, DeleteVM_Problem403 rsp), (500, DeleteVM_Problem500 rsp), (502, DeleteVM_Problem502 rsp)]"
proof -
  have ans: "handler_answer 204 resp" using handler_answers(6) [of err_text h i w] assms(5) by simp
  have root: "at_root origin (c_Server c)" using assms(3) by (simp add: serves_def)
  obtain r where r: "api_server chi rt js err_text now h (resource_request ''DELETE'' ''api/v1alpha1/vms/'' i) w =
      si_DeleteVM (strictAdapter js (\<lambda>b. None) err_text (apiHandler_strict err_text now h)) r i w"
    unfolding api_server_def using path_dispatch(4) [OF assms(1,2,4), where js = js and err_text = err_text and w = w
      and si = "strictAdapter js (\<lambda>b. None) err_text (apiHandler_strict err_text now h)"] by blast
  obtain calls where calls: "api_server chi rt js err_text now h (resource_request ''DELETE'' ''api/v1alpha1/vms/'' i) w = Some (calls, w1)"
    "response_of (do_calls net_ops calls net_fresh) = on_wire js (\<lambda>u. Inr '''') resp"
    using delete_on_wire [OF ans, where visit = "VisitDeleteVMResponse js (\<lambda>b. None)" and mapped = DeleteVMMappedError and w = w1
       and deleted = DeleteVM204Response
       and enc = "\<lambda>u. Inr ''''" and js = js]
    unfolding r strictAdapter_def adapter_ops strict_DeleteVM_def
    by (auto simp: NewStrictHandlerWithOptions_def apiHandler_strict_def assms(5))
  show ?thesis
    unfolding DeleteVMWithResponse_def client_DeleteVM_def
    by (rule exchange, rule assms(3), rule path_request_arrives(4) [OF root assms(2)], use assms(4) in simp, rule calls(1), unfold calls(2), rule parse_DeleteVM [OF ans assms(6)])
qed

end
