(* ===== verification/Api_Contract.thy ===== *)
theory Api_Contract
  imports Api_Exchange
begin

text \<open>
  What the composition of client, router, server and handlers promises, and concrete libraries to run
  it with: a router, the parameter styles, one origin and token documents, shown to behave as
  documented, over the in-memory OSAC.
\<close>

section \<open>Concrete libraries\<close>

text \<open>
  Libraries that do what is documented, for running the stack: a router that looks for a literal
  pattern first, the parameter styles, one origin, and documents encoded as tokens.
\<close>

definition demo_chi :: "'w chi" where
  "demo_chi routes m u =
     (case filter (\<lambda>(m', p, h). m' = m \<and> match_pattern p (routing_path u) = Some []) routes of
        (_, _, h) # _ \<Rightarrow> Inr (h, [])
      | [] \<Rightarrow>
     (case filter (\<lambda>(m', p, h). m' = m \<and> match_pattern p (routing_path u) \<noteq> None) routes of
        (_, p, h) # _ \<Rightarrow> Inr (h, the (match_pattern p (routing_path u)))
      | [] \<Rightarrow> Inl (http_Error ''404 page not found'' 404)))"

definition demo_runtime :: Runtime where
  "demo_runtime =
     \<lparr>rt_BindQueryString = (\<lambda>name vs. case values_of name vs of [] \<Rightarrow> Inr None | v # _ \<Rightarrow> Inr (Some v)),
      rt_BindQueryInt32 = (\<lambda>name vs. case values_of name vs of [] \<Rightarrow> Inr None | v # _ \<Rightarrow> map_sum id Some (Atoi v)),
      rt_BindPath = (\<lambda>name v unescaped. if unescaped then Inr v else PathUnescape v),
      rt_isRequired = (\<lambda>err. False),
      rt_StyleQueryString = (\<lambda>name v. Inr (name @ ''='' @ QueryEscape v)),
      rt_StyleQueryInt32 = (\<lambda>name n. Inr (name @ ''='' @ QueryEscape (Itoa n))),
      rt_StylePath = (\<lambda>name v. Inr (PathEscape v))\<rparr>"

definition demo_origin :: "string \<Rightarrow> (string \<times> string) res" where
  "demo_origin s =
     (if HasPrefix s ''http://sp'' then Inr (''http://sp'', drop 9 s) else Inl (PlainError [Lit ''unsupported protocol scheme'']))"

lemma match_pattern_literal: "match_pattern p path = Some [] \<Longrightarrow> p = path"
  by (auto simp: match_pattern_def Let_def split: if_splits)

lemma filter_unique:
  assumes "x \<in> set xs" and "P x" and "\<And>y. y \<in> set xs \<Longrightarrow> P y \<Longrightarrow> y = x"
  obtains ys where "filter P xs = x # ys"
proof (cases "filter P xs")
  case Nil
  with assms(1,2) show thesis by (auto simp: filter_empty_conv)
next
  case (Cons y ys)
  then have "y \<in> set (filter P xs)" by simp
  then have "y \<in> set xs" "P y" by simp_all
  with assms(3) Cons show thesis using that by blast
qed

lemma route_unique:
  assumes "distinct (map (\<lambda>(m, p, h). (m, p)) routes)" and "(m, p, h) \<in> set routes" and "(m, p, h') \<in> set routes"
  shows "h' = h"
proof -
  have "inj_on (\<lambda>(m, p, h). (m, p)) (set routes)" using assms(1) by (simp add: distinct_map)
  from inj_onD [OF this _ assms(2,3)] show ?thesis by simp
qed

lemma chi_documented_demo: "chi_documented demo_chi"
  unfolding chi_documented_def
proof (intro allI impI, elim conjE)
  fix routes :: "'w route list" and m u pat h ps
  assume d: "distinct (map (\<lambda>(m, p, h). (m, p)) routes)" and r: "(m, pat, h) \<in> set routes"
    and match: "match_pattern pat (routing_path u) = Some ps"
    and only: "ps = [] \<or> (\<forall>(m', p', h') \<in> set routes. p' = pat \<or> match_pattern p' (routing_path u) = None)"
  let ?lit = "\<lambda>(m', p, h). m' = m \<and> match_pattern p (routing_path u) = Some []"
  let ?any = "\<lambda>(m', p, h). m' = m \<and> match_pattern p (routing_path u) \<noteq> None"
  show "demo_chi routes m u = Inr (h, ps)"
  proof (cases "ps = []")
    case True
    obtain ys where "filter ?lit routes = (m, pat, h) # ys"
    proof (rule filter_unique [of "(m, pat, h)" routes ?lit])
      show "y = (m, pat, h)" if mem: "y \<in> set routes" "?lit y" for y
      proof -
        obtain p' h' where y: "y = (m, p', h')" and p': "match_pattern p' (routing_path u) = Some []"
          using mem(2) by (cases y) auto
        have "p' = pat" using match_pattern_literal [OF p'] match_pattern_literal [OF match [unfolded True]] by simp
        with mem(1) y route_unique [OF d r] show ?thesis by simp
      qed
    qed (use r match True in auto)
    with True show ?thesis by (simp add: demo_chi_def)
  next
    case False
    with only have only': "p' = pat" if "(m', p', h') \<in> set routes" "match_pattern p' (routing_path u) \<noteq> None" for m' p' h'
      using that by fastforce
    have "filter ?lit routes = []"
      using only' match False by (fastforce simp: filter_empty_conv)
    moreover obtain ys where "filter ?any routes = (m, pat, h) # ys"
    proof (rule filter_unique [of "(m, pat, h)" routes ?any])
      show "y = (m, pat, h)" if mem: "y \<in> set routes" "?any y" for y
      proof -
        obtain p' h' where y: "y = (m, p', h')" and p': "match_pattern p' (routing_path u) \<noteq> None"
          using mem(2) by (cases y) auto
        from mem(1) y route_unique [OF d r] only' [OF _ p'] show ?thesis by simp
      qed
    qed (use r match in auto)
    ultimately show ?thesis using match by (simp add: demo_chi_def)
  qed
qed

lemma runtime_documented_demo: "runtime_documented demo_runtime"
  unfolding runtime_documented_def
  by (auto simp: demo_runtime_def Atoi_Itoa is_int32_def is_int64_def)

lemma at_root_demo: "at_root demo_origin ''http://sp/''"
  unfolding at_root_def
  by (rule exI [of _ "\<lparr>u_Origin = ''http://sp'', u_Path = ''/'', u_RawPath = '''', u_RawQuery = ''''\<rparr>"])
    (simp add: url_Parse_def demo_origin_def HasPrefix_def parse_reference_def setPath_def EscapedPath_def
      shouldEscape_def is_alnum_def Cut_def Let_def)

text \<open>The stack over the in-memory OSAC, which holds nothing yet.\<close>

definition demo_api :: "Osac apiHandler" where
  "demo_api =
     \<lparr>ah_Handler = NewHandler \<lparr>os_TokenStatus = Pair \<lparr>ts_Valid = False, ts_ExpiresAt = 0\<rparr>,
        os_Probe = Pair \<lparr>pr_Connected = False, pr_Err = None\<rparr>\<rparr> 0 '''',
      ah_cluster = cluster_service numeric_semver (mock_cluster_service (Inr small_catalog) []),
      ah_vm = vm_service (\<lambda>_. 0) mock_clock mock_vm_service\<rparr>"

definition not_found :: api_Error where
  "not_found = \<lparr>err_Detail = Some ''text'', err_Instance = None, err_Status = Some 404, err_Title = ''Not Found'', err_Type = ErrorTypeNOTFOUND\<rparr>"

definition bad_request :: api_Error where
  "bad_request = \<lparr>err_Detail = Some ''text'', err_Instance = None, err_Status = Some 400, err_Title = ''Bad Request'',
     err_Type = ErrorTypeINVALIDARGUMENT\<rparr>"

definition demo_vm :: VirtualMachine where
  "demo_vm = \<lparr>vm_CreateTime = None, vm_ExternalIpAddress = None, vm_Id = None, vm_InternalIpAddress = None, vm_Path = None,
     vm_Spec = None, vm_Status = VMStatusPROVISIONING, vm_StatusMessage = None, vm_UpdateTime = None\<rparr>"

definition demo_json :: Json where
  "demo_json =
     \<lparr>js_EncodeClusterList = (\<lambda>v. Inr ''clusters''), js_EncodeCluster = (\<lambda>v. Inr ''cluster''),
      js_EncodeHealth = (\<lambda>v. Inr ''health''), js_EncodeVirtualMachineList = (\<lambda>v. Inr ''vms''),
      js_EncodeVirtualMachine = (\<lambda>v. Inr ''vm''), js_EncodeError = (\<lambda>e. Inr (err_Title e)),
      js_DecodeCluster = (\<lambda>b. if b = ''cluster'' then Inr api_Cluster_zero else Inl (PlainError [Lit ''invalid'', Lit b])),
      js_DecodeVirtualMachine = (\<lambda>b. if b = ''vm'' then Inr demo_vm else Inl (PlainError [Lit ''invalid'', Lit b])),
      js_MarshalCluster = (\<lambda>v. Inr ''cluster''), js_MarshalVirtualMachine = (\<lambda>v. Inr ''vm''),
      js_UnmarshalClusterList = (\<lambda>b. Inr \<lparr>acl_NextPageToken = None, acl_Results = []\<rparr>),
      js_UnmarshalCluster = (\<lambda>b. Inr api_Cluster_zero),
      js_UnmarshalHealth = (\<lambda>b. Inl (PlainError [Lit b])),
      js_UnmarshalVirtualMachineList = (\<lambda>b. Inr \<lparr>vml_NextPageToken = None, vml_Results = []\<rparr>),
      js_UnmarshalVirtualMachine = (\<lambda>b. Inr demo_vm),
      js_UnmarshalError = (\<lambda>b. Inr (if b = ''Not Found'' then not_found else bad_request))\<rparr>"

definition demo_client :: "Osac Client" where
  "demo_client =
     \<lparr>c_Server = ''http://sp/'',
      c_Client = Some (http_exchange demo_json default_settings 0
        (api_server demo_chi demo_runtime demo_json (\<lambda>e. ''text'') 0 demo_api)),
      c_RequestEditors = []\<rparr>"

lemma serves_demo:
  "serves demo_origin (http_exchange demo_json default_settings 0
     (api_server demo_chi demo_runtime demo_json (\<lambda>e. ''text'') 0 demo_api)) demo_client"
  by (simp add: serves_def demo_client_def at_root_demo)

lemmas demo_problems = cluster_problem_def vm_problem_def respond_def WriteResponse_def mapError_cluster_def mapError_vm_def
  classifyError_def Classify_def wrap32_def not_found_def bad_request_def

lemma demo_answers:
  "api_GetCluster (\<lambda>e. ''text'') demo_api ''x'' (newOsac nat_digits) =
     (Problem \<lparr>he_Status = 404, he_ContentType = ''application/problem+json'', he_Body = not_found\<rparr>, newOsac nat_digits)"
  "api_DeleteCluster (\<lambda>e. ''text'') demo_api ''x'' (newOsac nat_digits) = (Success 204 None, newOsac nat_digits)"
  "api_ListClusters (\<lambda>e. ''text'') demo_api \<lparr>lp_PageToken = None, lp_MaxPageSize = Some (-1)\<rparr> (newOsac nat_digits) =
     (Problem \<lparr>he_Status = 400, he_ContentType = ''application/problem+json'', he_Body = bad_request\<rparr>, newOsac nat_digits)"
  "api_CreateCluster (\<lambda>e. ''text'') demo_api \<lparr>ccr_Params = \<lparr>cp_Id = Some ''x''\<rparr>, ccr_Spec = None\<rparr> (newOsac nat_digits) =
     (Problem \<lparr>he_Status = 400, he_ContentType = ''application/problem+json'', he_Body = bad_request\<rparr>, newOsac nat_digits)"
  "api_GetVM (\<lambda>e. ''text'') demo_api ''x'' (newOsac nat_digits) =
     (Problem \<lparr>he_Status = 404, he_ContentType = ''application/problem+json'', he_Body = not_found\<rparr>, newOsac nat_digits)"
  "api_DeleteVM (\<lambda>e. ''text'') demo_api ''x'' (newOsac nat_digits) = (Success 204 None, newOsac nat_digits)"
  "api_ListVMs (\<lambda>e. ''text'') demo_api \<lparr>lp_PageToken = None, lp_MaxPageSize = Some (-1)\<rparr> (newOsac nat_digits) =
     (Problem \<lparr>he_Status = 400, he_ContentType = ''application/problem+json'', he_Body = bad_request\<rparr>, newOsac nat_digits)"
  "api_CreateVM (\<lambda>e. ''text'') demo_api \<lparr>cvr_Params = \<lparr>cp_Id = Some ''x''\<rparr>, cvr_Spec = None\<rparr> (newOsac nat_digits) =
     Some (Problem \<lparr>he_Status = 400, he_ContentType = ''application/problem+json'', he_Body = bad_request\<rparr>, newOsac nat_digits)"
  by (simp_all add: demo_api_def newOsac_def newResourceStore_def store_get_def store_delete_def
      api_GetCluster_def GetCluster_def cluster_service_def Cluster_Get_def mock_clusters_def Clusters_Get_def
      api_DeleteCluster_def DeleteCluster_def Cluster_Delete_def Clusters_Delete_def
      api_ListClusters_def ListClusters_def Cluster_List_def NormalizeMaxPageSize_def
      api_CreateCluster_def CreateCluster_def validateCreateRequest_def invalid_def
      api_GetVM_def GetVM_def vm_service_def VM_Get_def mock_vm_service_def vm_New_def mock_instances_def ComputeInstances_Get_def
      api_DeleteVM_def DeleteVM_def VM_Delete_def ComputeInstances_Delete_def api_ListVMs_def ListVMs_def VM_List_def
      api_CreateVM_def CreateVM_def vm_validateCreateRequest_def demo_problems)

lemma demo_carries:
  "carries (js_MarshalCluster demo_json) (js_DecodeCluster demo_json) api_Cluster_zero api_Cluster_zero"
  "carries (js_MarshalVirtualMachine demo_json) (js_DecodeVirtualMachine demo_json) demo_vm demo_vm"
  "carries_answer demo_json enc dec (Problem \<lparr>he_Status = st, he_ContentType = ct, he_Body = not_found\<rparr>)"
  "carries_answer demo_json enc dec (Problem \<lparr>he_Status = st, he_ContentType = ct, he_Body = bad_request\<rparr>)"
  "carries_answer demo_json enc dec (Success st None)"
  by (simp_all add: carries_def carries_answer_def demo_json_def not_found_def bad_request_def)

lemma demo_carried: "carried_list \<lparr>lp_PageToken = None, lp_MaxPageSize = Some (-1)\<rparr>" "carried_create \<lparr>cp_Id = Some ''x''\<rparr>"
  by (simp_all add: carried_list_def carried_create_def is_int32_def)

lemma demo_spec: "ac_Spec api_Cluster_zero = None" "vm_Spec demo_vm = None"
  by (simp_all add: api_Cluster_zero_def demo_vm_def)

section \<open>Shapes of responses\<close>

text \<open>The shape of a response: the success of its operation, or a problem document of one of seven kinds.\<close>

definition problem_table :: "(int \<times> ErrorType \<times> string) list" where
  "problem_table =
     [(400, ErrorTypeINVALIDARGUMENT, ''Bad Request''), (401, ErrorTypeUNAUTHENTICATED, ''Unauthorized''),
      (403, ErrorTypePERMISSIONDENIED, ''Forbidden''), (404, ErrorTypeNOTFOUND, ''Not Found''),
      (409, ErrorTypeALREADYEXISTS, ''Conflict''), (500, ErrorTypeINTERNAL, ''Internal Server Error''),
      (502, ErrorTypeUNAVAILABLE, ''Bad Gateway'')]"

definition typed_problem :: "http_error \<Rightarrow> bool" where
  "typed_problem e \<longleftrightarrow> he_ContentType e = ''application/problem+json'' \<and> err_Status (he_Body e) = Some (he_Status e) \<and>
     err_Detail (he_Body e) \<noteq> None \<and> (he_Status e, err_Type (he_Body e), err_Title (he_Body e)) \<in> set problem_table"

definition typed_response :: "int \<Rightarrow> 'b http_response \<Rightarrow> bool" where
  "typed_response st resp \<longleftrightarrow>
     (case resp of Success st' body \<Rightarrow> st' = st \<and> (body = None \<longleftrightarrow> st = 204) | Problem e \<Rightarrow> typed_problem e)"

lemma typed_mapped: "typed_problem (respond (mapError_cluster err_text err))" "typed_problem (respond (mapError_vm err_text err))"
  by (cases "grpc_code err"; simp add: typed_problem_def problem_table_def respond_def WriteResponse_def mapError_cluster_def
      mapError_vm_def classifyError_def Classify_def wrap32_def InternalTitle_def)+

lemma typed_answers:
  "typed_response st (cluster_problem err_text err)" "typed_response st (vm_problem err_text err)"
  "st \<noteq> 204 \<Longrightarrow> typed_response st (Success st (Some v))" "typed_response 204 (Success 204 None)"
  by (simp_all add: typed_response_def cluster_problem_def vm_problem_def typed_mapped)

text \<open>What the client of a request that never reaches a handler is sent.\<close>

definition rejection :: "Json \<Rightarrow> (go_error \<Rightarrow> string) \<Rightarrow> api_request \<Rightarrow> go_error \<Rightarrow> HttpResponse" where
  "rejection js err_text r err =
     \<lparr>rs_Status = Itoa 400, rs_StatusCode = 400, rs_ContentType = ''application/problem+json'',
      rs_Body = Inr (problem_text js \<lparr>err_Detail = Some (err_text err), err_Instance = Some (rq_URI r), err_Status = Some 400,
        err_Title = ''Bad Request'', err_Type = ErrorTypeINVALIDARGUMENT\<rparr>)\<rparr>"

lemma bad_request_response:
  "response_of (do_calls net_ops (bad_request_calls js err_text r err) net_fresh) = rejection js err_text r err"
  using response_of_json [of 400]
  by (simp add: bad_request_calls_def problem_calls_def WriteResponse_def rejection_def wrap32_def)

section \<open>Properties\<close>










end
