(* ===== verification/Lifecycle.thy ===== *)
theory Lifecycle
  imports Status_Publisher Status_Poll Osac_Bootstrap
begin

text \<open>
  The life of the background workers and connections around the loops of the publisher, the poller and
  the bootstrap: \<open>Start\<close> runs the loop once (\<open>sync.Once\<close>), the loop closes \<open>Done\<close> when it returns, and
  \<open>Close\<close> closes what was opened. The locale \<open>started_once\<close> is the contract of \<open>Start\<close>.
\<close>

section \<open>Background workers\<close>

text \<open>
  \<open>bg_started\<close> is \<open>startOnce\<close>, \<open>bg_running\<close> the goroutines inside \<open>run\<close>, and \<open>bg_closes\<close> how often
  \<open>close(done)\<close> was executed: a second time panics.
\<close>

record background =
  bg_started :: bool
  bg_running :: nat
  bg_closes :: nat

definition background_new :: background where
  "background_new = \<lparr>bg_started = False, bg_running = 0, bg_closes = 0\<rparr>"

definition Publisher_Start :: "background \<Rightarrow> background" where
  "Publisher_Start p = (if bg_started p then p else p \<lparr>bg_started := True, bg_running := Suc (bg_running p)\<rparr>)"

definition Publisher_Done :: "background \<Rightarrow> bool" where
  "Publisher_Done p \<longleftrightarrow> 0 < bg_closes p"

definition Poller_Start :: "background \<Rightarrow> background" where
  "Poller_Start p = (if bg_started p then p else p \<lparr>bg_started := True, bg_running := Suc (bg_running p)\<rparr>)"

definition Poller_Done :: "background \<Rightarrow> bool" where
  "Poller_Done p \<longleftrightarrow> 0 < bg_closes p"

text \<open>The deferred close when a \<open>run\<close> returns.\<close>

definition run_returns :: "background \<Rightarrow> background" where
  "run_returns p = p \<lparr>bg_running := bg_running p - 1, bg_closes := Suc (bg_closes p)\<rparr>"

section \<open>Connections\<close>

definition Publisher_Close :: "('w \<Rightarrow> 'w) option \<Rightarrow> 'w \<Rightarrow> go_error option \<times> 'w" where
  "Publisher_Close closeFn w = (None, case closeFn of None \<Rightarrow> w | Some f \<Rightarrow> f w)"

definition Bootstrap_Conn :: "'conn option \<Rightarrow> 'conn option" where
  "Bootstrap_Conn conn = conn"

definition Bootstrap_Close :: "('conn \<Rightarrow> 'w \<Rightarrow> go_error option \<times> 'w) \<Rightarrow> 'conn option \<Rightarrow> 'w \<Rightarrow> go_error option \<times> 'w" where
  "Bootstrap_Close close conn w = (case conn of None \<Rightarrow> (None, w) | Some c \<Rightarrow> close c w)"

section \<open>What the process relies on\<close>

locale started_once =
  fixes Start :: "background \<Rightarrow> background"
  assumes first: "\<not> bg_started p \<Longrightarrow> Start p = p \<lparr>bg_started := True, bg_running := Suc (bg_running p)\<rparr>"
    and again: "bg_started p \<Longrightarrow> Start p = p"
begin

inductive reached :: "background \<Rightarrow> bool" where
  new: "reached background_new"
| start: "reached p \<Longrightarrow> reached (Start p)"
| return: "reached p \<Longrightarrow> 0 < bg_running p \<Longrightarrow> reached (run_returns p)"

lemma one_run:
  assumes "reached p"
  shows "bg_running p + bg_closes p = (if bg_started p then 1 else 0)"
  using assms
proof induction
  case (start p)
  then show ?case by (cases "bg_started p") (simp_all add: first again)
next
  case (return p)
  then show ?case by (cases "bg_started p") (auto simp: run_returns_def)
qed (simp add: background_new_def)

text \<open>\<open>Done\<close> is closed at most once, and exactly when the loop was started and has returned.\<close>

lemma done_iff:
  assumes "reached p"
  shows "bg_closes p \<le> 1" "bg_closes p = 1 \<longleftrightarrow> bg_started p \<and> bg_running p = 0"
  using one_run [OF assms] by (auto split: if_splits)

end

interpretation publisher_once: started_once Publisher_Start
  by unfold_locales (simp_all add: Publisher_Start_def)

interpretation poller_once: started_once Poller_Start
  by unfold_locales (simp_all add: Poller_Start_def)

text \<open>\<open>Done\<close> of the two workers.\<close>

lemma worker_done:
  "publisher_once.reached p \<Longrightarrow> Publisher_Done p \<longleftrightarrow> bg_started p \<and> bg_running p = 0"
  "poller_once.reached q \<Longrightarrow> Poller_Done q \<longleftrightarrow> bg_started q \<and> bg_running q = 0"
  using publisher_once.done_iff [of p] poller_once.done_iff [of q]
  by (auto simp: Publisher_Done_def Poller_Done_def)

end
