(* ===== verification/Aap_Mock.thy ===== *)
theory Aap_Mock
  imports Prelude Go_Strings Osac_Types
begin

text \<open>
  \<open>test/aapmock\<close>: the stand-in for the automation platform that the end-to-end tests run against.
  Templates get an identifier at their first lookup; a launched job is successful at once and can be
  cancelled once. The mutex makes every store operation atomic, so requests are a sequence of steps.
  \<open>net/http\<close>'s \<open>ServeMux\<close>, JSON and the rendering of times are arguments.
\<close>

section \<open>jobstore.go\<close>

record job =
  job_id :: int
  job_extraVars :: string
  job_started :: int
  job_finished :: int
  job_canceled :: bool

definition job_status :: "job \<Rightarrow> string" where
  "job_status j = (if job_canceled j then ''canceled'' else ''successful'')"

record jobStore =
  jst_nextID :: int
  jst_jobs :: "int \<rightharpoonup> job"

definition newJobStore :: jobStore where
  "newJobStore = \<lparr>jst_nextID = 0, jst_jobs = Map.empty\<rparr>"

definition job_launch :: "int \<Rightarrow> string \<Rightarrow> jobStore \<Rightarrow> job \<times> jobStore" where
  "job_launch now extraVars s =
     (let id' = wrap64 (jst_nextID s + 1);
          j = \<lparr>job_id = id', job_extraVars = extraVars, job_started = now, job_finished = now, job_canceled = False\<rparr>
      in (j, s \<lparr>jst_nextID := id', jst_jobs := (jst_jobs s)(id' \<mapsto> j)\<rparr>))"

definition job_get :: "int \<Rightarrow> jobStore \<Rightarrow> job option" where
  "job_get id' s = jst_jobs s id'"

text \<open>The two results of \<open>cancel\<close> are \<open>ok\<close> and \<open>found\<close>.\<close>

definition job_cancel :: "int \<Rightarrow> jobStore \<Rightarrow> (bool \<times> bool) \<times> jobStore" where
  "job_cancel id' s =
     (case jst_jobs s id' of
        None \<Rightarrow> ((False, False), s)
      | Some j \<Rightarrow>
          if job_canceled j then ((False, True), s)
          else ((True, True), s \<lparr>jst_jobs := (jst_jobs s)(id' \<mapsto> j \<lparr>job_canceled := True\<rparr>)\<rparr>))"

section \<open>templates.go\<close>

record templateRegistry =
  tr_nextID :: int
  tr_byName :: "string \<rightharpoonup> int"

definition newTemplateRegistry :: templateRegistry where
  "newTemplateRegistry = \<lparr>tr_nextID = 0, tr_byName = Map.empty\<rparr>"

definition idFor :: "string \<Rightarrow> templateRegistry \<Rightarrow> int \<times> templateRegistry" where
  "idFor name r =
     (case tr_byName r name of
        Some id' \<Rightarrow> (id', r)
      | None \<Rightarrow>
          let id' = wrap64 (tr_nextID r + 1)
          in (id', r \<lparr>tr_nextID := id', tr_byName := (tr_byName r)(name \<mapsto> id')\<rparr>))"

section \<open>Replies\<close>

record templateResult =
  tpl_ID :: int
  tpl_Name :: string

record templateLookupResponse =
  tlr_Count :: int
  tlr_Results :: "templateResult list"

record jobResponse =
  jr_ID :: int
  jr_Status :: string
  jr_Started :: string
  jr_Finished :: string
  jr_ExtraVars :: string
  jr_ResultTraceback :: string

datatype aap_body =
    TemplateLookup templateLookupResponse
  | LaunchResponse int
  | JobBody jobResponse
  | CanCancel bool

text \<open>\<open>writeJSON\<close> sends 200; the others are \<open>http.Error\<close>, \<open>http.NotFound\<close> and a bare status.\<close>

datatype aap_reply = JsonReply aap_body | ErrorReply string int | StatusReply int

definition NotFoundReply :: aap_reply where
  "NotFoundReply = ErrorReply ''404 page not found'' 404"

fun reply_status :: "aap_reply \<Rightarrow> int" where
  "reply_status (JsonReply b) = 200"
| "reply_status (ErrorReply t code) = code"
| "reply_status (StatusReply code) = code"

section \<open>handler.go and jobs.go\<close>

record aap_Handler =
  aap_templates :: templateRegistry
  aap_jobs :: jobStore
  aap_token :: string

definition aap_NewHandler :: "string \<Rightarrow> aap_Handler" where
  "aap_NewHandler token = \<lparr>aap_templates = newTemplateRegistry, aap_jobs = newJobStore, aap_token = token\<rparr>"

text \<open>
  A request as the handlers read it: \<open>aq_name\<close> is the query parameter, \<open>aq_id\<close> the path value,
  \<open>aq_time\<close> what \<open>time.Now\<close> answers.
\<close>

record aap_request =
  aq_authorization :: string
  aq_name :: string
  aq_id :: string
  aq_body :: string
  aq_time :: int

type_synonym aap_op = "aap_request \<Rightarrow> aap_Handler \<Rightarrow> aap_reply \<times> aap_Handler"

definition lookupTemplate :: aap_op where
  "lookupTemplate r h =
     (case idFor (aq_name r) (aap_templates h) of
        (id', t) \<Rightarrow>
          (JsonReply (TemplateLookup \<lparr>tlr_Count = 1, tlr_Results = [\<lparr>tpl_ID = id', tpl_Name = aq_name r\<rparr>]\<rparr>),
           h \<lparr>aap_templates := t\<rparr>))"

text \<open>\<open>decode\<close> is the \<open>extra_vars\<close> of a body; a body that does not decode has none.\<close>

definition launchTemplate :: "(string \<Rightarrow> string res) \<Rightarrow> aap_op" where
  "launchTemplate decode r h =
     (let extraVars = (case decode (aq_body r) of Inl err \<Rightarrow> '''' | Inr v \<Rightarrow> v)
      in case job_launch (aq_time r) extraVars (aap_jobs h) of
        (j, s) \<Rightarrow> (JsonReply (LaunchResponse (job_id j)), h \<lparr>aap_jobs := s\<rparr>))"

definition getJob :: "(int \<Rightarrow> string) \<Rightarrow> aap_op" where
  "getJob format r h =
     (case Atoi (aq_id r) of
        Inl err \<Rightarrow> (ErrorReply ''invalid job id'' 400, h)
      | Inr id' \<Rightarrow>
     (case job_get id' (aap_jobs h) of
        None \<Rightarrow> (NotFoundReply, h)
      | Some j \<Rightarrow>
          (JsonReply (JobBody \<lparr>jr_ID = job_id j, jr_Status = job_status j, jr_Started = format (job_started j),
             jr_Finished = format (job_finished j), jr_ExtraVars = job_extraVars j, jr_ResultTraceback = ''''\<rparr>), h)))"

definition canCancelJob :: aap_op where
  "canCancelJob r h =
     (case Atoi (aq_id r) of
        Inl err \<Rightarrow> (ErrorReply ''invalid job id'' 400, h)
      | Inr id' \<Rightarrow>
     (case job_get id' (aap_jobs h) of
        None \<Rightarrow> (NotFoundReply, h)
      | Some j \<Rightarrow> (JsonReply (CanCancel (\<not> job_canceled j)), h)))"

definition cancelJob :: aap_op where
  "cancelJob r h =
     (case Atoi (aq_id r) of
        Inl err \<Rightarrow> (ErrorReply ''invalid job id'' 400, h)
      | Inr id' \<Rightarrow>
     (case job_cancel id' (aap_jobs h) of
        ((ok, found), s) \<Rightarrow>
          if \<not> found then (NotFoundReply, h \<lparr>aap_jobs := s\<rparr>)
          else if \<not> ok then (ErrorReply ''job already in a terminal state'' 405, h \<lparr>aap_jobs := s\<rparr>)
          else (StatusReply 202, h \<lparr>aap_jobs := s\<rparr>)))"

definition authorized :: "aap_request \<Rightarrow> aap_Handler \<Rightarrow> bool" where
  "authorized r h =
     (case CutPrefix (aq_authorization r) ''Bearer '' of None \<Rightarrow> False | Some provided \<Rightarrow> provided = aap_token h)"

text \<open>The patterns as they are registered; \<open>mux\<close> is what \<open>ServeMux\<close> makes of them for a request.\<close>

definition aap_routes :: "(string \<Rightarrow> string res) \<Rightarrow> (int \<Rightarrow> string) \<Rightarrow> (string \<times> aap_op) list" where
  "aap_routes decode format =
     [(''GET /v2/job_templates/'', lookupTemplate),
      (''GET /v2/workflow_job_templates/'', lookupTemplate),
      (''POST /v2/job_templates/{identifier}/launch/'', launchTemplate decode),
      (''POST /v2/workflow_job_templates/{identifier}/launch/'', launchTemplate decode),
      (''GET /v2/jobs/{id}/'', getJob format),
      (''GET /v2/jobs/{id}/cancel/'', canCancelJob),
      (''POST /v2/jobs/{id}/cancel/'', cancelJob)]"

definition aap_ServeHTTP ::
  "((string \<times> aap_op) list \<Rightarrow> aap_op) \<Rightarrow> (string \<Rightarrow> string res) \<Rightarrow> (int \<Rightarrow> string) \<Rightarrow> aap_op" where
  "aap_ServeHTTP mux decode format r h =
     (if \<not> authorized r h then (ErrorReply ''unauthorized'' 401, h) else mux (aap_routes decode format) r h)"

section \<open>config.go\<close>

record aap_Config =
  aac_Address :: string
  aac_Token :: string

text \<open>\<open>parse\<close> is the environment parser, which fails when a required value is empty.\<close>

definition aap_LoadConfig :: "aap_Config res \<Rightarrow> aap_Config res" where
  "aap_LoadConfig parse =
     (case parse of Inl err \<Rightarrow> Inl (WrapError [Lit ''loading configuration''] err) | Inr cfg \<Rightarrow> Inr cfg)"

section \<open>Runs\<close>

datatype aap_event = Lookup aap_request | Launch aap_request | Get aap_request | AskCancel aap_request | Cancel aap_request

fun aap_serve :: "(string \<Rightarrow> string res) \<Rightarrow> (int \<Rightarrow> string) \<Rightarrow> aap_event \<Rightarrow> aap_Handler \<Rightarrow> aap_reply \<times> aap_Handler" where
  "aap_serve decode format (Lookup r) h = lookupTemplate r h"
| "aap_serve decode format (Launch r) h = launchTemplate decode r h"
| "aap_serve decode format (Get r) h = getJob format r h"
| "aap_serve decode format (AskCancel r) h = canCancelJob r h"
| "aap_serve decode format (Cancel r) h = cancelJob r h"

inductive aap_run :: "(string \<Rightarrow> string res) \<Rightarrow> (int \<Rightarrow> string) \<Rightarrow> string \<Rightarrow> (aap_event \<times> aap_reply) list \<Rightarrow> aap_Handler \<Rightarrow> bool"
  for decode format token where
  aap_new: "aap_run decode format token [] (aap_NewHandler token)"
| aap_served: "aap_run decode format token es h \<Longrightarrow> aap_serve decode format e h = (rep, h') \<Longrightarrow>
    aap_run decode format token (es @ [(e, rep)]) h'"

text \<open>How many jobs were launched, and how often a cancel of a job was accepted.\<close>

definition launches :: "(aap_event \<times> aap_reply) list \<Rightarrow> nat" where
  "launches es = length (filter (\<lambda>(e, rep). case e of Launch r \<Rightarrow> True | _ \<Rightarrow> False) es)"

definition accepted :: "int \<Rightarrow> (aap_event \<times> aap_reply) list \<Rightarrow> nat" where
  "accepted i es = length (filter (\<lambda>(e, rep). case e of Cancel r \<Rightarrow> rep = StatusReply 202 \<and> Atoi (aq_id r) = Inr i | _ \<Rightarrow> False) es)"

definition job_ok :: "nat \<Rightarrow> nat \<Rightarrow> int \<Rightarrow> job option \<Rightarrow> bool" where
  "job_ok n a i oj \<longleftrightarrow>
     (case oj of
        None \<Rightarrow> \<not> (1 \<le> i \<and> i \<le> int n) \<and> a = 0
      | Some j \<Rightarrow> 1 \<le> i \<and> i \<le> int n \<and> job_id j = i \<and> a = (if job_canceled j then 1 else 0))"

definition jobs_inv :: "(aap_event \<times> aap_reply) list \<Rightarrow> jobStore \<Rightarrow> bool" where
  "jobs_inv es s \<longleftrightarrow> jst_nextID s = int (launches es) \<and> (\<forall>i. job_ok (launches es) (accepted i es) i (jst_jobs s i))"

lemma launches_snoc: "launches (es @ [(e, rep)]) = launches es + (case e of Launch r \<Rightarrow> 1 | _ \<Rightarrow> 0)"
  by (simp add: launches_def split: aap_event.split)

lemma accepted_snoc: "accepted i (es @ [(e, rep)]) =
    accepted i es + (case e of Cancel r \<Rightarrow> (if rep = StatusReply 202 \<and> Atoi (aq_id r) = Inr i then 1 else 0) | _ \<Rightarrow> 0)"
  by (simp add: accepted_def split: aap_event.split)

text \<open>A request that is neither a launch nor an accepted cancel leaves the jobs as they were.\<close>

lemma aap_serve_jobs:
  assumes "aap_serve decode format e h = (rep, h')"
  shows "(case e of
      Launch r \<Rightarrow> aap_jobs h' = snd (job_launch (aq_time r) (case decode (aq_body r) of Inl err \<Rightarrow> '''' | Inr v \<Rightarrow> v) (aap_jobs h))
    | Cancel r \<Rightarrow>
        (case Atoi (aq_id r) of
           Inl err \<Rightarrow> aap_jobs h' = aap_jobs h \<and> rep \<noteq> StatusReply 202
         | Inr i \<Rightarrow> aap_jobs h' = snd (job_cancel i (aap_jobs h)) \<and>
             (rep = StatusReply 202 \<longleftrightarrow> fst (job_cancel i (aap_jobs h)) = (True, True)))
    | _ \<Rightarrow> aap_jobs h' = aap_jobs h)"
  using assms
  by (cases e) (auto simp: lookupTemplate_def launchTemplate_def getJob_def canCancelJob_def cancelJob_def NotFoundReply_def
      job_cancel_def job_launch_def Let_def split: sum.splits option.splits prod.splits if_splits)

lemma aap_run_jobs:
  assumes "aap_run decode format token es h" and "launches es < 2 ^ 63"
  shows "jobs_inv es (aap_jobs h)"
  using assms
proof induction
  case aap_new
  then show ?case by (simp add: jobs_inv_def job_ok_def aap_NewHandler_def newJobStore_def launches_def accepted_def)
next
  case (aap_served es h e rep h')
  then have inv: "jobs_inv es (aap_jobs h)" by (simp add: launches_snoc split: aap_event.splits)
  note served = aap_serve_jobs [OF aap_served.hyps(2)]
  have nid: "jst_nextID (aap_jobs h) = int (launches es)"
    and ok: "job_ok (launches es) (accepted i es) i (jst_jobs (aap_jobs h) i)" for i
    using inv by (simp_all add: jobs_inv_def)
  show ?case
  proof (cases e)
    case (Launch r)
    with aap_served.prems have w: "wrap64 (int (launches es) + 1) = int (launches es) + 1"
      by (simp add: launches_snoc wrap64_id)
    have "job_ok (Suc (launches es)) (accepted i es) i (jst_jobs (aap_jobs h') i)" for i
      using ok [of i] served w Launch nid by (auto simp: job_ok_def job_launch_def Let_def split: option.splits)
    with served w Launch nid show ?thesis
      by (simp add: jobs_inv_def job_launch_def Let_def launches_snoc accepted_snoc)
  next
    case (Cancel r)
    have "job_ok (launches es) (accepted i (es @ [(e, rep)])) i (jst_jobs (aap_jobs h') i)" for i
      using ok [of i] served Cancel
      by (cases "Atoi (aq_id r)")
        (auto simp: job_ok_def job_cancel_def accepted_snoc split: option.splits if_splits)
    moreover have "jst_nextID (aap_jobs h') = int (launches es)"
      using nid served Cancel by (auto simp: job_cancel_def split: option.splits if_splits sum.splits)
    ultimately show ?thesis using Cancel by (simp add: jobs_inv_def launches_snoc)
  qed (use inv served in \<open>simp_all add: jobs_inv_def launches_snoc accepted_snoc\<close>)
qed

section \<open>Templates\<close>

text \<open>Identifiers are given out in order, one per name, and stay.\<close>

definition registry_inv :: "nat \<Rightarrow> templateRegistry \<Rightarrow> bool" where
  "registry_inv n r \<longleftrightarrow> 0 \<le> tr_nextID r \<and> tr_nextID r \<le> int n \<and>
     (\<forall>name i. tr_byName r name = Some i \<longrightarrow> 1 \<le> i \<and> i \<le> tr_nextID r) \<and>
     (\<forall>a b i. tr_byName r a = Some i \<longrightarrow> tr_byName r b = Some i \<longrightarrow> a = b)"

lemma idFor_inv:
  assumes "registry_inv n r" and "n < 2 ^ 63 - 1" and "idFor name r = (i, r')"
  shows "registry_inv (Suc n) r'" and "tr_byName r' name = Some i"
    and "\<And>a k. tr_byName r a = Some k \<Longrightarrow> tr_byName r' a = Some k"
proof -
  have w: "wrap64 (tr_nextID r + 1) = tr_nextID r + 1"
    using assms(1,2) by (intro wrap64_id) (auto simp: registry_inv_def)
  show "registry_inv (Suc n) r'"
    using assms(1,3) w by (fastforce simp: registry_inv_def idFor_def Let_def split: option.splits if_splits)
  show "tr_byName r' name = Some i" "\<And>a k. tr_byName r a = Some k \<Longrightarrow> tr_byName r' a = Some k"
    using assms(3) by (auto simp: idFor_def Let_def split: option.splits)
qed

text \<open>Lookups of a run, with the identifiers they were answered.\<close>

definition looked_up :: "(aap_event \<times> aap_reply) list \<Rightarrow> (string \<times> int) list" where
  "looked_up es = concat (map (\<lambda>(e, rep).
     case (e, rep) of
       (Lookup r, JsonReply (TemplateLookup t)) \<Rightarrow> map (\<lambda>res. (tpl_Name res, tpl_ID res)) (tlr_Results t)
     | _ \<Rightarrow> []) es)"

definition lookups :: "(aap_event \<times> aap_reply) list \<Rightarrow> nat" where
  "lookups es = length (filter (\<lambda>(e, rep). case e of Lookup r \<Rightarrow> True | _ \<Rightarrow> False) es)"

lemma aap_run_templates:
  assumes "aap_run decode format token es h" and "lookups es < 2 ^ 63"
  shows "registry_inv (lookups es) (aap_templates h) \<and>
    (\<forall>(name, i) \<in> set (looked_up es). tr_byName (aap_templates h) name = Some i)"
  using assms
proof induction
  case aap_new
  then show ?case
    by (simp add: registry_inv_def aap_NewHandler_def newTemplateRegistry_def lookups_def looked_up_def)
next
  case (aap_served es h e rep h')
  show ?case
  proof (cases e)
    case (Lookup r)
    obtain i t where it: "idFor (aq_name r) (aap_templates h) = (i, t)" by force
    from Lookup aap_served have IH: "registry_inv (lookups es) (aap_templates h)"
      "\<forall>(name, i) \<in> set (looked_up es). tr_byName (aap_templates h) name = Some i" "lookups es < 2 ^ 63 - 1"
      by (auto simp: lookups_def)
    note kept = idFor_inv [OF IH(1,3) it]
    from Lookup it aap_served.hyps(2) have r: "rep = JsonReply (TemplateLookup \<lparr>tlr_Count = 1,
        tlr_Results = [\<lparr>tpl_ID = i, tpl_Name = aq_name r\<rparr>]\<rparr>)" "aap_templates h' = t"
      by (auto simp: lookupTemplate_def)
    have "lookups (es @ [(e, rep)]) = Suc (lookups es)"
      "looked_up (es @ [(e, rep)]) = looked_up es @ [(aq_name r, i)]"
      using Lookup r(1) by (simp_all add: lookups_def looked_up_def)
    with kept IH(2) r(2) show ?thesis by auto
  qed (use aap_served in \<open>auto simp: lookups_def looked_up_def launchTemplate_def getJob_def canCancelJob_def cancelJob_def Let_def
      split: sum.splits option.splits prod.splits if_splits\<close>)
qed

lemma aap_templates_stable:
  assumes "aap_run decode format token es h" and "lookups es < 2 ^ 63"
    and "(a, i) \<in> set (looked_up es)" and "(b, k) \<in> set (looked_up es)"
  shows "a = b \<longleftrightarrow> i = k"
proof -
  have a: "tr_byName (aap_templates h) a = Some i" and b: "tr_byName (aap_templates h) b = Some k"
    and inj: "\<And>x y n. tr_byName (aap_templates h) x = Some n \<Longrightarrow> tr_byName (aap_templates h) y = Some n \<Longrightarrow> x = y"
    using aap_run_templates [OF assms(1,2)] assms(3,4) unfolding registry_inv_def by blast+
  show ?thesis
  proof
    assume "a = b" with a b show "i = k" by simp
  next
    assume "i = k" with a b inj show "a = b" by blast
  qed
qed

text \<open>A request without the token changes nothing, whatever it is.\<close>

lemma aap_unauthorized: "\<not> authorized r h \<Longrightarrow> aap_ServeHTTP mux decode format r h = (ErrorReply ''unauthorized'' 401, h)"
  by (simp add: aap_ServeHTTP_def)

section \<open>Properties\<close>

text \<open>
  C28. Over any sequence of requests to the automation mock, the jobs are those with the identifiers
  from one to the number of launches; each accepts at most one cancel, and is reported cancelled
  exactly when it did. A further cancel is answered 405, one of an unknown job 404.
\<close>

theorem aap_job_lifecycle:
  assumes "aap_run decode format token es h" and "launches es < 2 ^ 63" and "Atoi (aq_id r) = Inr i"
  shows "accepted i es \<le> 1 \<and>
    (case fst (getJob format r h) of
       JsonReply (JobBody b) \<Rightarrow> 1 \<le> i \<and> i \<le> int (launches es) \<and> jr_ID b = i \<and>
         jr_Status b = (if accepted i es = 1 then ''canceled'' else ''successful'')
     | rep \<Rightarrow> rep = NotFoundReply \<and> \<not> (1 \<le> i \<and> i \<le> int (launches es))) \<and>
    reply_status (fst (cancelJob r h)) =
      (if \<not> (1 \<le> i \<and> i \<le> int (launches es)) then 404 else if accepted i es = 1 then 405 else 202)"
proof -
  have "job_ok (launches es) (accepted i es) i (jst_jobs (aap_jobs h) i)"
    using aap_run_jobs [OF assms(1,2)] by (simp add: jobs_inv_def)
  with assms(3) show ?thesis
    by (auto simp: job_ok_def getJob_def cancelJob_def job_get_def job_cancel_def job_status_def NotFoundReply_def
        split: option.splits if_splits)
qed

definition demo_aap_request :: aap_request where
  "demo_aap_request = \<lparr>aq_authorization = ''Bearer t'', aq_name = '''', aq_id = ''1'', aq_body = '''', aq_time = 0\<rparr>"

theorem aap_job_lifecycle_witness:
  "\<exists>es h. aap_run (\<lambda>b. Inr b) Itoa ''t'' es h \<and> accepted 1 es = 1 \<and> reply_status (fst (cancelJob demo_aap_request h)) = 405"
proof -
  let ?r = demo_aap_request and ?h0 = "aap_NewHandler ''t''"
  let ?h1 = "snd (launchTemplate (\<lambda>b. Inr b) ?r ?h0)"
  let ?h2 = "snd (cancelJob ?r ?h1)"
  let ?es = "[(Launch ?r, JsonReply (LaunchResponse 1)), (Cancel ?r, StatusReply 202)]"
  have id1: "Atoi (aq_id ?r) = Inr 1"
    by (simp add: demo_aap_request_def Atoi_def parse_int_def is_digit_def digit_val_def)
  have w1: "wrap64 1 = 1" by (simp add: wrap64_def)
  have launched: "launchTemplate (\<lambda>b. Inr b) ?r ?h0 = (JsonReply (LaunchResponse 1), ?h1)"
    by (simp add: launchTemplate_def aap_NewHandler_def newJobStore_def job_launch_def w1 Let_def)
  have cancelled: "cancelJob ?r ?h1 = (StatusReply 202, ?h2)"
    by (simp add: cancelJob_def id1 launchTemplate_def aap_NewHandler_def newJobStore_def job_launch_def job_cancel_def w1 Let_def)
  have run: "aap_run (\<lambda>b. Inr b) Itoa ''t'' ?es ?h2"
  proof -
    have "aap_run (\<lambda>b. Inr b) Itoa ''t'' ([] @ [(Launch ?r, JsonReply (LaunchResponse 1))]) ?h1"
      by (rule aap_served [OF aap_new]) (use launched in simp)
    then have "aap_run (\<lambda>b. Inr b) Itoa ''t'' ([(Launch ?r, JsonReply (LaunchResponse 1))] @ [(Cancel ?r, StatusReply 202)]) ?h2"
      by (intro aap_served) (use cancelled in simp_all)
    then show ?thesis by simp
  qed
  have "accepted 1 ?es = 1" "launches ?es = 1" using id1 by (simp_all add: accepted_def launches_def)
  with aap_job_lifecycle [OF run _ id1] run show ?thesis by (intro exI [of _ ?es] exI [of _ ?h2]) simp
qed

end
