(* ===== verification/Mock_Oidc.thy ===== *)
theory Mock_Oidc
  imports Osac_Bootstrap Net_Url Grpc_Stubs
begin

text \<open>
  The rest of \<open>test/mockprovider\<close>: the discovery and token endpoints of \<open>oidc.go\<close>, the capabilities
  server, settings and transport; and the provider's own token source (\<open>Osac_Bootstrap\<close>) pointed at
  them. \<open>ParseForm\<close> of \<open>net/http\<close> under a body limit, JSON and the key pair parser are arguments;
  \<open>ServeMux\<close> is used with exact paths, and its redirect of a path that is not clean is left out.
\<close>

section \<open>oidc.go\<close>

definition mockAccessToken :: string where "mockAccessToken = ''mock-access-token''"
definition mockTokenExpiresInSeconds :: int where "mockTokenExpiresInSeconds = 3600"
definition maxTokenRequestBodyBytes :: nat where "maxTokenRequestBodyBytes = 64 * 1024"

text \<open>\<open>discoveryDocument\<close>, \<open>tokenResponse\<close> and \<open>tokenErrorResponse\<close>, and a reply with its status.\<close>

datatype oidc_body =
    DiscoveryDocument string
  | TokenResponse string string int
  | TokenErrorResponse string

type_synonym oidc_reply = "int \<times> oidc_body"

record oidc_request =
  oq_Host :: string
  oq_Path :: string
  oq_Body :: string

type_synonym form_parser = "nat \<Rightarrow> oidc_request \<Rightarrow> Values res"

text \<open>\<open>FormValue\<close>: the first value, or nothing.\<close>

definition FormValue :: "Values \<Rightarrow> string \<Rightarrow> string" where
  "FormValue form k = (case values_of k form of [] \<Rightarrow> '''' | v # _ \<Rightarrow> v)"

definition serveDiscoveryDocument :: "oidc_request \<Rightarrow> oidc_reply" where
  "serveDiscoveryDocument r = (StatusOK, DiscoveryDocument (''http://'' @ oq_Host r @ ''/token''))"

definition writeTokenError :: "string \<Rightarrow> oidc_reply" where
  "writeTokenError errCode = (400, TokenErrorResponse errCode)"

definition handleToken :: "form_parser \<Rightarrow> oidc_request \<Rightarrow> oidc_reply" where
  "handleToken parseForm r =
     (case parseForm maxTokenRequestBodyBytes r of
        Inl err \<Rightarrow> writeTokenError ''invalid_request''
      | Inr form \<Rightarrow>
          let grantType = FormValue form ''grant_type'' in
          if grantType = '''' then writeTokenError ''invalid_request''
          else if grantType = ''client_credentials'' then
            (StatusOK, TokenResponse mockAccessToken ''Bearer'' mockTokenExpiresInSeconds)
          else writeTokenError ''unsupported_grant_type'')"

definition oidc_routes :: "form_parser \<Rightarrow> (string \<times> (oidc_request \<Rightarrow> oidc_reply)) list" where
  "oidc_routes parseForm =
     [(''/.well-known/oauth-authorization-server'', serveDiscoveryDocument),
      (''/.well-known/openid-configuration'', serveDiscoveryDocument),
      (''/token'', handleToken parseForm)]"

text \<open>\<open>None\<close> is the 404 of \<open>ServeMux\<close>.\<close>

definition OIDC_ServeHTTP :: "form_parser \<Rightarrow> oidc_request \<Rightarrow> oidc_reply option" where
  "OIDC_ServeHTTP parseForm r = map_option (\<lambda>h. h r) (map_of (oidc_routes parseForm) (oq_Path r))"

section \<open>capabilities.go, config.go and tls.go\<close>

definition Capabilities_Get :: "('w, CapabilitiesGetResponse) call" where
  "Capabilities_Get w = (Inr \<lparr>cgr_Authn = None\<rparr>, w)"

record mock_Config =
  mc_GRPCAddress :: string
  mc_OIDCAddress :: string

definition mock_LoadConfig :: "mock_Config res \<Rightarrow> mock_Config res" where
  "mock_LoadConfig parse =
     (case parse of Inl err \<Rightarrow> Inl (WrapError [Lit ''loading configuration''] err) | Inr cfg \<Rightarrow> Inr cfg)"

record 'cert server_tls_Config =
  stls_MinVersion :: int
  stls_Certificates :: "'cert list"

text \<open>\<open>keyPair\<close> is \<open>X509KeyPair\<close> of the embedded certificate and key.\<close>

definition ServerTLSConfig :: "'cert res \<Rightarrow> 'cert server_tls_Config res" where
  "ServerTLSConfig keyPair =
     (case keyPair of
        Inl err \<Rightarrow> Inl (WrapError [Lit ''parsing mock provider test TLS cert/key''] err)
      | Inr cert \<Rightarrow> Inr \<lparr>stls_MinVersion = VersionTLS12, stls_Certificates = [cert]\<rparr>)"

section \<open>The token source against it\<close>

text \<open>
  An HTTP and OAuth client that reaches the mock: a GET is answered by it, and \<open>Token()\<close> of the
  client-credentials source posts that grant type and takes token and lifetime from a 200. \<open>clock\<close>
  is the time in a state of the outside.
\<close>

definition oidc_documented ::
  "(oidc_body \<Rightarrow> string) \<Rightarrow> form_parser \<Rightarrow> string \<Rightarrow> ('w \<Rightarrow> int) \<Rightarrow> 'w OidcClient \<Rightarrow> bool" where
  "oidc_documented encode parseForm grantBody clock oc \<longleftrightarrow>
     (\<forall>url. oidc_newRequest oc url = Inr ()) \<and>
     (\<forall>t. oidc_decode oc (encode (DiscoveryDocument t)) = Inr t) \<and>
     (\<forall>host path status body w. CHR ''/'' \<notin> set host \<and>
        OIDC_ServeHTTP parseForm \<lparr>oq_Host = host, oq_Path = CHR ''/'' # path, oq_Body = ''''\<rparr> = Some (status, body) \<longrightarrow>
        oidc_do oc (''http://'' @ host @ CHR ''/'' # path) w = (Inr (status, encode body), w)) \<and>
     (\<forall>host path t ty n w. CHR ''/'' \<notin> set host \<and>
        OIDC_ServeHTTP parseForm \<lparr>oq_Host = host, oq_Path = CHR ''/'' # path, oq_Body = grantBody\<rparr> =
          Some (StatusOK, TokenResponse t ty n) \<longrightarrow>
        oidc_grant oc (''http://'' @ host @ CHR ''/'' # path) w =
          (Inr \<lparr>tok_AccessToken = t, tok_Expiry = clock w + n * second\<rparr>, w))"

lemma TrimSuffix_issuer:
  assumes "CHR ''/'' \<notin> set host" and "host \<noteq> ''''"
  shows "TrimSuffix (''http://'' @ host) ''/'' = ''http://'' @ host"
    and "TrimSuffix (''http://'' @ host @ ''/'') ''/'' = ''http://'' @ host"
proof -
  have "last host \<noteq> CHR ''/''" using assms by (metis last_in_set)
  moreover have "drop (length (''http://'' @ host) - 1) (''http://'' @ host) = [last host]"
    using assms(2) by (cases host rule: rev_cases) simp_all
  ultimately show "TrimSuffix (''http://'' @ host) ''/'' = ''http://'' @ host"
    by (simp add: TrimSuffix_def)
  show "TrimSuffix (''http://'' @ host @ ''/'') ''/'' = ''http://'' @ host"
    using TrimSuffix_append [of "''http://'' @ host" "''/''"] by simp
qed

lemma mock_discovery:
  assumes "oidc_documented encode parseForm grantBody clock oc" and "CHR ''/'' \<notin> set host" and "host \<noteq> ''''"
    and "issuer \<in> {''http://'' @ host, ''http://'' @ host @ ''/''}"
  shows "discoverTokenEndpoint oc issuer w = (Inr (''http://'' @ host @ ''/token''), w)"
proof -
  have trim: "TrimSuffix issuer ''/'' = ''http://'' @ host" using assms(4) TrimSuffix_issuer [OF assms(2,3)] by auto
  have url: "(''http://'' @ host) @ ''/.well-known/'' @ ''oauth-authorization-server'' =
      ''http://'' @ host @ CHR ''/'' # ''.well-known/oauth-authorization-server''" by simp
  have served: "OIDC_ServeHTTP parseForm \<lparr>oq_Host = host, oq_Path = CHR ''/'' # ''.well-known/oauth-authorization-server'', oq_Body = ''''\<rparr> =
      Some (StatusOK, DiscoveryDocument (''http://'' @ host @ ''/token''))"
    by (simp add: OIDC_ServeHTTP_def oidc_routes_def serveDiscoveryDocument_def)
  have "oidc_do oc (''http://'' @ host @ CHR ''/'' # ''.well-known/oauth-authorization-server'') w =
      (Inr (StatusOK, encode (DiscoveryDocument (''http://'' @ host @ ''/token''))), w)"
    using assms(1,2) served unfolding oidc_documented_def by blast
  moreover have "oidc_newRequest oc url = Inr ()" "oidc_decode oc (encode (DiscoveryDocument t)) = Inr t" for url t
    using assms(1) unfolding oidc_documented_def by blast+
  ultimately have "fetchWellKnownTokenEndpoint oc (''http://'' @ host) ''oauth-authorization-server'' w =
      (Inr (''http://'' @ host @ ''/token''), w)"
    unfolding fetchWellKnownTokenEndpoint_def Let_def url by (simp del: append_Cons append_Nil)
  then show ?thesis
    unfolding discoverTokenEndpoint_def Let_def trim oidcWellKnownEndpoints_def tryEndpoints.simps by simp
qed

lemma mock_grant:
  assumes "oidc_documented encode parseForm grantBody clock oc" and "CHR ''/'' \<notin> set host"
    and "parseForm maxTokenRequestBodyBytes \<lparr>oq_Host = host, oq_Path = ''/token'', oq_Body = grantBody\<rparr> = Inr form"
    and "FormValue form ''grant_type'' = ''client_credentials''"
  shows "oidc_grant oc (''http://'' @ host @ ''/token'') w =
    (Inr \<lparr>tok_AccessToken = mockAccessToken, tok_Expiry = clock w + mockTokenExpiresInSeconds * second\<rparr>, w)"
proof -
  have "OIDC_ServeHTTP parseForm \<lparr>oq_Host = host, oq_Path = CHR ''/'' # ''token'', oq_Body = grantBody\<rparr> =
      Some (StatusOK, TokenResponse mockAccessToken ''Bearer'' mockTokenExpiresInSeconds)"
    using assms(3,4) by (simp add: OIDC_ServeHTTP_def oidc_routes_def handleToken_def)
  then have "oidc_grant oc (''http://'' @ host @ CHR ''/'' # ''token'') w =
      (Inr \<lparr>tok_AccessToken = mockAccessToken, tok_Expiry = clock w + mockTokenExpiresInSeconds * second\<rparr>, w)"
    using assms(1,2) unfolding oidc_documented_def by blast
  then show ?thesis by simp
qed

section \<open>Properties\<close>


definition demo_encode :: "oidc_body \<Rightarrow> string" where
  "demo_encode b = (case b of DiscoveryDocument t \<Rightarrow> t | TokenResponse t ty n \<Rightarrow> t | TokenErrorResponse e \<Rightarrow> e)"

definition demo_form :: form_parser where
  "demo_form n r = Inr (if oq_Body r = ''grant_type=client_credentials'' then [(''grant_type'', ''client_credentials'')] else [])"

definition demo_ask :: "string \<Rightarrow> string \<Rightarrow> oidc_reply option" where
  "demo_ask body url =
     (let rest = drop 7 url in
      OIDC_ServeHTTP demo_form \<lparr>oq_Host = takeWhile (\<lambda>c. c \<noteq> CHR ''/'') rest,
        oq_Path = dropWhile (\<lambda>c. c \<noteq> CHR ''/'') rest, oq_Body = body\<rparr>)"

definition demo_oidc :: "unit OidcClient" where
  "demo_oidc = \<lparr>oidc_newRequest = (\<lambda>_. Inr ()),
     oidc_do = (\<lambda>url w. (case demo_ask '''' url of None \<Rightarrow> Inl (PlainError []) | Some (status, b) \<Rightarrow> Inr (status, demo_encode b), w)),
     oidc_decode = Inr,
     oidc_grant = (\<lambda>url w. (case demo_ask ''grant_type=client_credentials'' url of
        Some (status, TokenResponse t ty n) \<Rightarrow> Inr \<lparr>tok_AccessToken = t, tok_Expiry = n * second\<rparr>
      | _ \<Rightarrow> Inl (PlainError []), w))\<rparr>"

lemma demo_ask_url:
  "CHR ''/'' \<notin> set host \<Longrightarrow> demo_ask body (''http://'' @ host @ CHR ''/'' # path) =
    OIDC_ServeHTTP demo_form \<lparr>oq_Host = host, oq_Path = CHR ''/'' # path, oq_Body = body\<rparr>"
  by (subgoal_tac "takeWhile (\<lambda>c. c \<noteq> CHR ''/'') (host @ CHR ''/'' # path) = host \<and>
      dropWhile (\<lambda>c. c \<noteq> CHR ''/'') (host @ CHR ''/'' # path) = CHR ''/'' # path")
    (simp add: demo_ask_def Let_def, induction host, simp, auto)

lemma demo_oidc_documented:
  "oidc_documented demo_encode demo_form ''grant_type=client_credentials'' (\<lambda>_. 0) demo_oidc"
  unfolding oidc_documented_def
  by (intro conjI allI impI; (elim conjE)?)
    (simp_all add: demo_oidc_def demo_encode_def demo_ask_url del: append_Cons append_Nil)


end
