(* ===== verification/Grpc_Transport.thy ===== *)
theory Grpc_Transport
  imports Grpc_Stubs
begin

text \<open>
  What the generated code relies on in \<open>grpc-go\<close>, as the locale \<open>grpc_connection\<close>: a call over a
  connection to a server runs the handler that was registered under the method's name and carries its answer back.
  Within it, a generated client over a connection is the server behind it, method by method. The locale
  is interpreted on a connection that looks names up as the library documents it.
\<close>

section \<open>The connection\<close>

text \<open>
  \<open>wire\<close> are the messages that can be encoded (protobuf refuses a string that is not UTF-8). An error
  reaches the caller with its code and text when it is a status.
\<close>

definition deliverable :: "(pb_message \<Rightarrow> bool) \<Rightarrow> pb_message res \<Rightarrow> bool" where
  "deliverable wire r =
     (case r of
        Inr m \<Rightarrow> wire m
      | Inl (StatusError c t) \<Rightarrow> c \<noteq> OK
      | Inl _ \<Rightarrow> False)"

definition full_method :: "string \<Rightarrow> string \<Rightarrow> string" where
  "full_method s m = ''/'' @ s @ ''/'' @ m"

text \<open>The request and the answer of a call can travel.\<close>

definition carried :: "(pb_message \<Rightarrow> bool) \<Rightarrow> ('i, 'o) rpc_types \<Rightarrow> ('i \<Rightarrow> ('w, 'o) call) \<Rightarrow> 'i \<Rightarrow> 'w \<Rightarrow> bool" where
  "carried wire T f req w \<longleftrightarrow> wire (rt_in T req) \<and> deliverable wire (fst (answer_call T f req w))"

text \<open>A client answers what a server does, wherever the messages can travel.\<close>

definition agrees ::
  "(pb_message \<Rightarrow> bool) \<Rightarrow> 'a pb_service \<Rightarrow> ('a, 'w) ServiceMethods \<Rightarrow> ('a, 'w) ServiceMethods \<Rightarrow> bool" where
  "agrees wire s c d \<longleftrightarrow>
     (\<forall>req w. carried wire (List_types s) (rc_List d) req w \<longrightarrow> rc_List c req w = rc_List d req w) \<and>
     (\<forall>req w. carried wire (Get_types s) (rc_Get d) req w \<longrightarrow> rc_Get c req w = rc_Get d req w) \<and>
     (\<forall>req w. carried wire (Create_types s) (rc_Create d) req w \<longrightarrow> rc_Create c req w = rc_Create d req w) \<and>
     (\<forall>req w. carried wire (Update_types s) (rc_Update d) req w \<longrightarrow> rc_Update c req w = rc_Update d req w) \<and>
     (\<forall>req w. carried wire (Delete_types s) (rc_Delete d) req w \<longrightarrow> rc_Delete c req w = rc_Delete d req w)"

locale grpc_connection =
  fixes wire :: "pb_message \<Rightarrow> bool"
    and dial :: "'w registry \<Rightarrow> 'w ClientConn"
  assumes registered: "map_of regs s = Some ms \<Longrightarrow> map_of ms m = Some h \<Longrightarrow> CHR ''/'' \<notin> set m \<Longrightarrow> wire req \<Longrightarrow>
      deliverable wire (fst (h (Inr req) None w)) \<Longrightarrow> dial regs (full_method s m) req w = h (Inr req) None w"
    and unregistered: "map_of regs s = None \<Longrightarrow> CHR ''/'' \<notin> set m \<Longrightarrow> wire req \<Longrightarrow>
      \<exists>t. dial regs (full_method s m) req w = (Inl (StatusError Unimplemented t), w)"
begin

lemma client_call_served:
  assumes "map_of regs s = Some ms" and "map_of ms m = Some (method_Handler T fullMethod f srv)"
    and "CHR ''/'' \<notin> set m" and "readable T" and "carried wire T (f srv) req w"
  shows "client_call T (full_method s m) (dial regs) req w = f srv req w"
proof -
  have h: "method_Handler T fullMethod f srv (Inr (rt_in T req)) None w = answer_call T (f srv) req w"
    using assms(4) by (simp add: method_Handler_def readable_def)
  have "dial regs (full_method s m) (rt_in T req) w = answer_call T (f srv) req w"
    using registered [OF assms(1,2,3), of "rt_in T req" w] assms(5) by (simp add: h carried_def)
  then show ?thesis
    using assms(4) by (auto simp: client_call_def answer_call_def readable_def split: prod.splits sum.splits)
qed

lemma client_call_unregistered:
  assumes "map_of regs s = None" and "CHR ''/'' \<notin> set m" and "wire (rt_in T req)"
  shows "\<exists>t. client_call T (full_method s m) (dial regs) req w = (Inl (StatusError Unimplemented t), w)"
  using unregistered [OF assms, of w] by (auto simp: client_call_def)

text \<open>A generated client over a connection to a server that has the service registered.\<close>

lemma client_methods_agree:
  assumes "map_of regs s = Some (map (\<lambda>(m, h). (m, h srv)) (sd_Methods (resource_ServiceDesc s p fullMethod)))"
    and "embedding p" and "\<And>m. fullMethod m = full_method s (rpc_name m)"
  shows "agrees wire p (client_methods p fullMethod (dial regs)) srv"
proof -
  note served = client_call_served [OF assms(1), where srv = srv] and types = readable_types [OF assms(2)]
  show ?thesis
    unfolding agrees_def client_methods_def
    by (simp add: assms(3) served [OF _ _ types(1), where f = rc_List] served [OF _ _ types(2), where f = rc_Get]
        served [OF _ _ types(3), where f = rc_Create] served [OF _ _ types(4), where f = rc_Update]
        served [OF _ _ types(5), where f = rc_Delete] resource_ServiceDesc_def)
qed

end

text \<open>A client and a server that agree, when every message can travel, have the same methods.\<close>

lemma agrees_all:
  assumes "agrees (\<lambda>_. True) s c d"
    and "\<And>req w. deliverable (\<lambda>_. True) (fst (answer_call (List_types s) (rc_List d) req w))"
    and "\<And>req w. deliverable (\<lambda>_. True) (fst (answer_call (Get_types s) (rc_Get d) req w))"
    and "\<And>req w. deliverable (\<lambda>_. True) (fst (answer_call (Create_types s) (rc_Create d) req w))"
    and "\<And>req w. deliverable (\<lambda>_. True) (fst (answer_call (Delete_types s) (rc_Delete d) req w))"
  shows "ResourceClient.truncate c = ResourceClient.truncate d"
  using assms by (auto simp: agrees_def carried_def ResourceClient.truncate_def fun_eq_iff)

section \<open>A connection\<close>

text \<open>The method's name is what follows the last slash, the service's name what stands before it.\<close>

definition split_method :: "string \<Rightarrow> (string \<times> string) option" where
  "split_method f =
     (case f of
        [] \<Rightarrow> None
      | c # rest \<Rightarrow>
          if c \<noteq> CHR ''/'' \<or> CHR ''/'' \<notin> set rest then None
          else Some (rev (tl (dropWhile (\<lambda>c. c \<noteq> CHR ''/'') (rev rest))), rev (takeWhile (\<lambda>c. c \<noteq> CHR ''/'') (rev rest))))"

lemma split_full_method: "CHR ''/'' \<notin> set m \<Longrightarrow> split_method (full_method s m) = Some (s, m)"
proof -
  assume "CHR ''/'' \<notin> set m"
  then have m: "\<And>x. x \<in> set (rev m) \<Longrightarrow> x \<noteq> CHR ''/''" by auto
  have "rev (s @ ''/'' @ m) = rev m @ CHR ''/'' # rev s" by simp
  then show ?thesis
    using takeWhile_append2 [of "rev m" "\<lambda>c. c \<noteq> CHR ''/''"] dropWhile_append2 [of "rev m" "\<lambda>c. c \<noteq> CHR ''/''"] m
    by (simp add: split_method_def full_method_def)
qed

definition direct_dial :: "'w registry \<Rightarrow> 'w ClientConn" where
  "direct_dial regs fullMethod req w =
     (case split_method fullMethod of
        None \<Rightarrow> (Inl (StatusError Unimplemented [Lit ''malformed method name'']), w)
      | Some (s, m) \<Rightarrow>
          (case map_of regs s of
             None \<Rightarrow> (Inl (StatusError Unimplemented [Lit (''unknown service '' @ s)]), w)
           | Some ms \<Rightarrow>
               (case map_of ms m of
                  None \<Rightarrow> (Inl (StatusError Unimplemented [Lit (''unknown method '' @ m @ '' for service '' @ s)]), w)
                | Some h \<Rightarrow> h (Inr req) None w)))"

interpretation direct: grpc_connection "\<lambda>_. True" direct_dial
  by unfold_locales (simp_all add: direct_dial_def split_full_method)

end
