(* ===== verification/Mock_Services.thy ===== *)
theory Mock_Services
  imports Mock_Provider Mock_Oidc Grpc_Transport
begin

text \<open>
  The servers of \<open>test/mockprovider\<close> as gRPC servers: each embeds the generated \<open>Unimplemented...Server\<close>
  and defines some of its methods. \<open>provider_registry\<close> is what \<open>osac-mock-provider\<close> registers; over a
  connection to it the generated clients are these servers.
\<close>

section \<open>Servers\<close>

definition ClustersServer :: "(pb_Cluster, Osac) ServiceMethods" where
  "ClustersServer = UnimplementedServer \<lparr>rc_Create := Clusters_Create, rc_Get := Clusters_Get,
     rc_List := Clusters_List, rc_Delete := Clusters_Delete\<rparr>"

definition SecretsServer :: "(pb_Secret, Osac) ServiceMethods" where
  "SecretsServer = UnimplementedServer \<lparr>rc_Get := Secrets_Get\<rparr>"

definition ClusterTemplatesServer :: "(pb_ClusterTemplate, Osac) ServiceMethods" where
  "ClusterTemplatesServer = UnimplementedServer \<lparr>rc_Get := ClusterTemplates_Get\<rparr>"

definition ComputeInstancesServer :: "(pb_ComputeInstance, Osac) ServiceMethods" where
  "ComputeInstancesServer = UnimplementedServer \<lparr>rc_Create := ComputeInstances_Create,
     rc_Get := ComputeInstances_Get, rc_List := ComputeInstances_List, rc_Delete := ComputeInstances_Delete\<rparr>"

definition SubnetsServer :: "(pb_Subnet, Osac) ServiceMethods" where
  "SubnetsServer = UnimplementedServer \<lparr>rc_Create := Subnets_Create, rc_Get := Subnets_Get,
     rc_List := Subnets_List, rc_Delete := Subnets_Delete\<rparr>"

definition VirtualNetworksServer :: "(pb_VirtualNetwork, Osac) ServiceMethods" where
  "VirtualNetworksServer = UnimplementedServer \<lparr>rc_Create := VirtualNetworks_Create, rc_Get := VirtualNetworks_Get,
     rc_List := VirtualNetworks_List, rc_Delete := VirtualNetworks_Delete\<rparr>"

lemmas mock_server_defs = ClustersServer_def SecretsServer_def ClusterTemplatesServer_def ComputeInstancesServer_def
  SubnetsServer_def VirtualNetworksServer_def UnimplementedServer_def

text \<open>What the provider calls of them is the in-memory OSAC of \<open>Mock_Provider\<close>.\<close>

lemma mock_servers:
  "ResourceClient.truncate ClustersServer = mock_clusters" "ResourceClient.truncate SecretsServer = mock_secrets"
  "ResourceClient.truncate ClusterTemplatesServer = mock_templates"
  "ResourceClient.truncate ComputeInstancesServer = mock_instances" "ResourceClient.truncate SubnetsServer = mock_subnets"
  "ResourceClient.truncate VirtualNetworksServer = mock_vnets"
  by (simp_all add: mock_server_defs mock_clusters_def mock_secrets_def mock_templates_def mock_instances_def
      mock_subnets_def mock_vnets_def ResourceClient.truncate_def)

section \<open>The registered services\<close>

text \<open>No \<open>ClusterVersions\<close> server is registered.\<close>

definition provider_registry :: "Osac registry" where
  "provider_registry =
     (RegisterVirtualNetworksServer VirtualNetworksServer \<circ> RegisterSubnetsServer SubnetsServer \<circ>
      RegisterComputeInstancesServer ComputeInstancesServer \<circ> RegisterClusterTemplatesServer ClusterTemplatesServer \<circ>
      RegisterSecretsServer SecretsServer \<circ> RegisterClustersServer ClustersServer \<circ>
      RegisterCapabilitiesServer Capabilities_Get) []"

lemma provider_registry_services:
  "map fst provider_registry = map (\<lambda>s. ''osac.public.v1.'' @ s)
     [''Capabilities'', ''Clusters'', ''Secrets'', ''ClusterTemplates'', ''ComputeInstances'', ''Subnets'', ''VirtualNetworks'']"
  by (simp add: provider_registry_def register_defs RegisterService_def service_desc_defs resource_ServiceDesc_def)

lemmas registry_simps = provider_registry_def register_defs RegisterService_def service_desc_defs

text \<open>The method names are the service's name and the method's.\<close>

lemma full_method_names:
  "Clusters_FullMethodName m = full_method ''osac.public.v1.Clusters'' (rpc_name m)"
  "Secrets_FullMethodName m = full_method ''osac.public.v1.Secrets'' (rpc_name m)"
  "ClusterTemplates_FullMethodName m = full_method ''osac.public.v1.ClusterTemplates'' (rpc_name m)"
  "ClusterVersions_FullMethodName m = full_method ''osac.public.v1.ClusterVersions'' (rpc_name m)"
  "ComputeInstances_FullMethodName m = full_method ''osac.public.v1.ComputeInstances'' (rpc_name m)"
  "Subnets_FullMethodName m = full_method ''osac.public.v1.Subnets'' (rpc_name m)"
  "VirtualNetworks_FullMethodName m = full_method ''osac.public.v1.VirtualNetworks'' (rpc_name m)"
  "Capabilities_Get_FullMethodName = full_method ''osac.public.v1.Capabilities'' ''Get''"
  by (cases m; simp add: full_method_def Capabilities_Get_FullMethodName_def)+

lemma provider_registry_lookup:
  "map_of provider_registry ''osac.public.v1.Clusters'' = Some (map (\<lambda>(m, h). (m, h ClustersServer)) (sd_Methods Clusters_ServiceDesc))"
  "map_of provider_registry ''osac.public.v1.Secrets'' = Some (map (\<lambda>(m, h). (m, h SecretsServer)) (sd_Methods Secrets_ServiceDesc))"
  "map_of provider_registry ''osac.public.v1.ClusterTemplates'' =
     Some (map (\<lambda>(m, h). (m, h ClusterTemplatesServer)) (sd_Methods ClusterTemplates_ServiceDesc))"
  "map_of provider_registry ''osac.public.v1.ComputeInstances'' =
     Some (map (\<lambda>(m, h). (m, h ComputeInstancesServer)) (sd_Methods ComputeInstances_ServiceDesc))"
  "map_of provider_registry ''osac.public.v1.Subnets'' = Some (map (\<lambda>(m, h). (m, h SubnetsServer)) (sd_Methods Subnets_ServiceDesc))"
  "map_of provider_registry ''osac.public.v1.VirtualNetworks'' =
     Some (map (\<lambda>(m, h). (m, h VirtualNetworksServer)) (sd_Methods VirtualNetworks_ServiceDesc))"
  "map_of provider_registry ''osac.public.v1.Capabilities'' =
     Some (map (\<lambda>(m, h). (m, h Capabilities_Get)) (sd_Methods Capabilities_ServiceDesc))"
  "map_of provider_registry ''osac.public.v1.ClusterVersions'' = None"
  by (simp_all add: provider_registry_def register_defs RegisterService_def service_desc_defs resource_ServiceDesc_def)

lemmas mock_lookup = provider_registry_lookup [unfolded service_desc_defs]

lemmas new_client_defs = NewClustersClient_def NewSecretsClient_def NewClusterTemplatesClient_def
  NewClusterVersionsClient_def NewComputeInstancesClient_def NewSubnetsClient_def NewVirtualNetworksClient_def

lemma mock_clients_agree:
  assumes "grpc_connection wire dial"
  shows "agrees wire Clusters_pb (NewClustersClient (dial provider_registry)) ClustersServer"
    "agrees wire Secrets_pb (NewSecretsClient (dial provider_registry)) SecretsServer"
    "agrees wire ClusterTemplates_pb (NewClusterTemplatesClient (dial provider_registry)) ClusterTemplatesServer"
    "agrees wire ComputeInstances_pb (NewComputeInstancesClient (dial provider_registry)) ComputeInstancesServer"
    "agrees wire Subnets_pb (NewSubnetsClient (dial provider_registry)) SubnetsServer"
    "agrees wire VirtualNetworks_pb (NewVirtualNetworksClient (dial provider_registry)) VirtualNetworksServer"
proof -
  note agree = grpc_connection.client_methods_agree [OF assms]
  show "agrees wire Clusters_pb (NewClustersClient (dial provider_registry)) ClustersServer"
    "agrees wire Secrets_pb (NewSecretsClient (dial provider_registry)) SecretsServer"
    "agrees wire ClusterTemplates_pb (NewClusterTemplatesClient (dial provider_registry)) ClusterTemplatesServer"
    "agrees wire ComputeInstances_pb (NewComputeInstancesClient (dial provider_registry)) ComputeInstancesServer"
    "agrees wire Subnets_pb (NewSubnetsClient (dial provider_registry)) SubnetsServer"
    "agrees wire VirtualNetworks_pb (NewVirtualNetworksClient (dial provider_registry)) VirtualNetworksServer"
    unfolding new_client_defs
    by (rule agree [OF mock_lookup(1) _ full_method_names(1)] agree [OF mock_lookup(2) _ full_method_names(2)]
        agree [OF mock_lookup(3) _ full_method_names(3)] agree [OF mock_lookup(4) _ full_method_names(5)]
        agree [OF mock_lookup(5) _ full_method_names(6)] agree [OF mock_lookup(6) _ full_method_names(7)]; simp)+
qed

lemma capabilities_client_served:
  assumes "grpc_connection wire dial" and "wire (CapabilitiesMsg CapabilitiesGetRequestMsg)"
    and "wire (CapabilitiesMsg (CapabilitiesGetResponseMsg \<lparr>cgr_Authn = None\<rparr>))"
  shows "CapabilitiesClient_Get (dial provider_registry) w = Capabilities_Get w"
proof -
  have "carried wire Capabilities_Get_types (\<lambda>_. Capabilities_Get) () w"
    using assms(2,3) by (simp add: carried_def answer_call_def Capabilities_Get_types_def Capabilities_Get_def deliverable_def)
  then show ?thesis
    unfolding CapabilitiesClient_Get_def full_method_names
    by (intro grpc_connection.client_call_served [OF assms(1) mock_lookup(7) _ _ readable_Capabilities,
          where f = "\<lambda>srv _. srv" and srv = Capabilities_Get]) simp_all
qed

lemma versions_client_unregistered:
  assumes "grpc_connection wire dial" and "wire (ps_embed ClusterVersions_pb (ListRequestMsg req))"
  shows "\<exists>t. rc_List (NewClusterVersionsClient (dial provider_registry)) req w = (Inl (StatusError Unimplemented t), w)"
  using grpc_connection.client_call_unregistered [OF assms(1) mock_lookup(8), where m = "''List''" and T = "List_types ClusterVersions_pb"]
    assms(2) by (simp add: new_client_defs client_methods_def full_method_names(4) List_types_def)

text \<open>Every error of the mock servers is a status, which a connection carries as it is.\<close>

definition statuses_only :: "('w, 'b) call \<Rightarrow> bool" where
  "statuses_only f \<longleftrightarrow> (\<forall>w. case fst (f w) of Inl (StatusError c t) \<Rightarrow> c \<noteq> OK | Inl _ \<Rightarrow> False | Inr _ \<Rightarrow> True)"

lemma statuses_deliverable: "statuses_only (f req) \<Longrightarrow> deliverable (\<lambda>_. True) (fst (answer_call T f req w))"
  unfolding statuses_only_def deliverable_def answer_call_def
  by (drule spec [of _ w]) (auto split: prod.splits sum.splits go_error.splits)

lemma store_statuses:
  "store_create i x st = (Inl e, st') \<Longrightarrow> \<exists>t. e = StatusError AlreadyExists t"
  "store_get i st = Inl e \<Longrightarrow> \<exists>t. e = StatusError NotFound t"
  "store_delete i st = (Inl e, st') \<Longrightarrow> \<exists>t. e = StatusError NotFound t"
  by (auto simp: store_create_def store_get_def store_delete_def Let_def split: if_splits option.splits)

lemma clusters_statuses:
  "statuses_only (rc_List ClustersServer q)"
  "statuses_only (rc_Get ClustersServer i)"
  "statuses_only (rc_Create ClustersServer c)"
  "statuses_only (rc_Delete ClustersServer i)"
  by (auto simp: statuses_only_def mock_server_defs not_implemented_def server_panics_def Clusters_Create_def Clusters_Get_def Clusters_List_def Clusters_Delete_def
     Let_def dest!: store_statuses split: option.splits sum.splits prod.splits go_error.splits if_splits)

lemma secrets_statuses:
  "statuses_only (rc_List SecretsServer q)"
  "statuses_only (rc_Get SecretsServer i)"
  "statuses_only (rc_Create SecretsServer c)"
  "statuses_only (rc_Delete SecretsServer i)"
  by (auto simp: statuses_only_def mock_server_defs not_implemented_def server_panics_def Secrets_Get_def
     Let_def dest!: store_statuses split: option.splits sum.splits prod.splits go_error.splits if_splits)

lemma templates_statuses:
  "statuses_only (rc_List ClusterTemplatesServer q)"
  "statuses_only (rc_Get ClusterTemplatesServer i)"
  "statuses_only (rc_Create ClusterTemplatesServer c)"
  "statuses_only (rc_Delete ClusterTemplatesServer i)"
  by (auto simp: statuses_only_def mock_server_defs not_implemented_def server_panics_def ClusterTemplates_Get_def ClusterTemplates_answer_def
     Let_def dest!: store_statuses split: option.splits sum.splits prod.splits go_error.splits if_splits)

lemma instances_statuses:
  "statuses_only (rc_List ComputeInstancesServer q)"
  "statuses_only (rc_Get ComputeInstancesServer i)"
  "statuses_only (rc_Create ComputeInstancesServer c)"
  "statuses_only (rc_Delete ComputeInstancesServer i)"
  by (auto simp: statuses_only_def mock_server_defs not_implemented_def server_panics_def ComputeInstances_Create_def ComputeInstances_Get_def ComputeInstances_List_def ComputeInstances_Delete_def
     Let_def dest!: store_statuses split: option.splits sum.splits prod.splits go_error.splits if_splits)

lemma subnets_statuses:
  "statuses_only (rc_List SubnetsServer q)"
  "statuses_only (rc_Get SubnetsServer i)"
  "statuses_only (rc_Create SubnetsServer c)"
  "statuses_only (rc_Delete SubnetsServer i)"
  by (auto simp: statuses_only_def mock_server_defs not_implemented_def server_panics_def Subnets_Create_def Subnets_Get_def Subnets_List_def Subnets_Delete_def
     Let_def dest!: store_statuses split: option.splits sum.splits prod.splits go_error.splits if_splits)

lemma vnets_statuses:
  "statuses_only (rc_List VirtualNetworksServer q)"
  "statuses_only (rc_Get VirtualNetworksServer i)"
  "statuses_only (rc_Create VirtualNetworksServer c)"
  "statuses_only (rc_Delete VirtualNetworksServer i)"
  by (auto simp: statuses_only_def mock_server_defs not_implemented_def server_panics_def VirtualNetworks_Create_def VirtualNetworks_Get_def VirtualNetworks_List_def VirtualNetworks_Delete_def
     Let_def dest!: store_statuses split: option.splits sum.splits prod.splits go_error.splits if_splits)

lemmas mock_statuses = clusters_statuses secrets_statuses templates_statuses instances_statuses subnets_statuses vnets_statuses

text \<open>Over a connection that carries every message the clients of the provider are the in-memory OSAC.\<close>

lemma mock_clients:
  assumes "grpc_connection (\<lambda>_. True) dial"
  shows "ResourceClient.truncate (NewClustersClient (dial provider_registry)) = mock_clusters"
    "ResourceClient.truncate (NewSecretsClient (dial provider_registry)) = mock_secrets"
    "ResourceClient.truncate (NewClusterTemplatesClient (dial provider_registry)) = mock_templates"
    "ResourceClient.truncate (NewComputeInstancesClient (dial provider_registry)) = mock_instances"
    "ResourceClient.truncate (NewSubnetsClient (dial provider_registry)) = mock_subnets"
    "ResourceClient.truncate (NewVirtualNetworksClient (dial provider_registry)) = mock_vnets"
  unfolding mock_servers [symmetric]
  by (rule mock_clients_agree [OF assms, THEN agrees_all]; rule statuses_deliverable; rule mock_statuses)+

section \<open>Properties\<close>

text \<open>
  C14. The generated gRPC code, client and server side, is transparent: wherever the request and the
  answer can be encoded, each call of a generated client over a connection to what the mock command registers answers
  and changes what the method of the mock server does, an error included, and a method a server leaves
  out answers \<open>Unimplemented\<close>. The one service of the provider that is not registered,
  \<open>ClusterVersions\<close>, answers \<open>Unimplemented\<close>.
\<close>

theorem stubs_reach_the_mock:
  assumes "grpc_connection wire dial"
  shows "agrees wire Clusters_pb (NewClustersClient (dial provider_registry)) ClustersServer \<and>
    agrees wire Secrets_pb (NewSecretsClient (dial provider_registry)) SecretsServer \<and>
    agrees wire ClusterTemplates_pb (NewClusterTemplatesClient (dial provider_registry)) ClusterTemplatesServer \<and>
    agrees wire ComputeInstances_pb (NewComputeInstancesClient (dial provider_registry)) ComputeInstancesServer \<and>
    agrees wire Subnets_pb (NewSubnetsClient (dial provider_registry)) SubnetsServer \<and>
    agrees wire VirtualNetworks_pb (NewVirtualNetworksClient (dial provider_registry)) VirtualNetworksServer \<and>
    (wire (CapabilitiesMsg CapabilitiesGetRequestMsg) \<longrightarrow>
     wire (CapabilitiesMsg (CapabilitiesGetResponseMsg \<lparr>cgr_Authn = None\<rparr>)) \<longrightarrow>
     CapabilitiesClient_Get (dial provider_registry) w = Capabilities_Get w) \<and>
    (wire (ClusterVersionsMsg (ListRequestMsg req)) \<longrightarrow>
     (\<exists>t. rc_List (NewClusterVersionsClient (dial provider_registry)) req w = (Inl (StatusError Unimplemented t), w)))"
  using mock_clients_agree [OF assms] capabilities_client_served [OF assms]
    versions_client_unregistered [OF assms, unfolded ClusterVersions_pb_def pb_service.simps]
  by blast

text \<open>Over the direct connection a cluster is created and read back, and secrets cannot be listed.\<close>

definition wired_cluster :: pb_Cluster where
  "wired_cluster = \<lparr>pc_Id = ''c1'', pc_Metadata = None, pc_Spec = None, pc_Status = Some (mockClusterStatus ''c1'')\<rparr>"

definition wired_osac :: Osac where
  "wired_osac = snd (Clusters_Create (Some wired_cluster) (newOsac nat_digits))"

lemma wired_calls:
  "rc_Create ClustersServer (Some wired_cluster) (newOsac nat_digits) = (Inr \<lparr>or_Object = Some wired_cluster\<rparr>, wired_osac)"
  "rc_Get ClustersServer ''c1'' wired_osac = (Inr \<lparr>or_Object = Some wired_cluster\<rparr>, wired_osac)"
  by (simp_all add: mock_server_defs wired_cluster_def wired_osac_def Clusters_Create_def Clusters_Get_def newOsac_def
      newResourceStore_def store_create_def store_get_def store_insert_def Let_def)

theorem stubs_reach_the_mock_witness:
  "rc_Create (NewClustersClient (direct_dial provider_registry)) (Some wired_cluster) (newOsac nat_digits) =
      (Inr \<lparr>or_Object = Some wired_cluster\<rparr>, wired_osac) \<and>
    rc_Get (NewClustersClient (direct_dial provider_registry)) ''c1'' wired_osac = (Inr \<lparr>or_Object = Some wired_cluster\<rparr>, wired_osac)"
proof -
  have "agrees (\<lambda>_. True) Clusters_pb (NewClustersClient (direct_dial provider_registry)) ClustersServer"
    using stubs_reach_the_mock [OF direct.grpc_connection_axioms] by blast
  then show ?thesis
    unfolding agrees_def by (simp add: wired_calls carried_def answer_call_def deliverable_def)
qed

end
