(* ===== verification/Test_Commands.thy ===== *)
theory Test_Commands
  imports Aap_Mock Mock_Services
begin

text \<open>
  The two commands of \<open>test/cmd\<close>: \<open>osac-mock-provider\<close>, which serves the in-memory OSAC over gRPC and
  the identity provider over HTTP, and \<open>osac-aap-mock\<close>. \<open>run\<close> is a function of what the host answers;
  \<open>serveUntilDone\<close> is a step relation with the serving goroutines, their error channel and the
  \<open>select\<close>. Logging and the set-up of signals are left out.
\<close>

section \<open>run\<close>

definition shutdownTimeout :: int where "shutdownTimeout = 5 * second"
definition readHeaderTimeout :: int where "readHeaderTimeout = 10 * second"

record ('ln, 'cert) mock_host =
  mh_environment :: "mock_Config res"
  mh_listen :: "string \<Rightarrow> 'ln res"
  mh_keyPair :: "'cert res"

record ('ln, 'cert) mock_setup =
  ms_grpcLn :: 'ln
  ms_oidcLn :: 'ln
  ms_tls :: "'cert server_tls_Config"
  ms_services :: "Osac registry"
  ms_ReadHeaderTimeout :: int

text \<open>With the listeners whose \<open>Close\<close> is deferred when it stops or goes on to serve.\<close>

definition provider_run :: "('ln, 'cert) mock_host \<Rightarrow> ('ln, 'cert) mock_setup res \<times> 'ln list" where
  "provider_run host =
     (case mock_LoadConfig (mh_environment host) of
        Inl err \<Rightarrow> (Inl (WrapError [Lit ''initializing''] err), [])
      | Inr cfg \<Rightarrow>
     (case mh_listen host (mc_GRPCAddress cfg) of
        Inl err \<Rightarrow> (Inl (WrapError [Lit ''listening for gRPC on '', Lit (mc_GRPCAddress cfg)] err), [])
      | Inr grpcLn \<Rightarrow>
     (case mh_listen host (mc_OIDCAddress cfg) of
        Inl err \<Rightarrow> (Inl (WrapError [Lit ''listening for OIDC HTTP on '', Lit (mc_OIDCAddress cfg)] err), [grpcLn])
      | Inr oidcLn \<Rightarrow>
     (case ServerTLSConfig (mh_keyPair host) of
        Inl err \<Rightarrow> (Inl (WrapError [Lit ''building mock TLS config''] err), [grpcLn, oidcLn])
      | Inr tlsCfg \<Rightarrow>
          (Inr \<lparr>ms_grpcLn = grpcLn, ms_oidcLn = oidcLn, ms_tls = tlsCfg, ms_services = provider_registry,
             ms_ReadHeaderTimeout = readHeaderTimeout\<rparr>, [grpcLn, oidcLn])))))"

record 'ln aap_setup =
  as_ln :: 'ln
  as_Handler :: aap_Handler
  as_ReadHeaderTimeout :: int

definition aap_main_run :: "aap_Config res \<Rightarrow> (string \<Rightarrow> 'ln res) \<Rightarrow> 'ln aap_setup res \<times> 'ln list" where
  "aap_main_run environment listen =
     (case aap_LoadConfig environment of
        Inl err \<Rightarrow> (Inl (WrapError [Lit ''initializing''] err), [])
      | Inr cfg \<Rightarrow>
     (case listen (aac_Address cfg) of
        Inl err \<Rightarrow> (Inl (WrapError [Lit ''listening on '', Lit (aac_Address cfg)] err), [])
      | Inr ln \<Rightarrow>
          (Inr \<lparr>as_ln = ln, as_Handler = aap_NewHandler (aac_Token cfg), as_ReadHeaderTimeout = readHeaderTimeout\<rparr>, [ln])))"

section \<open>serveUntilDone\<close>

text \<open>\<open>http.ErrServerClosed\<close>, and \<open>errors.Is\<close> with it.\<close>

definition ErrServerClosed :: go_error where
  "ErrServerClosed = PlainError [Lit ''http: Server closed'']"

fun is_server_closed :: "go_error \<Rightarrow> bool" where
  "is_server_closed (WrapError m e) \<longleftrightarrow> is_server_closed e"
| "is_server_closed (JoinError es) \<longleftrightarrow> list_ex is_server_closed es"
| "is_server_closed e \<longleftrightarrow> e = ErrServerClosed"

datatype mock_server = GrpcServer | HttpServer

text \<open>What each goroutine sends when its \<open>Serve\<close> has returned; the addresses are an argument.\<close>

definition provider_message :: "(mock_server \<Rightarrow> string) \<Rightarrow> mock_server \<Rightarrow> go_error option \<Rightarrow> go_error option" where
  "provider_message addr srv r =
     (case r of
        None \<Rightarrow> None
      | Some err \<Rightarrow>
          (case srv of
             GrpcServer \<Rightarrow> Some (WrapError [Lit ''serving gRPC on '', Lit (addr srv)] err)
           | HttpServer \<Rightarrow>
               if is_server_closed err then None
               else Some (WrapError [Lit ''serving OIDC HTTP on '', Lit (addr srv)] err)))"

definition aap_message :: "(mock_server \<Rightarrow> string) \<Rightarrow> mock_server \<Rightarrow> go_error option \<Rightarrow> go_error option" where
  "aap_message addr srv r =
     (case r of
        None \<Rightarrow> None
      | Some err \<Rightarrow>
          if is_server_closed err then None
          else Some (WrapError [Lit ''serving AAP mock HTTP on '', Lit (addr srv)] err))"

text \<open>
  The two commands differ in their servers, their messages and the \<open>GracefulStop\<close> before the HTTP
  shutdown, which waits for every open call, without a limit. The channel holds one message per server.
\<close>

record serving =
  sg_servers :: "mock_server list"
  sg_message :: "mock_server \<Rightarrow> go_error option \<Rightarrow> go_error option"
  sg_graceful :: bool

definition provider_serving :: "(mock_server \<Rightarrow> string) \<Rightarrow> serving" where
  "provider_serving addr = \<lparr>sg_servers = [GrpcServer, HttpServer], sg_message = provider_message addr, sg_graceful = True\<rparr>"

definition aap_serving :: "(mock_server \<Rightarrow> string) \<Rightarrow> serving" where
  "aap_serving addr = \<lparr>sg_servers = [HttpServer], sg_message = aap_message addr, sg_graceful = False\<rparr>"

datatype serve_pc =
    Selecting | GracefulStopping "go_error option" | HttpShutdown "go_error option" | Serve_returned "go_error option"

record serve_state =
  sst_serving :: "mock_server list"
  sst_errCh :: "go_error option list"
  sst_ctxDone :: bool
  sst_pc :: serve_pc

definition serve_start :: "serving \<Rightarrow> serve_state" where
  "serve_start cfg = \<lparr>sst_serving = sg_servers cfg, sst_errCh = [], sst_ctxDone = False, sst_pc = Selecting\<rparr>"

definition stopping :: "serving \<Rightarrow> go_error option \<Rightarrow> serve_pc" where
  "stopping cfg runErr = (if sg_graceful cfg then GracefulStopping runErr else HttpShutdown runErr)"

datatype serve_event =
    ContextCancelled | ServeReturned mock_server "go_error option" | SelectedContext | SelectedError
  | GracefulStopped | ShutdownReturned "go_error option"

inductive serve_step :: "serving \<Rightarrow> serve_state \<Rightarrow> serve_event \<Rightarrow> serve_state \<Rightarrow> bool" for cfg where
  cancelled: "serve_step cfg s ContextCancelled (s \<lparr>sst_ctxDone := True\<rparr>)"
| serve_returned: "srv \<in> set (sst_serving s) \<Longrightarrow> length (sst_errCh s) < length (sg_servers cfg) \<Longrightarrow>
    serve_step cfg s (ServeReturned srv r)
      (s \<lparr>sst_serving := remove1 srv (sst_serving s), sst_errCh := sst_errCh s @ [sg_message cfg srv r]\<rparr>)"
| selected_context: "sst_pc s = Selecting \<Longrightarrow> sst_ctxDone s \<Longrightarrow>
    serve_step cfg s SelectedContext (s \<lparr>sst_pc := stopping cfg None\<rparr>)"
| selected_error: "sst_pc s = Selecting \<Longrightarrow> sst_errCh s = runErr # rest \<Longrightarrow>
    serve_step cfg s SelectedError (s \<lparr>sst_errCh := rest, sst_pc := stopping cfg runErr\<rparr>)"
| graceful_stopped: "sst_pc s = GracefulStopping runErr \<Longrightarrow>
    serve_step cfg s GracefulStopped (s \<lparr>sst_pc := HttpShutdown runErr\<rparr>)"
| shutdown_returned: "sst_pc s = HttpShutdown runErr \<Longrightarrow>
    serve_step cfg s (ShutdownReturned err) (s \<lparr>sst_pc := Serve_returned runErr\<rparr>)"

inductive_cases serve_stepE: "serve_step cfg s e s'"

inductive serve_run :: "serving \<Rightarrow> serve_event list \<Rightarrow> serve_state \<Rightarrow> bool" for cfg where
  serve_begin: "serve_run cfg [] (serve_start cfg)"
| serve_next: "serve_run cfg es s \<Longrightarrow> serve_step cfg s e s' \<Longrightarrow> serve_run cfg (es @ [e]) s'"

section \<open>Lemmas\<close>

definition sent :: "serving \<Rightarrow> serve_event list \<Rightarrow> go_error option list" where
  "sent cfg es = concat (map (\<lambda>e. case e of ServeReturned srv r \<Rightarrow> [sg_message cfg srv r] | _ \<Rightarrow> []) es)"

fun decided :: "serve_pc \<Rightarrow> go_error option option" where
  "decided Selecting = None"
| "decided (GracefulStopping r) = Some r"
| "decided (HttpShutdown r) = Some r"
| "decided (Serve_returned r) = Some r"

text \<open>
  What was sent is still in the channel, but for the one message the \<open>select\<close> may have taken; it is
  the first, and what is returned. Every goroutine still serving has room for its message.
\<close>

definition serve_inv :: "serving \<Rightarrow> serve_event list \<Rightarrow> serve_state \<Rightarrow> bool" where
  "serve_inv cfg es s \<longleftrightarrow>
     length (sent cfg es) + length (sst_serving s) = length (sg_servers cfg) \<and>
     (sst_ctxDone s \<longleftrightarrow> ContextCancelled \<in> set es) \<and>
     (case decided (sst_pc s) of
        None \<Rightarrow> sst_errCh s = sent cfg es
      | Some r \<Rightarrow> (r = None \<and> sst_ctxDone s \<and> sst_errCh s = sent cfg es) \<or> sent cfg es = r # sst_errCh s)"

lemma decided_stopping [simp]: "decided (stopping cfg r) = Some r"
  by (simp add: stopping_def)

lemma sent_snoc [simp]: "sent cfg (es @ [e]) =
    sent cfg es @ (case e of ServeReturned srv r \<Rightarrow> [sg_message cfg srv r] | _ \<Rightarrow> [])"
  by (simp add: sent_def)

lemma remove1_shorter: "x \<in> set xs \<Longrightarrow> length xs = Suc (length (remove1 x xs))"
  by (induction xs) auto

lemma serve_step_inv: "serve_step cfg s e s' \<Longrightarrow> serve_inv cfg es s \<Longrightarrow> serve_inv cfg (es @ [e]) s'"
  by (erule serve_stepE)
    (auto simp: serve_inv_def split: option.splits dest: remove1_shorter)

lemma serve_run_inv: "serve_run cfg es s \<Longrightarrow> serve_inv cfg es s"
proof (induction rule: serve_run.induct)
  case serve_begin
  show ?case by (simp add: serve_inv_def serve_start_def sent_def)
next
  case (serve_next es s e s')
  then show ?case by (blast intro: serve_step_inv)
qed

lemma serve_room:
  assumes "serve_run cfg es s" and "srv \<in> set (sst_serving s)"
  shows "length (sst_errCh s) < length (sg_servers cfg)"
  using serve_run_inv [OF assms(1)] remove1_shorter [OF assms(2)]
  by (auto simp: serve_inv_def split: option.splits)

lemma sent_first:
  "sent cfg es = r # rest \<Longrightarrow> \<exists>before srv x after. es = before @ [ServeReturned srv x] @ after \<and>
     (\<forall>srv' x'. ServeReturned srv' x' \<notin> set before) \<and> r = sg_message cfg srv x"
proof (induction es)
  case Nil
  then show ?case by (simp add: sent_def)
next
  case (Cons e es)
  show ?case
  proof (cases "\<exists>srv x. e = ServeReturned srv x")
    case True
    with Cons.prems show ?thesis by (fastforce simp: sent_def intro: exI [of _ "[]"])
  next
    case False
    with Cons.prems have "sent cfg es = r # rest" by (cases e) (auto simp: sent_def)
    from Cons.IH [OF this] obtain before srv x after where "es = before @ [ServeReturned srv x] @ after"
      "\<forall>srv' x'. ServeReturned srv' x' \<notin> set before" "r = sg_message cfg srv x" by blast
    with False show ?thesis by (intro exI [of _ "e # before"] exI [of _ srv] exI [of _ x] exI [of _ after]) auto
  qed
qed

lemma sent_nonempty: "ServeReturned srv x \<in> set es \<Longrightarrow> sent cfg es \<noteq> []"
  by (auto simp: sent_def intro!: bexI [of _ "ServeReturned srv x"])

lemma serve_returns_first:
  assumes "serve_run cfg es s" and "sst_pc s = Serve_returned r"
  shows "(r = None \<and> ContextCancelled \<in> set es) \<or> (\<exists>rest. sent cfg es = r # rest)"
  using serve_run_inv [OF assms(1)] assms(2) by (auto simp: serve_inv_def)

text \<open>Once the context has ended or a server has, the command returns when its servers let go.\<close>

lemma serve_can_return:
  assumes "serve_run cfg es s" and "sst_ctxDone s \<or> length (sst_serving s) < length (sg_servers cfg)"
  shows "\<exists>es' s' r. serve_run cfg (es @ es') s' \<and> sst_pc s' = Serve_returned r \<and> length es' \<le> 3"
proof -
  have last: "\<exists>s'. serve_run cfg (fs @ [ShutdownReturned None]) s' \<and> sst_pc s' = Serve_returned r"
    if "serve_run cfg fs t" "sst_pc t = HttpShutdown r" for fs t r
    using serve_next [OF that(1) shutdown_returned [OF that(2), of _ None]]
    by (intro exI [of _ "t \<lparr>sst_pc := Serve_returned r\<rparr>"]) simp
  have shut: "\<exists>es' s'. serve_run cfg (fs @ es') s' \<and> sst_pc s' = Serve_returned r \<and> length es' \<le> 2"
    if run: "serve_run cfg fs t" and dec: "decided (sst_pc t) = Some r" for fs t r
  proof (cases "sst_pc t")
    case (GracefulStopping r')
    with dec have r: "sst_pc t = GracefulStopping r" by simp
    from last [OF serve_next [OF run graceful_stopped [OF r]]] obtain s' where
      "serve_run cfg ((fs @ [GracefulStopped]) @ [ShutdownReturned None]) s' \<and> sst_pc s' = Serve_returned r" by auto
    then show ?thesis by (intro exI [of _ "[GracefulStopped, ShutdownReturned None]"] exI [of _ s']) simp
  next
    case (HttpShutdown r')
    with dec have r: "sst_pc t = HttpShutdown r" by simp
    from last [OF run r] show ?thesis by (auto intro!: exI [of _ "[ShutdownReturned None]"])
  next
    case (Serve_returned r')
    with dec run show ?thesis by (intro exI [of _ "[]"] exI [of _ t]) simp
  qed (use dec in simp)
  show ?thesis
  proof (cases "decided (sst_pc s)")
    case (Some r)
    from shut [OF assms(1) Some] obtain es' s' where
      "serve_run cfg (es @ es') s'" "sst_pc s' = Serve_returned r" "length es' \<le> 2" by blast
    then show ?thesis by (intro exI [of _ es'] exI [of _ s'] exI [of _ r]) simp
  next
    case None
    then have sel: "sst_pc s = Selecting" by (cases "sst_pc s") simp_all
    have "\<exists>e t r. serve_step cfg s e t \<and> decided (sst_pc t) = Some r"
    proof (cases "sst_ctxDone s")
      case True
      show ?thesis using selected_context [OF sel True, of cfg]
        by (intro exI [of _ SelectedContext] exI [of _ "s \<lparr>sst_pc := stopping cfg None\<rparr>"] exI [of _ None]) simp
    next
      case False
      with assms serve_run_inv [OF assms(1)] sel have "sst_errCh s \<noteq> []" by (auto simp: serve_inv_def)
      then obtain r rest where "sst_errCh s = r # rest" by (cases "sst_errCh s") auto
      from selected_error [OF sel this, of cfg] show ?thesis
        by (intro exI [of _ SelectedError] exI [of _ "s \<lparr>sst_errCh := rest, sst_pc := stopping cfg r\<rparr>"] exI [of _ r]) simp
    qed
    then obtain e t r where "serve_step cfg s e t" "decided (sst_pc t) = Some r" by blast
    from shut [OF serve_next [OF assms(1) this(1)] this(2)] obtain es' s' where
      "serve_run cfg ((es @ [e]) @ es') s'" "sst_pc s' = Serve_returned r" "length es' \<le> 2" by blast
    then show ?thesis by (intro exI [of _ "e # es'"] exI [of _ s'] exI [of _ r]) simp
  qed
qed

text \<open>
  A command that serves closes both its listeners again.
\<close>

lemma provider_run_closes:
  "fst (provider_run host) = Inr setup \<Longrightarrow> snd (provider_run host) = [ms_grpcLn setup, ms_oidcLn setup]"
  by (auto simp: provider_run_def split: sum.splits)

section \<open>Properties\<close>

text \<open>
  The provider mock returns what ended it: nil after its context ended, or the first message a
  server sent, never an error of the shutdown. No serving goroutine is ever stuck on the channel.
  Once its context or a server has ended, at most three steps remain, the first two of which are
  waits for open calls.
\<close>

lemma provider_serves_until_done:
  assumes "serve_run (provider_serving addr) es s"
  shows "(\<forall>srv \<in> set (sst_serving s). length (sst_errCh s) < 2) \<and>
    (\<forall>r. sst_pc s = Serve_returned r \<longrightarrow>
       (r = None \<and> ContextCancelled \<in> set es) \<or>
       (\<exists>before srv x after. es = before @ [ServeReturned srv x] @ after \<and>
          (\<forall>srv' x'. ServeReturned srv' x' \<notin> set before) \<and> r = provider_message addr srv x)) \<and>
    ((\<exists>e \<in> set es. e = ContextCancelled \<or> (\<exists>srv x. e = ServeReturned srv x)) \<longrightarrow>
       (\<exists>es' s' r. serve_run (provider_serving addr) (es @ es') s' \<and> sst_pc s' = Serve_returned r \<and> length es' \<le> 3))"
proof -
  let ?cfg = "provider_serving addr"
  have cfg: "length (sg_servers ?cfg) = 2" "sg_message ?cfg = provider_message addr" by (simp_all add: provider_serving_def)
  have "\<forall>srv \<in> set (sst_serving s). length (sst_errCh s) < 2" using serve_room [OF assms] cfg(1) by auto
  moreover have "(r = None \<and> ContextCancelled \<in> set es) \<or>
      (\<exists>before srv x after. es = before @ [ServeReturned srv x] @ after \<and>
         (\<forall>srv' x'. ServeReturned srv' x' \<notin> set before) \<and> r = provider_message addr srv x)"
    if "sst_pc s = Serve_returned r" for r
    using serve_returns_first [OF assms that] sent_first [of ?cfg es r] cfg(2) by auto
  moreover have "sst_ctxDone s \<or> length (sst_serving s) < length (sg_servers ?cfg)"
    if "e \<in> set es" "e = ContextCancelled \<or> (\<exists>srv x. e = ServeReturned srv x)" for e
  proof -
    have "ContextCancelled \<in> set es \<or> sent ?cfg es \<noteq> []" using that sent_nonempty [of _ _ es ?cfg] by auto
    then show ?thesis using serve_run_inv [OF assms] unfolding serve_inv_def by (metis add_0 length_0_conv le_add2 le_neq_implies_less add_right_cancel)
  qed
  ultimately show ?thesis using serve_can_return [OF assms] by blast
qed

lemma provider_serves_example:
  "\<exists>s. serve_run (provider_serving (\<lambda>_. ''[::]:9090''))
      [ServeReturned GrpcServer (Some ContextCanceled), SelectedError, GracefulStopped, ShutdownReturned None] s \<and>
    sst_pc s = Serve_returned (Some (WrapError [Lit ''serving gRPC on '', Lit ''[::]:9090''] ContextCanceled)) \<and>
    length (sst_errCh s) < 2"
proof -
  let ?cfg = "provider_serving (\<lambda>_. ''[::]:9090'')"
  let ?r = "Some (WrapError [Lit ''serving gRPC on '', Lit ''[::]:9090''] ContextCanceled)"
  let ?s = "\<lambda>ch pc. \<lparr>sst_serving = [HttpServer], sst_errCh = ch, sst_ctxDone = False, sst_pc = pc\<rparr>"
  have "serve_run ?cfg ([] @ [ServeReturned GrpcServer (Some ContextCanceled)]) (?s [?r] Selecting)"
    using serve_next [OF serve_begin serve_returned [of GrpcServer "serve_start ?cfg" ?cfg "Some ContextCanceled"]]
    by (simp add: serve_start_def provider_serving_def provider_message_def)
  from serve_next [OF this selected_error [of "?s [?r] Selecting" ?r "[]" ?cfg]]
  have "serve_run ?cfg [ServeReturned GrpcServer (Some ContextCanceled), SelectedError] (?s [] (GracefulStopping ?r))"
    by (simp add: stopping_def provider_serving_def)
  from serve_next [OF this graceful_stopped [of "?s [] (GracefulStopping ?r)" ?r ?cfg]]
  have "serve_run ?cfg [ServeReturned GrpcServer (Some ContextCanceled), SelectedError, GracefulStopped] (?s [] (HttpShutdown ?r))"
    by simp
  from serve_next [OF this shutdown_returned [of "?s [] (HttpShutdown ?r)" ?r ?cfg None]]
  have run: "serve_run ?cfg [ServeReturned GrpcServer (Some ContextCanceled), SelectedError, GracefulStopped, ShutdownReturned None]
      (?s [] (Serve_returned ?r))" by simp
  have "length (sst_errCh (?s [] (Serve_returned ?r))) < 2"
    using provider_serves_until_done [OF run] by simp
  with run show ?thesis by (intro exI [of _ "?s [] (Serve_returned ?r)"]) simp
qed

end
