(* ===== verification/Api_Document.thy ===== *)
theory Api_Document
  imports Go_Base64 Net_Url
begin

text \<open>
  \<open>api/v1alpha1/spec.gen.go\<close>: the OpenAPI document embedded in the program, as base64 text in
  chunks of its deflated JSON. The text itself, the inflater with its \<open>Close\<close>, \<open>path.Clean\<close> and the
  loader of \<open>openapi3\<close> are arguments; the loader gets the callback for external references.
\<close>

section \<open>Decoding\<close>

text \<open>\<open>inflate\<close> is \<open>ReadFrom\<close> of a flate reader over the bytes, \<open>close\<close> the result of its \<open>Close\<close>.\<close>

record inflater =
  fl_read :: "string \<Rightarrow> string res"
  fl_close :: "string \<Rightarrow> go_error option"

definition decodeSpec :: "inflater \<Rightarrow> string list \<Rightarrow> string res" where
  "decodeSpec zr swaggerSpec =
     (let encoded = Join swaggerSpec '''' in
      case StdDecode encoded of
        Inl err \<Rightarrow> Inl (WrapError [Lit ''error base64 decoding spec''] err)
      | Inr compressed \<Rightarrow>
     (case fl_read zr compressed of
        Inl err \<Rightarrow> Inl (WrapError [Lit ''read flate''] err)
      | Inr buf \<Rightarrow>
     (case fl_close zr compressed of
        Some err \<Rightarrow> Inl (WrapError [Lit ''close flate reader''] err)
      | None \<Rightarrow> Inr buf)))"

text \<open>A function of the source without arguments is a function on \<open>unit\<close>.\<close>

type_synonym spec_source = "unit \<Rightarrow> string res"

definition decodeSpecCached :: "inflater \<Rightarrow> string list \<Rightarrow> spec_source" where
  "decodeSpecCached zr swaggerSpec = (let r = decodeSpec zr swaggerSpec in (\<lambda>_. r))"

definition PathToRawSpec :: "spec_source \<Rightarrow> string \<Rightarrow> (string \<rightharpoonup> spec_source)" where
  "PathToRawSpec rawSpec pathToFile =
     (let res = Map.empty in if length pathToFile > 0 then res(pathToFile \<mapsto> rawSpec) else res)"

section \<open>Loading\<close>

type_synonym 'doc loader = "bool \<Rightarrow> (URL \<Rightarrow> string res) \<Rightarrow> string \<Rightarrow> 'doc res"

definition ReadFromURIFunc :: "(string \<Rightarrow> string) \<Rightarrow> (string \<rightharpoonup> spec_source) \<Rightarrow> URL \<Rightarrow> string res" where
  "ReadFromURIFunc clean resolve_path url =
     (let pathToFile = clean (url_String url) in
      case resolve_path pathToFile of
        None \<Rightarrow> Inl (PlainError [Lit ''path not found: '', Lit pathToFile])
      | Some getSpec \<Rightarrow> getSpec ())"

definition GetSpec :: "(string \<Rightarrow> string) \<Rightarrow> 'doc loader \<Rightarrow> spec_source \<Rightarrow> 'doc res" where
  "GetSpec clean load rawSpec =
     (let resolve_path = PathToRawSpec rawSpec '''' in
      case rawSpec () of
        Inl err \<Rightarrow> Inl err
      | Inr specData \<Rightarrow> load True (ReadFromURIFunc clean resolve_path) specData)"

definition GetSpecJSON :: "spec_source \<Rightarrow> string res" where
  "GetSpecJSON rawSpec = rawSpec ()"

definition GetSwagger :: "(string \<Rightarrow> string) \<Rightarrow> 'doc loader \<Rightarrow> spec_source \<Rightarrow> 'doc res" where
  "GetSwagger clean load rawSpec = GetSpec clean load rawSpec"

section \<open>Lemmas\<close>

lemma Join_empty: "Join xs '''' = concat xs"
  by (induction xs rule: induct_list012) simp_all

text \<open>What the generator embeds is what the program serves, however the text is cut into chunks.\<close>

lemma decodeSpec_embedded:
  assumes "concat chunks = StdEncode packed" and "fl_read zr packed = Inr json" and "fl_close zr packed = None"
  shows "decodeSpec zr chunks = Inr json" and "GetSpecJSON (decodeSpecCached zr chunks) = Inr json"
    and "GetSpec clean load (decodeSpecCached zr chunks) =
      load True (\<lambda>url. Inl (PlainError [Lit ''path not found: '', Lit (clean (url_String url))])) json"
proof -
  show d: "decodeSpec zr chunks = Inr json"
    using assms by (simp add: decodeSpec_def Join_empty StdDecode_Encode)
  show "GetSpecJSON (decodeSpecCached zr chunks) = Inr json"
    by (simp add: GetSpecJSON_def decodeSpecCached_def d)
  have "ReadFromURIFunc clean Map.empty = (\<lambda>url. Inl (PlainError [Lit ''path not found: '', Lit (clean (url_String url))]))"
    by (rule ext) (simp add: ReadFromURIFunc_def)
  then show "GetSpec clean load (decodeSpecCached zr chunks) =
      load True (\<lambda>url. Inl (PlainError [Lit ''path not found: '', Lit (clean (url_String url))])) json"
    by (simp add: GetSpec_def PathToRawSpec_def decodeSpecCached_def d)
qed

text \<open>A character outside the alphabet, or a text cut short, is an error of every accessor.\<close>

lemma decodeSpec_error:
  assumes "StdDecode (concat chunks) = Inl e"
  shows "GetSpecJSON (decodeSpecCached zr chunks) = Inl (WrapError [Lit ''error base64 decoding spec''] e)"
    and "GetSpec clean load (decodeSpecCached zr chunks) = Inl (WrapError [Lit ''error base64 decoding spec''] e)"
  using assms by (simp_all add: GetSpecJSON_def GetSpec_def decodeSpecCached_def decodeSpec_def Join_empty)

end
