(* ===== verification/Process.thy ===== *)
theory Process
  imports Service_Main Status_Publisher Mock_Services
begin

text \<open>
  The process \<open>cmd/osac-service-provider\<close> while it runs: the HTTP server, the token refresh loop, the
  registration loops, the poller and the delivery worker that \<open>run\<close> has started, interleaved, with the
  context they share, the closing of what \<open>run\<close> deferred, and the exit. The components are the step relations of
  their own theories; this theory says what starts, stops and separates them.
\<close>

section \<open>The system\<close>

text \<open>
  \<open>pr_open\<close> are the deferred \<open>Close\<close> calls still to be made, the next one first. The poller is here
  only the one that publishes, until it returns.
\<close>

record process =
  pr_server :: server_run
  pr_refresh :: refresh_state
  pr_registrar :: registrar_app
  pr_publisher :: publisher_sys
  pr_pollerReturned :: bool
  pr_open :: "closable list"
  pr_exit :: "int option"

definition process_start :: "('w, 'ln, 'conn, 'js) wiring \<Rightarrow> closable list \<Rightarrow> process" where
  "process_start wi deferred =
     \<lparr>pr_server = server_start (wi_server wi), pr_refresh = refresh_start (wi_bootstrap wi),
      pr_registrar = \<lparr>ra_started = False, ra_cluster = registrar_start (wi_registrar wi), ra_vm = registrar_start (wi_registrar wi)\<rparr>,
      pr_publisher = publisher_start (snd (wi_publisher wi)), pr_pollerReturned = False,
      pr_open = closing_order deferred, pr_exit = None\<rparr>"

text \<open>
  \<open>Signalled\<close> is a signal, which ends the context of all parts. \<open>onReady\<close> starts the registrar. A
  closed connection to NATS acknowledges nothing. The main goroutine closes and exits when \<open>Run\<close> of
  the server has returned; nothing waits for the other goroutines.
\<close>

datatype process_event =
    Signalled
  | ServerMoved server_event
  | RefreshMoved refresh_event
  | ClusterRegistrarMoved registrar_event
  | VmRegistrarMoved registrar_event
  | DeliveryMoved publisher_event
  | PollerReturned
  | Closed closable
  | Exited int

fun is_ack :: "publisher_event \<Rightarrow> bool" where
  "is_ack (Acked k v raw) \<longleftrightarrow> True"
| "is_ack _ \<longleftrightarrow> False"

fun publishes :: "publisher_event \<Rightarrow> bool" where
  "publishes (Published st i s m) \<longleftrightarrow> True"
| "publishes _ \<longleftrightarrow> False"

inductive process_step ::
  "(string \<Rightarrow> StatusPayload \<Rightarrow> string res) \<Rightarrow> (Event \<Rightarrow> string res) \<Rightarrow> Registrar \<Rightarrow>
   process \<Rightarrow> process_event \<Rightarrow> process \<Rightarrow> bool"
  for setData marshal r where
  signalled: "pr_exit P = None \<Longrightarrow> server_step (pr_server P) ContextEnds s \<Longrightarrow>
     publisher_step setData marshal (pr_publisher P) ContextEnded q \<Longrightarrow>
     process_step setData marshal r P Signalled (P \<lparr>pr_server := s, pr_publisher := q\<rparr>)"
| server_ready: "pr_exit P = None \<Longrightarrow> server_step (pr_server P) OnReadyDone s \<Longrightarrow>
     process_step setData marshal r P (ServerMoved OnReadyDone)
       (P \<lparr>pr_server := s, pr_registrar := Registrar_Start r (pr_registrar P)\<rparr>)"
| server_moved: "pr_exit P = None \<Longrightarrow> e \<notin> {ContextEnds, OnReadyDone, OnReadyPanics} \<Longrightarrow> server_step (pr_server P) e s \<Longrightarrow>
     process_step setData marshal r P (ServerMoved e) (P \<lparr>pr_server := s\<rparr>)"
| refresh_moved: "pr_exit P = None \<Longrightarrow> refresh_step (pr_refresh P) e s \<Longrightarrow> (e = ContextDone \<Longrightarrow> sr_ctxDone (pr_server P)) \<Longrightarrow>
     process_step setData marshal r P (RefreshMoved e) (P \<lparr>pr_refresh := s\<rparr>)"
| cluster_moved: "pr_exit P = None \<Longrightarrow> ra_started (pr_registrar P) \<Longrightarrow> run_step r (ra_cluster (pr_registrar P)) e s \<Longrightarrow>
     (e = Cancelled \<Longrightarrow> sr_ctxDone (pr_server P)) \<Longrightarrow>
     process_step setData marshal r P (ClusterRegistrarMoved e) (P \<lparr>pr_registrar := (pr_registrar P) \<lparr>ra_cluster := s\<rparr>\<rparr>)"
| vm_moved: "pr_exit P = None \<Longrightarrow> ra_started (pr_registrar P) \<Longrightarrow> run_step r (ra_vm (pr_registrar P)) e s \<Longrightarrow>
     (e = Cancelled \<Longrightarrow> sr_ctxDone (pr_server P)) \<Longrightarrow>
     process_step setData marshal r P (VmRegistrarMoved e) (P \<lparr>pr_registrar := (pr_registrar P) \<lparr>ra_vm := s\<rparr>\<rparr>)"
| delivery_moved: "pr_exit P = None \<Longrightarrow> e \<noteq> ContextEnded \<Longrightarrow> publisher_step setData marshal (pr_publisher P) e q \<Longrightarrow>
     (is_ack e \<Longrightarrow> NatsConnection \<in> set (pr_open P)) \<Longrightarrow> (publishes e \<Longrightarrow> \<not> pr_pollerReturned P) \<Longrightarrow>
     process_step setData marshal r P (DeliveryMoved e) (P \<lparr>pr_publisher := q\<rparr>)"
| poller_returned: "pr_exit P = None \<Longrightarrow> sr_ctxDone (pr_server P) \<Longrightarrow> \<not> pr_pollerReturned P \<Longrightarrow>
     process_step setData marshal r P PollerReturned (P \<lparr>pr_pollerReturned := True\<rparr>)"
| closed: "pr_exit P = None \<Longrightarrow> sr_pc (pr_server P) = Run_returned res \<Longrightarrow> pr_open P = c # rest \<Longrightarrow>
     process_step setData marshal r P (Closed c) (P \<lparr>pr_open := rest\<rparr>)"
| exited: "pr_exit P = None \<Longrightarrow> sr_pc (pr_server P) = Run_returned res \<Longrightarrow> pr_open P = [] \<Longrightarrow>
     process_step setData marshal r P (Exited (mainRun res)) (P \<lparr>pr_exit := Some (mainRun res)\<rparr>)"

inductive_cases process_stepE: "process_step setData marshal r P e P'"

inductive process_run ::
  "(string \<Rightarrow> StatusPayload \<Rightarrow> string res) \<Rightarrow> (Event \<Rightarrow> string res) \<Rightarrow> Registrar \<Rightarrow>
   process \<Rightarrow> process_event list \<Rightarrow> process \<Rightarrow> bool"
  for setData marshal r P0 where
  process_begin: "process_run setData marshal r P0 [] P0"
| process_next: "process_run setData marshal r P0 es P \<Longrightarrow> process_step setData marshal r P e P' \<Longrightarrow>
    process_run setData marshal r P0 (es @ [e]) P'"

section \<open>The components in a run\<close>

fun server_part :: "process_event \<Rightarrow> server_event list" where
  "server_part Signalled = [ContextEnds]"
| "server_part (ServerMoved e) = [e]"
| "server_part _ = []"

fun refresh_part :: "process_event \<Rightarrow> refresh_event list" where
  "refresh_part (RefreshMoved e) = [e]"
| "refresh_part _ = []"

fun delivery_part :: "process_event \<Rightarrow> publisher_event list" where
  "delivery_part Signalled = [ContextEnded]"
| "delivery_part (DeliveryMoved e) = [e]"
| "delivery_part _ = []"

fun cluster_part :: "process_event \<Rightarrow> registrar_event list" where
  "cluster_part (ClusterRegistrarMoved e) = [e]"
| "cluster_part _ = []"

fun vm_part :: "process_event \<Rightarrow> registrar_event list" where
  "vm_part (VmRegistrarMoved e) = [e]"
| "vm_part _ = []"

fun closed_part :: "process_event \<Rightarrow> closable list" where
  "closed_part (Closed c) = [c]"
| "closed_part _ = []"

lemma process_server:
  "process_run setData marshal r (process_start wi cs) es P \<Longrightarrow>
   server_trace (server_start (wi_server wi)) (concat (map server_part es)) (pr_server P)"
proof (induction rule: process_run.induct)
  case (process_next es P e P')
  from process_next.hyps(2) process_next.IH show ?case
    by (cases rule: process_step.cases) (auto intro: trace_step)
qed (simp add: process_start_def trace_start)

lemma process_refresh:
  "process_run setData marshal r (process_start wi cs) es P \<Longrightarrow>
   refresh_run (wi_bootstrap wi) (concat (map refresh_part es)) (pr_refresh P)"
proof (induction rule: process_run.induct)
  case (process_next es P e P')
  from process_next.hyps(2) process_next.IH show ?case
    by (cases rule: process_step.cases) (auto intro: refresh_run.run_step)
qed (simp add: process_start_def refresh_run.run_start)

lemma process_delivery:
  "process_run setData marshal r (process_start wi cs) es P \<Longrightarrow>
   publisher_run setData marshal (snd (wi_publisher wi)) (concat (map delivery_part es)) (pr_publisher P)"
proof (induction rule: process_run.induct)
  case (process_next es P e P')
  from process_next.hyps(2) process_next.IH show ?case
    by (cases rule: process_step.cases) (auto intro: publisher_run.run_step)
qed (simp add: process_start_def publisher_run.run_start)

text \<open>The registration loops run only once the registrar was started, from their first state.\<close>

lemma process_registrars:
  "process_run setData marshal (wi_registrar wi) (process_start wi cs) es P \<Longrightarrow>
   registrar_run (wi_registrar wi) (concat (map cluster_part es)) (ra_cluster (pr_registrar P)) \<and>
   registrar_run (wi_registrar wi) (concat (map vm_part es)) (ra_vm (pr_registrar P)) \<and>
   (\<not> ra_started (pr_registrar P) \<longrightarrow> concat (map cluster_part es) = [] \<and> concat (map vm_part es) = [])"
proof (induction rule: process_run.induct)
  case process_begin
  then show ?case by (simp add: process_start_def registrar_run.start)
next
  case (process_next es P e P')
  have begun: "ra_started (Registrar_Start r a)" "ra_started a \<Longrightarrow> Registrar_Start r a = a"
    "\<not> ra_started a \<Longrightarrow> Registrar_Start r a = \<lparr>ra_started = True, ra_cluster = registrar_start r, ra_vm = registrar_start r\<rparr>" for r a
    by (simp_all add: Registrar_Start_def)
  from process_next.hyps(2) process_next.IH show ?case
  proof (cases rule: process_step.cases)
    case server_ready
    then show ?thesis using process_next.IH begun
      by (cases "ra_started (pr_registrar P)") (simp_all add: registrar_run.start del: concat_eq_Nil_conv)
  qed (auto intro: registrar_run.step)
qed

section \<open>Lemmas\<close>

text \<open>The answer of \<open>Run\<close> of the server.\<close>

fun server_result :: "process_event \<Rightarrow> bool" where
  "server_result (ServerMoved SawServeError) \<longleftrightarrow> True"
| "server_result (ServerMoved ShutdownDone) \<longleftrightarrow> True"
| "server_result (ServerMoved (ShutdownFailed e)) \<longleftrightarrow> True"
| "server_result _ \<longleftrightarrow> False"

definition process_inv :: "closable list \<Rightarrow> process_event list \<Rightarrow> process \<Rightarrow> bool" where
  "process_inv cs es P \<longleftrightarrow>
     (ra_started (pr_registrar P) \<longrightarrow> ServerMoved ProbeAnswered \<in> set es) \<and>
     concat (map closed_part es) @ pr_open P = closing_order cs \<and>
     (sr_pc (pr_server P) = Run_returned None \<longleftrightarrow> ServerMoved ShutdownDone \<in> set es) \<and>
     ((\<exists>res. sr_pc (pr_server P) = Run_returned res) \<longleftrightarrow> (\<exists>e \<in> set es. server_result e)) \<and>
     (case pr_exit P of
        None \<Rightarrow> True
      | Some code \<Rightarrow> pr_open P = [] \<and> (\<exists>res. sr_pc (pr_server P) = Run_returned res \<and> code = mainRun res))"

lemma main_run_deferred: "main_run host = (Inr wi, gs, cs) \<Longrightarrow> cs = [Listener, OsacConnection, NatsConnection]"
  by (auto simp: main_run_def Let_def split: sum.splits prod.splits)

lemma signalled_context:
  "process_run setData marshal r (process_start wi cs) es P \<Longrightarrow> sr_ctxDone (pr_server P) \<longleftrightarrow> Signalled \<in> set es"
proof (induction rule: process_run.induct)
  case (process_next es P e P')
  from process_next.hyps(2) process_next.IH show ?case
    by (cases rule: process_step.cases) (auto elim: server_step.cases)
qed (simp add: process_start_def server_start_def)

lemma probe_part: "ProbeAnswered \<in> set (server_part e) \<longleftrightarrow> e = ServerMoved ProbeAnswered"
  by (cases e) auto

lemma server_step_result:
  "server_step s e s' \<Longrightarrow> e \<noteq> ContextEnds \<Longrightarrow>
   (sr_pc s' = Run_returned None \<longleftrightarrow> sr_pc s = Run_returned None \<or> e = ShutdownDone) \<and>
   ((\<exists>res. sr_pc s' = Run_returned res) \<longleftrightarrow> (\<exists>res. sr_pc s = Run_returned res) \<or> server_result (ServerMoved e)) \<and>
   (\<forall>res. sr_pc s = Run_returned res \<longrightarrow> sr_pc s' = Run_returned res)"
  by (erule server_step.cases) auto

lemma process_step_inv:
  assumes "process_step setData marshal r P e P'" and "process_inv cs es P"
    and "server_inv (concat (map server_part es)) (pr_server P)"
  shows "process_inv cs (es @ [e]) P'"
  using assms(1)
proof (cases rule: process_step.cases)
  case (server_ready s)
  then have "sr_pc (pr_server P) = CallingOnReady" by (auto elim: server_step.cases)
  then have "ServerMoved ProbeAnswered \<in> set es" using assms(3) by (simp add: server_inv_def probe_part)
  then show ?thesis using server_ready assms(2) server_step_result [OF server_ready(4)] by (auto simp: process_inv_def)
next
  case (signalled s q)
  then have "sr_pc s = sr_pc (pr_server P)" by (auto elim: server_step.cases)
  then show ?thesis using signalled assms(2) by (simp add: process_inv_def)
next
  case (server_moved e s)
  then show ?thesis using assms(2) server_step_result [OF server_moved(5)] by (auto simp: process_inv_def)
qed (use assms(2) in \<open>auto simp: process_inv_def\<close>)

lemma process_run_inv:
  "process_run setData marshal r (process_start wi cs) es P \<Longrightarrow> process_inv cs es P"
proof (induction rule: process_run.induct)
  case process_begin
  then show ?case by (simp add: process_inv_def process_start_def server_start_def)
next
  case (process_next es P e P')
  show ?case
    by (rule process_step_inv [OF process_next.hyps(2) process_next.IH server_trace_inv [OF process_server [OF process_next.hyps(1)]]])
qed

text \<open>The state before an event of a run.\<close>

lemma process_run_before:
  "process_run setData marshal r P0 (pre @ e # post) P \<Longrightarrow>
   \<exists>P1 P2. process_run setData marshal r P0 pre P1 \<and> process_step setData marshal r P1 e P2"
proof (induction post arbitrary: P rule: rev_induct)
  case Nil
  then have "process_run setData marshal r P0 (pre @ [e]) P" by simp
  then show ?case by (cases rule: process_run.cases) auto
next
  case (snoc e' post)
  from snoc.prems obtain P' where "process_run setData marshal r P0 (pre @ e # post) P'"
    by (cases rule: process_run.cases) auto
  then show ?case by (rule snoc.IH)
qed

lemma registrations_after_ready:
  assumes "process_run setData marshal r (process_start wi cs) (pre @ e # post) P"
    and "cluster_part e \<noteq> [] \<or> vm_part e \<noteq> []"
  shows "ServerMoved ProbeAnswered \<in> set pre"
proof -
  from process_run_before [OF assms(1)] obtain P1 P2 where
    P1: "process_run setData marshal r (process_start wi cs) pre P1" "process_step setData marshal r P1 e P2" by blast
  from P1(2) assms(2) have "ra_started (pr_registrar P1)" by (cases rule: process_step.cases) auto
  then show ?thesis using process_run_inv [OF P1(1)] by (simp add: process_inv_def)
qed

lemma closed_after_result:
  assumes "process_run setData marshal r (process_start wi cs) (pre @ Closed c # post) P"
  shows "\<exists>e \<in> set pre. server_result e"
proof -
  from process_run_before [OF assms] obtain P1 P2 where
    P1: "process_run setData marshal r (process_start wi cs) pre P1" "process_step setData marshal r P1 (Closed c) P2" by blast
  from P1(2) have "\<exists>res. sr_pc (pr_server P1) = Run_returned res" by (cases rule: process_step.cases) auto
  then show ?thesis using process_run_inv [OF P1(1)] by (simp add: process_inv_def)
qed

lemma no_ack_after_close:
  assumes "process_run setData marshal r (process_start wi cs) (pre @ Closed NatsConnection # post) P" and "distinct cs"
  shows "DeliveryMoved (Acked k v raw) \<notin> set post"
proof
  assume "DeliveryMoved (Acked k v raw) \<in> set post"
  then obtain us vs where "post = us @ DeliveryMoved (Acked k v raw) # vs" by (meson split_list)
  with assms(1) have "process_run setData marshal r (process_start wi cs)
    ((pre @ Closed NatsConnection # us) @ DeliveryMoved (Acked k v raw) # vs) P" by simp
  from process_run_before [OF this] obtain P1 P2 where P1: "process_run setData marshal r (process_start wi cs) (pre @ Closed NatsConnection # us) P1"
    "process_step setData marshal r P1 (DeliveryMoved (Acked k v raw)) P2" by blast
  from P1(2) have "NatsConnection \<in> set (pr_open P1)" by (cases rule: process_step.cases) auto
  moreover have "distinct (concat (map closed_part (pre @ Closed NatsConnection # us)) @ pr_open P1)"
    using process_run_inv [OF P1(1)] assms(2) by (simp add: process_inv_def closing_order_def)
  ultimately show False by auto
qed

text \<open>A process whose context has ended can exit, whatever its goroutines do.\<close>

fun winding_down :: "process_event \<Rightarrow> bool" where
  "winding_down (ServerMoved e) \<longleftrightarrow> e \<in> {ProbeRefused, SawContext, WindowEnds, OnReadyDone, ShutdownDone}"
| "winding_down (Closed c) \<longleftrightarrow> True"
| "winding_down (Exited code) \<longleftrightarrow> True"
| "winding_down _ \<longleftrightarrow> False"

inductive winds_down ::
  "(string \<Rightarrow> StatusPayload \<Rightarrow> string res) \<Rightarrow> (Event \<Rightarrow> string res) \<Rightarrow> Registrar \<Rightarrow>
   process \<Rightarrow> process_event list \<Rightarrow> process \<Rightarrow> bool" for setData marshal r where
  wound: "winds_down setData marshal r P [] P"
| winds: "process_step setData marshal r P e P1 \<Longrightarrow> winding_down e \<Longrightarrow> winds_down setData marshal r P1 es P2 \<Longrightarrow>
    winds_down setData marshal r P (e # es) P2"

lemma winds_down_run:
  "winds_down setData marshal r P fs P' \<Longrightarrow> process_run setData marshal r P0 es P \<Longrightarrow>
   process_run setData marshal r P0 (es @ fs) P' \<and> list_all winding_down fs"
proof (induction arbitrary: es rule: winds_down.induct)
  case (winds P e P1 fs P2)
  from winds.IH [OF process_next [OF winds.prems winds.hyps(1)]] winds.hyps(2) show ?case by simp
qed simp

definition can_exit ::
  "(string \<Rightarrow> StatusPayload \<Rightarrow> string res) \<Rightarrow> (Event \<Rightarrow> string res) \<Rightarrow> Registrar \<Rightarrow> int \<Rightarrow> process \<Rightarrow> bool" where
  "can_exit setData marshal r code P \<longleftrightarrow> (\<exists>fs P'. winds_down setData marshal r P fs P' \<and> pr_exit P' = Some code)"

lemma can_exit_step:
  "process_step setData marshal r P e P1 \<Longrightarrow> winding_down e \<Longrightarrow> can_exit setData marshal r code P1 \<Longrightarrow>
   can_exit setData marshal r code P"
  unfolding can_exit_def by (blast intro: winds)

lemma can_exit_done:
  assumes "sr_pc (pr_server P) = Run_returned res" and "pr_exit P = None"
  shows "can_exit setData marshal r (mainRun res) P"
  using assms
proof (induction "pr_open P" arbitrary: P)
  case Nil
  have "can_exit setData marshal r (mainRun res) (P \<lparr>pr_exit := Some (mainRun res)\<rparr>)"
    unfolding can_exit_def by (rule exI [of _ "[]"], rule exI, rule conjI, rule wound) simp
  then show ?case by (rule can_exit_step [rotated 2]) (use Nil in \<open>auto intro: process_step.exited\<close>)
next
  case (Cons c rest)
  have "can_exit setData marshal r (mainRun res) (P \<lparr>pr_open := rest\<rparr>)"
    by (rule Cons.hyps(1)) (use Cons.prems in simp_all)
  then show ?case
    by (rule can_exit_step [where e = "Closed c", rotated 2]) (use Cons in \<open>auto intro: process_step.closed\<close>)
qed

lemma can_exit_server:
  assumes "server_step (pr_server P) e s" and "e \<in> {ProbeRefused, SawContext, WindowEnds, ShutdownDone}" and "pr_exit P = None"
    and "can_exit setData marshal r code (P \<lparr>pr_server := s\<rparr>)"
  shows "can_exit setData marshal r code P"
proof (rule can_exit_step [OF _ _ assms(4)])
  show "process_step setData marshal r P (ServerMoved e) (P \<lparr>pr_server := s\<rparr>)"
    by (rule process_step.server_moved [OF assms(3) _ assms(1)]) (use assms(2) in auto)
qed (use assms(2) in auto)

lemma can_exit_shutting:
  assumes "sr_pc (pr_server P) = ShuttingDown" and "pr_exit P = None"
  shows "can_exit setData marshal r 0 P"
proof (rule can_exit_server [OF server_step.shutdown_ok [OF assms(1)] _ assms(2)])
  show "can_exit setData marshal r 0 (P \<lparr>pr_server := (pr_server P) \<lparr>sr_pc := Run_returned None\<rparr>\<rparr>)"
    using can_exit_done [where res = None] assms(2) by (simp add: mainRun_def)
qed simp

lemma can_exit_awaiting:
  assumes "sr_pc (pr_server P) = AwaitingEnd" and "sr_ctxDone (pr_server P)" and "pr_exit P = None"
  shows "can_exit setData marshal r 0 P"
  by (rule can_exit_server [OF server_step.end_context]) (simp_all add: assms can_exit_shutting)

lemma can_exit_window:
  assumes "sr_pc (pr_server P) = WindowOver e" and "sr_ctxDone (pr_server P)" and "pr_exit P = None"
  shows "can_exit setData marshal r 0 P"
  by (rule can_exit_server [OF server_step.give_up]) (simp_all add: assms can_exit_awaiting)

lemma can_exit_select:
  assumes "sr_pc (pr_server P) = ProbeSelect" and "sr_ctxDone (pr_server P)" and "pr_exit P = None"
  shows "can_exit setData marshal r 0 P"
  by (rule can_exit_server [OF server_step.probe_context]) (simp_all add: assms can_exit_window [of _ ContextCanceled])

lemma can_exit_ready:
  assumes "sr_pc (pr_server P) = CallingOnReady" and "sr_ctxDone (pr_server P)" and "pr_exit P = None"
  shows "can_exit setData marshal r 0 P"
proof -
  let ?P = "P \<lparr>pr_server := (pr_server P) \<lparr>sr_pc := AwaitingEnd, sr_readyCalls := Suc (sr_readyCalls (pr_server P))\<rparr>,
    pr_registrar := Registrar_Start r (pr_registrar P)\<rparr>"
  have step: "process_step setData marshal r P (ServerMoved OnReadyDone) ?P"
    by (rule process_step.server_ready [OF assms(3) server_step.on_ready [OF assms(1)]])
  have "can_exit setData marshal r 0 ?P" by (rule can_exit_awaiting) (simp_all add: assms)
  then show ?thesis by (rule can_exit_step [OF step, rotated]) simp
qed

lemma can_exit_after_signal:
  assumes "sr_ctxDone (pr_server P)" and "pr_exit P = None"
  shows "can_exit setData marshal r (case sr_pc (pr_server P) of Run_returned res \<Rightarrow> mainRun res | _ \<Rightarrow> 0) P"
proof (cases "sr_pc (pr_server P)")
  case Probing
  have "can_exit setData marshal r 0 P"
    by (rule can_exit_server [OF server_step.probe_refused]) (simp_all add: assms Probing can_exit_select)
  then show ?thesis using Probing by simp
next
  case BetweenWindows
  have "can_exit setData marshal r 0 P"
    by (rule can_exit_server [OF server_step.pause_context]) (simp_all add: assms BetweenWindows can_exit_awaiting)
  then show ?thesis using BetweenWindows by simp
next
  case (Run_returned res)
  then show ?thesis using can_exit_done [OF Run_returned assms(2)] by simp
qed (simp_all add: can_exit_select can_exit_window can_exit_ready can_exit_awaiting can_exit_shutting assms)

text \<open>
  Dialled to the mock provider, the services and the poller are those of \<open>Mock_Provider\<close>, about which
  the contracts of the services, the poller and the pipeline speak, but for the version catalog, which nobody serves.
\<close>

lemma main_run_on_mock:
  assumes "main_run host = (Inr wi, gs, cs)" and "h_invoke host = (\<lambda>_. dial provider_registry)" and "grpc_connection (\<lambda>_. True) dial"
  shows "wi_vmService wi = mock_vm_service"
    "svc_client (wi_clusterService wi) = mock_clusters \<and> svc_secrets (wi_clusterService wi) = mock_secrets \<and>
      svc_templates (wi_clusterService wi) = mock_templates \<and>
      svc_versions (wi_clusterService wi) = ResourceClient.truncate (NewClusterVersionsClient (dial provider_registry))"
    "wi_poller wi = (let cfg = rg_cfg (wi_registrar wi) in
       poll_New mock_clusters mock_instances (prov_ClusterName (cfg_Provider cfg)) (prov_VMName (cfg_Provider cfg)) (cfg_Status cfg))"
    "snd (wi_publisher wi) = newPublisher []"
  using assms(1) unfolding main_run_def assms(2)
  by (auto simp: mock_clients [OF assms(3)] mock_vm_service_def cluster_New_def NewPublisher_def NewRegistrar_def Let_def
      split: sum.splits prod.splits)

text \<open>So every create of a cluster fails against it, whatever the request and the state.\<close>

lemma main_run_on_mock_create:
  assumes "main_run host = (Inr wi, gs, cs)" and "h_invoke host = (\<lambda>_. dial provider_registry)" and "grpc_connection (\<lambda>_. True) dial"
  shows "\<exists>e. Cluster_Create sv (wi_clusterService wi) i spec w = (Inl e, w)"
proof -
  have "\<exists>t. rc_List (svc_versions (wi_clusterService wi)) q w = (Inl (StatusError Unimplemented t), w)" for q w
    using versions_client_unregistered [OF assms(3), of q w] main_run_on_mock(2) [OF assms]
    by (simp add: ResourceClient.truncate_def)
  then obtain t where t: "rc_List (svc_versions (wi_clusterService wi)) q w = (Inl (StatusError Unimplemented (t q w)), w)" for q w
    by metis
  have templates: "svc_templates (wi_clusterService wi) = mock_templates" using main_run_on_mock(2) [OF assms] by blast
  show ?thesis
    by (auto simp: Cluster_Create_def resolveNodeSetKey_def Let_def templates mock_templates_def ClusterTemplates_Get_def
        resolveVersion_def t split: sum.split)
qed

section \<open>Properties\<close>

text \<open>
  C13. The life of the process, from a start that succeeded, in every interleaving of its parts:
  nothing is registered before the server has answered its own probe; the connections are closed only after
  \<open>Run\<close> of the server has returned, the one to NATS first, the listener last; no status is acknowledged after
  NATS was closed; the exit comes after everything is closed, its code is 0 or 1, and it is 0 exactly
  when the shutdown of the server succeeded, which happens only after a signal.
\<close>

theorem process_life:
  assumes "main_run host = (Inr wi, gs, cs)"
    and "process_run setData marshal (wi_registrar wi) (process_start wi cs) es P"
  shows "(\<forall>pre e post. es = pre @ e # post \<longrightarrow> cluster_part e \<noteq> [] \<or> vm_part e \<noteq> [] \<longrightarrow> ServerMoved ProbeAnswered \<in> set pre) \<and>
    (\<exists>rest. concat (map closed_part es) @ rest = [NatsConnection, OsacConnection, Listener]) \<and>
    (\<forall>pre c post. es = pre @ Closed c # post \<longrightarrow> (\<exists>e \<in> set pre. server_result e)) \<and>
    (\<forall>pre post k v raw. es = pre @ Closed NatsConnection # post \<longrightarrow> DeliveryMoved (Acked k v raw) \<notin> set post) \<and>
    (\<forall>code. pr_exit P = Some code \<longrightarrow>
       concat (map closed_part es) = [NatsConnection, OsacConnection, Listener] \<and> code \<in> {0, 1} \<and>
       (code = 0 \<longleftrightarrow> ServerMoved ShutdownDone \<in> set es) \<and> (code = 0 \<longrightarrow> Signalled \<in> set es))"
proof -
  have order: "closing_order cs = [NatsConnection, OsacConnection, Listener]" and "distinct cs"
    using main_run_deferred [OF assms(1)] by (simp_all add: closing_order_def)
  note inv = process_run_inv [OF assms(2), unfolded process_inv_def order]
  have "Signalled \<in> set es" if "sr_pc (pr_server P) = Run_returned None"
    using server_trace_inv [OF process_server [OF assms(2)]] that signalled_context [OF assms(2)] by (simp add: server_inv_def)
  then have "concat (map closed_part es) = [NatsConnection, OsacConnection, Listener] \<and> code \<in> {0, 1} \<and>
      (code = 0 \<longleftrightarrow> ServerMoved ShutdownDone \<in> set es) \<and> (code = 0 \<longrightarrow> Signalled \<in> set es)" if "pr_exit P = Some code" for code
    using inv that by (auto simp: mainRun_def split: option.splits)
  moreover have "\<exists>rest. concat (map closed_part es) @ rest = [NatsConnection, OsacConnection, Listener]" using inv by blast
  moreover have "ServerMoved ProbeAnswered \<in> set pre"
    if "es = pre @ e # post" "cluster_part e \<noteq> [] \<or> vm_part e \<noteq> []" for pre e post
    using registrations_after_ready [OF assms(2) [unfolded that(1)] that(2)] .
  moreover have "\<exists>e \<in> set pre. server_result e" if "es = pre @ Closed c # post" for pre c post
    using closed_after_result [OF assms(2) [unfolded that]] .
  moreover have "DeliveryMoved (Acked k v raw) \<notin> set post" if "es = pre @ Closed NatsConnection # post" for pre post k v raw
    using no_ack_after_close [OF assms(2) [unfolded that] \<open>distinct cs\<close>] .
  ultimately show ?thesis by blast
qed


section \<open>An example\<close>

text \<open>A start with the default settings, and a run that registers, is signalled and exits.\<close>

definition demo_host :: "(Osac, unit, unit, unit, unit, unit) Host" where
  "demo_host = \<lparr>h_environment = Inr default_settings, h_readFile = \<lambda>_. Inl (PlainError []), h_unmarshal = \<lambda>_. Inl (PlainError []),
     h_listen = \<lambda>_. Inr (), h_pem_certs = \<lambda>_. [], h_newClient = \<lambda>_ _. Inr (), h_agentClient = \<lambda>_. Inr (),
     h_natsConnect = \<lambda>_. Inr (), h_jetstream = \<lambda>_. Inr (), h_invoke = \<lambda>_. direct_dial provider_registry, h_startTime = 0\<rparr>"

definition demo_wiring :: "(Osac, unit, unit, unit) wiring" where
  "demo_wiring = (case main_run demo_host of (Inr wi, _) \<Rightarrow> wi)"

lemma demo_main_run:
  "main_run demo_host = (Inr demo_wiring, [TokenRefresh, DeliveryWorker, PollLoop], [Listener, OsacConnection, NatsConnection])"
  "sv_onReady (wi_server demo_wiring)"
  by (simp_all add: main_run_def demo_wiring_def demo_host_def Config_Load_def default_settings_def Matrix_Load_def
      Bootstrap_New_def dialOptions_def transportCredentials_def NewRegistrar_def NewPublisher_def WithOnReady_def Let_def)

lemma demo_server: "server_start (wi_server demo_wiring) = \<lparr>sr_pc = Probing, sr_ctxDone = False, sr_serveErr = None, sr_readyCalls = 0\<rparr>"
  by (simp add: server_start_def demo_main_run)

definition demo_process :: "server_pc \<Rightarrow> bool \<Rightarrow> nat \<Rightarrow> registrar_state \<Rightarrow> bool \<Rightarrow> closable list \<Rightarrow> process" where
  "demo_process pc ctx n st reg left =
     \<lparr>pr_server = \<lparr>sr_pc = pc, sr_ctxDone = ctx, sr_serveErr = None, sr_readyCalls = n\<rparr>,
      pr_refresh = refresh_start (wi_bootstrap demo_wiring),
      pr_registrar = \<lparr>ra_started = reg, ra_cluster = st, ra_vm = registrar_start (wi_registrar demo_wiring)\<rparr>,
      pr_publisher = (publisher_start (snd (wi_publisher demo_wiring))) \<lparr>sy_ctxDone := ctx\<rparr>,
      pr_pollerReturned = False, pr_open = left, pr_exit = None\<rparr>"

definition demo_registered :: registrar_state where
  "demo_registered = after_register (wi_registrar demo_wiring) (Inr 200) (registrar_start (wi_registrar demo_wiring))"

definition demo_life :: "process_event list" where
  "demo_life = [ServerMoved ProbeAnswered, ServerMoved OnReadyDone, ClusterRegistrarMoved (RegisterReturned (Inr 200)), Signalled]"

definition demo_exit :: "process_event list" where
  "demo_exit = [ServerMoved SawContext, ServerMoved ShutdownDone, Closed NatsConnection, Closed OsacConnection, Closed Listener, Exited 0]"

abbreviation "demo_begin \<equiv> process_start demo_wiring [Listener, OsacConnection, NatsConnection]"
abbreviation "demo_open \<equiv> [NatsConnection, OsacConnection, Listener]"

lemma run_to:
  "process_run setData marshal r P0 es P \<Longrightarrow> process_step setData marshal r P e Q \<Longrightarrow> Q = P' \<Longrightarrow> es @ [e] = es' \<Longrightarrow>
   process_run setData marshal r P0 es' P'"
  using process_next by blast

lemma demo_begin_eq:
  "demo_begin = demo_process Probing False 0 (registrar_start (wi_registrar demo_wiring)) False demo_open"
  by (simp add: process_start_def demo_process_def demo_server closing_order_def publisher_start_def)

lemma demo_life_run:
  "process_run demo_data demo_marshal (wi_registrar demo_wiring) demo_begin demo_life
     (demo_process AwaitingEnd True 1 demo_registered True demo_open)"
proof -
  let ?R = "process_run demo_data demo_marshal (wi_registrar demo_wiring) demo_begin"
  let ?r0 = "registrar_start (wi_registrar demo_wiring)"
  have r0: "?R [] (demo_process Probing False 0 ?r0 False demo_open)" unfolding demo_begin_eq by (rule process_begin)
  have r1: "?R (take 1 demo_life) (demo_process CallingOnReady False 0 ?r0 False demo_open)"
    by (rule run_to [OF r0 process_step.server_moved [OF _ _ server_step.probe_answered]])
      (simp_all add: demo_process_def demo_life_def)
  have r2: "?R (take 2 demo_life) (demo_process AwaitingEnd False 1 ?r0 True demo_open)"
    by (rule run_to [OF r1 process_step.server_ready [OF _ server_step.on_ready]])
      (simp_all add: demo_process_def demo_life_def Registrar_Start_def)
  have r3: "?R (take 3 demo_life) (demo_process AwaitingEnd False 1 demo_registered True demo_open)"
    by (rule run_to [OF r2 process_step.cluster_moved [OF _ _ run_step.registered]])
      (simp_all add: demo_process_def demo_life_def demo_registered_def registrar_start_def)
  show ?thesis
    by (rule run_to [OF r3 process_step.signalled [OF _ server_step.context_ends publisher_step.cancel]])
      (simp_all add: demo_process_def demo_life_def)
qed

lemma demo_exit_run:
  "process_run demo_data demo_marshal (wi_registrar demo_wiring) demo_begin (demo_life @ demo_exit)
     ((demo_process (Run_returned None) True 1 demo_registered True []) \<lparr>pr_exit := Some 0\<rparr>)"
proof -
  let ?R = "process_run demo_data demo_marshal (wi_registrar demo_wiring) demo_begin"
  let ?es = "\<lambda>n. demo_life @ take n demo_exit" and ?p = "\<lambda>pc. demo_process pc True 1 demo_registered True"
  note defs = demo_process_def demo_exit_def mainRun_def
  have r1: "?R (?es 1) (?p ShuttingDown demo_open)"
    by (rule run_to [OF demo_life_run process_step.server_moved [OF _ _ server_step.end_context]]) (simp_all add: defs)
  have r2: "?R (?es 2) (?p (Run_returned None) demo_open)"
    by (rule run_to [OF r1 process_step.server_moved [OF _ _ server_step.shutdown_ok]]) (simp_all add: defs)
  have r3: "?R (?es 3) (?p (Run_returned None) (tl demo_open))"
    by (rule run_to [OF r2 process_step.closed]) (simp_all add: defs)
  have r4: "?R (?es 4) (?p (Run_returned None) (tl (tl demo_open)))"
    by (rule run_to [OF r3 process_step.closed]) (simp_all add: defs)
  have r5: "?R (?es 5) (?p (Run_returned None) [])"
    by (rule run_to [OF r4 process_step.closed]) (simp_all add: defs)
  show ?thesis
    by (rule run_to [OF r5 process_step.exited [where res = None]]) (simp_all add: defs)
qed

theorem process_life_witness:
  "ClusterRegistrarMoved (RegisterReturned (Inr 200)) \<in> set (demo_life @ demo_exit) \<and>
   concat (map closed_part (demo_life @ demo_exit)) = [NatsConnection, OsacConnection, Listener] \<and>
   (0 = (0::int) \<longleftrightarrow> ServerMoved ShutdownDone \<in> set (demo_life @ demo_exit)) \<and> Signalled \<in> set (demo_life @ demo_exit)"
  using process_life [OF demo_main_run(1) demo_exit_run] by (simp add: demo_life_def)


end
