(* ===== verification/Vm_Steps.thy ===== *)
theory Vm_Steps
  imports Vm_Service
begin

text \<open>
  A create of a virtual machine as the sequence of the calls it makes: \<open>Create\<close> and
  \<open>resolveDefaultSubnet\<close> of \<open>internal/vm\<close> hold no lock, so other requests act on OSAC between any two
  calls. Undisturbed, the steps are \<open>VM_Create\<close>.
\<close>

section \<open>The steps\<close>

text \<open>
  Where a request is: about to make the named call, or asleep between two checks; a wait carries the
  identifier it polls and its deadline.
\<close>

datatype create_pc =
    ListingSubnets
  | CreatingVNet | CheckingVNet string int | PausedVNet string int
  | CreatingSubnet string | CheckingSubnet string int | PausedSubnet string int
  | CreatingVM string | ReadingVM
  | Answered "VirtualMachine res"

text \<open>One round of \<open>pollUntilReady\<close>, and its pause.\<close>

definition check_step ::
  "'w Clock \<Rightarrow> 'w VmService \<Rightarrow> ('w, bool) call \<Rightarrow> int \<Rightarrow> create_pc \<Rightarrow> create_pc \<Rightarrow> 'w \<Rightarrow> create_pc \<times> 'w" where
  "check_step clk s isReady deadline next_pc paused w =
     (case isReady w of
        (Inl err, w1) \<Rightarrow> (Answered (Inl err), w1)
      | (Inr ready, w1) \<Rightarrow>
          if ready then (next_pc, w1)
          else if \<not> clk_now clk w1 < deadline then
            (Answered (Inl (StatusError DeadlineExceeded [Lit ''timed out after '', Num (vms_networkPollTimeout s),
               Lit '' waiting for network resource to become ready''])), w1)
          else (paused, w1))"

definition pause_step :: "'w Clock \<Rightarrow> 'w VmService \<Rightarrow> create_pc \<Rightarrow> 'w \<Rightarrow> create_pc \<times> 'w" where
  "pause_step clk s checking w =
     (case clk_select clk (vms_networkPollInterval s) w of
        (Some ctxErr, w2) \<Rightarrow> (Answered (Inl (from_context_error ctxErr)), w2)
      | (None, w2) \<Rightarrow> (checking, w2))"

fun create_step ::
  "'w Clock \<Rightarrow> 'w VmService \<Rightarrow> string \<Rightarrow> pb_ComputeInstance \<Rightarrow> create_pc \<times> 'w \<Rightarrow> create_pc \<times> 'w" where
  "create_step clk s id' obj (ListingSubnets, w) =
     (case rc_List (vms_subnets s) \<lparr>lq_Offset = None, lq_Limit = None,
             lq_Filter = Ptr defaultNetworkFilter, lq_Order = None\<rparr> w of
        (Inl err, w1) \<Rightarrow> (Answered (Inl err), w1)
      | (Inr listResp, w1) \<Rightarrow>
          (case lr_Items listResp of
             item # _ \<Rightarrow> (CreatingVM (Subnet_GetId (Some item)), w1)
           | [] \<Rightarrow> (CreatingVNet, w1)))"
| "create_step clk s id' obj (CreatingVNet, w) =
     (case rc_Create (vms_virtualNetworks s) (Some defaultVirtualNetwork) w of
        (Inl err, w1) \<Rightarrow> (Answered (Inl err), w1)
      | (Inr resp, w1) \<Rightarrow>
          (CheckingVNet (VirtualNetwork_GetId (or_Object resp)) (clk_now clk w1 + vms_networkPollTimeout s), w1))"
| "create_step clk s id' obj (CheckingVNet vnetID deadline, w) =
     check_step clk s (vnetReady s vnetID) deadline (CreatingSubnet vnetID) (PausedVNet vnetID deadline) w"
| "create_step clk s id' obj (PausedVNet vnetID deadline, w) = pause_step clk s (CheckingVNet vnetID deadline) w"
| "create_step clk s id' obj (CreatingSubnet vnetID, w) =
     (case rc_Create (vms_subnets s) (Some (defaultSubnet vnetID)) w of
        (Inl err, w1) \<Rightarrow> (Answered (Inl err), w1)
      | (Inr resp, w1) \<Rightarrow>
          (CheckingSubnet (Subnet_GetId (or_Object resp)) (clk_now clk w1 + vms_networkPollTimeout s), w1))"
| "create_step clk s id' obj (CheckingSubnet subnetID deadline, w) =
     check_step clk s (subnetReady s subnetID) deadline (CreatingVM subnetID) (PausedSubnet subnetID deadline) w"
| "create_step clk s id' obj (PausedSubnet subnetID deadline, w) = pause_step clk s (CheckingSubnet subnetID deadline) w"
| "create_step clk s id' obj (CreatingVM subnetID, w) =
     (case rc_Create (vms_computeInstances s) (Some (attachSubnet subnetID obj)) w of
        (Inr resp, w1) \<Rightarrow> (Answered (Inr (toAPIVM (or_Object resp))), w1)
      | (Inl err, w1) \<Rightarrow> if grpc_code err = AlreadyExists then (ReadingVM, w1) else (Answered (Inl err), w1))"
| "create_step clk s id' obj (ReadingVM, w) =
     (case rc_Get (vms_computeInstances s) id' w of
        (Inl getErr, w1) \<Rightarrow> (Answered (Inl getErr), w1)
      | (Inr getResp, w1) \<Rightarrow> (Answered (Inr (toAPIVM (or_Object getResp))), w1))"
| "create_step clk s id' obj (Answered r, w) = (Answered r, w)"

section \<open>Undisturbed\<close>

definition leads_to :: "('c \<Rightarrow> 'c) \<Rightarrow> 'c \<Rightarrow> 'c \<Rightarrow> bool" where
  "leads_to f x y \<longleftrightarrow> (\<exists>n. (f ^^ n) x = y)"

lemma leads_refl: "leads_to f x x"
  unfolding leads_to_def by (rule exI [of _ 0]) simp

lemma leads_step: "leads_to f (f x) y \<Longrightarrow> leads_to f x y"
  unfolding leads_to_def by (metis funpow_Suc_right o_apply)

lemma leads_one: "f x = y \<Longrightarrow> leads_to f x y"
  by (rule leads_step) (simp add: leads_refl)

lemma leads_trans: "leads_to f x y \<Longrightarrow> leads_to f y z \<Longrightarrow> leads_to f x z"
  unfolding leads_to_def by (metis funpow_add o_apply add.commute)

text \<open>What a wait answers is what its rounds lead to.\<close>

definition after_wait :: "create_pc \<Rightarrow> unit res \<Rightarrow> create_pc" where
  "after_wait next_pc r = (case r of Inl err \<Rightarrow> Answered (Inl err) | Inr _ \<Rightarrow> next_pc)"

lemma pollLoop_leads:
  assumes "pollLoop clk (vms_networkPollInterval s) (vms_networkPollTimeout s) deadline isReady w = Some (r, w')"
    and check: "\<And>w. f (checking, w) = check_step clk s isReady deadline next_pc paused w"
    and pause: "\<And>w. f (paused, w) = pause_step clk s checking w"
  shows "leads_to f (checking, w) (after_wait next_pc r, w')"
proof -
  have "c = clk \<longrightarrow> i = vms_networkPollInterval s \<longrightarrow> t = vms_networkPollTimeout s \<longrightarrow> d = deadline \<longrightarrow> rdy = isReady \<longrightarrow>
      leads_to f (checking, w) (after_wait next_pc (fst x), snd x)"
    if "pollLoop c i t d rdy w = Some x" for c i t d rdy w x
  proof (rule pollLoop.raw_induct [where P = "\<lambda>c i t d rdy w x. c = clk \<longrightarrow> i = vms_networkPollInterval s \<longrightarrow>
        t = vms_networkPollTimeout s \<longrightarrow> d = deadline \<longrightarrow> rdy = isReady \<longrightarrow>
        leads_to f (checking, w) (after_wait next_pc (fst x), snd x)", OF _ that], goal_cases)
    case (1 loop c i t d rdy w x)
    show ?case
    proof (intro impI)
      assume eqs: "c = clk" "i = vms_networkPollInterval s" "t = vms_networkPollTimeout s" "d = deadline" "rdy = isReady"
      have ih: "leads_to f (checking, w2) (after_wait next_pc (fst x), snd x)" if "loop c i t d rdy w2 = Some x" for w2
        using 1(1) [OF that] eqs by blast
      obtain a w1 where a: "isReady w = (a, w1)" by force
      show "leads_to f (checking, w) (after_wait next_pc (fst x), snd x)"
      proof (cases "a = Inr False \<and> clk_now clk w1 < deadline")
        case False
        have "f (checking, w) = (after_wait next_pc (fst x), snd x)"
        proof (cases a)
          case (Inl err)
          with 1(2) [unfolded eqs a] have "x = (Inl err, w1)" by simp
          then show ?thesis by (simp add: check check_step_def after_wait_def a Inl)
        next
          case (Inr ready)
          with 1(2) [unfolded eqs a] False have "x = (if ready then Inr () else
              Inl (StatusError DeadlineExceeded [Lit ''timed out after '', Num (vms_networkPollTimeout s),
                Lit '' waiting for network resource to become ready'']), w1)" by (simp split: if_splits)
          with False Inr show ?thesis by (cases ready) (simp_all add: check check_step_def after_wait_def a)
        qed
        then show ?thesis by (rule leads_one)
      next
        case True
        obtain b w2 where b: "clk_select clk (vms_networkPollInterval s) w1 = (b, w2)" by force
        have "f (checking, w) = (paused, w1)" using True by (simp add: check check_step_def a)
        moreover have "leads_to f (paused, w1) (after_wait next_pc (fst x), snd x)"
        proof (cases b)
          case None
          then have "f (paused, w1) = (checking, w2)" by (simp add: pause pause_step_def b)
          moreover have "leads_to f (checking, w2) (after_wait next_pc (fst x), snd x)"
            by (rule ih) (use 1(2) True None in \<open>simp add: eqs a b\<close>)
          ultimately show ?thesis by (metis leads_step)
        next
          case (Some e)
          then have "f (paused, w1) = (after_wait next_pc (fst x), snd x)"
            using 1(2) True by (auto simp: pause pause_step_def after_wait_def eqs a b)
          then show ?thesis by (rule leads_one)
        qed
        ultimately show ?thesis by (metis leads_step)
      qed
    qed
  qed
  from this [OF assms(1)] show ?thesis by simp
qed

lemma provision_subnet_leads:
  assumes "provisionDefaultSubnet clk s vnetID w = Some (r, w')"
  shows "leads_to (create_step clk s id' obj) (CreatingSubnet vnetID, w)
    (case r of Inl err \<Rightarrow> Answered (Inl err) | Inr subnetID \<Rightarrow> CreatingVM subnetID, w')"
proof (rule leads_step, cases "rc_Create (vms_subnets s) (Some (defaultSubnet vnetID)) w")
  case (Pair a w1)
  show "leads_to (create_step clk s id' obj) (create_step clk s id' obj (CreatingSubnet vnetID, w))
    (case r of Inl err \<Rightarrow> Answered (Inl err) | Inr subnetID \<Rightarrow> CreatingVM subnetID, w')"
  proof (cases a)
    case (Inl err)
    then show ?thesis using assms Pair by (auto simp: provisionDefaultSubnet_def leads_refl)
  next
    case (Inr resp)
    let ?i = "Subnet_GetId (or_Object resp)"
    from assms Pair Inr obtain p w2 where p: "pollUntilReady clk s (subnetReady s ?i) w1 = Some (p, w2)"
      and r: "(case p of Inl err \<Rightarrow> Some (Inl err, w2) | Inr _ \<Rightarrow> Some (Inr ?i, w2)) = Some (r, w')"
      by (auto simp: provisionDefaultSubnet_def Let_def bind_eq_Some_conv)
    from pollLoop_leads [OF p [unfolded pollUntilReady_def], of "create_step clk s id' obj"
        "CheckingSubnet ?i (clk_now clk w1 + vms_networkPollTimeout s)" "CreatingVM ?i"
        "PausedSubnet ?i (clk_now clk w1 + vms_networkPollTimeout s)"]
    show ?thesis using Pair Inr r by (cases p) (auto simp: after_wait_def)
  qed
qed

lemma provision_vnet_leads:
  assumes "provisionDefaultVirtualNetwork clk s w = Some (r, w')"
  shows "leads_to (create_step clk s id' obj) (CreatingVNet, w)
    (case r of Inl err \<Rightarrow> Answered (Inl err) | Inr vnetID \<Rightarrow> CreatingSubnet vnetID, w')"
proof (rule leads_step, cases "rc_Create (vms_virtualNetworks s) (Some defaultVirtualNetwork) w")
  case (Pair a w1)
  show "leads_to (create_step clk s id' obj) (create_step clk s id' obj (CreatingVNet, w))
    (case r of Inl err \<Rightarrow> Answered (Inl err) | Inr vnetID \<Rightarrow> CreatingSubnet vnetID, w')"
  proof (cases a)
    case (Inl err)
    then show ?thesis using assms Pair by (auto simp: provisionDefaultVirtualNetwork_def leads_refl)
  next
    case (Inr resp)
    let ?i = "VirtualNetwork_GetId (or_Object resp)"
    from assms Pair Inr obtain p w2 where p: "pollUntilReady clk s (vnetReady s ?i) w1 = Some (p, w2)"
      and r: "(case p of Inl err \<Rightarrow> Some (Inl err, w2) | Inr _ \<Rightarrow> Some (Inr ?i, w2)) = Some (r, w')"
      by (auto simp: provisionDefaultVirtualNetwork_def Let_def bind_eq_Some_conv)
    from pollLoop_leads [OF p [unfolded pollUntilReady_def], of "create_step clk s id' obj"
        "CheckingVNet ?i (clk_now clk w1 + vms_networkPollTimeout s)" "CreatingSubnet ?i"
        "PausedVNet ?i (clk_now clk w1 + vms_networkPollTimeout s)"]
    show ?thesis using Pair Inr r by (cases p) (auto simp: after_wait_def)
  qed
qed

lemma resolve_leads:
  assumes "resolveDefaultSubnet clk s w = Some (r, w')"
  shows "leads_to (create_step clk s id' obj) (ListingSubnets, w)
    (case r of Inl err \<Rightarrow> Answered (Inl err) | Inr subnetID \<Rightarrow> CreatingVM subnetID, w')"
proof -
  let ?q = "\<lparr>lq_Offset = None, lq_Limit = None, lq_Filter = Ptr defaultNetworkFilter, lq_Order = None\<rparr>"
  obtain a w1 where a: "rc_List (vms_subnets s) ?q w = (a, w1)" by force
  show ?thesis
  proof (cases "\<exists>resp. a = Inr resp \<and> lr_Items resp = []")
    case False
    then have "create_step clk s id' obj (ListingSubnets, w) =
        (case r of Inl err \<Rightarrow> Answered (Inl err) | Inr subnetID \<Rightarrow> CreatingVM subnetID, w')"
      using assms a by (auto simp: resolveDefaultSubnet_def split: sum.splits list.splits)
    then show ?thesis by (rule leads_one)
  next
    case True
    then have first: "create_step clk s id' obj (ListingSubnets, w) = (CreatingVNet, w1)" using a by auto
    from True assms a obtain v w2 where v: "provisionDefaultVirtualNetwork clk s w1 = Some (v, w2)"
      and rest: "(case v of Inl err \<Rightarrow> Some (Inl err, w2) | Inr vnetID \<Rightarrow> provisionDefaultSubnet clk s vnetID w2) = Some (r, w')"
      by (auto simp: resolveDefaultSubnet_def bind_eq_Some_conv)
    note vnet = provision_vnet_leads [OF v, of id' obj]
    show ?thesis
    proof (rule leads_step, unfold first, cases v)
      case (Inl err)
      with vnet rest show "leads_to (create_step clk s id' obj) (CreatingVNet, w1)
          (case r of Inl err \<Rightarrow> Answered (Inl err) | Inr subnetID \<Rightarrow> CreatingVM subnetID, w')" by auto
    next
      case (Inr vnetID)
      with vnet rest provision_subnet_leads [of clk s vnetID w2 r w' id' obj]
      show "leads_to (create_step clk s id' obj) (CreatingVNet, w1)
          (case r of Inl err \<Rightarrow> Answered (Inl err) | Inr subnetID \<Rightarrow> CreatingVM subnetID, w')"
        by (auto intro: leads_trans)
    qed
  qed
qed

lemma create_leads:
  assumes "toOSACComputeInstance oor id' spec = Inr obj" and "VM_Create oor clk s id' spec w = Some (r, w')"
  shows "leads_to (create_step clk s id' obj) (ListingSubnets, w) (Answered r, w')"
proof -
  from assms obtain a w1 where a: "resolveDefaultSubnet clk s w = Some (a, w1)"
    and rest: "(case a of Inl err \<Rightarrow> Some (Inl err, w1)
      | Inr subnetID \<Rightarrow>
          (case rc_Create (vms_computeInstances s) (Some (attachSubnet subnetID obj)) w1 of
             (Inr resp, w2) \<Rightarrow> Some (Inr (toAPIVM (or_Object resp)), w2)
           | (Inl err, w2) \<Rightarrow>
               if grpc_code err = AlreadyExists then
                 (case rc_Get (vms_computeInstances s) id' w2 of
                    (Inl getErr, w3) \<Rightarrow> Some (Inl getErr, w3)
                  | (Inr getResp, w3) \<Rightarrow> Some (Inr (toAPIVM (or_Object getResp)), w3))
               else Some (Inl err, w2))) = Some (r, w')"
    by (auto simp: VM_Create_def bind_eq_Some_conv)
  note resolve = resolve_leads [OF a, of id' obj]
  show ?thesis
  proof (cases a)
    case (Inl err)
    with resolve rest show ?thesis by auto
  next
    case (Inr subnetID)
    have "leads_to (create_step clk s id' obj) (CreatingVM subnetID, w1) (Answered r, w')"
    proof (cases "rc_Create (vms_computeInstances s) (Some (attachSubnet subnetID obj)) w1")
      case (Pair b w2)
      then show ?thesis using rest Inr
        by (cases "\<exists>err. b = Inl err \<and> grpc_code err = AlreadyExists")
          (auto intro!: leads_step [of _ "(CreatingVM subnetID, w1)"] leads_step [of _ "(ReadingVM, w2)"] simp: leads_refl
            split: sum.splits prod.splits if_splits)
    qed
    with resolve Inr show ?thesis by (auto intro: leads_trans)
  qed
qed

end
