(* ===== verification/Vm_Concurrent.thy ===== *)
theory Vm_Concurrent
  imports Vm_Steps Provider_Contract
begin

text \<open>
  Concurrent creates of virtual machines over the in-memory OSAC: requests that take the steps of
  \<open>Vm_Steps\<close> in any interleaving, lose calls or their answers, and run beside deletes. Nothing
  serializes them, so several can find no default network and make one each; what holds
  nevertheless is stated here.
\<close>

section \<open>The system\<close>

record create_request =
  cq_id :: string
  cq_obj :: pb_ComputeInstance
  cq_pc :: create_pc

record vm_system =
  vx_osac :: Osac
  vx_requests :: "nat \<rightharpoonup> create_request"

definition vm_system_start :: "Osac \<Rightarrow> vm_system" where
  "vm_system_start w = \<lparr>vx_osac = w, vx_requests = Map.empty\<rparr>"

text \<open>
  Time passes for all, so the clock of a step is any that only moves the time of OSAC, and it may
  report that the context of the request is done.
\<close>

definition only_time :: "Osac Clock \<Rightarrow> bool" where
  "only_time clk \<longleftrightarrow> (\<forall>d w. \<exists>t. snd (clk_select clk d w) = w \<lparr>os_now := t\<rparr>)"

datatype vm_event =
    Begun nat string VMSpec
  | Moved nat create_pc create_pc
  | CallFailed nat go_error
  | AnswerLost nat go_error
  | VmDeleted string

inductive vm_step :: "(int option \<Rightarrow> int) \<Rightarrow> vm_system \<Rightarrow> vm_event \<Rightarrow> vm_system \<Rightarrow> bool" for oor where
  begun: "vx_requests S t = None \<Longrightarrow> toOSACComputeInstance oor id' spec = Inr obj \<Longrightarrow>
     vm_step oor S (Begun t id' spec)
       (S \<lparr>vx_requests := (vx_requests S)(t \<mapsto> \<lparr>cq_id = id', cq_obj = obj, cq_pc = ListingSubnets\<rparr>)\<rparr>)"
| moved: "vx_requests S t = Some q \<Longrightarrow> only_time clk \<Longrightarrow>
     create_step clk mock_vm_service (cq_id q) (cq_obj q) (cq_pc q, vx_osac S) = (pc, w) \<Longrightarrow>
     vm_step oor S (Moved t (cq_pc q) pc)
       \<lparr>vx_osac = w, vx_requests = (vx_requests S)(t \<mapsto> q \<lparr>cq_pc := pc\<rparr>)\<rparr>"
| call_failed: "vx_requests S t = Some q \<Longrightarrow> (\<forall>r. cq_pc q \<noteq> Answered r) \<Longrightarrow>
     vm_step oor S (CallFailed t err) (S \<lparr>vx_requests := (vx_requests S)(t \<mapsto> q \<lparr>cq_pc := Answered (Inl err)\<rparr>)\<rparr>)"
| answer_lost: "vx_requests S t = Some q \<Longrightarrow> (\<forall>r. cq_pc q \<noteq> Answered r) \<Longrightarrow> only_time clk \<Longrightarrow>
     create_step clk mock_vm_service (cq_id q) (cq_obj q) (cq_pc q, vx_osac S) = (pc, w) \<Longrightarrow>
     vm_step oor S (AnswerLost t err)
       \<lparr>vx_osac = w, vx_requests = (vx_requests S)(t \<mapsto> q \<lparr>cq_pc := Answered (Inl err)\<rparr>)\<rparr>"
| vm_deleted: "vm_step oor S (VmDeleted i) (S \<lparr>vx_osac := snd (ComputeInstances_Delete i (vx_osac S))\<rparr>)"

inductive_cases vm_stepE: "vm_step oor S e S'"

inductive vm_run :: "(int option \<Rightarrow> int) \<Rightarrow> vm_system \<Rightarrow> vm_event list \<Rightarrow> vm_system \<Rightarrow> bool" for oor S0 where
  vm_begin: "vm_run oor S0 [] S0"
| vm_next: "vm_run oor S0 es S \<Longrightarrow> vm_step oor S e S' \<Longrightarrow> vm_run oor S0 (es @ [e]) S'"

section \<open>What a step does to OSAC\<close>

text \<open>Where a machine is attached, and the network of a subnet.\<close>

definition attached_to :: "pb_ComputeInstance \<Rightarrow> string \<Rightarrow> bool" where
  "attached_to vm subnetID \<longleftrightarrow>
     (case ci_Spec vm of
        None \<Rightarrow> False
      | Some sp \<Rightarrow> cis_NetworkAttachments sp = [\<lparr>na_Subnet = Some (LocalReference_of_Id subnetID), na_SecurityGroups = []\<rparr>])"

definition subnet_of_network :: "pb_Subnet \<Rightarrow> string \<Rightarrow> bool" where
  "subnet_of_network sn vnetID \<longleftrightarrow>
     (case sn_Spec sn of None \<Rightarrow> False | Some sp \<Rightarrow> sns_VirtualNetwork sp = Some (LocalReference_of_Id vnetID))"

definition connected :: "Osac \<Rightarrow> bool" where
  "connected w \<longleftrightarrow>
     (\<forall>i vm. st_items (os_instances w) i = Some vm \<longrightarrow> (\<exists>s \<in> dom (st_items (os_subnets w)). attached_to vm s)) \<and>
     (\<forall>i sn. st_items (os_subnets w) i = Some sn \<longrightarrow> (\<exists>v \<in> dom (st_items (os_vnets w)). subnet_of_network sn v))"

text \<open>What a request has learned from OSAC still holds of it.\<close>

fun learned :: "Osac \<Rightarrow> string \<Rightarrow> create_pc \<Rightarrow> bool" where
  "learned w i (CheckingVNet v d) \<longleftrightarrow> v \<in> dom (st_items (os_vnets w))"
| "learned w i (PausedVNet v d) \<longleftrightarrow> v \<in> dom (st_items (os_vnets w))"
| "learned w i (CreatingSubnet v) \<longleftrightarrow> v \<in> dom (st_items (os_vnets w))"
| "learned w i (CheckingSubnet s d) \<longleftrightarrow> s \<in> dom (st_items (os_subnets w))"
| "learned w i (PausedSubnet s d) \<longleftrightarrow> s \<in> dom (st_items (os_subnets w))"
| "learned w i (CreatingVM s) \<longleftrightarrow> s \<in> dom (st_items (os_subnets w))"
| "learned w i pc \<longleftrightarrow> True"

lemma learned_mono:
  "learned w i pc \<Longrightarrow> dom (st_items (os_vnets w)) \<subseteq> dom (st_items (os_vnets w')) \<Longrightarrow>
   dom (st_items (os_subnets w)) \<subseteq> dom (st_items (os_subnets w')) \<Longrightarrow> learned w' i pc"
  by (cases pc) auto

definition request_ok :: "Osac \<Rightarrow> create_request \<Rightarrow> bool" where
  "request_ok w q \<longleftrightarrow> ci_Id (cq_obj q) = cq_id q \<and> ci_Spec (cq_obj q) \<noteq> None \<and> learned w (cq_id q) (cq_pc q)"

text \<open>The calls a step can make, with what each does to the networks.\<close>

lemma vnet_create_effect:
  assumes "osac_inv w" and "rc_Create mock_vnets (Some obj) w = (r, w')"
  obtains x where "r = Inr \<lparr>or_Object = Some x\<rparr>" "vn_Id x = os_uuid w (os_uuids w)"
    "st_items (os_vnets w) (vn_Id x) = None" "st_items (os_vnets w') = (st_items (os_vnets w))(vn_Id x \<mapsto> x)"
    "os_subnets w' = os_subnets w" "os_instances w' = os_instances w" "osac_inv w'"
proof -
  have new: "st_items (os_vnets w) (os_uuid w (os_uuids w)) = None"
    using fresh_uuid [OF osac_invD(3) [OF assms(1)]] assms(1) by (auto simp: osac_inv_def networks_ok_def)
  have "osac_inv w'" using VirtualNetworks_Create_inv [OF assms(1), of "Some obj"] assms(2) by (simp add: mock_client_defs)
  with assms(2) new that show thesis
    by (auto simp: mock_client_defs VirtualNetworks_Create_def Let_def store_insert_def)
qed

lemma subnet_create_effect:
  assumes "osac_inv w" and "rc_Create mock_subnets (Some obj) w = (r, w')"
  obtains x where "r = Inr \<lparr>or_Object = Some x\<rparr>" "sn_Id x = os_uuid w (os_uuids w)" "sn_Spec x = sn_Spec obj"
    "st_items (os_subnets w) (sn_Id x) = None" "st_items (os_subnets w') = (st_items (os_subnets w))(sn_Id x \<mapsto> x)"
    "os_vnets w' = os_vnets w" "os_instances w' = os_instances w" "osac_inv w'"
proof -
  have new: "st_items (os_subnets w) (os_uuid w (os_uuids w)) = None"
    using fresh_uuid [OF osac_invD(3) [OF assms(1)]] assms(1) by (auto simp: osac_inv_def networks_ok_def)
  have "osac_inv w'" using Subnets_Create_inv [OF assms(1), of "Some obj"] assms(2) by (simp add: mock_client_defs)
  with assms(2) new that show thesis
    by (auto simp: mock_client_defs Subnets_Create_def Let_def store_insert_def)
qed

lemma time_effect [simp]:
  "osac_inv (w \<lparr>os_now := t\<rparr>) = osac_inv w" "connected (w \<lparr>os_now := t\<rparr>) = connected w"
  by (simp_all add: osac_inv_def clusters_ok_def instances_ok_def networks_ok_def generated_def connected_def)

lemma instance_create_effect:
  assumes "osac_inv w" and "rc_Create mock_instances (Some obj) w = (r, w')"
  shows "osac_inv w' \<and> os_vnets w' = os_vnets w \<and> os_subnets w' = os_subnets w \<and>
    (st_items (os_instances w') = st_items (os_instances w) \<and> (\<exists>err. r = Inl err) \<or>
     (\<exists>x. r = Inr \<lparr>or_Object = Some x\<rparr> \<and> ci_Id x = ci_Id obj \<and> ci_Spec x = ci_Spec obj \<and>
       st_items (os_instances w) (ci_Id obj) = None \<and> st_items (os_instances w') = (st_items (os_instances w))(ci_Id obj \<mapsto> x)))"
proof -
  have "osac_inv w'" using ComputeInstances_Create_inv [OF assms(1), of "Some obj"] assms(2) by (simp add: mock_client_defs)
  with assms(2) show ?thesis
    by (auto simp: mock_client_defs ComputeInstances_Create_def Let_def store_create_def split: if_splits)
qed

lemma get_effects:
  "rc_Get mock_vnets i w = (r, w') \<Longrightarrow> w' = w"
  "rc_Get mock_subnets i w = (r1, w') \<Longrightarrow> w' = w"
  "rc_Get mock_instances i w = (Inr x, w') \<Longrightarrow> \<exists>ci. st_items (os_instances w) i = Some ci \<and> or_Object x = Some ci"
  "rc_Get mock_instances i w = (r2, w') \<Longrightarrow> w' = w"
  by (auto simp: mock_client_defs VirtualNetworks_Get_def Subnets_Get_def ComputeInstances_Get_def store_get_def split: option.splits)

lemma ready_effects:
  "vnetReady mock_vm_service v w = (r, w') \<Longrightarrow> w' = w" "subnetReady mock_vm_service v w = (r, w') \<Longrightarrow> w' = w"
  by (auto simp: vnetReady_def subnetReady_def split: prod.splits sum.splits dest: get_effects(1,2))

lemma list_effect:
  assumes "osac_inv w"
    and "rc_List mock_subnets \<lparr>lq_Offset = None, lq_Limit = None, lq_Filter = f, lq_Order = g\<rparr> w = (r, w')"
  shows "w' = w \<and> (\<exists>resp. r = Inr resp \<and> (lr_Items resp = [] \<longleftrightarrow> st_items (os_subnets w) = Map.empty) \<and>
    (\<forall>x \<in> set (lr_Items resp). sn_Id x \<in> dom (st_items (os_subnets w))))"
proof -
  have wf: "set (st_order (os_subnets w)) = dom (st_items (os_subnets w))"
    using assms(1) by (simp add: osac_inv_def networks_ok_def store_wf_def)
  have ids: "st_items (os_subnets w) i = Some c \<Longrightarrow> sn_Id c = i" for i c using assms(1) by (simp add: osac_inv_def networks_ok_def)
  have r: "fst (r, w') = Inr \<lparr>lr_Size = wrap32 (int (length (st_order (os_subnets w)))),
      lr_Total = wrap32 (int (length (st_order (os_subnets w)))),
      lr_Items = map (\<lambda>i. the (st_items (os_subnets w) i)) (st_order (os_subnets w))\<rparr>"
    unfolding assms(2) [symmetric] by (rule subnet_list_all)
  have "w' = w" using assms(2) by (simp add: mock_client_defs Subnets_List_def)
  moreover have "st_order (os_subnets w) = [] \<longleftrightarrow> st_items (os_subnets w) = Map.empty" by (metis dom_eq_empty_conv set_empty wf)
  moreover have "sn_Id (the (st_items (os_subnets w) i)) \<in> dom (st_items (os_subnets w))" if "i \<in> set (st_order (os_subnets w))" for i
    using that ids unfolding wf by auto
  ultimately show ?thesis using r by auto
qed

text \<open>The networks that a request may still make.\<close>

fun making :: "create_pc \<Rightarrow> bool" where
  "making CreatingVNet \<longleftrightarrow> True"
| "making (CheckingVNet v d) \<longleftrightarrow> True"
| "making (PausedVNet v d) \<longleftrightarrow> True"
| "making (CreatingSubnet v) \<longleftrightarrow> True"
| "making pc \<longleftrightarrow> False"

fun making_subnet :: "create_pc \<Rightarrow> bool" where
  "making_subnet (CreatingSubnet v) \<longleftrightarrow> True"
| "making_subnet pc \<longleftrightarrow> False"

definition adds_one :: "string set \<Rightarrow> string set \<Rightarrow> bool" where
  "adds_one A B \<longleftrightarrow> (\<exists>x. x \<notin> A \<and> B = insert x A)"

definition step_effect :: "string \<Rightarrow> Osac \<Rightarrow> create_pc \<Rightarrow> Osac \<Rightarrow> create_pc \<Rightarrow> bool" where
  "step_effect i w pc w' pc' \<longleftrightarrow>
     osac_inv w' \<and> connected w' \<and> learned w' i pc' \<and>
     st_items (os_instances w) \<subseteq>\<^sub>m st_items (os_instances w') \<and>
     (if pc = CreatingVNet then adds_one (dom (st_items (os_vnets w))) (dom (st_items (os_vnets w')))
      else os_vnets w' = os_vnets w) \<and>
     (if making_subnet pc then adds_one (dom (st_items (os_subnets w))) (dom (st_items (os_subnets w')))
      else os_subnets w' = os_subnets w) \<and>
     (pc' = CreatingVNet \<longrightarrow> pc = ListingSubnets \<and> st_items (os_subnets w) = Map.empty) \<and>
     (making pc' \<longrightarrow> (making pc \<or> pc' = CreatingVNet) \<and> \<not> making_subnet pc) \<and>
     (\<forall>vm. pc' = Answered (Inr vm) \<longrightarrow> pc = pc' \<or>
        (\<exists>ci. st_items (os_instances w') i = Some ci \<and> vm = toAPIVM (Some ci)))"

text \<open>A wait changes nothing but the time.\<close>

lemma check_effect:
  assumes "\<And>r w1. isReady w = (r, w1) \<Longrightarrow> w1 = w"
    and "check_step clk s isReady deadline next_pc paused w = (pc', w')"
  shows "w' = w \<and> (pc' = next_pc \<or> pc' = paused \<or> (\<exists>err. pc' = Answered (Inl err)))"
  using assms by (auto simp: check_step_def split: prod.splits sum.splits if_splits)

lemma pause_effect:
  assumes "only_time clk" and "pause_step clk s checking w = (pc', w')"
  shows "\<exists>t. w' = w \<lparr>os_now := t\<rparr> \<and> (pc' = checking \<or> (\<exists>err. pc' = Answered (Inl err)))"
proof -
  from assms(1) obtain t where "snd (clk_select clk (vms_networkPollInterval s) w) = w \<lparr>os_now := t\<rparr>"
    unfolding only_time_def by blast
  with assms(2) show ?thesis by (auto simp: pause_step_def split: prod.splits option.splits)
qed

lemma step_effect_time:
  assumes "osac_inv w" and "connected w" and "learned w i pc'" and "w' = w \<lparr>os_now := t\<rparr>"
    and "pc \<noteq> CreatingVNet" and "\<not> making_subnet pc" and "pc' \<noteq> CreatingVNet" and "making pc' \<longrightarrow> making pc"
    and "\<And>vm. pc' \<noteq> Answered (Inr vm)"
  shows "step_effect i w pc w' pc'"
proof -
  have "learned w' i pc'" using learned_mono [OF assms(3)] assms(4) by simp
  with assms show ?thesis by (simp add: step_effect_def)
qed

lemma adds_one_update: "m x = None \<Longrightarrow> adds_one (dom m) (dom (m(x \<mapsto> y)))"
  unfolding adds_one_def by (rule exI [of _ x]) auto

lemma connectedD:
  "connected w \<Longrightarrow> st_items (os_instances w) i = Some vm \<Longrightarrow> \<exists>s \<in> dom (st_items (os_subnets w)). attached_to vm s"
  "connected w \<Longrightarrow> st_items (os_subnets w) i = Some sn \<Longrightarrow> \<exists>v \<in> dom (st_items (os_vnets w)). subnet_of_network sn v"
  by (simp_all add: connected_def)

text \<open>More networks, subnets and well attached machines keep what is connected.\<close>

lemma connected_more:
  assumes "connected w" and "dom (st_items (os_vnets w)) \<subseteq> dom (st_items (os_vnets w'))"
    and "dom (st_items (os_subnets w)) \<subseteq> dom (st_items (os_subnets w'))"
    and "\<And>i vm. st_items (os_instances w') i = Some vm \<Longrightarrow> st_items (os_instances w) i = Some vm \<or>
      (\<exists>s \<in> dom (st_items (os_subnets w')). attached_to vm s)"
    and "\<And>i sn. st_items (os_subnets w') i = Some sn \<Longrightarrow> st_items (os_subnets w) i = Some sn \<or>
      (\<exists>v \<in> dom (st_items (os_vnets w')). subnet_of_network sn v)"
  shows "connected w'"
  unfolding connected_def
proof (intro conjI allI impI)
  show "\<exists>s \<in> dom (st_items (os_subnets w')). attached_to vm s" if "st_items (os_instances w') i = Some vm" for i vm
    using assms(4) [OF that] connectedD(1) [OF assms(1), of i vm] assms(3) by (meson subsetD)
  show "\<exists>v \<in> dom (st_items (os_vnets w')). subnet_of_network sn v" if "st_items (os_subnets w') i = Some sn" for i sn
    using assms(5) [OF that] connectedD(2) [OF assms(1), of i sn] assms(2) by (meson subsetD)
qed

lemma vnet_step_effect:
  assumes "osac_inv w" and "connected w" and "create_step clk mock_vm_service i obj (CreatingVNet, w) = (pc', w')"
  shows "step_effect i w CreatingVNet w' pc'"
proof -
  obtain r w1 where r: "rc_Create mock_vnets (Some defaultVirtualNetwork) w = (r, w1)" by force
  from vnet_create_effect [OF assms(1) r] obtain x where x: "r = Inr \<lparr>or_Object = Some x\<rparr>"
    "st_items (os_vnets w) (vn_Id x) = None" "st_items (os_vnets w1) = (st_items (os_vnets w))(vn_Id x \<mapsto> x)"
    "os_subnets w1 = os_subnets w" "os_instances w1 = os_instances w" "osac_inv w1" by metis
  have w': "w' = w1" and pc': "\<exists>d. pc' = CheckingVNet (vn_Id x) d" using assms(3) r x(1) by auto
  have "connected w'" by (rule connected_more [OF assms(2)]) (auto simp: w' x)
  then show ?thesis using pc' adds_one_update [where m = "st_items (os_vnets w)" and x = "vn_Id x" and y = x] by (auto simp: step_effect_def w' x simp del: fun_upd_apply)
qed

lemma subnet_step_effect:
  assumes "osac_inv w" and "connected w" and "v \<in> dom (st_items (os_vnets w))"
    and "create_step clk mock_vm_service i obj (CreatingSubnet v, w) = (pc', w')"
  shows "step_effect i w (CreatingSubnet v) w' pc'"
proof -
  obtain r w1 where r: "rc_Create mock_subnets (Some (defaultSubnet v)) w = (r, w1)" by force
  from subnet_create_effect [OF assms(1) r] obtain x where x: "r = Inr \<lparr>or_Object = Some x\<rparr>" "sn_Spec x = sn_Spec (defaultSubnet v)"
    "st_items (os_subnets w) (sn_Id x) = None" "st_items (os_subnets w1) = (st_items (os_subnets w))(sn_Id x \<mapsto> x)"
    "os_vnets w1 = os_vnets w" "os_instances w1 = os_instances w" "osac_inv w1" by metis
  have w': "w' = w1" and pc': "\<exists>d. pc' = CheckingSubnet (sn_Id x) d" using assms(4) r x(1) by auto
  have "subnet_of_network x v" by (simp add: subnet_of_network_def x(2) defaultSubnet_def)
  then have "connected w'" using assms(3) by (intro connected_more [OF assms(2)]) (auto simp: w' x split: if_splits)
  then show ?thesis using pc' adds_one_update [where m = "st_items (os_subnets w)" and x = "sn_Id x" and y = x] by (auto simp: step_effect_def w' x simp del: fun_upd_apply)
qed

lemma attachSubnet_attached: "ci_Spec obj \<noteq> None \<Longrightarrow> ci_Spec x = ci_Spec (attachSubnet s obj) \<Longrightarrow> attached_to x s"
  by (auto simp: attached_to_def attachSubnet_def)

lemma instance_step_effect:
  assumes "osac_inv w" and "connected w" and "s \<in> dom (st_items (os_subnets w))" and "ci_Id obj = i" and "ci_Spec obj \<noteq> None"
    and "create_step clk mock_vm_service i obj (CreatingVM s, w) = (pc', w')"
  shows "step_effect i w (CreatingVM s) w' pc'"
proof -
  obtain r w1 where r: "rc_Create mock_instances (Some (attachSubnet s obj)) w = (r, w1)" by force
  have w': "w' = w1" using assms(6) r by (auto split: sum.splits if_splits)
  have id: "ci_Id (attachSubnet s obj) = i" using assms(4) by (simp add: attachSubnet_def)
  note effect = instance_create_effect [OF assms(1) r, unfolded id]
  show ?thesis
  proof (cases r)
    case (Inl err)
    with effect have same: "os_vnets w1 = os_vnets w" "os_subnets w1 = os_subnets w" "osac_inv w1"
      "st_items (os_instances w1) = st_items (os_instances w)" by auto
    have "connected w1" by (rule connected_more [OF assms(2)]) (auto simp: same)
    then show ?thesis using assms(6) r Inl same by (auto simp: step_effect_def w' split: if_splits)
  next
    case (Inr resp)
    with effect obtain x where x: "resp = \<lparr>or_Object = Some x\<rparr>" "ci_Spec x = ci_Spec (attachSubnet s obj)"
      "st_items (os_instances w) i = None" "st_items (os_instances w1) = (st_items (os_instances w))(i \<mapsto> x)"
      "os_vnets w1 = os_vnets w" "os_subnets w1 = os_subnets w" "osac_inv w1" by auto
    have "connected w1"
      using attachSubnet_attached [OF assms(5) x(2)] assms(3)
      by (intro connected_more [OF assms(2)]) (auto simp: x split: if_splits)
    then show ?thesis using assms(6) r Inr x by (auto simp: step_effect_def w' map_le_def)
  qed
qed

lemma list_step_effect:
  assumes "osac_inv w" and "connected w" and "create_step clk mock_vm_service i obj (ListingSubnets, w) = (pc', w')"
  shows "step_effect i w ListingSubnets w' pc'"
proof -
  obtain r w1 where r: "rc_List mock_subnets \<lparr>lq_Offset = None, lq_Limit = None, lq_Filter = Ptr defaultNetworkFilter, lq_Order = None\<rparr> w = (r, w1)"
    by force
  from list_effect [OF assms(1) r] obtain resp where resp: "w1 = w" "r = Inr resp"
    "lr_Items resp = [] \<longleftrightarrow> st_items (os_subnets w) = Map.empty" "\<And>x. x \<in> set (lr_Items resp) \<Longrightarrow> sn_Id x \<in> dom (st_items (os_subnets w))"
    by blast
  show ?thesis
  proof (cases "lr_Items resp")
    case Nil
    then have "pc' = CreatingVNet" "w' = w" using assms(3) r resp(1,2) by auto
    then show ?thesis using assms(1,2) resp(3) Nil by (simp add: step_effect_def)
  next
    case (Cons x xs)
    then have "pc' = CreatingVM (sn_Id x)" "w' = w" using assms(3) r resp(1,2) by auto
    then show ?thesis using assms(1,2) resp(4) [of x] Cons by (auto simp: step_effect_def)
  qed
qed

lemma read_step_effect:
  assumes "osac_inv w" and "connected w" and "create_step clk mock_vm_service i obj (ReadingVM, w) = (pc', w')"
  shows "step_effect i w ReadingVM w' pc'"
proof -
  obtain r w1 where r: "rc_Get mock_instances i w = (r, w1)" by force
  have "w1 = w" using get_effects(4) [OF r] .
  then show ?thesis using assms r get_effects(3) [of i w _ w1] by (auto simp: step_effect_def split: sum.splits)
qed

lemma create_step_effect:
  assumes "osac_inv w" and "connected w" and "learned w i pc" and "ci_Id obj = i" and "ci_Spec obj \<noteq> None"
    and "only_time clk" and "create_step clk mock_vm_service i obj (pc, w) = (pc', w')"
  shows "step_effect i w pc w' pc'"
proof (cases pc)
  case (CheckingVNet v d)
  from check_effect [where isReady = "vnetReady mock_vm_service v", OF _ assms(7) [unfolded CheckingVNet create_step.simps]]
    ready_effects(1)
  have "w' = w" "pc' = CreatingSubnet v \<or> pc' = PausedVNet v d \<or> (\<exists>err. pc' = Answered (Inl err))" by blast+
  then show ?thesis using assms CheckingVNet by (intro step_effect_time [where t = "os_now w"]) auto
next
  case (CheckingSubnet v d)
  from check_effect [where isReady = "subnetReady mock_vm_service v", OF _ assms(7) [unfolded CheckingSubnet create_step.simps]]
    ready_effects(2)
  have "w' = w" "pc' = CreatingVM v \<or> pc' = PausedSubnet v d \<or> (\<exists>err. pc' = Answered (Inl err))" by blast+
  then show ?thesis using assms CheckingSubnet by (intro step_effect_time [where t = "os_now w"]) auto
next
  case (PausedVNet v d)
  from pause_effect [OF assms(6) assms(7) [unfolded PausedVNet create_step.simps]] obtain t where
    "w' = w \<lparr>os_now := t\<rparr>" "pc' = CheckingVNet v d \<or> (\<exists>err. pc' = Answered (Inl err))" by blast
  then show ?thesis using assms PausedVNet by (intro step_effect_time [where t = t]) auto
next
  case (PausedSubnet v d)
  from pause_effect [OF assms(6) assms(7) [unfolded PausedSubnet create_step.simps]] obtain t where
    "w' = w \<lparr>os_now := t\<rparr>" "pc' = CheckingSubnet v d \<or> (\<exists>err. pc' = Answered (Inl err))" by blast
  then show ?thesis using assms PausedSubnet by (intro step_effect_time [where t = t]) auto
next
  case (Answered r)
  then show ?thesis using assms by (auto simp: step_effect_def)
qed (use assms vnet_step_effect subnet_step_effect instance_step_effect list_step_effect read_step_effect in
    \<open>auto simp del: create_step.simps\<close>)

section \<open>What every run keeps\<close>

text \<open>The requests that are at a place.\<close>

definition requests_at :: "(create_pc \<Rightarrow> bool) \<Rightarrow> (nat \<rightharpoonup> create_request) \<Rightarrow> nat set" where
  "requests_at P m = {t. \<exists>q. m t = Some q \<and> P (cq_pc q)}"

lemma requests_at_new: "m t = None \<Longrightarrow> \<not> P (cq_pc q) \<Longrightarrow> requests_at P (m(t \<mapsto> q)) = requests_at P m"
  by (auto simp: requests_at_def)

lemma requests_at_finite: "finite (dom m) \<Longrightarrow> finite (requests_at P m)"
  by (rule finite_subset [of _ "dom m"]) (auto simp: requests_at_def)

lemma requests_at_moved:
  assumes "finite (dom m)" and "m t = Some q"
  shows "card (requests_at P (m(t \<mapsto> q'))) + of_bool (P (cq_pc q)) = card (requests_at P m) + of_bool (P (cq_pc q'))"
proof -
  obtain R where R: "R = requests_at P m - {t}" by blast
  then have "requests_at P m = (if P (cq_pc q) then insert t R else R)"
    and "requests_at P (m(t \<mapsto> q')) = (if P (cq_pc q') then insert t R else R)"
    using assms(2) by (auto simp: requests_at_def)
  moreover have "finite R" and "t \<notin> R" using requests_at_finite [OF assms(1), of P] by (simp_all add: R)
  ultimately show ?thesis by simp
qed

lemma adds_one_card: "finite A \<Longrightarrow> adds_one A B \<Longrightarrow> card B = Suc (card A)"
  by (auto simp: adds_one_def)

lemma osac_inv_finite:
  "osac_inv w \<Longrightarrow> finite (dom (st_items (os_vnets w)))" "osac_inv w \<Longrightarrow> finite (dom (st_items (os_subnets w)))"
  by (metis osac_inv_def networks_ok_def store_wf_def finite_set)+

text \<open>The requests that found no subnet, and the networks that are or may yet be made.\<close>

fun missed :: "vm_event \<Rightarrow> bool" where
  "missed (Moved t pc pc') \<longleftrightarrow> pc' = CreatingVNet"
| "missed e \<longleftrightarrow> False"

definition vnets_due :: "vm_system \<Rightarrow> nat" where
  "vnets_due S = card (dom (st_items (os_vnets (vx_osac S)))) + card (requests_at (\<lambda>pc. pc = CreatingVNet) (vx_requests S))"

definition subnets_due :: "vm_system \<Rightarrow> nat" where
  "subnets_due S = card (dom (st_items (os_subnets (vx_osac S)))) + card (requests_at making (vx_requests S))"

definition vm_inv :: "vm_system \<Rightarrow> bool" where
  "vm_inv S \<longleftrightarrow> osac_inv (vx_osac S) \<and> connected (vx_osac S) \<and> finite (dom (vx_requests S)) \<and>
     (\<forall>t q. vx_requests S t = Some q \<longrightarrow> request_ok (vx_osac S) q)"

lemma step_effect_doms:
  assumes "step_effect i w pc w' pc'"
  shows "dom (st_items (os_vnets w)) \<subseteq> dom (st_items (os_vnets w'))" "dom (st_items (os_subnets w)) \<subseteq> dom (st_items (os_subnets w'))"
  using assms by (auto simp: step_effect_def adds_one_def split: if_splits)

lemma request_ok_mono:
  "request_ok w q \<Longrightarrow> dom (st_items (os_vnets w)) \<subseteq> dom (st_items (os_vnets w')) \<Longrightarrow>
   dom (st_items (os_subnets w)) \<subseteq> dom (st_items (os_subnets w')) \<Longrightarrow> request_ok w' q"
  unfolding request_ok_def by (blast intro: learned_mono)

text \<open>A request that takes a step, or answers an error after it.\<close>

lemma request_step_inv:
  assumes "vm_inv S" and "vx_requests S t = Some q"
    and "step_effect (cq_id q) (vx_osac S) (cq_pc q) w' pc'" and "pc = pc' \<or> (\<exists>err. pc = Answered (Inl err))"
  shows "vm_inv \<lparr>vx_osac = w', vx_requests = (vx_requests S)(t \<mapsto> q \<lparr>cq_pc := pc\<rparr>)\<rparr>"
proof -
  have "learned w' (cq_id q) pc" using assms(3,4) by (auto simp: step_effect_def)
  moreover have "request_ok w' q'" if "vx_requests S t' = Some q'" for t' q'
    by (rule request_ok_mono [OF _ step_effect_doms [OF assms(3)]]) (use assms(1) that in \<open>simp add: vm_inv_def\<close>)
  ultimately show ?thesis using assms(1-3) by (auto simp: vm_inv_def step_effect_def request_ok_def)
qed

lemma request_step_due:
  assumes "vm_inv S" and "vx_requests S t = Some q"
    and "step_effect (cq_id q) (vx_osac S) (cq_pc q) w' pc'" and "pc = pc' \<or> (\<exists>err. pc = Answered (Inl err))"
  defines "S' \<equiv> \<lparr>vx_osac = w', vx_requests = (vx_requests S)(t \<mapsto> q \<lparr>cq_pc := pc\<rparr>)\<rparr>"
  shows "vnets_due S' \<le> vnets_due S + of_bool (pc = CreatingVNet)" "subnets_due S' \<le> subnets_due S + of_bool (pc = CreatingVNet)"
proof -
  from assms(1) have inv: "osac_inv (vx_osac S)" and fin: "finite (dom (vx_requests S))" by (simp_all add: vm_inv_def)
  note move = requests_at_moved [OF fin assms(2), where q' = "q \<lparr>cq_pc := pc\<rparr>"]
  have vnets: "card (dom (st_items (os_vnets w'))) = card (dom (st_items (os_vnets (vx_osac S)))) + of_bool (cq_pc q = CreatingVNet)"
    using assms(3) adds_one_card [OF osac_inv_finite(1) [OF inv]] by (simp add: step_effect_def split: if_splits)
  show "vnets_due S' \<le> vnets_due S + of_bool (pc = CreatingVNet)"
    using move [of "\<lambda>pc. pc = CreatingVNet"] vnets by (simp add: vnets_due_def S'_def)
  have subnets: "card (dom (st_items (os_subnets w'))) = card (dom (st_items (os_subnets (vx_osac S)))) + of_bool (making_subnet (cq_pc q))"
    using assms(3) adds_one_card [OF osac_inv_finite(2) [OF inv]] by (simp add: step_effect_def split: if_splits)
  have "making pc \<Longrightarrow> (making (cq_pc q) \<or> pc = CreatingVNet) \<and> \<not> making_subnet (cq_pc q)"
    using assms(3,4) by (auto simp: step_effect_def)
  moreover have "making_subnet (cq_pc q) \<Longrightarrow> making (cq_pc q)" by (cases "cq_pc q") auto
  ultimately show "subnets_due S' \<le> subnets_due S + of_bool (pc = CreatingVNet)"
    using move [of making] subnets
    by (cases "making pc"; cases "making (cq_pc q)"; cases "making_subnet (cq_pc q)") (simp_all add: subnets_due_def S'_def)
qed

lemma delete_effect:
  assumes "osac_inv w" and w'_def: "w' = snd (ComputeInstances_Delete i w)"
  shows "osac_inv w'" "os_vnets w' = os_vnets w" "os_subnets w' = os_subnets w"
    "st_items (os_instances w') = (st_items (os_instances w))(i := None)"
proof -
  show "osac_inv w'" unfolding w'_def by (rule ComputeInstances_Delete_inv [OF assms(1)])
  show "os_vnets w' = os_vnets w" "os_subnets w' = os_subnets w" "st_items (os_instances w') = (st_items (os_instances w))(i := None)"
    by (auto simp: w'_def ComputeInstances_Delete_def store_delete_def split: option.splits)
qed

text \<open>The object of a request is the one that \<open>Create\<close> prepares.\<close>

lemma prepared:
  "toOSACComputeInstance oor id' spec = Inr obj \<Longrightarrow> ci_Id obj = id' \<and> ci_Spec obj \<noteq> None"
  by (auto simp: toOSACComputeInstance_def Let_def split: sum.splits)

lemma moved_effect:
  assumes "vm_inv S" and "vx_requests S t = Some q" and "only_time clk"
    and "create_step clk mock_vm_service (cq_id q) (cq_obj q) (cq_pc q, vx_osac S) = (pc, w)"
  shows "step_effect (cq_id q) (vx_osac S) (cq_pc q) w pc"
  by (rule create_step_effect [OF _ _ _ _ _ assms(3,4)]) (use assms(1,2) in \<open>auto simp: vm_inv_def request_ok_def\<close>)

lemma vm_step_inv:
  assumes "vm_step oor S e S'" and "vm_inv S"
  shows "vm_inv S' \<and> vnets_due S' \<le> vnets_due S + of_bool (missed e) \<and> subnets_due S' \<le> subnets_due S + of_bool (missed e)"
  using assms(1)
proof (cases rule: vm_step.cases)
  case (begun t id' spec obj)
  have "request_ok (vx_osac S) \<lparr>cq_id = id', cq_obj = obj, cq_pc = ListingSubnets\<rparr>"
    using prepared [OF begun(4)] by (simp add: request_ok_def)
  with assms(2) begun show ?thesis by (simp add: vm_inv_def vnets_due_def subnets_due_def requests_at_new)
next
  case (moved t q clk pc w)
  note effect = moved_effect [OF assms(2) moved(3-5)]
  show ?thesis
    using request_step_inv [OF assms(2) moved(3) effect, of pc] request_step_due [OF assms(2) moved(3) effect, of pc] moved(1,2)
    by simp
next
  case (call_failed t q err)
  from assms(2) have fin: "finite (dom (vx_requests S))" by (simp add: vm_inv_def)
  note move = requests_at_moved [OF fin call_failed(3), where q' = "q \<lparr>cq_pc := Answered (Inl err)\<rparr>"]
  from assms(2) call_failed(3) have "request_ok (vx_osac S) (q \<lparr>cq_pc := Answered (Inl err)\<rparr>)"
    by (auto simp: vm_inv_def request_ok_def)
  with assms(2) move [of "\<lambda>pc. pc = CreatingVNet"] move [of making] call_failed(1,2) show ?thesis
    by (simp add: vm_inv_def vnets_due_def subnets_due_def)
next
  case (answer_lost t q clk pc w err)
  note effect = moved_effect [OF assms(2) answer_lost(3,5,6)]
  show ?thesis
    using request_step_inv [OF assms(2) answer_lost(3) effect, of "Answered (Inl err)"]
      request_step_due [OF assms(2) answer_lost(3) effect, of "Answered (Inl err)"] answer_lost(1,2)
    by simp
next
  case (vm_deleted i)
  from assms(2) have inv: "osac_inv (vx_osac S)" and con: "connected (vx_osac S)" by (simp_all add: vm_inv_def)
  have "vx_osac S' = snd (ComputeInstances_Delete i (vx_osac S))" by (simp add: vm_deleted(2))
  note delete = delete_effect [OF inv this]
  have "connected (vx_osac S')"
    by (rule connected_more [OF con]) (auto simp: delete split: if_splits)
  moreover have "request_ok (vx_osac S') q" if "vx_requests S t = Some q" for t q
    by (rule request_ok_mono [of "vx_osac S"]) (use assms(2) that in \<open>auto simp: vm_inv_def delete\<close>)
  ultimately show ?thesis using assms(2) delete vm_deleted by (simp add: vm_inv_def vnets_due_def subnets_due_def)
qed

lemma vm_run_inv:
  assumes "vm_run oor (vm_system_start w0) es S" and "osac_inv w0" and "connected w0"
  shows "vm_inv S \<and> vnets_due S \<le> card (dom (st_items (os_vnets w0))) + length (filter missed es) \<and>
    subnets_due S \<le> card (dom (st_items (os_subnets w0))) + length (filter missed es)"
  using assms(1)
proof induction
  case vm_begin
  with assms(2,3) show ?case by (simp add: vm_inv_def vm_system_start_def vnets_due_def subnets_due_def requests_at_def)
next
  case (vm_next es S e S')
  with vm_step_inv [OF vm_next(2)] show ?case by auto
qed

text \<open>Where a subnet exists from the start, none is made.\<close>

definition settled :: "Osac \<Rightarrow> vm_system \<Rightarrow> bool" where
  "settled w0 S \<longleftrightarrow> os_vnets (vx_osac S) = os_vnets w0 \<and> os_subnets (vx_osac S) = os_subnets w0 \<and>
     requests_at making (vx_requests S) = {}"

lemma requests_at_none:
  "requests_at P m = {} \<Longrightarrow> m t = Some q \<Longrightarrow> \<not> P (cq_pc q)"
  "requests_at P m = {} \<Longrightarrow> \<not> P (cq_pc q') \<Longrightarrow> requests_at P (m(t \<mapsto> q')) = {}"
  by (auto simp: requests_at_def split: if_splits)

lemma settled_effect:
  assumes "settled w0 S" and "st_items (os_subnets w0) \<noteq> Map.empty" and "vx_requests S t = Some q"
    and "step_effect (cq_id q) (vx_osac S) (cq_pc q) w' pc'" and "pc = pc' \<or> (\<exists>err. pc = Answered (Inl err))"
  shows "settled w0 \<lparr>vx_osac = w', vx_requests = (vx_requests S)(t \<mapsto> q \<lparr>cq_pc := pc\<rparr>)\<rparr>"
proof -
  have off: "\<not> making (cq_pc q)" using assms(1,3) requests_at_none(1) unfolding settled_def by blast
  then have "cq_pc q \<noteq> CreatingVNet" "\<not> making_subnet (cq_pc q)" by (cases "cq_pc q"; simp)+
  moreover have "\<not> making pc" using assms(1,2,4,5) off by (auto simp: step_effect_def settled_def)
  ultimately show ?thesis using assms(1,4) by (simp add: settled_def step_effect_def requests_at_none(2))
qed

lemma settled_step:
  assumes "vm_step oor S e S'" and "vm_inv S" and "settled w0 S" and "st_items (os_subnets w0) \<noteq> Map.empty"
  shows "settled w0 S'"
  using assms(1)
proof (cases rule: vm_step.cases)
  case (moved t q clk pc w)
  from settled_effect [OF assms(3,4) moved(3) moved_effect [OF assms(2) moved(3-5)], of pc] moved(2) show ?thesis by simp
next
  case (answer_lost t q clk pc w err)
  from settled_effect [OF assms(3,4) answer_lost(3) moved_effect [OF assms(2) answer_lost(3,5,6)], of "Answered (Inl err)"]
    answer_lost(2) show ?thesis by simp
next
  case (vm_deleted i)
  from assms(2) have "osac_inv (vx_osac S)" by (simp add: vm_inv_def)
  note delete = delete_effect [OF this refl, of i]
  from vm_deleted(2) assms(3) show ?thesis by (simp add: settled_def delete)
qed (use assms(3) in \<open>simp_all add: settled_def requests_at_none(2)\<close>)

text \<open>What was answered is stored, unless it was deleted.\<close>

definition answers_stored :: "string set \<Rightarrow> vm_system \<Rightarrow> bool" where
  "answers_stored deleted S \<longleftrightarrow>
     (\<forall>t q vm. vx_requests S t = Some q \<and> cq_pc q = Answered (Inr vm) \<and> cq_id q \<notin> deleted \<longrightarrow>
        (\<exists>ci. st_items (os_instances (vx_osac S)) (cq_id q) = Some ci \<and> vm = toAPIVM (Some ci)))"

lemma answers_storedD:
  "answers_stored D S \<Longrightarrow> vx_requests S t = Some q \<Longrightarrow> cq_pc q = Answered (Inr vm) \<Longrightarrow> cq_id q \<notin> D \<Longrightarrow>
   \<exists>ci. st_items (os_instances (vx_osac S)) (cq_id q) = Some ci \<and> vm = toAPIVM (Some ci)"
  unfolding answers_stored_def by blast

lemma answers_effect:
  assumes "answers_stored D S" and "vx_requests S t = Some q"
    and "step_effect (cq_id q) (vx_osac S) (cq_pc q) w' pc'" and "pc = pc' \<or> (\<exists>err. pc = Answered (Inl err))"
  shows "answers_stored D \<lparr>vx_osac = w', vx_requests = (vx_requests S)(t \<mapsto> q \<lparr>cq_pc := pc\<rparr>)\<rparr>"
  unfolding answers_stored_def vm_system.simps
proof (intro allI impI, elim conjE)
  fix t' q' vm
  assume q': "((vx_requests S)(t \<mapsto> q \<lparr>cq_pc := pc\<rparr>)) t' = Some q'" and vm: "cq_pc q' = Answered (Inr vm)" and "cq_id q' \<notin> D"
  have kept: "st_items (os_instances (vx_osac S)) i = Some ci \<Longrightarrow> st_items (os_instances w') i = Some ci" for i ci
  proof -
    from assms(3) have "st_items (os_instances (vx_osac S)) \<subseteq>\<^sub>m st_items (os_instances w')" by (simp add: step_effect_def)
    then show "st_items (os_instances (vx_osac S)) i = Some ci \<Longrightarrow> st_items (os_instances w') i = Some ci"
      by (metis domI map_le_def)
  qed
  have new: "pc = Answered (Inr vm) \<Longrightarrow> cq_pc q = pc \<or>
      (\<exists>ci. st_items (os_instances w') (cq_id q) = Some ci \<and> vm = toAPIVM (Some ci))"
    using assms(3,4) unfolding step_effect_def by (elim conjE) blast
  show "\<exists>ci. st_items (os_instances w') (cq_id q') = Some ci \<and> vm = toAPIVM (Some ci)"
  proof (cases "t' = t \<and> cq_pc q \<noteq> pc")
    case True
    with q' have "q' = q \<lparr>cq_pc := pc\<rparr>" by simp
    with True vm new show ?thesis by simp
  next
    case False
    with q' assms(2) have "vx_requests S t' = Some q'" by (auto split: if_splits)
    from answers_storedD [OF assms(1) this vm \<open>cq_id q' \<notin> D\<close>] show ?thesis using kept by blast
  qed
qed

fun deleted_ids :: "vm_event list \<Rightarrow> string set" where
  "deleted_ids es = {i. VmDeleted i \<in> set es}"

lemma answers_step:
  assumes "vm_step oor S e S'" and "vm_inv S" and "answers_stored (deleted_ids es) S"
  shows "answers_stored (deleted_ids (es @ [e])) S'"
  using assms(1)
proof (cases rule: vm_step.cases)
  case (moved t q clk pc w)
  from answers_effect [OF assms(3) moved(3) moved_effect [OF assms(2) moved(3-5)], of pc] moved(1,2) show ?thesis by simp
next
  case (answer_lost t q clk pc w err)
  from answers_effect [OF assms(3) answer_lost(3) moved_effect [OF assms(2) answer_lost(3,5,6)], of "Answered (Inl err)"]
    answer_lost(1,2) show ?thesis by simp
next
  case (vm_deleted i)
  from assms(2) have "osac_inv (vx_osac S)" by (simp add: vm_inv_def)
  note delete = delete_effect [OF this refl, of i]
  from vm_deleted assms(3) show ?thesis by (auto simp: answers_stored_def delete)
qed (use assms(3) in \<open>auto simp: answers_stored_def\<close>)

lemma vm_run_settled_answers:
  assumes "vm_run oor (vm_system_start w0) es S" and "osac_inv w0" and "connected w0"
  shows "answers_stored (deleted_ids es) S \<and> (st_items (os_subnets w0) \<noteq> Map.empty \<longrightarrow> settled w0 S)"
  using assms(1)
proof induction
  case vm_begin
  show ?case by (simp add: vm_system_start_def answers_stored_def settled_def requests_at_def)
next
  case (vm_next es S e S')
  from vm_run_inv [OF vm_next(1) assms(2,3)] have "vm_inv S" by simp
  with vm_next answers_step settled_step show ?case by metis
qed

lemma answered_stays: "(create_step clk s i obj ^^ n) (Answered r, w) = (Answered r, w)"
  by (induction n) simp_all

lemma answer_unique:
  assumes "(create_step clk s i obj ^^ m) c = (Answered r, w)" and "(create_step clk s i obj ^^ n) c = (Answered a, v)"
  shows "a = r \<and> v = w"
proof (cases "m \<le> n")
  case True
  then have "(create_step clk s i obj ^^ n) c = (create_step clk s i obj ^^ (n - m)) ((create_step clk s i obj ^^ m) c)"
    by (metis funpow_add le_add_diff_inverse2 o_apply)
  with assms answered_stays show ?thesis by (metis create_pc.inject prod.inject)
next
  case False
  then have "(create_step clk s i obj ^^ m) c = (create_step clk s i obj ^^ (m - n)) ((create_step clk s i obj ^^ n) c)"
    by (metis funpow_add le_add_diff_inverse2 nat_le_linear o_apply)
  with assms answered_stays show ?thesis by (metis create_pc.inject prod.inject)
qed

lemma example_prepared: "\<exists>obj. toOSACComputeInstance (\<lambda>_. 0) i example_vm = Inr obj"
proof -
  have "nat_digits 100 = ''100''" "ToUpper ''GB'' = ''GB''" by code_simp+
  with capacity_units [of 100 "''GB''" "\<lambda>_. 0"] have "ParseDiskCapacityGiB (\<lambda>_. 0) ''100GB'' = Inr 100"
    by (simp add: MaxInt32_def units_upper)
  then have "splitDisks (\<lambda>_. 0) (vst_Disks (vs_Storage example_vm)) = Inr (Some \<lparr>cid_SizeGib = 100\<rparr>, [])"
    by (simp add: example_vm_def splitDisks_def bootCount_def bootDiskName_def)
  then show ?thesis by (simp add: toOSACComputeInstance_def Let_def)
qed

lemma mock_create_returns: "\<exists>r w'. VM_Create oor mock_clock mock_vm_service i spec w = Some (r, w')"
proof -
  have "ticking_clock mock_clock" by unfold_locales (auto simp: mock_clock_def)
  from ticking_clock.create_returns [OF this, of mock_vm_service] show ?thesis
    by (auto simp: mock_clock_def mock_vnets_def mock_subnets_def VirtualNetworks_Get_def Subnets_Get_def split: sum.split)
qed



text \<open>
  C4. Creates of virtual machines that race: in every interleaving of the calls of any number of
  requests with each other, with lost calls, lost answers and deletes, the provider's state stays
  consistent, every machine stays attached to a subnet that exists and every subnet to a network that
  exists. At most as many networks and subnets are made as requests found none, and none when one
  existed. What a request answered is the machine stored under its identifier unless that was deleted,
  so racing creates of one identifier answer the same machine.
\<close>

theorem concurrent_creates:
  assumes "vm_run oor (vm_system_start w0) es S" and "osac_inv w0" and "connected w0"
  shows "osac_inv (vx_osac S) \<and> connected (vx_osac S) \<and>
    card (dom (st_items (os_vnets (vx_osac S)))) \<le> card (dom (st_items (os_vnets w0))) + length (filter missed es) \<and>
    card (dom (st_items (os_subnets (vx_osac S)))) \<le> card (dom (st_items (os_subnets w0))) + length (filter missed es) \<and>
    (st_items (os_subnets w0) \<noteq> Map.empty \<longrightarrow> os_vnets (vx_osac S) = os_vnets w0 \<and> os_subnets (vx_osac S) = os_subnets w0) \<and>
    (\<forall>t q vm. vx_requests S t = Some q \<and> cq_pc q = Answered (Inr vm) \<and> VmDeleted (cq_id q) \<notin> set es \<longrightarrow>
      (\<exists>ci. st_items (os_instances (vx_osac S)) (cq_id q) = Some ci \<and> vm = toAPIVM (Some ci)))"
  using vm_run_inv [OF assms] vm_run_settled_answers [OF assms]
  by (auto simp: vm_inv_def vnets_due_def subnets_due_def settled_def dest: answers_storedD)

text \<open>Two requests that race make two networks.\<close>

lemma vm_run_moved:
  assumes "vm_run oor S0 es S" and "vx_requests S t = Some q"
    and "create_step mock_clock mock_vm_service (cq_id q) (cq_obj q) (cq_pc q, vx_osac S) = (pc, w)"
  shows "vm_run oor S0 (es @ [Moved t (cq_pc q) pc]) \<lparr>vx_osac = w, vx_requests = (vx_requests S)(t \<mapsto> q \<lparr>cq_pc := pc\<rparr>)\<rparr>"
proof -
  have "only_time mock_clock" by (auto simp: only_time_def mock_clock_def)
  from vm_next [OF assms(1) moved [OF assms(2) this assms(3)]] show ?thesis .
qed

fun move :: "vm_system \<Rightarrow> nat \<Rightarrow> vm_system" where
  "move S t =
     (let q = the (vx_requests S t); m = create_step mock_clock mock_vm_service (cq_id q) (cq_obj q) (cq_pc q, vx_osac S)
      in \<lparr>vx_osac = snd m, vx_requests = (vx_requests S)(t \<mapsto> q \<lparr>cq_pc := fst m\<rparr>)\<rparr>)"

lemma moves_run:
  assumes "vm_run oor S0 es S" and "\<forall>t \<in> set ts. vx_requests S t \<noteq> None" and "\<forall>i. VmDeleted i \<notin> set es"
  shows "\<exists>es'. vm_run oor S0 es' (foldl move S ts) \<and> (\<forall>i. VmDeleted i \<notin> set es')"
  using assms
proof (induction ts arbitrary: es S)
  case (Cons t ts)
  from Cons.prems(2) obtain q where q: "vx_requests S t = Some q" by auto
  let ?m = "create_step mock_clock mock_vm_service (cq_id q) (cq_obj q) (cq_pc q, vx_osac S)"
  have "vm_run oor S0 (es @ [Moved t (cq_pc q) (fst ?m)]) (move S t)"
    using vm_run_moved [OF Cons.prems(1) q, of "fst ?m" "snd ?m"] q by (simp add: Let_def)
  from Cons.IH [OF this] Cons.prems(2,3) show ?case by (simp add: Let_def)
qed auto

definition race_start :: "pb_ComputeInstance \<Rightarrow> pb_ComputeInstance \<Rightarrow> vm_system" where
  "race_start a b = \<lparr>vx_osac = newOsac nat_digits, vx_requests =
     [0 \<mapsto> \<lparr>cq_id = ''a'', cq_obj = a, cq_pc = ListingSubnets\<rparr>, 1 \<mapsto> \<lparr>cq_id = ''b'', cq_obj = b, cq_pc = ListingSubnets\<rparr>]\<rparr>"

lemma race_makes_two:
  assumes "ci_Id a = ''a''" and "ci_Spec a = Some sp"
    and S_def: "S = foldl move (race_start a b) [0, 1, 0, 1, 0, 0, 0, 0]"
  shows "dom (st_items (os_vnets (vx_osac S))) = {''0'', ''1''}" "\<exists>q vm. vx_requests S 0 = Some q \<and> cq_pc q = Answered (Inr vm) \<and> cq_id q = ''a''"
proof -
  have digits: "nat_digits 0 = ''0''" "nat_digits (Suc 0) = ''1''" "nat_digits (Suc (Suc 0)) = ''2''"
    "nat_digits (Suc (Suc (Suc 0))) = ''3''" by code_simp+
  note run = S_def race_start_def Let_def newOsac_def newResourceStore_def mock_client_defs Subnets_List_def list_response_def
      store_list_def opt_int_def VirtualNetworks_Create_def VirtualNetworks_Get_def Subnets_Create_def Subnets_Get_def
      store_insert_def store_get_def check_step_def vnetReady_def subnetReady_def ComputeInstances_Create_def store_create_def
      attachSubnet_def digits
  show "dom (st_items (os_vnets (vx_osac S))) = {''0'', ''1''}" using assms(1,2) by (auto simp: run)
  show "\<exists>q vm. vx_requests S 0 = Some q \<and> cq_pc q = Answered (Inr vm) \<and> cq_id q = ''a''" using assms(1,2) by (simp add: run)
qed

lemma race_begun:
  assumes "toOSACComputeInstance (\<lambda>_. 0) ''a'' example_vm = Inr a" and "toOSACComputeInstance (\<lambda>_. 0) ''b'' example_vm = Inr b"
  shows "vm_run (\<lambda>_. 0) (vm_system_start (newOsac nat_digits)) [Begun 0 ''a'' example_vm, Begun 1 ''b'' example_vm] (race_start a b)"
proof -
  let ?S = "\<lambda>m. \<lparr>vx_osac = newOsac nat_digits, vx_requests = m\<rparr>" and ?q = "\<lambda>i obj. \<lparr>cq_id = i, cq_obj = obj, cq_pc = ListingSubnets\<rparr>"
  have "vm_step (\<lambda>_. 0) (?S Map.empty) (Begun 0 ''a'' example_vm) (?S [0 \<mapsto> ?q ''a'' a])"
    using begun [OF _ assms(1), of "?S Map.empty" 0] by simp
  note first = vm_next [OF vm_begin this]
  have "vm_step (\<lambda>_. 0) (?S [0 \<mapsto> ?q ''a'' a]) (Begun 1 ''b'' example_vm) (race_start a b)"
    using begun [OF _ assms(2), of "?S [0 \<mapsto> ?q ''a'' a]" 1] by (simp add: race_start_def)
  from vm_next [OF first this] show ?thesis by (simp add: vm_system_start_def)
qed

theorem concurrent_creates_witness:
  "\<exists>es S ci. vm_run (\<lambda>_. 0) (vm_system_start (newOsac nat_digits)) es S \<and>
     card (dom (st_items (os_vnets (vx_osac S)))) = 2 \<and> 2 \<le> length (filter missed es) \<and> connected (vx_osac S) \<and>
     st_items (os_instances (vx_osac S)) ''a'' = Some ci"
proof -
  from example_prepared obtain a b where ab: "toOSACComputeInstance (\<lambda>_. 0) ''a'' example_vm = Inr a"
    "toOSACComputeInstance (\<lambda>_. 0) ''b'' example_vm = Inr b" by blast
  from prepared [OF ab(1)] obtain sp where a: "ci_Id a = ''a''" "ci_Spec a = Some sp" by auto
  define S where "S = foldl move (race_start a b) [0, 1, 0, 1, 0, 0, 0, 0]"
  have "\<forall>t \<in> set [0, 1, 0, 1, 0, 0, 0, 0]. vx_requests (race_start a b) t \<noteq> None" by (simp add: race_start_def)
  moreover have "\<forall>i. VmDeleted i \<notin> set [Begun 0 ''a'' example_vm, Begun 1 ''b'' example_vm]" by simp
  ultimately obtain es where
    es: "vm_run (\<lambda>_. 0) (vm_system_start (newOsac nat_digits)) es S" "\<forall>i. VmDeleted i \<notin> set es"
    unfolding S_def using moves_run [OF race_begun [OF ab]] by meson
  note two = race_makes_two [OF a S_def]
  have "connected (newOsac nat_digits)" by (simp add: connected_def newOsac_def newResourceStore_def)
  note claim = concurrent_creates [OF es(1) osac_inv_new [OF inj_nat_digits] this]
  from two(2) claim es(2) obtain ci where "st_items (os_instances (vx_osac S)) ''a'' = Some ci" by metis
  moreover have "card (dom (st_items (os_vnets (vx_osac S)))) = 2" by (simp add: two(1))
  moreover from this claim have "2 \<le> length (filter missed es)" by (simp add: newOsac_def newResourceStore_def)
  ultimately show ?thesis using es(1) claim by blast
qed

text \<open>
  A create that made the network and then failed leaves it behind: the next one looks for subnets only
  and makes another network, and the first has no subnet.
\<close>

definition failed_at :: "nat \<Rightarrow> go_error \<Rightarrow> vm_system \<Rightarrow> vm_system" where
  "failed_at t err S = S \<lparr>vx_requests := (vx_requests S)(t \<mapsto> the (vx_requests S t) \<lparr>cq_pc := Answered (Inl err)\<rparr>)\<rparr>"

lemma abandoned_network:
  assumes "ci_Id b = ''b''" and "ci_Spec b = Some sp"
    and S_def: "S = foldl move (failed_at 0 err (foldl move (race_start a b) [0, 0])) [1, 1, 1, 1, 1, 1]"
  shows "dom (st_items (os_vnets (vx_osac S))) = {''0'', ''1''} \<and>
    (\<exists>sn. st_items (os_subnets (vx_osac S)) = [''2'' \<mapsto> sn] \<and> subnet_of_network sn ''1'') \<and>
    (\<exists>q vm. vx_requests S 1 = Some q \<and> cq_pc q = Answered (Inr vm))"
proof -
  have digits: "nat_digits 0 = ''0''" "nat_digits (Suc 0) = ''1''" "nat_digits (Suc (Suc 0)) = ''2''" by code_simp+
  note run = S_def race_start_def failed_at_def Let_def newOsac_def newResourceStore_def mock_client_defs Subnets_List_def
    list_response_def store_list_def opt_int_def VirtualNetworks_Create_def VirtualNetworks_Get_def Subnets_Create_def
    Subnets_Get_def store_insert_def store_get_def check_step_def vnetReady_def subnetReady_def ComputeInstances_Create_def
    store_create_def attachSubnet_def digits defaultSubnet_def subnet_of_network_def
  show ?thesis using assms(1,2) by (auto simp: run)
qed

end
